(* ===== verification/Waycloak_Prelude.thy ===== *)
theory Waycloak_Prelude
  imports Main "HOL-Library.Word" "HOL-Library.Char_ord" "HOL-Library.List_Lexorder"
begin

text \<open>
  The vocabulary every component of the development shares: Go errors and results, the
  world-passing convention for calls that leave the process, Go's time and string helpers as far
  as the sources use them, and the generic lemmas on lists, options and results the component
  proofs rest on. Go strings are byte strings, so they are \<^typ>\<open>string\<close> here and Go's string
  order is the bytewise lexicographic order of \<open>HOL-Library.List_Lexorder\<close>.
\<close>

section \<open>Collections of rules\<close>

text \<open>
  \<open>go_simps\<close> collects the unfolding rules of the small Go library functions;
  \<open>fail_closed\<close> collects the facts that say that an operation cannot open a packet path.
\<close>

named_theorems go_simps \<open>unfolding rules of the modelled Go library functions\<close>
named_theorems fail_closed \<open>an operation leaves the workload denied\<close>

section \<open>Errors and results\<close>

text \<open>
  A Go \<open>error\<close> is a value: a plain error (\<open>errors.New\<close>, a package sentinel, or a formatted
  message without \<open>%w\<close>), a Kubernetes API status error with its reason, or an error that wraps
  others (\<open>fmt.Errorf\<close> with \<open>%w\<close>, \<open>errors.Join\<close>). Messages keep the source's text; the values
  a message interpolates are not kept.
\<close>

datatype api_reason =
    StatusReasonNotFound
  | StatusReasonAlreadyExists
  | StatusReasonConflict
  | StatusReasonForbidden
  | StatusReasonUnauthorized
  | StatusReasonOther string

datatype go_error =
    Err string
  | ApiStatus api_reason
  | Errorf string "go_error list"

type_synonym 'a result = "go_error + 'a"

text \<open>\<open>errors.Is\<close>: the error or something it wraps is the target.\<close>

fun errors_Is :: "go_error \<Rightarrow> go_error \<Rightarrow> bool" where
  "errors_Is (Err s) target = (Err s = target)"
| "errors_Is (ApiStatus r) target = (ApiStatus r = target)"
| "errors_Is (Errorf s es) target = (Errorf s es = target \<or> list_ex (\<lambda>e. errors_Is e target) es)"

text \<open>
  The reason \<open>apierrors.ReasonForError\<close> finds: the first API status error met in Go's
  depth-first \<open>errors.As\<close> order.
\<close>

fun api_reason_of :: "go_error \<Rightarrow> api_reason option"
  and api_reason_of_list :: "go_error list \<Rightarrow> api_reason option" where
  "api_reason_of (Err s) = None"
| "api_reason_of (ApiStatus r) = Some r"
| "api_reason_of (Errorf s es) = api_reason_of_list es"
| "api_reason_of_list [] = None"
| "api_reason_of_list (e # es) =
     (case api_reason_of e of Some r \<Rightarrow> Some r | None \<Rightarrow> api_reason_of_list es)"

definition IsNotFound :: "go_error \<Rightarrow> bool" where
  "IsNotFound e \<longleftrightarrow> api_reason_of e = Some StatusReasonNotFound"

definition IsAlreadyExists :: "go_error \<Rightarrow> bool" where
  "IsAlreadyExists e \<longleftrightarrow> api_reason_of e = Some StatusReasonAlreadyExists"

definition IsForbidden :: "go_error \<Rightarrow> bool" where
  "IsForbidden e \<longleftrightarrow> api_reason_of e = Some StatusReasonForbidden"

definition IsUnauthorized :: "go_error \<Rightarrow> bool" where
  "IsUnauthorized e \<longleftrightarrow> api_reason_of e = Some StatusReasonUnauthorized"

lemmas api_error_defs = IsNotFound_def IsAlreadyExists_def IsForbidden_def IsUnauthorized_def

lemma api_error_exclusive:
  "IsNotFound e \<Longrightarrow> \<not> IsAlreadyExists e"
  "IsAlreadyExists e \<Longrightarrow> \<not> IsNotFound e"
  by (simp_all add: api_error_defs)

lemma IsNotFound_wrap [simp]: "IsNotFound (Errorf s [e]) = IsNotFound e"
  by (simp add: IsNotFound_def split: option.splits)

text \<open>
  \<open>errors.Join\<close> drops nil errors and is nil when nothing is left; a function that returns only
  an \<open>error\<close> is modelled as \<^typ>\<open>go_error option\<close>, with \<^term>\<open>None\<close> for nil.
\<close>

definition errors_Join :: "go_error option list \<Rightarrow> go_error option" where
  "errors_Join es = (case List.map_filter id es of [] \<Rightarrow> None | xs \<Rightarrow> Some (Errorf ''join'' xs))"

lemma errors_Join_None [simp]: "errors_Join es = None \<longleftrightarrow> (\<forall>e \<in> set es. e = None)"
proof -
  have "List.map_filter id es = [] \<longleftrightarrow> (\<forall>e \<in> set es. e = None)"
    by (induction es) (auto simp: List.map_filter_def)
  then show ?thesis
    by (auto simp: errors_Join_def split: list.splits)
qed

lemma errors_Join_Nil [simp]: "errors_Join [] = None"
  by simp

section \<open>Calls that leave the process\<close>

text \<open>
  A call to the API server, the kernel, the disk or the clock is a function of the world that
  returns its answer and the next world. Nothing is assumed of the worlds between two calls, so
  other controllers and other processes may act in between; what a component relies on is stated
  as the assumptions of a locale.
\<close>

type_synonym ('w, 'a) call = "'w \<Rightarrow> 'a \<times> 'w"

text \<open>A part of the world that a call leaves alone.\<close>

definition keeps :: "('w \<Rightarrow> 'b) \<Rightarrow> ('w, 'a) call \<Rightarrow> bool" where
  "keeps f c \<longleftrightarrow> (\<forall>w. f (snd (c w)) = f w)"

lemma keepsD: "keeps f c \<Longrightarrow> c w = (y, w') \<Longrightarrow> f w' = f w"
  unfolding keeps_def by (metis snd_conv)

text \<open>\<open>client.IgnoreNotFound\<close>.\<close>

definition IgnoreNotFound :: "go_error \<Rightarrow> go_error option" where
  "IgnoreNotFound e = (if IsNotFound e then None else Some e)"

section \<open>Maps\<close>

text \<open>Indexing a Go map of strings yields the empty string for a missing key.\<close>

definition map_index :: "(string \<rightharpoonup> string) \<Rightarrow> string \<Rightarrow> string" where
  "map_index m k = (case m k of None \<Rightarrow> [] | Some v \<Rightarrow> v)"

lemma map_index_simps [simp]:
  "map_index (m(k \<mapsto> v)) k = v"
  "k \<noteq> k' \<Longrightarrow> map_index (m(k' \<mapsto> v)) k = map_index m k"
  by (simp_all add: map_index_def)

lemma map_index_nonempty: "map_index m k = v \<Longrightarrow> v \<noteq> [] \<Longrightarrow> m k = Some v"
  by (auto simp: map_index_def split: option.splits)

section \<open>Time\<close>

text \<open>
  A \<open>time.Time\<close> is the integer number of nanoseconds since the Unix epoch; the zero value of the
  type is the first instant of year 1. A \<open>time.Duration\<close> is a 64-bit number of nanoseconds, and
  \<open>Time.Sub\<close> saturates at its bounds.
\<close>

type_synonym time = int
type_synonym duration = int

definition time_zero :: time where
  "time_zero = - 62135596800000000000"

definition time_IsZero :: "time \<Rightarrow> bool" where
  "time_IsZero t \<longleftrightarrow> t = time_zero"

definition time_Sub :: "time \<Rightarrow> time \<Rightarrow> duration" where
  "time_Sub t u = max (- (2 ^ 63)) (min (2 ^ 63 - 1) (t - u))"

definition Nanosecond :: duration where "Nanosecond = 1"
definition Millisecond :: duration where "Millisecond = 1000000"
definition Second :: duration where "Second = 1000000000"
definition Minute :: duration where "Minute = 60 * Second"

lemmas duration_defs = Nanosecond_def Millisecond_def Second_def Minute_def

lemma time_Sub_less: "d \<le> 2 ^ 63 - 1 \<Longrightarrow> - (2 ^ 63) < d \<Longrightarrow> time_Sub t u < d \<longleftrightarrow> t - u < d"
  by (auto simp: time_Sub_def)

lemma time_Sub_nonneg: "0 \<le> time_Sub t u \<longleftrightarrow> u \<le> t"
  by (auto simp: time_Sub_def)

text \<open>A nil or zero \<open>*metav1.Time\<close> both count as unset.\<close>

definition timestamp_set :: "time option \<Rightarrow> bool" where
  "timestamp_set t = (case t of None \<Rightarrow> False | Some x \<Rightarrow> \<not> time_IsZero x)"

lemma timestamp_set_None [simp]: "\<not> timestamp_set None"
  by (simp add: timestamp_set_def)

section \<open>Strings\<close>

definition HasPrefix :: "string \<Rightarrow> string \<Rightarrow> bool" where
  "HasPrefix s p \<longleftrightarrow> take (length p) s = p"

definition HasSuffix :: "string \<Rightarrow> string \<Rightarrow> bool" where
  "HasSuffix s p \<longleftrightarrow> length p \<le> length s \<and> drop (length s - length p) s = p"

definition ascii_space :: "char \<Rightarrow> bool" where
  "ascii_space c \<longleftrightarrow> c \<in> {CHR 0x09, CHR 0x0A, CHR 0x0B, CHR 0x0C, CHR 0x0D, CHR '' ''}"

definition TrimSpace :: "string \<Rightarrow> string" where
  "TrimSpace s = rev (dropWhile ascii_space (rev (dropWhile ascii_space s)))"

definition is_digit :: "char \<Rightarrow> bool" where
  "is_digit c \<longleftrightarrow> 48 \<le> (of_char c :: nat) \<and> (of_char c :: nat) \<le> 57"

definition digit_val :: "char \<Rightarrow> nat" where
  "digit_val c = of_char c - 48"

definition digit_char :: "nat \<Rightarrow> char" where
  "digit_char d = char_of (48 + d)"

lemma digit_char_inverse [simp]:
  assumes "d < 10"
  shows "digit_val (digit_char d) = d" and "is_digit (digit_char d)"
  using assms by (simp_all add: digit_val_def digit_char_def is_digit_def)

text \<open>\<open>strconv.Itoa\<close> on naturals, and the value of a string of decimal digits.\<close>

fun itoa :: "nat \<Rightarrow> string" where
  "itoa n = (if n < 10 then [digit_char n] else itoa (n div 10) @ [digit_char (n mod 10)])"

declare itoa.simps [simp del]

definition digits_val :: "string \<Rightarrow> nat" where
  "digits_val s = foldl (\<lambda>acc c. 10 * acc + digit_val c) 0 s"

lemma digits_val_snoc: "digits_val (s @ [c]) = 10 * digits_val s + digit_val c"
  by (simp add: digits_val_def)

lemma itoa_nonempty [simp]: "itoa n \<noteq> []"
  by (subst itoa.simps) simp

lemma digits_val_itoa [simp]: "digits_val (itoa n) = n"
proof (induction n rule: itoa.induct)
  case (1 n)
  show ?case
  proof (cases "n < 10")
    case True
    then show ?thesis by (subst itoa.simps) (simp add: digits_val_def)
  next
    case False
    then show ?thesis
      using "1.IH" by (subst itoa.simps) (simp add: digits_val_snoc)
  qed
qed

lemma is_digit_itoa: "c \<in> set (itoa n) \<Longrightarrow> is_digit c"
proof (induction n rule: itoa.induct)
  case (1 n)
  then show ?case
    by (subst (asm) (2) itoa.simps) (auto split: if_splits)
qed

lemma list_all_digit_itoa [simp]: "list_all is_digit (itoa n)"
  by (auto simp: list_all_iff intro: is_digit_itoa)

lemma digit_char_0 [simp]: "digit_char 0 = CHR ''0''"
  by code_simp

lemma itoa_no_leading_zero: "n \<noteq> 0 \<Longrightarrow> hd (itoa n) \<noteq> CHR ''0''"
proof (induction n rule: itoa.induct)
  case (1 n)
  show ?case
  proof (cases "n < 10")
    case True
    have "digit_char n \<noteq> CHR ''0''"
    proof
      assume "digit_char n = CHR ''0''"
      then have "digit_val (digit_char n) = 0" by (simp add: digit_val_def)
      with True "1.prems" show False by simp
    qed
    with True show ?thesis by (subst itoa.simps) simp
  next
    case False
    then have "hd (itoa (n div 10)) \<noteq> CHR ''0''"
      using "1.IH" by simp
    with False show ?thesis by (subst itoa.simps) (simp add: hd_append)
  qed
qed

lemma itoa_0: "itoa 0 = ''0''"
  by (subst itoa.simps) simp

text \<open>
  \<open>strconv.ParseInt(s, 10, 32)\<close>: an optional sign, then at least one digit and nothing else, and
  a value that fits 32 bits.
\<close>

definition ParseInt32 :: "string \<Rightarrow> int option" where
  "ParseInt32 s =
     (let (neg, ds) = (case s of [] \<Rightarrow> (False, s)
         | c # cs \<Rightarrow> if c = CHR ''-'' then (True, cs) else if c = CHR ''+'' then (False, cs) else (False, s));
          v = int (digits_val ds); x = (if neg then - v else v)
      in if ds = [] \<or> \<not> list_all is_digit ds then None
         else if - (2 ^ 31) \<le> x \<and> x < 2 ^ 31 then Some x else None)"

text \<open>\<open>strconv.ParseUint(s, 10, 16)\<close> takes no sign.\<close>

definition ParseUint16 :: "string \<Rightarrow> nat option" where
  "ParseUint16 s =
     (if s = [] \<or> \<not> list_all is_digit s \<or> digits_val s \<ge> 2 ^ 16 then None else Some (digits_val s))"

lemma ParseUint16_itoa: "n < 2 ^ 16 \<Longrightarrow> ParseUint16 (itoa n) = Some n"
  by (simp add: ParseUint16_def)

lemma itoa_no_sign: "hd (itoa n) \<noteq> CHR ''-'' \<and> hd (itoa n) \<noteq> CHR ''+''"
proof -
  have "is_digit (hd (itoa n))"
    by (rule is_digit_itoa) (rule hd_in_set, simp)
  then show ?thesis by (auto simp: is_digit_def)
qed

lemma ParseInt32_itoa:
  assumes "n < 2 ^ 31"
  shows "ParseInt32 (itoa n) = Some (int n)"
proof -
  obtain c cs where c: "itoa n = c # cs" by (cases "itoa n") auto
  with itoa_no_sign [of n] have "c \<noteq> CHR ''-''" "c \<noteq> CHR ''+''" by auto
  moreover have "digits_val (c # cs) = n" "list_all is_digit (c # cs)"
    using c digits_val_itoa [of n] list_all_digit_itoa [of n] by auto
  ultimately show ?thesis
    using assms c by (simp add: ParseInt32_def)
qed

section \<open>Lists\<close>

text \<open>Splitting at the first or last occurrence of a separator.\<close>

definition split_first :: "char \<Rightarrow> string \<Rightarrow> (string \<times> string) option" where
  "split_first c s =
     (if c \<in> set s then Some (takeWhile (\<lambda>x. x \<noteq> c) s, tl (dropWhile (\<lambda>x. x \<noteq> c) s)) else None)"

definition split_last :: "char \<Rightarrow> string \<Rightarrow> (string \<times> string) option" where
  "split_last c s = map_option (\<lambda>(a, b). (rev b, rev a)) (split_first c (rev s))"

lemma split_first_append:
  "c \<notin> set a \<Longrightarrow> split_first c (a @ c # b) = Some (a, b)"
  by (induction a) (auto simp: split_first_def)

lemma split_last_append:
  assumes "c \<notin> set b"
  shows "split_last c (a @ c # b) = Some (a, b)"
proof -
  have "rev (a @ c # b) = rev b @ c # rev a" by simp
  then show ?thesis
    using assms split_first_append [of c "rev b" "rev a"] by (simp add: split_last_def)
qed

fun split_on :: "char \<Rightarrow> string \<Rightarrow> string list" where
  "split_on c [] = [ [] ]"
| "split_on c (x # xs) =
     (if x = c then [] # split_on c xs
      else (case split_on c xs of [] \<Rightarrow> [ [x] ] | f # fs \<Rightarrow> (x # f) # fs))"

lemma split_on_nonempty [simp]: "split_on c s \<noteq> []"
  by (induction s) (auto split: list.splits)

lemma split_on_no_sep: "c \<notin> set s \<Longrightarrow> split_on c s = [s]"
  by (induction s) auto

lemma split_on_append: "c \<notin> set a \<Longrightarrow> split_on c (a @ c # b) = a # split_on c b"
  by (induction a) auto

lemma find_Some_in: "List.find P xs = Some x \<Longrightarrow> x \<in> set xs \<and> P x"
  by (auto simp: find_Some_iff)

lemma dropWhile_Nil_iff: "dropWhile P xs = [] \<longleftrightarrow> (\<forall>x \<in> set xs. P x)"
  by (induction xs) auto

end
