(* ===== verification/Kube_Api.thy ===== *)
theory Kube_Api
  imports Waycloak_Prelude "HOL-Library.AList"
begin

text \<open>
  The Kubernetes API as the sources use it through \<open>sigs.k8s.io/controller-runtime\<close>. The client
  is third-party code, so it is a parameter: a record of calls over an arbitrary world. What the
  components rely on (the documented behaviour of a linearizable object store) is the locale
  \<open>object_store\<close>; an in-memory store at the end shows that its assumptions can hold and is what
  the witnesses run on. Library functions of \<open>k8s.io/apimachinery\<close> that the sources call are the
  fields of the record \<open>kube_lib\<close>, with their documented behaviour as the locale
  \<open>kube_library\<close>.
\<close>

section \<open>Object metadata\<close>

record owner_reference =
  owner_APIVersion :: string
  owner_Kind :: string
  owner_Name :: string
  owner_UID :: string
  owner_Controller :: bool

record object_meta =
  meta_Name :: string
  meta_Namespace :: string
  meta_UID :: string
  meta_Generation :: int
  meta_Labels :: "string \<rightharpoonup> string"
  meta_Annotations :: "string \<rightharpoonup> string"
  meta_Finalizers :: "string list"
  meta_DeletionTimestamp :: "time option"
  meta_OwnerReferences :: "owner_reference list"

definition object_meta_zero :: object_meta where
  "object_meta_zero = \<lparr>meta_Name = [], meta_Namespace = [], meta_UID = [], meta_Generation = 0,
     meta_Labels = Map.empty, meta_Annotations = Map.empty, meta_Finalizers = [],
     meta_DeletionTimestamp = None, meta_OwnerReferences = []\<rparr>"

type_synonym object_key = "string \<times> string"

definition meta_key :: "object_meta \<Rightarrow> object_key" where
  "meta_key m = (meta_Namespace m, meta_Name m)"

abbreviation is_deleting :: "object_meta \<Rightarrow> bool" where
  "is_deleting m \<equiv> timestamp_set (meta_DeletionTimestamp m)"

section \<open>Clients\<close>

text \<open>
  A list call takes the predicate its options select by (namespace, labels, index fields); a
  merge patch takes the object it was computed from and the changed copy; a status apply takes an
  object of which only the name, the namespace and the status are set.
\<close>

record ('w, 'o) kube_reader =
  k_get :: "object_key \<Rightarrow> ('w, 'o result) call"
  k_list :: "('o \<Rightarrow> bool) \<Rightarrow> ('w, 'o list result) call"

record ('w, 'o) kube_client = "('w, 'o) kube_reader" +
  k_create :: "'o \<Rightarrow> ('w, 'o result) call"
  k_patch :: "'o \<Rightarrow> 'o \<Rightarrow> ('w, go_error option) call"
  k_delete :: "'o \<Rightarrow> ('w, go_error option) call"
  k_apply_status :: "'o \<Rightarrow> ('w, go_error option) call"

text \<open>
  The documented behaviour of a linearizable store. Each law speaks of the world right after the
  call it is about, so it does not exclude that others acted before; the frame laws of
  \<open>quiet_store\<close> add that nobody else writes while the component runs. The server owns some fields
  of an object: \<open>same x y\<close> says that \<open>y\<close> is \<open>x\<close> as it is stored, and \<open>merged cur x y z\<close> that
  \<open>z\<close> is \<open>cur\<close> with the changes from \<open>x\<close> to \<open>y\<close> merged in.
\<close>

locale object_store =
  fixes C :: "('w, 'o, 'z) kube_client_scheme"
    and key :: "'o \<Rightarrow> object_key"
    and same :: "'o \<Rightarrow> 'o \<Rightarrow> bool"
    and merged :: "'o \<Rightarrow> 'o \<Rightarrow> 'o \<Rightarrow> 'o \<Rightarrow> bool"
    and st :: "'w \<Rightarrow> object_key \<rightharpoonup> 'o"
  assumes get_ok: "k_get C k w = (Inr x, w') \<Longrightarrow> st w' k = Some x"
    and get_missing: "k_get C k w = (Inl e, w') \<Longrightarrow> IsNotFound e \<Longrightarrow> st w' k = None"
    and list_ok: "k_list C P w = (Inr xs, w') \<Longrightarrow> x \<in> set xs \<longleftrightarrow> P x \<and> (\<exists>k. st w' k = Some x)"
    and create_ok: "k_create C x w = (Inr y, w') \<Longrightarrow> st w' (key x) = Some y \<and> same x y"
    and create_exists: "k_create C x w = (Inl e, w') \<Longrightarrow> IsAlreadyExists e \<Longrightarrow> st w' (key x) \<noteq> None"
    and delete_ok: "k_delete C x w = (None, w') \<Longrightarrow> st w' (key x) = None"
    and patch_ok: "k_patch C x y w = (None, w') \<Longrightarrow> \<exists>cur z. st w' (key x) = Some z \<and> merged cur x y z"

locale quiet_store = object_store +
  assumes get_frame: "st (snd (k_get C k w)) = st w"
    and get_found: "st w k = Some x \<Longrightarrow> fst (k_get C k w) = Inr x"
    and get_notfound: "st w k = None \<Longrightarrow> \<exists>e. fst (k_get C k w) = Inl e \<and> IsNotFound e"
    and list_frame: "st (snd (k_list C P w)) = st w"
    and list_answers: "\<exists>xs. fst (k_list C P w) = Inr xs"
    and create_fresh: "st w (key x) = None \<Longrightarrow>
      \<exists>y w'. k_create C x w = (Inr y, w') \<and> same x y \<and> st w' = (st w)(key x \<mapsto> y)"
    and create_taken: "st w (key x) \<noteq> None \<Longrightarrow>
      \<exists>e w'. k_create C x w = (Inl e, w') \<and> IsAlreadyExists e \<and> st w' = st w"
    and delete_present: "st w (key x) \<noteq> None \<Longrightarrow>
      \<exists>w'. k_delete C x w = (None, w') \<and> st w' = (st w)(key x := None)"
    and patch_present: "st w (key x) = Some cur \<Longrightarrow>
      \<exists>z w'. k_patch C x y w = (None, w') \<and> merged cur x y z \<and> st w' = (st w)(key x \<mapsto> z)"

section \<open>An in-memory store\<close>

type_synonym 'o mem = "(object_key \<times> 'o) list"

definition mem_get :: "object_key \<Rightarrow> ('o mem, 'o result) call" where
  "mem_get k w = (case map_of w k of
     None \<Rightarrow> (Inl (ApiStatus StatusReasonNotFound), w) | Some x \<Rightarrow> (Inr x, w))"

definition mem_list :: "('o \<Rightarrow> bool) \<Rightarrow> ('o mem, 'o list result) call" where
  "mem_list P w = (Inr (filter P (map snd (AList.clearjunk w))), w)"

definition mem_create :: "('o \<Rightarrow> object_key) \<Rightarrow> 'o \<Rightarrow> ('o mem, 'o result) call" where
  "mem_create key x w = (if map_of w (key x) = None then (Inr x, (key x, x) # w)
     else (Inl (ApiStatus StatusReasonAlreadyExists), w))"

definition mem_patch :: "('o \<Rightarrow> object_key) \<Rightarrow> ('o \<Rightarrow> 'o \<Rightarrow> 'o \<Rightarrow> 'o) \<Rightarrow> 'o \<Rightarrow> 'o \<Rightarrow> ('o mem, go_error option) call" where
  "mem_patch key merge x y w = (case map_of w (key x) of
     None \<Rightarrow> (Some (ApiStatus StatusReasonNotFound), w) | Some cur \<Rightarrow> (None, (key x, merge cur x y) # w))"

definition mem_delete :: "('o \<Rightarrow> object_key) \<Rightarrow> 'o \<Rightarrow> ('o mem, go_error option) call" where
  "mem_delete key x w = (if map_of w (key x) = None then (Some (ApiStatus StatusReasonNotFound), w)
     else (None, filter (\<lambda>(k, _). k \<noteq> key x) w))"

text \<open>\<open>merge\<close> computes a merge patch; a status apply replaces the status of the stored object, which
  \<open>put\<close> copies over.\<close>

definition mem_apply_status ::
  "('o \<Rightarrow> object_key) \<Rightarrow> ('o \<Rightarrow> 'o \<Rightarrow> 'o) \<Rightarrow> 'o \<Rightarrow> ('o mem, go_error option) call" where
  "mem_apply_status key put x w = (case map_of w (key x) of
     None \<Rightarrow> (Some (ApiStatus StatusReasonNotFound), w) | Some y \<Rightarrow> (None, (key x, put x y) # w))"

definition mem_client :: "('o \<Rightarrow> object_key) \<Rightarrow> ('o \<Rightarrow> 'o \<Rightarrow> 'o \<Rightarrow> 'o) \<Rightarrow> ('o \<Rightarrow> 'o \<Rightarrow> 'o) \<Rightarrow>
    ('o mem, 'o) kube_client" where
  "mem_client key merge put = \<lparr>k_get = mem_get, k_list = mem_list, k_create = mem_create key,
     k_patch = mem_patch key merge, k_delete = mem_delete key, k_apply_status = mem_apply_status key put\<rparr>"

lemmas mem_defs = mem_get_def mem_list_def mem_create_def mem_patch_def mem_delete_def
  mem_apply_status_def

lemma map_of_filter_key: "map_of (filter (\<lambda>(k, _). k \<noteq> a) w) = (map_of w)(a := None)"
  by (induction w) (auto simp: fun_eq_iff)

lemma mem_list_iff: "x \<in> set (map snd (AList.clearjunk w)) \<longleftrightarrow> (\<exists>k. map_of w k = Some x)"
  using map_of_eq_Some_iff [OF distinct_clearjunk, of w] by (force simp: map_of_clearjunk)

interpretation mem: quiet_store "mem_client key merge put" key "(=)" "\<lambda>cur x y z. z = merge cur x y"
    "map_of :: 'o mem \<Rightarrow> object_key \<rightharpoonup> 'o"
  for key :: "'o \<Rightarrow> object_key" and merge :: "'o \<Rightarrow> 'o \<Rightarrow> 'o \<Rightarrow> 'o" and put :: "'o \<Rightarrow> 'o \<Rightarrow> 'o"
proof unfold_locales
  fix P w xs w' and x :: 'o
  assume "k_list (mem_client key merge put) P w = (Inr xs, w')"
  then have "w' = w" and "xs = filter P (map snd (AList.clearjunk w))"
    by (auto simp: mem_client_def mem_list_def)
  then show "x \<in> set xs \<longleftrightarrow> P x \<and> (\<exists>k. map_of w' k = Some x)"
    using mem_list_iff [of x w] by auto
qed (auto simp: mem_client_def mem_defs api_error_defs map_of_filter_key split: option.splits if_splits)

text \<open>Laws with a coarser view of what the server may change.\<close>

lemma quiet_store_weaken:
  assumes q: "quiet_store C key same merged st"
    and same: "\<And>x y. same x y \<Longrightarrow> same' x y" and merged: "\<And>c x y z. merged c x y z \<Longrightarrow> merged' c x y z"
  shows "quiet_store C key same' merged' st"
proof -
  from q have o: "object_store C key same merged st" by (simp add: quiet_store_def)
  show ?thesis
    apply unfold_locales
                  apply (erule object_store.get_ok [OF o])
                 apply (erule (1) object_store.get_missing [OF o])
                apply (erule object_store.list_ok [OF o])
               apply (drule object_store.create_ok [OF o], blast intro: same)
              apply (erule (1) object_store.create_exists [OF o])
             apply (erule object_store.delete_ok [OF o])
            apply (drule object_store.patch_ok [OF o], blast intro: merged)
           apply (rule quiet_store.get_frame [OF q])
          apply (erule quiet_store.get_found [OF q])
         apply (erule quiet_store.get_notfound [OF q])
        apply (rule quiet_store.list_frame [OF q])
       apply (rule quiet_store.list_answers [OF q])
      apply (drule quiet_store.create_fresh [OF q], blast intro: same)
     apply (erule quiet_store.create_taken [OF q])
    apply (erule quiet_store.delete_present [OF q])
    apply (drule quiet_store.patch_present [OF q], blast intro: merged)
    done
qed

text \<open>A client on one part of a larger world.\<close>

definition on_part :: "('w \<Rightarrow> 's) \<Rightarrow> ('s \<Rightarrow> 'w \<Rightarrow> 'w) \<Rightarrow> ('s, 'a) call \<Rightarrow> ('w, 'a) call" where
  "on_part get put f w = (case f (get w) of (a, s) \<Rightarrow> (a, put s w))"

definition lift_client ::
  "('w \<Rightarrow> 's) \<Rightarrow> ('s \<Rightarrow> 'w \<Rightarrow> 'w) \<Rightarrow> ('s, 'o) kube_client \<Rightarrow> ('w, 'o) kube_client" where
  "lift_client get put C = \<lparr>k_get = (\<lambda>k. on_part get put (k_get C k)),
     k_list = (\<lambda>P. on_part get put (k_list C P)), k_create = (\<lambda>x. on_part get put (k_create C x)),
     k_patch = (\<lambda>x y. on_part get put (k_patch C x y)), k_delete = (\<lambda>x. on_part get put (k_delete C x)),
     k_apply_status = (\<lambda>x. on_part get put (k_apply_status C x))\<rparr>"

lemma lift_client_sel [simp]:
  "k_get (lift_client get put C) k = on_part get put (k_get C k)"
  "k_list (lift_client get put C) P = on_part get put (k_list C P)"
  "k_create (lift_client get put C) x = on_part get put (k_create C x)"
  "k_patch (lift_client get put C) x y = on_part get put (k_patch C x y)"
  "k_delete (lift_client get put C) x = on_part get put (k_delete C x)"
  "k_apply_status (lift_client get put C) x = on_part get put (k_apply_status C x)"
  by (simp_all add: lift_client_def)

lemma fst_on_part: "fst (on_part get put f w) = fst (f (get w))"
  by (simp add: on_part_def split: prod.splits)

lemma snd_on_part: "snd (on_part get put f w) = put (snd (f (get w))) w"
  by (simp add: on_part_def split: prod.splits)

lemma on_part_eqD:
  assumes "on_part get put f w = (a, w')" and "\<And>s w. get (put s w) = s"
  shows "f (get w) = (a, get w')"
  using assms by (auto simp: on_part_def split: prod.splits)

lemma on_part_eqI: "f (get w) = (a, s) \<Longrightarrow> on_part get put f w = (a, put s w)"
  by (simp add: on_part_def)

lemma quiet_store_lift:
  assumes q: "quiet_store C key same merged st" and get_put: "\<And>s w. get (put s w) = s"
  shows "quiet_store (lift_client get put C) key same merged (\<lambda>w. st (get w))"
proof -
  from q have o: "object_store C key same merged st" by (simp add: quiet_store_def)
  note D = on_part_eqD [where get = get and put = put, OF _ get_put]
  show ?thesis
    apply unfold_locales
                  apply (simp, drule D, erule object_store.get_ok [OF o])
                 apply (simp, drule D, erule (1) object_store.get_missing [OF o])
                apply (simp only: lift_client_sel, drule D, erule object_store.list_ok [OF o])
               apply (simp, drule D, drule object_store.create_ok [OF o], simp)
              apply (simp, drule D, drule (1) object_store.create_exists [OF o], simp)
             apply (simp, drule D, erule object_store.delete_ok [OF o])
            apply (simp, drule D, erule object_store.patch_ok [OF o])
           apply (simp add: snd_on_part get_put quiet_store.get_frame [OF q])
          apply (simp add: fst_on_part quiet_store.get_found [OF q])
         apply (simp add: fst_on_part quiet_store.get_notfound [OF q])
        apply (simp add: snd_on_part get_put quiet_store.list_frame [OF q])
       apply (simp add: fst_on_part quiet_store.list_answers [OF q])
      apply (drule quiet_store.create_fresh [OF q], force intro: on_part_eqI simp: get_put)
     apply (drule quiet_store.create_taken [OF q], force intro: on_part_eqI simp: get_put)
    apply (drule quiet_store.delete_present [OF q], force intro: on_part_eqI simp: get_put)
    apply (drule quiet_store.patch_present [OF q], force intro: on_part_eqI simp: get_put)
    done
qed

section \<open>Library functions\<close>

text \<open>
  The condition list helpers of \<open>k8s.io/apimachinery/pkg/api/meta\<close>, the label-selector and
  DNS-label checks: parameters of the definitions that call them.
\<close>

datatype condition_status = ConditionTrue | ConditionFalse | ConditionUnknown

record condition =
  cond_Type :: string
  cond_Status :: condition_status
  cond_ObservedGeneration :: int
  cond_LastTransitionTime :: time
  cond_Reason :: string
  cond_Message :: string

text \<open>
  A label selector requirement (\<open>metav1.LabelSelectorRequirement\<close>) and a selector.
\<close>

record label_requirement =
  lreq_Key :: string
  lreq_Operator :: string
  lreq_Values :: "string list"

record label_selector =
  sel_MatchLabels :: "(string \<times> string) list"
  sel_MatchExpressions :: "label_requirement list"

record kube_lib =
  FindStatusCondition :: "condition list \<Rightarrow> string \<Rightarrow> condition option"
  IsDNS1123Label :: "string \<Rightarrow> string list"
  LabelSelectorAsSelector :: "label_selector \<Rightarrow> ((string \<rightharpoonup> string) \<Rightarrow> bool) result"

text \<open>
  \<open>FindStatusCondition\<close> is documented to find the condition of the given type, and to give nil
  when there is none. \<open>IsDNS1123Label\<close> is documented to give no problem exactly for a DNS label,
  which is never the empty string.
\<close>

locale kube_library =
  fixes K :: "'z kube_lib_scheme"
  assumes find_in: "FindStatusCondition K cs t = Some c \<Longrightarrow> c \<in> set cs \<and> cond_Type c = t"
    and find_none: "FindStatusCondition K cs t = None \<Longrightarrow> c \<in> set cs \<Longrightarrow> cond_Type c \<noteq> t"
    and dns_empty: "IsDNS1123Label K [] \<noteq> []"
begin

text \<open>On a list with one condition per type, the lookup is exact.\<close>

lemma find_unique:
  assumes "distinct (map cond_Type cs)" and "c \<in> set cs"
  shows "FindStatusCondition K cs (cond_Type c) = Some c"
proof (cases "FindStatusCondition K cs (cond_Type c)")
  case None
  with assms(2) show ?thesis using find_none by blast
next
  case (Some d)
  then have "d \<in> set cs" "cond_Type d = cond_Type c" using find_in by blast+
  with assms have "d = c" by (auto simp: distinct_map inj_on_def)
  with Some show ?thesis by simp
qed

end

text \<open>An instance: the first condition of the type; labels of lower-case letters, digits and dashes.\<close>

definition is_label_char :: "char \<Rightarrow> bool" where
  "is_label_char c \<longleftrightarrow> is_digit c \<or> (97 \<le> (of_char c :: nat) \<and> (of_char c :: nat) \<le> 122)"

definition dns1123_label :: "string \<Rightarrow> bool" where
  "dns1123_label s \<longleftrightarrow> s \<noteq> [] \<and> length s \<le> 63 \<and> is_label_char (hd s) \<and> is_label_char (last s)
     \<and> list_all (\<lambda>c. is_label_char c \<or> c = CHR ''-'') s"

definition req_matches :: "(string \<rightharpoonup> string) \<Rightarrow> label_requirement \<Rightarrow> bool" where
  "req_matches m r =
     (if lreq_Operator r = ''In'' then (case m (lreq_Key r) of None \<Rightarrow> False | Some v \<Rightarrow> v \<in> set (lreq_Values r))
      else if lreq_Operator r = ''NotIn'' then (case m (lreq_Key r) of None \<Rightarrow> True | Some v \<Rightarrow> v \<notin> set (lreq_Values r))
      else if lreq_Operator r = ''Exists'' then m (lreq_Key r) \<noteq> None
      else m (lreq_Key r) = None)"

definition kube_lib_ref :: kube_lib where
  "kube_lib_ref = \<lparr>
     FindStatusCondition = (\<lambda>cs t. List.find (\<lambda>c. cond_Type c = t) cs),
     IsDNS1123Label = (\<lambda>s. if dns1123_label s then [] else [''must be a DNS label'']),
     LabelSelectorAsSelector = (\<lambda>s.
       if list_all (\<lambda>r. lreq_Operator r \<in> {''In'', ''NotIn'', ''Exists'', ''DoesNotExist''}) (sel_MatchExpressions s)
       then Inr (\<lambda>m. list_all (\<lambda>(k, v). m k = Some v) (sel_MatchLabels s)
                   \<and> list_all (req_matches m) (sel_MatchExpressions s))
       else Inl (Err ''invalid selector operator''))\<rparr>"

interpretation ref: kube_library kube_lib_ref
  by unfold_locales
    (auto simp: kube_lib_ref_def dns1123_label_def find_None_iff dest: find_Some_in)

end
