(* ===== verification/V1beta1.thy ===== *)
theory V1beta1
  imports Kube_Api
begin

text \<open>
  The custom resources of \<open>src/api/v1beta1\<close>: one record per struct, with the field names of the
  source behind a prefix that keeps them apart. Named string types are strings; a pointer is an
  option; \<open>int64\<close> generations are integers (the API server counts them up from one).
  \<open>TypeMeta\<close> and the list wrappers carry no data the program reads and are left out.
\<close>

section \<open>Names used in status and specification\<close>

abbreviation GroupName :: string where "GroupName \<equiv> ''networking.waycloak.io''"

abbreviation ConditionAccepted :: string where "ConditionAccepted \<equiv> ''Accepted''"
abbreviation ConditionResolvedRefs :: string where "ConditionResolvedRefs \<equiv> ''ResolvedRefs''"
abbreviation ConditionProgrammed :: string where "ConditionProgrammed \<equiv> ''Programmed''"
abbreviation ConditionReady :: string where "ConditionReady \<equiv> ''Ready''"
abbreviation ConditionTunnelReady :: string where "ConditionTunnelReady \<equiv> ''TunnelReady''"
abbreviation ConditionDNSReady :: string where "ConditionDNSReady \<equiv> ''DNSReady''"
abbreviation ConditionMembershipApplied :: string where
  "ConditionMembershipApplied \<equiv> ''MembershipApplied''"
abbreviation ConditionNodeReady :: string where "ConditionNodeReady \<equiv> ''NodeReady''"
abbreviation ConditionGatewayRulesReady :: string where
  "ConditionGatewayRulesReady \<equiv> ''GatewayRulesReady''"
abbreviation ConditionDelivered :: string where "ConditionDelivered \<equiv> ''Delivered''"
abbreviation ConditionAcknowledged :: string where "ConditionAcknowledged \<equiv> ''Acknowledged''"

abbreviation ReasonAccepted :: string where "ReasonAccepted \<equiv> ''Accepted''"
abbreviation ReasonInvalid :: string where "ReasonInvalid \<equiv> ''Invalid''"
abbreviation ReasonUnsupportedClass :: string where "ReasonUnsupportedClass \<equiv> ''UnsupportedClass''"
abbreviation ReasonUnsupportedFeature :: string where
  "ReasonUnsupportedFeature \<equiv> ''UnsupportedFeature''"
abbreviation ReasonControllerNotFound :: string where
  "ReasonControllerNotFound \<equiv> ''ControllerNotFound''"
abbreviation ReasonDeleting :: string where "ReasonDeleting \<equiv> ''Deleting''"
abbreviation ReasonResolvedRefs :: string where "ReasonResolvedRefs \<equiv> ''ResolvedRefs''"
abbreviation ReasonInvalidRef :: string where "ReasonInvalidRef \<equiv> ''InvalidRef''"
abbreviation ReasonRefNotFound :: string where "ReasonRefNotFound \<equiv> ''RefNotFound''"
abbreviation ReasonRefNotPermitted :: string where "ReasonRefNotPermitted \<equiv> ''RefNotPermitted''"
abbreviation ReasonIncompatibleRef :: string where "ReasonIncompatibleRef \<equiv> ''IncompatibleRef''"
abbreviation ReasonProgrammed :: string where "ReasonProgrammed \<equiv> ''Programmed''"
abbreviation ReasonPending :: string where "ReasonPending \<equiv> ''Pending''"
abbreviation ReasonApplyFailed :: string where "ReasonApplyFailed \<equiv> ''ApplyFailed''"
abbreviation ReasonStaleGeneration :: string where "ReasonStaleGeneration \<equiv> ''StaleGeneration''"
abbreviation ReasonReady :: string where "ReasonReady \<equiv> ''Ready''"
abbreviation ReasonNotReady :: string where "ReasonNotReady \<equiv> ''NotReady''"
abbreviation ReasonObservationUnavailable :: string where
  "ReasonObservationUnavailable \<equiv> ''ObservationUnavailable''"
abbreviation ReasonTunnelReady :: string where "ReasonTunnelReady \<equiv> ''TunnelReady''"
abbreviation ReasonTunnelNotReady :: string where "ReasonTunnelNotReady \<equiv> ''TunnelNotReady''"
abbreviation ReasonDNSReady :: string where "ReasonDNSReady \<equiv> ''DNSReady''"
abbreviation ReasonDNSNotReady :: string where "ReasonDNSNotReady \<equiv> ''DNSNotReady''"
abbreviation ReasonMembershipApplied :: string where "ReasonMembershipApplied \<equiv> ''MembershipApplied''"
abbreviation ReasonMembershipPending :: string where "ReasonMembershipPending \<equiv> ''MembershipPending''"
abbreviation ReasonNodeReady :: string where "ReasonNodeReady \<equiv> ''NodeReady''"
abbreviation ReasonNodeNotReady :: string where "ReasonNodeNotReady \<equiv> ''NodeNotReady''"

abbreviation FeatureFailClosedEgress :: string where
  "FeatureFailClosedEgress \<equiv> ''networking.waycloak.io/FailClosedEgress''"
abbreviation FeatureTCP :: string where "FeatureTCP \<equiv> ''networking.waycloak.io/TCP''"
abbreviation FeatureUDP :: string where "FeatureUDP \<equiv> ''networking.waycloak.io/UDP''"
abbreviation FeatureDNSContainment :: string where
  "FeatureDNSContainment \<equiv> ''networking.waycloak.io/DNSContainment''"
abbreviation FeatureGatewayReplacementRecovery :: string where
  "FeatureGatewayReplacementRecovery \<equiv> ''networking.waycloak.io/GatewayReplacementRecovery''"
abbreviation FeatureNodeRestartRecovery :: string where
  "FeatureNodeRestartRecovery \<equiv> ''networking.waycloak.io/NodeRestartRecovery''"
abbreviation FeaturePortForwardSingleActive :: string where
  "FeaturePortForwardSingleActive \<equiv> ''networking.waycloak.io/PortForwardServiceSingleActive''"

abbreviation GatewayAddressTypeOverlayCIDR :: string where
  "GatewayAddressTypeOverlayCIDR \<equiv> ''networking.waycloak.io/OverlayCIDR''"
abbreviation GatewayAddressTypeOverlayAddress :: string where
  "GatewayAddressTypeOverlayAddress \<equiv> ''networking.waycloak.io/OverlayAddress''"
abbreviation GatewayAddressTypeUnderlayEndpoint :: string where
  "GatewayAddressTypeUnderlayEndpoint \<equiv> ''networking.waycloak.io/UnderlayEndpoint''"
abbreviation GatewayAddressTypeOverlayHealthPort :: string where
  "GatewayAddressTypeOverlayHealthPort \<equiv> ''networking.waycloak.io/OverlayHealthPort''"
abbreviation GatewayAddressTypeVNI :: string where
  "GatewayAddressTypeVNI \<equiv> ''networking.waycloak.io/VNI''"
abbreviation GatewayAddressTypeMTU :: string where
  "GatewayAddressTypeMTU \<equiv> ''networking.waycloak.io/MTU''"

definition BaselineFeatures :: "string list" where
  "BaselineFeatures = [FeatureFailClosedEgress, FeatureTCP, FeatureUDP, FeatureDNSContainment,
     FeatureGatewayReplacementRecovery, FeatureNodeRestartRecovery]"

section \<open>References\<close>

record LocalUIDReference =
  lref_Name :: string
  lref_UID :: string

record NamespacedObjectReference =
  oref_Namespace :: string
  oref_Name :: string

record NamespacedUIDReference =
  nref_Namespace :: string
  nref_Name :: string
  nref_UID :: string

record ClusterObjectReference =
  cref_Group :: string
  cref_Kind :: string
  cref_Name :: string

record RoleObjectReference =
  role_Role :: string
  role_Name :: string

record ReleaseIdentity =
  rel_Version :: string
  rel_ManifestDigest :: string

section \<open>Gateway classes\<close>

record VPNGatewayClassSpec =
  class_ControllerName :: string
  class_ParametersRef :: "ClusterObjectReference option"
  class_ReleaseIdentity :: ReleaseIdentity
  class_SupportedFeatures :: "string list"
  class_ConformanceProfile :: string

record VPNGatewayClassStatus =
  classst_ObservedGeneration :: int
  classst_Conditions :: "condition list"

record VPNGatewayClass =
  class_Meta :: object_meta
  class_Spec :: VPNGatewayClassSpec
  class_Status :: VPNGatewayClassStatus

section \<open>Gateways\<close>

abbreviation RouteNamespaceSame :: string where "RouteNamespaceSame \<equiv> ''Same''"
abbreviation RouteNamespaceSelector :: string where "RouteNamespaceSelector \<equiv> ''Selector''"
abbreviation RouteNamespaceAll :: string where "RouteNamespaceAll \<equiv> ''All''"
abbreviation ClusterTrafficBypassCluster :: string where "ClusterTrafficBypassCluster \<equiv> ''BypassCluster''"
abbreviation ClusterTrafficTunnelAll :: string where "ClusterTrafficTunnelAll \<equiv> ''TunnelAll''"
abbreviation DNSModeGateway :: string where "DNSModeGateway \<equiv> ''Gateway''"

record RouteNamespaces =
  rns_From :: string
  rns_Selector :: "label_selector option"

record AllowedRoutes =
  allowed_Namespaces :: RouteNamespaces

record ClusterTraffic =
  ct_Mode :: string
  ct_BypassCIDRs :: "string list"

record DNSConfig =
  dns_Mode :: string

record VPNGatewaySpec =
  gw_GatewayClassName :: string
  gw_NativeConfigRefs :: "RoleObjectReference list"
  gw_CredentialRefs :: "RoleObjectReference list"
  gw_RequestedFeatures :: "string list"
  gw_AllowedRoutes :: AllowedRoutes
  gw_ClusterTraffic :: ClusterTraffic
  gw_DNS :: DNSConfig

record ObservedGatewayClass =
  obs_ControllerName :: string
  obs_ReleaseIdentity :: ReleaseIdentity

record GatewayAddress =
  ga_Type :: string
  ga_Value :: string

record VPNGatewayStatus =
  gwst_ObservedGeneration :: int
  gwst_GatewayClass :: "ObservedGatewayClass option"
  gwst_SupportedFeatures :: "string list"
  gwst_Addresses :: "GatewayAddress list"
  gwst_Conditions :: "condition list"

record VPNGateway =
  gw_Meta :: object_meta
  gw_Spec :: VPNGatewaySpec
  gw_Status :: VPNGatewayStatus

section \<open>Egress routes\<close>

record GatewayParentReference =
  parent_Group :: string
  parent_Kind :: string
  parent_Namespace :: string
  parent_Name :: string

record VPNEgressRouteSpec =
  route_ParentRefs :: "GatewayParentReference list"
  route_RequiredFeatures :: "string list"

record RouteParentStatus =
  rps_ParentRef :: GatewayParentReference
  rps_ControllerName :: string
  rps_Conditions :: "condition list"

record VPNEgressRouteStatus =
  routest_ObservedGeneration :: int
  routest_Conditions :: "condition list"
  routest_Parents :: "RouteParentStatus list"

record VPNEgressRoute =
  route_Meta :: object_meta
  route_Spec :: VPNEgressRouteSpec
  route_Status :: VPNEgressRouteStatus

section \<open>Workload bindings\<close>

record WorkloadAllocation =
  alloc_Identity :: string
  alloc_Address :: string

record WorkloadNetworkIntent =
  net_GatewayGeneration :: int
  net_OverlayCIDR :: string
  net_GatewayAddress :: string
  net_GatewayEndpoint :: string
  net_GatewayHealthPort :: int
  net_VNI :: int
  net_MTU :: int
  net_ClusterTraffic :: ClusterTraffic

record VPNWorkloadBindingSpec =
  bind_PodRef :: LocalUIDReference
  bind_RouteRef :: LocalUIDReference
  bind_GatewayRef :: NamespacedUIDReference
  bind_NodeName :: string
  bind_Allocation :: WorkloadAllocation
  bind_Network :: WorkloadNetworkIntent

record NodeAgentObservation =
  agent_NodeName :: string
  agent_NodeBootID :: string
  agent_InstanceID :: string
  agent_ObservedAt :: time

record VPNWorkloadBindingStatus =
  bindst_ObservedGeneration :: int
  bindst_AppliedGeneration :: int
  bindst_ObservedPodUID :: string
  bindst_ObservedGatewayUID :: string
  bindst_Agent :: "NodeAgentObservation option"
  bindst_Conditions :: "condition list"

record VPNWorkloadBinding =
  bind_Meta :: object_meta
  bind_Spec :: VPNWorkloadBindingSpec
  bind_Status :: VPNWorkloadBindingStatus

section \<open>Port-forward leases\<close>

datatype int_or_string = IntPort int | StrPort string

record ServiceBackendReference =
  backend_Group :: string
  backend_Kind :: string
  backend_Name :: string
  backend_Port :: int_or_string

record PortForwardLeaseSpec =
  pfl_GatewayRef :: NamespacedObjectReference
  pfl_BackendRef :: ServiceBackendReference
  pfl_Protocols :: "string list"
  pfl_EndpointPolicy :: string
  pfl_ApplicationAdapterRef :: "string option"

record ActiveLeaseEndpoint =
  ale_ServiceUID :: string
  ale_EndpointSliceUID :: string
  ale_PodUID :: string
  ale_Phase :: string

record ProviderMappingStatus =
  pms_PublicAddress :: string
  pms_PublicPort :: int
  pms_ExpiresAt :: time

record PortForwardLeaseStatus =
  pflst_ObservedGeneration :: int
  pflst_ActiveEndpoint :: "ActiveLeaseEndpoint option"
  pflst_Provider :: "ProviderMappingStatus option"
  pflst_HandoffGeneration :: int
  pflst_Conditions :: "condition list"

record PortForwardLease =
  pfl_Meta :: object_meta
  pfl_Spec :: PortForwardLeaseSpec
  pfl_Status :: PortForwardLeaseStatus

section \<open>Core objects\<close>

text \<open>The parts of \<open>corev1.Pod\<close> and \<open>corev1.Namespace\<close> the program reads.\<close>

datatype pod_phase = PodPending | PodRunning | PodSucceeded | PodFailed | PodUnknown

record pod =
  pod_Meta :: object_meta
  pod_NodeName :: string
  pod_HostNetwork :: bool
  pod_ServiceAccountName :: string
  pod_Phase :: pod_phase

record namespace =
  ns_Meta :: object_meta

text \<open>A coordination lease, a config map and the metadata of a secret.\<close>

record lease =
  lease_Meta :: object_meta
  lease_HolderIdentity :: "string option"
  lease_AcquireTime :: "time option"

record config_map =
  cm_Meta :: object_meta
  cm_Data :: "string \<rightharpoonup> string"

record secret =
  secret_Meta :: object_meta

section \<open>The client of a controller\<close>

text \<open>
  \<open>client.Client\<close> serves every kind of object; a controller sees one typed client per kind. A
  \<open>client.Reader\<close> is a cluster of which only gets and lists are used.
\<close>

record 'w cluster =
  cl_pods :: "('w, pod) kube_client"
  cl_namespaces :: "('w, namespace) kube_client"
  cl_classes :: "('w, VPNGatewayClass) kube_client"
  cl_gateways :: "('w, VPNGateway) kube_client"
  cl_routes :: "('w, VPNEgressRoute) kube_client"
  cl_bindings :: "('w, VPNWorkloadBinding) kube_client"
  cl_leases :: "('w, lease) kube_client"
  cl_configmaps :: "('w, config_map) kube_client"
  cl_secrets :: "('w, secret) kube_client"

abbreviation pod_key :: "pod \<Rightarrow> object_key" where "pod_key p \<equiv> meta_key (pod_Meta p)"
abbreviation namespace_key :: "namespace \<Rightarrow> object_key" where "namespace_key n \<equiv> meta_key (ns_Meta n)"
abbreviation class_key :: "VPNGatewayClass \<Rightarrow> object_key" where "class_key c \<equiv> meta_key (class_Meta c)"
abbreviation gateway_key :: "VPNGateway \<Rightarrow> object_key" where "gateway_key g \<equiv> meta_key (gw_Meta g)"
abbreviation route_key :: "VPNEgressRoute \<Rightarrow> object_key" where "route_key r \<equiv> meta_key (route_Meta r)"
abbreviation binding_key :: "VPNWorkloadBinding \<Rightarrow> object_key" where "binding_key b \<equiv> meta_key (bind_Meta b)"
abbreviation lease_key :: "lease \<Rightarrow> object_key" where "lease_key l \<equiv> meta_key (lease_Meta l)"
abbreviation config_map_key :: "config_map \<Rightarrow> object_key" where "config_map_key c \<equiv> meta_key (cm_Meta c)"
abbreviation secret_key :: "secret \<Rightarrow> object_key" where "secret_key s \<equiv> meta_key (secret_Meta s)"

text \<open>
  What the server keeps of a created object, and what a merge patch does to it: metadata and
  specification are the client's (the UID, generation and timestamps are the server's); annotations
  and finalizers are the only fields the program patches.
\<close>

definition same_meta :: "object_meta \<Rightarrow> object_meta \<Rightarrow> bool" where
  "same_meta x y \<longleftrightarrow> meta_key y = meta_key x \<and> meta_Labels y = meta_Labels x
     \<and> meta_Annotations y = meta_Annotations x \<and> meta_Finalizers y = meta_Finalizers x
     \<and> meta_OwnerReferences y = meta_OwnerReferences x"

definition merge_map :: "(string \<rightharpoonup> string) \<Rightarrow> (string \<rightharpoonup> string) \<Rightarrow> (string \<rightharpoonup> string) \<Rightarrow> (string \<rightharpoonup> string)" where
  "merge_map cur x y = (\<lambda>k. if y k = x k then cur k else y k)"

definition merge_field :: "'a \<Rightarrow> 'a \<Rightarrow> 'a \<Rightarrow> 'a" where
  "merge_field cur x y = (if y = x then cur else y)"

definition merge_meta :: "object_meta \<Rightarrow> object_meta \<Rightarrow> object_meta \<Rightarrow> object_meta" where
  "merge_meta cur x y = cur\<lparr>meta_Annotations := merge_map (meta_Annotations cur) (meta_Annotations x) (meta_Annotations y),
     meta_Finalizers := merge_field (meta_Finalizers cur) (meta_Finalizers x) (meta_Finalizers y)\<rparr>"

definition lease_same :: "lease \<Rightarrow> lease \<Rightarrow> bool" where
  "lease_same x y \<longleftrightarrow> same_meta (lease_Meta x) (lease_Meta y) \<and> lease_HolderIdentity y = lease_HolderIdentity x"

definition lease_merge :: "lease \<Rightarrow> lease \<Rightarrow> lease \<Rightarrow> lease" where
  "lease_merge cur x y = cur\<lparr>lease_Meta := merge_meta (lease_Meta cur) (lease_Meta x) (lease_Meta y)\<rparr>"

definition lease_merged :: "lease \<Rightarrow> lease \<Rightarrow> lease \<Rightarrow> lease \<Rightarrow> bool" where
  "lease_merged cur x y z \<longleftrightarrow> meta_key (lease_Meta z) = meta_key (lease_Meta cur)
     \<and> lease_HolderIdentity z = lease_HolderIdentity cur
     \<and> meta_Annotations (lease_Meta z) =
         merge_map (meta_Annotations (lease_Meta cur)) (meta_Annotations (lease_Meta x)) (meta_Annotations (lease_Meta y))"

definition binding_same :: "VPNWorkloadBinding \<Rightarrow> VPNWorkloadBinding \<Rightarrow> bool" where
  "binding_same x y \<longleftrightarrow> same_meta (bind_Meta x) (bind_Meta y) \<and> bind_Spec y = bind_Spec x"

definition binding_merge :: "VPNWorkloadBinding \<Rightarrow> VPNWorkloadBinding \<Rightarrow> VPNWorkloadBinding \<Rightarrow> VPNWorkloadBinding" where
  "binding_merge cur x y = cur\<lparr>bind_Meta := merge_meta (bind_Meta cur) (bind_Meta x) (bind_Meta y),
     bind_Spec := merge_field (bind_Spec cur) (bind_Spec x) (bind_Spec y)\<rparr>"

abbreviation lease_store :: "('w, lease) kube_client \<Rightarrow> ('w \<Rightarrow> object_key \<rightharpoonup> lease) \<Rightarrow> bool" where
  "lease_store C st \<equiv> object_store C lease_key lease_same lease_merged st"

abbreviation quiet_lease_store :: "('w, lease) kube_client \<Rightarrow> ('w \<Rightarrow> object_key \<rightharpoonup> lease) \<Rightarrow> bool" where
  "quiet_lease_store C st \<equiv> quiet_store C lease_key lease_same lease_merged st"

text \<open>An in-memory cluster: one store per kind, and a clock that the program only reads.\<close>

record mem_world =
  mw_pods :: "pod mem"
  mw_namespaces :: "namespace mem"
  mw_classes :: "VPNGatewayClass mem"
  mw_gateways :: "VPNGateway mem"
  mw_routes :: "VPNEgressRoute mem"
  mw_bindings :: "VPNWorkloadBinding mem"
  mw_leases :: "lease mem"
  mw_configmaps :: "config_map mem"
  mw_secrets :: "secret mem"
  mw_clock :: time

definition mem_cluster :: "mem_world cluster" where
  "mem_cluster = \<lparr>
     cl_pods = lift_client mw_pods (\<lambda>s. mw_pods_update (\<lambda>_. s)) (mem_client pod_key (\<lambda>cur x y. y) (\<lambda>x y. y)),
     cl_namespaces = lift_client mw_namespaces (\<lambda>s. mw_namespaces_update (\<lambda>_. s))
       (mem_client namespace_key (\<lambda>cur x y. y) (\<lambda>x y. y)),
     cl_classes = lift_client mw_classes (\<lambda>s. mw_classes_update (\<lambda>_. s))
       (mem_client class_key (\<lambda>cur x y. y) (\<lambda>x y. y\<lparr>class_Status := class_Status x\<rparr>)),
     cl_gateways = lift_client mw_gateways (\<lambda>s. mw_gateways_update (\<lambda>_. s))
       (mem_client gateway_key (\<lambda>cur x y. y) (\<lambda>x y. y\<lparr>gw_Status := gw_Status x\<rparr>)),
     cl_routes = lift_client mw_routes (\<lambda>s. mw_routes_update (\<lambda>_. s))
       (mem_client route_key (\<lambda>cur x y. y) (\<lambda>x y. y\<lparr>route_Status := route_Status x\<rparr>)),
     cl_bindings = lift_client mw_bindings (\<lambda>s. mw_bindings_update (\<lambda>_. s))
       (mem_client binding_key binding_merge (\<lambda>x y. y\<lparr>bind_Status := bind_Status x\<rparr>)),
     cl_leases = lift_client mw_leases (\<lambda>s. mw_leases_update (\<lambda>_. s)) (mem_client lease_key lease_merge (\<lambda>x y. y)),
     cl_configmaps = lift_client mw_configmaps (\<lambda>s. mw_configmaps_update (\<lambda>_. s))
       (mem_client config_map_key (\<lambda>cur x y. y) (\<lambda>x y. y)),
     cl_secrets = lift_client mw_secrets (\<lambda>s. mw_secrets_update (\<lambda>_. s))
       (mem_client secret_key (\<lambda>cur x y. y) (\<lambda>x y. y))\<rparr>"

definition mem_world_empty :: mem_world where
  "mem_world_empty = \<lparr>mw_pods = [], mw_namespaces = [], mw_classes = [], mw_gateways = [],
     mw_routes = [], mw_bindings = [], mw_leases = [], mw_configmaps = [], mw_secrets = [], mw_clock = 0\<rparr>"

definition mem_now :: "(mem_world, time) call" where
  "mem_now w = (mw_clock w, w)"

lemma mem_cluster_leases [simp]: "cl_leases mem_cluster =
    lift_client mw_leases (\<lambda>s. mw_leases_update (\<lambda>_. s)) (mem_client lease_key lease_merge (\<lambda>x y. y))"
  by (simp add: mem_cluster_def)

lemma mem_cluster_bindings [simp]: "cl_bindings mem_cluster =
    lift_client mw_bindings (\<lambda>s. mw_bindings_update (\<lambda>_. s)) (mem_client binding_key binding_merge (\<lambda>x y. y\<lparr>bind_Status := bind_Status x\<rparr>))"
  by (simp add: mem_cluster_def)

lemma mem_cluster_gateways [simp]: "cl_gateways mem_cluster =
    lift_client mw_gateways (\<lambda>s. mw_gateways_update (\<lambda>_. s)) (mem_client gateway_key (\<lambda>cur x y. y) (\<lambda>x y. y\<lparr>gw_Status := gw_Status x\<rparr>))"
  by (simp add: mem_cluster_def)

lemma mem_cluster_routes [simp]: "cl_routes mem_cluster =
    lift_client mw_routes (\<lambda>s. mw_routes_update (\<lambda>_. s)) (mem_client route_key (\<lambda>cur x y. y) (\<lambda>x y. y\<lparr>route_Status := route_Status x\<rparr>))"
  by (simp add: mem_cluster_def)

lemma mem_cluster_pods [simp]: "cl_pods mem_cluster =
    lift_client mw_pods (\<lambda>s. mw_pods_update (\<lambda>_. s)) (mem_client pod_key (\<lambda>cur x y. y) (\<lambda>x y. y))"
  by (simp add: mem_cluster_def)

interpretation mem_leases: quiet_store "cl_leases mem_cluster" lease_key lease_same lease_merged
    "\<lambda>w. map_of (mw_leases w)"
  by (simp only: mem_cluster_leases)
    (rule quiet_store_weaken, rule quiet_store_lift [where get = mw_leases and st = map_of, OF mem.quiet_store_axioms],
     auto simp: lease_same_def same_meta_def lease_merged_def lease_merge_def merge_meta_def meta_key_def)

interpretation mem_bindings: quiet_store "cl_bindings mem_cluster" binding_key binding_same
    "\<lambda>cur x y z. z = binding_merge cur x y" "\<lambda>w. map_of (mw_bindings w)"
  by (simp only: mem_cluster_bindings)
    (rule quiet_store_weaken, rule quiet_store_lift [where get = mw_bindings and st = map_of, OF mem.quiet_store_axioms],
     auto simp: binding_same_def same_meta_def)

interpretation mem_gateways: quiet_store "cl_gateways mem_cluster" gateway_key "(=)" "\<lambda>cur x y z. z = y" "\<lambda>w. map_of (mw_gateways w)"
  by (simp only: mem_cluster_gateways)
    (rule quiet_store_lift [where get = mw_gateways and st = map_of, OF mem.quiet_store_axioms], simp)

interpretation mem_routes: quiet_store "cl_routes mem_cluster" route_key "(=)" "\<lambda>cur x y z. z = y" "\<lambda>w. map_of (mw_routes w)"
  by (simp only: mem_cluster_routes)
    (rule quiet_store_lift [where get = mw_routes and st = map_of, OF mem.quiet_store_axioms], simp)

interpretation mem_pods: quiet_store "cl_pods mem_cluster" pod_key "(=)" "\<lambda>cur x y z. z = y" "\<lambda>w. map_of (mw_pods w)"
  by (simp only: mem_cluster_pods)
    (rule quiet_store_lift [where get = mw_pods and st = map_of, OF mem.quiet_store_axioms], simp)

end
