(* ===== verification/Conditions.thy ===== *)
theory Conditions
  imports V1beta1
begin

text \<open>
  \<open>src/internal/conditions/conditions.go\<close>: the positive-polarity condition contract shared by
  all controllers. \<open>K\<close> is the Kubernetes library, of which only \<open>FindStatusCondition\<close> is used.
\<close>

record State =
  state_Status :: condition_status
  state_Reason :: string
  state_Message :: string

definition cond_True :: "string \<Rightarrow> string \<Rightarrow> State" where
  "cond_True reason message = \<lparr>state_Status = ConditionTrue, state_Reason = reason, state_Message = message\<rparr>"

definition cond_False :: "string \<Rightarrow> string \<Rightarrow> State" where
  "cond_False reason message = \<lparr>state_Status = ConditionFalse, state_Reason = reason, state_Message = message\<rparr>"

definition cond_Unknown :: "string \<Rightarrow> State" where
  "cond_Unknown message = \<lparr>state_Status = ConditionUnknown,
     state_Reason = ReasonObservationUnavailable, state_Message = message\<rparr>"

definition state_of :: "(string \<rightharpoonup> State) \<Rightarrow> string \<Rightarrow> State" where
  "state_of states t = (case states t of
     Some s \<Rightarrow> s | None \<Rightarrow> cond_Unknown ''Condition observation is unavailable'')"

definition transition_time ::
  "'z kube_lib_scheme \<Rightarrow> condition list \<Rightarrow> time \<Rightarrow> string \<Rightarrow> State \<Rightarrow> time" where
  "transition_time K previous now t s = (case FindStatusCondition K previous t of
     Some old \<Rightarrow> if cond_Status old = state_Status s then cond_LastTransitionTime old else now
   | None \<Rightarrow> now)"

definition Build :: "'z kube_lib_scheme \<Rightarrow> condition list \<Rightarrow> int \<Rightarrow> time \<Rightarrow> string list \<Rightarrow>
    (string \<rightharpoonup> State) \<Rightarrow> condition list" where
  "Build K previous generation now order states = map (\<lambda>t.
     let s = state_of states t in
     \<lparr>cond_Type = t, cond_Status = state_Status s, cond_ObservedGeneration = generation,
      cond_LastTransitionTime = transition_time K previous now t s,
      cond_Reason = state_Reason s, cond_Message = state_Message s\<rparr>) order"

definition Current ::
  "'z kube_lib_scheme \<Rightarrow> condition list \<Rightarrow> string \<Rightarrow> int \<Rightarrow> int \<Rightarrow> condition option" where
  "Current K values t statusGeneration generation =
     (if statusGeneration \<noteq> generation then None
      else case FindStatusCondition K values t of
        None \<Rightarrow> None
      | Some c \<Rightarrow> if cond_ObservedGeneration c \<noteq> generation then None else Some c)"

definition CurrentTrue ::
  "'z kube_lib_scheme \<Rightarrow> condition list \<Rightarrow> string \<Rightarrow> int \<Rightarrow> int \<Rightarrow> bool" where
  "CurrentTrue K values t statusGeneration generation =
     (case Current K values t statusGeneration generation of
        None \<Rightarrow> False | Some c \<Rightarrow> cond_Status c = ConditionTrue)"

definition SummaryOrder :: "string list" where
  "SummaryOrder = [ConditionAccepted, ConditionResolvedRefs, ConditionProgrammed, ConditionReady]"

section \<open>Lemmas\<close>

lemma state_status_simps [simp]:
  "state_Status (cond_True r m) = ConditionTrue" "state_Status (cond_False r m) = ConditionFalse"
  "state_Status (cond_Unknown m) = ConditionUnknown"
  by (simp_all add: cond_True_def cond_False_def cond_Unknown_def)

lemma Build_types [simp]: "map cond_Type (Build K p g now order states) = order"
  by (simp add: Build_def Let_def o_def)

lemma CurrentTrueD:
  assumes "CurrentTrue K cs t sg g"
  obtains c where "FindStatusCondition K cs t = Some c" "cond_ObservedGeneration c = g"
    "cond_Status c = ConditionTrue" "sg = g"
  using assms by (auto simp: CurrentTrue_def Current_def split: if_splits option.splits)

lemma CurrentTrue_stale [simp]: "sg \<noteq> g \<Longrightarrow> \<not> CurrentTrue K cs t sg g"
  by (simp add: CurrentTrue_def Current_def)

context kube_library
begin

text \<open>On a list that \<open>Build\<close> made, the lookup finds the entry of that type.\<close>

lemma find_Build:
  assumes "distinct order" and "t \<in> set order"
  shows "FindStatusCondition K (Build K p g now order states) t = Some
     \<lparr>cond_Type = t, cond_Status = state_Status (state_of states t), cond_ObservedGeneration = g,
      cond_LastTransitionTime = transition_time K p now t (state_of states t),
      cond_Reason = state_Reason (state_of states t), cond_Message = state_Message (state_of states t)\<rparr>"
    (is "_ = Some ?c")
proof -
  have "?c \<in> set (Build K p g now order states)"
    using assms(2) by (auto simp: Build_def Let_def)
  moreover have "distinct (map cond_Type (Build K p g now order states))"
    using assms(1) by simp
  ultimately show ?thesis
    using find_unique [of "Build K p g now order states" ?c] by simp
qed

lemma CurrentTrue_Build:
  assumes "distinct order" and "t \<in> set order"
  shows "CurrentTrue K (Build K p g now order states) t sg g'
     \<longleftrightarrow> sg = g' \<and> g = g' \<and> state_Status (state_of states t) = ConditionTrue"
  using find_Build [OF assms, of p g now states] by (auto simp: CurrentTrue_def Current_def)

lemma Build_idem:
  assumes "distinct order"
  shows "Build K (Build K p g now order states) g now' order states = Build K p g now order states"
proof -
  have "transition_time K (Build K p g now order states) now' t (state_of states t)
      = transition_time K p now t (state_of states t)" if "t \<in> set order" for t
    using find_Build [OF assms that, of p g now states] by (simp add: transition_time_def)
  then show ?thesis by (subst (1 3) Build_def) (simp add: Let_def)
qed

end

section \<open>Properties\<close>

text \<open>
  C40: Publishing is idempotent. When the observed states and the generation are unchanged, building
  the conditions again from the ones just published gives the same list, at whatever time it is done,
  so a controller that compares the desired with the published status writes nothing.
\<close>

theorem Build_stable:
  assumes "kube_library K" and "distinct order"
  shows "Build K (Build K previous generation now order states) generation later order states
       = Build K previous generation now order states"
  by (rule kube_library.Build_idem [OF assms])

theorem Build_stable_witness:
  "Build kube_lib_ref (Build kube_lib_ref [] 3 100 SummaryOrder
      [ConditionReady \<mapsto> cond_True ReasonReady ''m'']) 3 500 SummaryOrder [ConditionReady \<mapsto> cond_True ReasonReady ''m'']
   = Build kube_lib_ref [] 3 100 SummaryOrder [ConditionReady \<mapsto> cond_True ReasonReady ''m'']"
  by (rule Build_stable [OF ref.kube_library_axioms]) (simp add: SummaryOrder_def)



end
