(* ===== verification/Enrollment.thy ===== *)
theory Enrollment
  imports Conditions
begin

text \<open>
  \<open>src/internal/enrollment/resolver.go\<close>: the enrollment label of an exact Pod is resolved to an
  exact route, and route readiness is reported apart from enrollment. A Go pair of a value and an
  error is a pair of the value and an optional error.
\<close>

abbreviation RouteLabel :: string where "RouteLabel \<equiv> ''networking.waycloak.io/egress-route''"
abbreviation ReasonUnenrolled :: string where "ReasonUnenrolled \<equiv> ''Unenrolled''"
abbreviation ReasonInvalidEnrollment :: string where "ReasonInvalidEnrollment \<equiv> ''Invalid''"
abbreviation ReasonRouteNotFound :: string where "ReasonRouteNotFound \<equiv> ''RefNotFound''"
abbreviation ReasonRouteNotReady :: string where "ReasonRouteNotReady \<equiv> ''NotReady''"

definition ErrPodUIDMismatch :: go_error where
  "ErrPodUIDMismatch = Err ''pod UID does not match the exact CNI identity''"

record Resolution =
  res_PodUID :: string
  res_RouteName :: string
  res_RouteUID :: string
  res_Enrolled :: bool
  res_Ready :: bool
  res_Reason :: string

definition Resolution_zero :: Resolution where
  "Resolution_zero = \<lparr>res_PodUID = [], res_RouteName = [], res_RouteUID = [],
     res_Enrolled = False, res_Ready = False, res_Reason = []\<rparr>"

text \<open>The loop over the required conditions: the reason it stops with, or None when all are true.\<close>

fun resolve_conditions :: "'z kube_lib_scheme \<Rightarrow> condition list \<Rightarrow> int \<Rightarrow> string list \<Rightarrow> string option" where
  "resolve_conditions K cs generation [] = None"
| "resolve_conditions K cs generation (t # ts) = (case FindStatusCondition K cs t of
     None \<Rightarrow> Some ReasonObservationUnavailable
   | Some c \<Rightarrow>
       if cond_ObservedGeneration c \<noteq> generation then Some ReasonObservationUnavailable
       else if cond_Status c \<noteq> ConditionTrue
         then Some (if TrimSpace (cond_Reason c) = [] then ReasonRouteNotReady else cond_Reason c)
       else resolve_conditions K cs generation ts)"

definition resolve_route :: "'z kube_lib_scheme \<Rightarrow> Resolution \<Rightarrow> VPNEgressRoute \<Rightarrow> Resolution" where
  "resolve_route K result route = (
     let result = result\<lparr>res_RouteUID := meta_UID (route_Meta route)\<rparr>;
         generation = meta_Generation (route_Meta route) in
     if routest_ObservedGeneration (route_Status route) \<noteq> generation
       then result\<lparr>res_Reason := ReasonObservationUnavailable\<rparr>
     else case resolve_conditions K (routest_Conditions (route_Status route)) generation
         [ConditionAccepted, ConditionResolvedRefs, ConditionProgrammed, ConditionReady] of
       Some reason \<Rightarrow> result\<lparr>res_Reason := reason\<rparr>
     | None \<Rightarrow> result\<lparr>res_Ready := True, res_Reason := ReasonReady\<rparr>)"

definition Resolve :: "'z kube_lib_scheme \<Rightarrow> 'w cluster option \<Rightarrow> string \<Rightarrow> string \<Rightarrow> string \<Rightarrow>
    ('w, Resolution \<times> go_error option) call" where
  "Resolve K reader namespace name uid w = (case reader of
     None \<Rightarrow> ((Resolution_zero, Some (Err ''kubernetes reader is required'')), w)
   | Some R \<Rightarrow> (case k_get (cl_pods R) (namespace, name) w of
       (Inl e, w1) \<Rightarrow> ((Resolution_zero, Some (Errorf ''read exact Pod identity'' [e])), w1)
     | (Inr pod, w1) \<Rightarrow>
         if meta_UID (pod_Meta pod) \<noteq> uid
           then ((Resolution_zero, Some (Errorf ''observed UID differs'' [ErrPodUIDMismatch])), w1)
         else let result = Resolution_zero\<lparr>res_PodUID := meta_UID (pod_Meta pod), res_Reason := ReasonUnenrolled\<rparr> in
           case meta_Labels (pod_Meta pod) RouteLabel of
             None \<Rightarrow> ((result, None), w1)
           | Some routeName \<Rightarrow>
               let result = result\<lparr>res_Enrolled := True, res_RouteName := routeName\<rparr> in
               if IsDNS1123Label K routeName \<noteq> []
                 then ((result\<lparr>res_Reason := ReasonInvalidEnrollment\<rparr>, None), w1)
               else case k_get (cl_routes R) (namespace, routeName) w1 of
                 (Inl e, w2) \<Rightarrow>
                   if IsNotFound e then ((result\<lparr>res_Reason := ReasonRouteNotFound\<rparr>, None), w2)
                   else ((result\<lparr>res_Reason := ReasonObservationUnavailable\<rparr>,
                          Some (Errorf ''read enrolled route'' [e])), w2)
               | (Inr route, w2) \<Rightarrow> ((resolve_route K result route, None), w2)))"

text \<open>The keys of an annotation map, in any order.\<close>

definition HasAlphaAnnotation :: "string list \<Rightarrow> bool" where
  "HasAlphaAnnotation annotation_keys = list_ex (\<lambda>key.
     HasPrefix key ''networking.waycloak.io/'' \<or> HasPrefix key ''internal.networking.waycloak.io/'') annotation_keys"

section \<open>Lemmas\<close>

lemma resolve_conditions_None_iff:
  "resolve_conditions K cs g ts = None \<longleftrightarrow> (\<forall>t\<in>set ts. CurrentTrue K cs t g g)"
  by (induction ts) (auto simp: CurrentTrue_def Current_def split: option.splits)

lemma resolve_route_Ready_iff:
  assumes "\<not> res_Ready r"
  shows "res_Ready (resolve_route K r route) \<longleftrightarrow>
    (\<forall>t\<in>set SummaryOrder. CurrentTrue K (routest_Conditions (route_Status route)) t
       (routest_ObservedGeneration (route_Status route)) (meta_Generation (route_Meta route)))"
proof (cases "routest_ObservedGeneration (route_Status route) = meta_Generation (route_Meta route)")
  case True
  have "res_Ready (resolve_route K r route) \<longleftrightarrow>
      resolve_conditions K (routest_Conditions (route_Status route)) (meta_Generation (route_Meta route)) SummaryOrder = None"
    using True assms unfolding resolve_route_def SummaryOrder_def Let_def
    by (simp del: resolve_conditions.simps split: option.split)
  with True show ?thesis by (simp only: resolve_conditions_None_iff)
next
  case False
  with assms show ?thesis by (auto simp: resolve_route_def Let_def SummaryOrder_def)
qed

lemma resolve_route_frame [simp]:
  "res_Enrolled (resolve_route K r route) = res_Enrolled r"
  "res_PodUID (resolve_route K r route) = res_PodUID r"
  "res_RouteName (resolve_route K r route) = res_RouteName r"
  "res_RouteUID (resolve_route K r route) = meta_UID (route_Meta route)"
  by (simp_all add: resolve_route_def Let_def del: resolve_conditions.simps split: option.split)

section \<open>Properties\<close>

text \<open>
  C37: A resolution without error is exact. It names the Pod UID that was asked for and that the API
  server returned; the Pod is enrolled if and only if it carries the route label, whatever the state
  of the route; and it is Ready only if a route of that name was read from the Pod's namespace whose
  Accepted, ResolvedRefs, Programmed and Ready conditions are all true for its current generation.
\<close>

theorem Resolve_exact:
  assumes "Resolve K (Some R) namespace name uid w = ((r, None), w')"
  shows "\<exists>pod w1. k_get (cl_pods R) (namespace, name) w = (Inr pod, w1)
     \<and> meta_UID (pod_Meta pod) = uid \<and> res_PodUID r = uid
     \<and> (res_Enrolled r \<longleftrightarrow> meta_Labels (pod_Meta pod) RouteLabel \<noteq> None)
     \<and> (res_Ready r \<longrightarrow> (\<exists>route.
          k_get (cl_routes R) (namespace, res_RouteName r) w1 = (Inr route, w')
          \<and> meta_Labels (pod_Meta pod) RouteLabel = Some (res_RouteName r)
          \<and> res_RouteUID r = meta_UID (route_Meta route)
          \<and> list_all (\<lambda>t. CurrentTrue K (routest_Conditions (route_Status route)) t
               (routest_ObservedGeneration (route_Status route)) (meta_Generation (route_Meta route)))
              [ConditionAccepted, ConditionResolvedRefs, ConditionProgrammed, ConditionReady]))"
proof -
  obtain a w1 where a: "k_get (cl_pods R) (namespace, name) w = (a, w1)" by fastforce
  with assms obtain pod where pod: "k_get (cl_pods R) (namespace, name) w = (Inr pod, w1)"
    and uid: "meta_UID (pod_Meta pod) = uid"
    by (cases a) (simp_all add: Resolve_def split: if_splits)
  let ?r = "Resolution_zero\<lparr>res_PodUID := uid, res_Reason := ReasonUnenrolled\<rparr>"
  show ?thesis
  proof (cases "meta_Labels (pod_Meta pod) RouteLabel")
    case None
    with assms pod uid have "r = ?r" by (simp add: Resolve_def Let_def)
    with pod uid None show ?thesis by (simp add: Resolution_zero_def)
  next
    case (Some routeName)
    let ?r' = "?r\<lparr>res_Enrolled := True, res_RouteName := routeName\<rparr>"
    obtain b w2 where b: "k_get (cl_routes R) (namespace, routeName) w1 = (b, w2)" by fastforce
    consider reason where "?r'\<lparr>res_Reason := reason\<rparr> = r"
      | route where "b = Inr route" "w2 = w'" "resolve_route K ?r' route = r"
      using assms pod uid Some b
      by (cases b) (simp_all add: Resolve_def Let_def split: if_splits, blast+)
    then show ?thesis
    proof cases
      case 1
      then have "r = ?r'\<lparr>res_Reason := reason\<rparr>" by simp
      with pod uid Some show ?thesis by (simp add: Resolution_zero_def)
    next
      case (2 route)
      then have "r = resolve_route K ?r' route" by simp
      with 2 show ?thesis using pod uid Some b resolve_route_Ready_iff [of ?r' K route]
        by (simp add: Resolution_zero_def SummaryOrder_def)
    qed
  qed
qed

definition ex_enrolled_pod :: pod where
  "ex_enrolled_pod = \<lparr>pod_Meta = object_meta_zero\<lparr>meta_Name := ''p'', meta_Namespace := ''ns'',
      meta_UID := ''u1'', meta_Labels := [RouteLabel \<mapsto> ''r'']\<rparr>,
    pod_NodeName = ''node-a'', pod_HostNetwork = False, pod_ServiceAccountName = ''default'', pod_Phase = PodRunning\<rparr>"

definition ex_ready_route :: VPNEgressRoute where
  "ex_ready_route = \<lparr>route_Meta = object_meta_zero\<lparr>meta_Name := ''r'', meta_Namespace := ''ns'',
      meta_UID := ''ru'', meta_Generation := 2\<rparr>,
    route_Spec = \<lparr>route_ParentRefs = [], route_RequiredFeatures = []\<rparr>,
    route_Status = \<lparr>routest_ObservedGeneration = 2,
      routest_Conditions = map (\<lambda>t. \<lparr>cond_Type = t, cond_Status = ConditionTrue,
        cond_ObservedGeneration = 2, cond_LastTransitionTime = 0, cond_Reason = t, cond_Message = []\<rparr>)
        [ConditionAccepted, ConditionResolvedRefs, ConditionProgrammed, ConditionReady],
      routest_Parents = []\<rparr>\<rparr>"

definition ex_enrolled_world :: mem_world where
  "ex_enrolled_world = mem_world_empty\<lparr>mw_pods := [((''ns'', ''p''), ex_enrolled_pod)],
     mw_routes := [((''ns'', ''r''), ex_ready_route)]\<rparr>"

lemma ex_Resolve:
  "fst (Resolve kube_lib_ref (Some mem_cluster) ''ns'' ''p'' ''u1'' ex_enrolled_world) =
     (\<lparr>res_PodUID = ''u1'', res_RouteName = ''r'', res_RouteUID = ''ru'', res_Enrolled = True,
        res_Ready = True, res_Reason = ReasonReady\<rparr>, None)"
  by code_simp

theorem Resolve_exact_witness:
  "\<exists>pod route w1 w2. k_get (cl_pods mem_cluster) (''ns'', ''p'') ex_enrolled_world = (Inr pod, w1)
     \<and> meta_UID (pod_Meta pod) = ''u1'' \<and> meta_Labels (pod_Meta pod) RouteLabel = Some ''r''
     \<and> k_get (cl_routes mem_cluster) (''ns'', ''r'') w1 = (Inr route, w2)
     \<and> CurrentTrue kube_lib_ref (routest_Conditions (route_Status route)) ConditionReady
         (routest_ObservedGeneration (route_Status route)) (meta_Generation (route_Meta route))"
proof -
  obtain w' where "Resolve kube_lib_ref (Some mem_cluster) ''ns'' ''p'' ''u1'' ex_enrolled_world =
     ((\<lparr>res_PodUID = ''u1'', res_RouteName = ''r'', res_RouteUID = ''ru'', res_Enrolled = True,
        res_Ready = True, res_Reason = ReasonReady\<rparr>, None), w')"
    using ex_Resolve by (metis prod.collapse)
  from Resolve_exact [OF this] show ?thesis
    unfolding Resolution.simps list.pred_inject by blast
qed

end
