(* ===== verification/Reference.thy ===== *)
theory Reference
  imports Conditions
begin

text \<open>
  \<open>src/internal/reference\<close>: target-side authorization of gateway references
  (\<open>gateway.go\<close>), and the fan-out from a changed object to the requests that depend on it
  (\<open>dependencies.go\<close>).
\<close>

section \<open>Authorization\<close>

record GatewayResolution =
  gres_Permitted :: bool
  gres_Gateway :: "VPNGateway option"

definition GatewayResolution_zero :: GatewayResolution where
  "GatewayResolution_zero = \<lparr>gres_Permitted = False, gres_Gateway = None\<rparr>"

definition ResolveGateway :: "'z kube_lib_scheme \<Rightarrow> 'w cluster option \<Rightarrow> string \<Rightarrow>
    NamespacedObjectReference \<Rightarrow> ('w, GatewayResolution result) call" where
  "ResolveGateway K reader sourceNamespace ref w = (case reader of
     None \<Rightarrow> (Inl (Err ''kubernetes API reader is required''), w)
   | Some R \<Rightarrow>
     if sourceNamespace = [] \<or> oref_Namespace ref = [] \<or> oref_Name ref = []
       then (Inl (Err ''source namespace and gateway reference are required''), w)
     else case k_get (cl_gateways R) (oref_Namespace ref, oref_Name ref) w of (got, w1) \<Rightarrow>
       if sourceNamespace = oref_Namespace ref then
         (case got of
            Inl e \<Rightarrow> if IsNotFound e then (Inr \<lparr>gres_Permitted = True, gres_Gateway = None\<rparr>, w1)
                     else (Inl (Errorf ''observe local gateway reference'' [e]), w1)
          | Inr gateway \<Rightarrow> (Inr \<lparr>gres_Permitted = True, gres_Gateway = Some gateway\<rparr>, w1))
       else
         (case got of
            Inl e \<Rightarrow> if IsNotFound e then (Inr GatewayResolution_zero, w1)
                     else (Inl (Errorf ''observe remote gateway consent'' [e]), w1)
          | Inr gateway \<Rightarrow>
              let namespaces = allowed_Namespaces (gw_AllowedRoutes (gw_Spec gateway)) in
              if rns_From namespaces = [] \<or> rns_From namespaces = RouteNamespaceSame
                then (Inr GatewayResolution_zero, w1)
              else if rns_From namespaces = RouteNamespaceAll
                then (Inr \<lparr>gres_Permitted = True, gres_Gateway = Some gateway\<rparr>, w1)
              else if rns_From namespaces = RouteNamespaceSelector then
                (case rns_Selector namespaces of
                   None \<Rightarrow> (Inr GatewayResolution_zero, w1)
                 | Some s \<Rightarrow> (case LabelSelectorAsSelector K s of
                     Inl _ \<Rightarrow> (Inr GatewayResolution_zero, w1)
                   | Inr selector \<Rightarrow> (case k_get (cl_namespaces R) ([], sourceNamespace) w1 of
                       (Inl e, w2) \<Rightarrow> (Inl (Errorf ''observe source namespace policy labels'' [e]), w2)
                     | (Inr ns, w2) \<Rightarrow>
                         if \<not> selector (meta_Labels (ns_Meta ns)) then (Inr GatewayResolution_zero, w2)
                         else (Inr \<lparr>gres_Permitted = True, gres_Gateway = Some gateway\<rparr>, w2))))
              else (Inr GatewayResolution_zero, w1)))"

section \<open>Dependency fan-out\<close>

text \<open>A reconcile request names one object.\<close>

type_synonym request = object_key

definition namespacedKey :: "string \<Rightarrow> string \<Rightarrow> string" where
  "namespacedKey namespace name = namespace @ ''/'' @ name"

definition request_String :: "request \<Rightarrow> string" where
  "request_String r = fst r @ ''/'' @ snd r"

definition RouteParentIndexValues :: "VPNEgressRoute \<Rightarrow> string list" where
  "RouteParentIndexValues route = (case route_ParentRefs (route_Spec route) of
     [parent] \<Rightarrow> [namespacedKey (parent_Namespace parent) (parent_Name parent)] | _ \<Rightarrow> [])"

definition GatewayClassIndexValues :: "VPNGateway \<Rightarrow> string list" where
  "GatewayClassIndexValues gateway = [gw_GatewayClassName (gw_Spec gateway)]"

definition LeaseGatewayIndexValues :: "PortForwardLease \<Rightarrow> string list" where
  "LeaseGatewayIndexValues l = [namespacedKey (oref_Namespace (pfl_GatewayRef (pfl_Spec l)))
     (oref_Name (pfl_GatewayRef (pfl_Spec l)))]"

definition requestFor :: "object_meta \<Rightarrow> request" where
  "requestFor m = meta_key m"

text \<open>The second loop keeps an element when it differs from the last one kept.\<close>

fun unique_loop :: "request \<Rightarrow> request list \<Rightarrow> request list" where
  "unique_loop kept [] = [kept]"
| "unique_loop kept (r # rs) = (if r \<noteq> kept then kept # unique_loop r rs else unique_loop kept rs)"

definition SortedUniqueRequests :: "request list \<Rightarrow> request list" where
  "SortedUniqueRequests requests = (case sort_key request_String requests of
     [] \<Rightarrow> [] | r # rs \<Rightarrow> unique_loop r rs)"

definition RoutesForGateway :: "'w cluster \<Rightarrow> object_meta \<Rightarrow> ('w, request list) call" where
  "RoutesForGateway C gateway w =
     (case k_list (cl_routes C) (\<lambda>route. namespacedKey (meta_Namespace gateway) (meta_Name gateway)
         \<in> set (RouteParentIndexValues route)) w of
        (Inl _, w1) \<Rightarrow> ([], w1)
      | (Inr routes, w1) \<Rightarrow> (SortedUniqueRequests (map (requestFor \<circ> route_Meta) routes), w1))"

fun routes_for_gateways :: "'w cluster \<Rightarrow> VPNGateway list \<Rightarrow> ('w, request list) call" where
  "routes_for_gateways C [] w = ([], w)"
| "routes_for_gateways C (g # gs) w = (case RoutesForGateway C (gw_Meta g) w of (rs, w1) \<Rightarrow>
     case routes_for_gateways C gs w1 of (rest, w2) \<Rightarrow> (rs @ rest, w2))"

definition RoutesForGatewayClass :: "'w cluster \<Rightarrow> object_meta \<Rightarrow> ('w, request list) call" where
  "RoutesForGatewayClass C gatewayClass w =
     (case k_list (cl_gateways C) (\<lambda>g. meta_Name gatewayClass \<in> set (GatewayClassIndexValues g)) w of
        (Inl _, w1) \<Rightarrow> ([], w1)
      | (Inr gateways, w1) \<Rightarrow> (case routes_for_gateways C gateways w1 of
          (requests, w2) \<Rightarrow> (SortedUniqueRequests requests, w2)))"

definition RoutesForNamespace :: "'w cluster \<Rightarrow> object_meta \<Rightarrow> ('w, request list) call" where
  "RoutesForNamespace C namespace w =
     (case k_list (cl_routes C) (\<lambda>route. meta_Namespace (route_Meta route) = meta_Name namespace) w of
        (Inl _, w1) \<Rightarrow> ([], w1)
      | (Inr routes, w1) \<Rightarrow> (SortedUniqueRequests (map (requestFor \<circ> route_Meta) routes), w1))"

text \<open>The same three mappings for port-forward leases, over their own typed client.\<close>

definition LeasesForGateway :: "('w, PortForwardLease) kube_client \<Rightarrow> object_meta \<Rightarrow> ('w, request list) call" where
  "LeasesForGateway L gateway w =
     (case k_list L (\<lambda>l. namespacedKey (meta_Namespace gateway) (meta_Name gateway)
         \<in> set (LeaseGatewayIndexValues l)) w of
        (Inl _, w1) \<Rightarrow> ([], w1)
      | (Inr ls, w1) \<Rightarrow> (SortedUniqueRequests (map (requestFor \<circ> pfl_Meta) ls), w1))"

fun leases_for_gateways ::
  "('w, PortForwardLease) kube_client \<Rightarrow> VPNGateway list \<Rightarrow> ('w, request list) call" where
  "leases_for_gateways L [] w = ([], w)"
| "leases_for_gateways L (g # gs) w = (case LeasesForGateway L (gw_Meta g) w of (rs, w1) \<Rightarrow>
     case leases_for_gateways L gs w1 of (rest, w2) \<Rightarrow> (rs @ rest, w2))"

definition LeasesForGatewayClass :: "'w cluster \<Rightarrow> ('w, PortForwardLease) kube_client \<Rightarrow> object_meta \<Rightarrow>
    ('w, request list) call" where
  "LeasesForGatewayClass C L gatewayClass w =
     (case k_list (cl_gateways C) (\<lambda>g. meta_Name gatewayClass \<in> set (GatewayClassIndexValues g)) w of
        (Inl _, w1) \<Rightarrow> ([], w1)
      | (Inr gateways, w1) \<Rightarrow> (case leases_for_gateways L gateways w1 of
          (requests, w2) \<Rightarrow> (SortedUniqueRequests requests, w2)))"

definition LeasesForNamespace ::
  "('w, PortForwardLease) kube_client \<Rightarrow> object_meta \<Rightarrow> ('w, request list) call" where
  "LeasesForNamespace L namespace w =
     (case k_list L (\<lambda>l. meta_Namespace (pfl_Meta l) = meta_Name namespace) w of
        (Inl _, w1) \<Rightarrow> ([], w1)
      | (Inr ls, w1) \<Rightarrow> (SortedUniqueRequests (map (requestFor \<circ> pfl_Meta) ls), w1))"

section \<open>Authorization lemmas\<close>

text \<open>
  What it means that the owner of a gateway in another namespace consents to a source namespace
  with the given labels.
\<close>

definition consents :: "'z kube_lib_scheme \<Rightarrow> VPNGateway \<Rightarrow> (string \<rightharpoonup> string) \<Rightarrow> bool" where
  "consents K gateway labels = (
     let namespaces = allowed_Namespaces (gw_AllowedRoutes (gw_Spec gateway)) in
     rns_From namespaces = RouteNamespaceAll \<or>
     rns_From namespaces = RouteNamespaceSelector \<and>
       (case rns_Selector namespaces of None \<Rightarrow> False | Some s \<Rightarrow>
          (case LabelSelectorAsSelector K s of Inl _ \<Rightarrow> False | Inr selector \<Rightarrow> selector labels)))"

text \<open>The interface \<open>GatewayResolver\<close>, as its callers rely on it.\<close>

locale gateway_resolver =
  fixes resolve :: "string \<Rightarrow> NamespacedObjectReference \<Rightarrow> ('w, GatewayResolution result) call"
    and read_gateway :: "object_key \<Rightarrow> ('w, VPNGateway result) call"
  assumes gateway_is_read: "resolve ns ref w = (Inr r, w') \<Longrightarrow> gres_Gateway r = Some g \<Longrightarrow>
      fst (read_gateway (oref_Namespace ref, oref_Name ref) w) = Inr g"
    and gateway_permitted: "resolve ns ref w = (Inr r, w') \<Longrightarrow> gres_Gateway r \<noteq> None \<Longrightarrow> gres_Permitted r"
    and unpermitted_is_opaque: "resolve ns ref w = (Inr r, w') \<Longrightarrow> \<not> gres_Permitted r \<Longrightarrow> gres_Gateway r = None"

lemma ResolveGateway_cases:
  assumes "ResolveGateway K (Some R) source ref w = (Inr r, w')"
  obtains (missing) e w1 where "k_get (cl_gateways R) (oref_Namespace ref, oref_Name ref) w = (Inl e, w1)"
      "IsNotFound e" "r = \<lparr>gres_Permitted = (source = oref_Namespace ref), gres_Gateway = None\<rparr>"
  | (permitted) g w1 where "k_get (cl_gateways R) (oref_Namespace ref, oref_Name ref) w = (Inr g, w1)"
      "r = \<lparr>gres_Permitted = True, gres_Gateway = Some g\<rparr>"
      "source = oref_Namespace ref
       \<or> rns_From (allowed_Namespaces (gw_AllowedRoutes (gw_Spec g))) = RouteNamespaceAll
       \<or> (\<exists>n w2. k_get (cl_namespaces R) ([], source) w1 = (Inr n, w2)
            \<and> consents K g (meta_Labels (ns_Meta n)))"
  | (refused) g w1 where "k_get (cl_gateways R) (oref_Namespace ref, oref_Name ref) w = (Inr g, w1)"
      "r = GatewayResolution_zero" "source \<noteq> oref_Namespace ref"
proof -
  obtain got w1 where got: "k_get (cl_gateways R) (oref_Namespace ref, oref_Name ref) w = (got, w1)"
    by fastforce
  show thesis
  proof (cases got)
    case (Inl e)
    with assms got missing show thesis
      by (simp add: ResolveGateway_def GatewayResolution_zero_def split: if_splits)
  next
    case (Inr g)
    let ?ns = "allowed_Namespaces (gw_AllowedRoutes (gw_Spec g))"
    obtain n w2 where n: "k_get (cl_namespaces R) ([], source) w1 = (n, w2)" by fastforce
    show thesis
    proof (cases "r = GatewayResolution_zero \<and> source \<noteq> oref_Namespace ref")
      case True
      with got Inr refused show thesis by blast
    next
      case False
      with assms got Inr n have "r = \<lparr>gres_Permitted = True, gres_Gateway = Some g\<rparr>
          \<and> (source = oref_Namespace ref \<or> rns_From ?ns = RouteNamespaceAll
             \<or> (\<exists>n'. n = Inr n' \<and> consents K g (meta_Labels (ns_Meta n'))))"
        by (auto simp: ResolveGateway_def consents_def Let_def
            split: if_splits option.splits sum.splits)
      with got Inr n permitted show thesis by blast
    qed
  qed
qed

interpretation authorizer: gateway_resolver "ResolveGateway K (Some R)" "k_get (cl_gateways R)"
  for K :: "'z kube_lib_scheme" and R :: "'w cluster"
  by unfold_locales (auto elim!: ResolveGateway_cases simp: GatewayResolution_zero_def)

section \<open>Fan-out lemmas\<close>

lemma set_unique_loop [simp]: "set (unique_loop r rs) = insert r (set rs)"
  by (induction r rs rule: unique_loop.induct) auto

lemma sorted_unique_loop:
  assumes "sorted (map f (r # rs))" and "inj_on f (set (r # rs))"
  shows "sorted_wrt (\<lambda>a b. f a < f b) (unique_loop r rs)"
  using assms
proof (induction r rs rule: unique_loop.induct)
  case (2 kept r rs)
  show ?case
  proof (cases "r = kept")
    case False
    with 2 have less: "f kept < f r" by (auto simp: inj_on_def order.strict_iff_order)
    have "f kept < f x" if "x \<in> insert r (set rs)" for x
      using that less 2(3) by (auto intro: less_le_trans)
    moreover have "sorted_wrt (\<lambda>a b. f a < f b) (unique_loop r rs)"
      using 2 False by (auto intro!: "2.IH"(1) simp: inj_on_def)
    ultimately show ?thesis using False by simp
  qed (use 2 in auto)
qed simp

lemma request_String_inj:
  assumes "\<And>r. r \<in> S \<Longrightarrow> CHR ''/'' \<notin> set (fst r)"
  shows "inj_on request_String S"
proof (rule inj_onI)
  fix a b assume "a \<in> S" "b \<in> S" and eq: "request_String a = request_String b"
  then have "CHR ''/'' \<notin> set (fst a)" "CHR ''/'' \<notin> set (fst b)" using assms by auto
  moreover from eq have "split_first (CHR ''/'') (request_String a) = split_first (CHR ''/'') (request_String b)"
    by simp
  ultimately show "a = b"
    by (simp add: request_String_def split_first_append prod_eq_iff)
qed

lemma set_SortedUniqueRequests [simp]: "set (SortedUniqueRequests rs) = set rs"
proof -
  have "set (sort_key request_String rs) = set rs" by simp
  then show ?thesis
    by (cases "sort_key request_String rs") (simp_all add: SortedUniqueRequests_def)
qed

lemma sorted_SortedUniqueRequests:
  assumes "\<And>r. r \<in> set rs \<Longrightarrow> CHR ''/'' \<notin> set (fst r)"
  shows "sorted_wrt (\<lambda>a b. request_String a < request_String b) (SortedUniqueRequests rs)"
proof (cases "sort_key request_String rs")
  case (Cons r rest)
  have "set (r # rest) = set rs" by (simp flip: Cons)
  moreover have "sorted (map request_String (r # rest))" by (simp flip: Cons)
  ultimately show ?thesis
    using Cons request_String_inj [of "set rs"] assms
    by (simp add: SortedUniqueRequests_def sorted_unique_loop)
qed (simp add: SortedUniqueRequests_def)

lemma namespacedKey_eq_iff:
  assumes "CHR ''/'' \<notin> set ns" "CHR ''/'' \<notin> set ns'"
  shows "namespacedKey ns n = namespacedKey ns' n' \<longleftrightarrow> ns = ns' \<and> n = n'"
proof
  assume "namespacedKey ns n = namespacedKey ns' n'"
  then have "request_String (ns, n) = request_String (ns', n')"
    by (simp add: namespacedKey_def request_String_def)
  moreover have "inj_on request_String {(ns, n), (ns', n')}"
    by (rule request_String_inj) (use assms in auto)
  ultimately show "ns = ns' \<and> n = n'" by (auto dest: inj_onD)
qed simp

lemma RouteParentIndexValues_cases:
  obtains (one) p where "xs = [p]" | (none) "xs = []" | (more) a b ys where "xs = a # b # ys"
  by (cases xs rule: remdups_adj.cases) auto

section \<open>Properties\<close>

text \<open>
  C32: A gateway is handed out only with the consent of its owner. When the authorizer returns a
  gateway, it is the one the API server returned for the reference, and the source is in the same
  namespace, or the gateway admits routes from all namespaces, or its selector matches the labels of
  the source namespace as the API server returned them.
\<close>

theorem ResolveGateway_consent:
  assumes "ResolveGateway K (Some R) source ref w = (Inr r, w')" and "gres_Gateway r = Some g"
  shows "\<exists>w1. k_get (cl_gateways R) (oref_Namespace ref, oref_Name ref) w = (Inr g, w1)
     \<and> gres_Permitted r
     \<and> (source = oref_Namespace ref
         \<or> rns_From (allowed_Namespaces (gw_AllowedRoutes (gw_Spec g))) = RouteNamespaceAll
         \<or> (\<exists>n w2. k_get (cl_namespaces R) ([], source) w1 = (Inr n, w2)
              \<and> consents K g (meta_Labels (ns_Meta n))))"
  using assms(1)
  by (cases rule: ResolveGateway_cases) (use assms(2) in \<open>auto simp: GatewayResolution_zero_def\<close>)

definition ex_gateway :: "string \<Rightarrow> VPNGateway" where
  "ex_gateway from = \<lparr>gw_Meta = object_meta_zero\<lparr>meta_Name := ''g'', meta_Namespace := ''vpn'', meta_UID := ''gu''\<rparr>,
     gw_Spec = \<lparr>gw_GatewayClassName = ''c'', gw_NativeConfigRefs = [], gw_CredentialRefs = [],
       gw_RequestedFeatures = [],
       gw_AllowedRoutes = \<lparr>allowed_Namespaces = \<lparr>rns_From = from,
         rns_Selector = Some \<lparr>sel_MatchLabels = [(''team'', ''a'')], sel_MatchExpressions = []\<rparr>\<rparr>\<rparr>,
       gw_ClusterTraffic = \<lparr>ct_Mode = ClusterTrafficTunnelAll, ct_BypassCIDRs = []\<rparr>,
       gw_DNS = \<lparr>dns_Mode = DNSModeGateway\<rparr>\<rparr>,
     gw_Status = \<lparr>gwst_ObservedGeneration = 0, gwst_GatewayClass = None, gwst_SupportedFeatures = [],
       gwst_Addresses = [], gwst_Conditions = []\<rparr>\<rparr>"

definition ex_namespace :: "string \<Rightarrow> namespace" where
  "ex_namespace team = \<lparr>ns_Meta = object_meta_zero\<lparr>meta_Name := ''app'', meta_Labels := [''team'' \<mapsto> team]\<rparr>\<rparr>"

definition ex_consent_world :: "string \<Rightarrow> mem_world" where
  "ex_consent_world team = mem_world_empty\<lparr>mw_gateways := [((''vpn'', ''g''), ex_gateway RouteNamespaceSelector)],
     mw_namespaces := [(([], ''app''), ex_namespace team)]\<rparr>"

abbreviation ex_gateway_ref :: NamespacedObjectReference where
  "ex_gateway_ref \<equiv> \<lparr>oref_Namespace = ''vpn'', oref_Name = ''g''\<rparr>"

lemmas ex_consent_defs = ex_consent_world_def mem_world_empty_def mem_cluster_def ex_namespace_def
  ex_gateway_def on_part_def mem_client_def mem_get_def object_meta_zero_def

lemma ex_consent_get:
  "k_get (cl_gateways mem_cluster) (''vpn'', ''g'') (ex_consent_world t) =
     (Inr (ex_gateway RouteNamespaceSelector), ex_consent_world t)"
  "k_get (cl_namespaces mem_cluster) ([], ''app'') (ex_consent_world t) =
     (Inr (ex_namespace t), ex_consent_world t)"
  by (simp_all add: ex_consent_defs)

lemma ex_consents: "consents kube_lib_ref (ex_gateway RouteNamespaceSelector) [''team'' \<mapsto> t] \<longleftrightarrow> t = ''a''"
  by (simp add: consents_def ex_gateway_def kube_lib_ref_def)

lemma ex_ResolveGateway_consent:
  "ResolveGateway kube_lib_ref (Some mem_cluster) ''app'' ex_gateway_ref (ex_consent_world ''a'') =
     (Inr \<lparr>gres_Permitted = True, gres_Gateway = Some (ex_gateway RouteNamespaceSelector)\<rparr>, ex_consent_world ''a'')"
  using ex_consent_get [of "''a''"]
  by (simp add: ResolveGateway_def del: mem_cluster_gateways)
    (simp add: ex_gateway_def ex_namespace_def kube_lib_ref_def)

theorem ResolveGateway_consent_witness:
  "\<exists>n w1 w2. k_get (cl_namespaces mem_cluster) ([], ''app'') w1 = (Inr n, w2)
     \<and> consents kube_lib_ref (ex_gateway RouteNamespaceSelector) (meta_Labels (ns_Meta n))"
  using ResolveGateway_consent [OF ex_ResolveGateway_consent, of "ex_gateway RouteNamespaceSelector"]
  by (auto simp: ex_gateway_def)

text \<open>
  C33: The authorizer is not an existence oracle. For a source in another namespace, a gateway that
  does not exist and a gateway that exists but does not consent (its selector, if it has one, does
  not match the labels of the source namespace) give the very same answer: not permitted, no gateway.
\<close>

theorem ResolveGateway_no_oracle:
  assumes "source \<noteq> []" "oref_Namespace ref \<noteq> []" "oref_Name ref \<noteq> []" "source \<noteq> oref_Namespace ref"
    and missing: "k_get (cl_gateways R) (oref_Namespace ref, oref_Name ref) w = (Inl e, w1)" "IsNotFound e"
    and present: "k_get (cl_gateways R) (oref_Namespace ref, oref_Name ref) v = (Inr g, v1)"
    and labels: "k_get (cl_namespaces R) ([], source) v1 = (Inr n, v2)"
    and refused: "\<not> consents K g (meta_Labels (ns_Meta n))"
  shows "fst (ResolveGateway K (Some R) source ref w) = fst (ResolveGateway K (Some R) source ref v)
     \<and> fst (ResolveGateway K (Some R) source ref v) = Inr \<lparr>gres_Permitted = False, gres_Gateway = None\<rparr>"
proof -
  have "fst (ResolveGateway K (Some R) source ref w) = Inr GatewayResolution_zero"
    using assms(1-4) missing by (simp add: ResolveGateway_def)
  moreover have "fst (ResolveGateway K (Some R) source ref v) = Inr GatewayResolution_zero"
    using assms(1-4) present labels refused
    by (auto simp: ResolveGateway_def consents_def Let_def split: option.splits sum.splits)
  ultimately show ?thesis by (simp add: GatewayResolution_zero_def)
qed

theorem ResolveGateway_no_oracle_witness:
  "fst (ResolveGateway kube_lib_ref (Some mem_cluster) ''app'' ex_gateway_ref mem_world_empty) =
   fst (ResolveGateway kube_lib_ref (Some mem_cluster) ''app'' ex_gateway_ref (ex_consent_world ''b''))"
  by (rule conjunct1, rule ResolveGateway_no_oracle [where e = "ApiStatus StatusReasonNotFound"
        and g = "ex_gateway RouteNamespaceSelector" and n = "ex_namespace ''b''"])
    (simp_all add: ex_consents ex_consent_get del: mem_cluster_gateways,
     simp_all add: ex_consent_defs api_error_defs kube_lib_ref_def consents_def)

text \<open>
  C38: The fan-out from a gateway is complete and exact. When the list call answers, the requests for a
  gateway are, strictly sorted and so without repetition, exactly the keys of the stored routes whose
  single parent reference names that gateway.
\<close>

theorem RoutesForGateway_exact:
  assumes "object_store (cl_routes C) route_key same merged st"
    and list: "k_list (cl_routes C) (\<lambda>route. namespacedKey (meta_Namespace g) (meta_Name g)
         \<in> set (RouteParentIndexValues route)) w = (Inr routes, w1)"
    and gns: "CHR ''/'' \<notin> set (meta_Namespace g)"
    and rns: "\<And>k route. st w1 k = Some route \<Longrightarrow> CHR ''/'' \<notin> set (meta_Namespace (route_Meta route))
         \<and> (\<forall>p\<in>set (route_ParentRefs (route_Spec route)). CHR ''/'' \<notin> set (parent_Namespace p))"
  shows "\<exists>rs. RoutesForGateway C g w = (rs, w1)
     \<and> sorted_wrt (\<lambda>a b. request_String a < request_String b) rs
     \<and> set rs = {route_key route | k route p. st w1 k = Some route
         \<and> route_ParentRefs (route_Spec route) = [p]
         \<and> parent_Namespace p = meta_Namespace g \<and> parent_Name p = meta_Name g}"
proof -
  let ?reqs = "map (requestFor \<circ> route_Meta) routes"
  have mem: "route \<in> set routes \<longleftrightarrow> namespacedKey (meta_Namespace g) (meta_Name g) \<in> set (RouteParentIndexValues route)
      \<and> (\<exists>k. st w1 k = Some route)" for route
    by (rule object_store.list_ok [OF assms(1) list])
  have index: "namespacedKey (meta_Namespace g) (meta_Name g) \<in> set (RouteParentIndexValues route) \<longleftrightarrow>
      (\<exists>p. route_ParentRefs (route_Spec route) = [p] \<and> parent_Namespace p = meta_Namespace g
         \<and> parent_Name p = meta_Name g)" if "st w1 k = Some route" for k route
    using rns [OF that] gns
    by (cases "route_ParentRefs (route_Spec route)" rule: RouteParentIndexValues_cases)
      (auto simp: RouteParentIndexValues_def namespacedKey_eq_iff)
  have "CHR ''/'' \<notin> set (fst r)" if "r \<in> set ?reqs" for r
    using that mem rns by (auto simp: requestFor_def meta_key_def)
  then have "sorted_wrt (\<lambda>a b. request_String a < request_String b) (SortedUniqueRequests ?reqs)"
    by (rule sorted_SortedUniqueRequests)
  moreover have "set (SortedUniqueRequests ?reqs) = {route_key route | k route p. st w1 k = Some route
         \<and> route_ParentRefs (route_Spec route) = [p]
         \<and> parent_Namespace p = meta_Namespace g \<and> parent_Name p = meta_Name g}"
    using mem index by (fastforce simp: requestFor_def image_iff)
  ultimately show ?thesis using list by (simp add: RoutesForGateway_def)
qed

definition ex_route :: "string \<Rightarrow> VPNEgressRoute" where
  "ex_route name = \<lparr>route_Meta = object_meta_zero\<lparr>meta_Name := name, meta_Namespace := ''ns''\<rparr>,
    route_Spec = \<lparr>route_ParentRefs = [\<lparr>parent_Group = GroupName, parent_Kind = ''VPNGateway'',
      parent_Namespace = ''vpn'', parent_Name = ''g''\<rparr>], route_RequiredFeatures = []\<rparr>,
    route_Status = \<lparr>routest_ObservedGeneration = 0, routest_Conditions = [], routest_Parents = []\<rparr>\<rparr>"

definition ex_routes_world :: mem_world where
  "ex_routes_world = mem_world_empty\<lparr>mw_routes := [((''ns'', ''b''), ex_route ''b''), ((''ns'', ''a''), ex_route ''a'')]\<rparr>"

theorem RoutesForGateway_exact_witness:
  "\<exists>rs. fst (RoutesForGateway mem_cluster (gw_Meta (ex_gateway RouteNamespaceAll)) ex_routes_world) = rs
     \<and> (''ns'', ''a'') \<in> set rs \<and> sorted_wrt (\<lambda>a b. request_String a < request_String b) rs"
proof -
  have list: "k_list (cl_routes mem_cluster) (\<lambda>route. namespacedKey (meta_Namespace (gw_Meta (ex_gateway RouteNamespaceAll)))
         (meta_Name (gw_Meta (ex_gateway RouteNamespaceAll))) \<in> set (RouteParentIndexValues route)) ex_routes_world
      = (Inr [ex_route ''b'', ex_route ''a''], ex_routes_world)"
    by (simp add: ex_routes_world_def mem_world_empty_def on_part_def mem_client_def mem_list_def
        ex_route_def RouteParentIndexValues_def ex_gateway_def object_meta_zero_def)
  have st: "map_of (mw_routes ex_routes_world) k = Some route \<Longrightarrow> route = ex_route ''b'' \<or> route = ex_route ''a''"
    for k route by (auto simp: ex_routes_world_def mem_world_empty_def split: if_splits)
  have "map_of (mw_routes ex_routes_world) (''ns'', ''a'') = Some (ex_route ''a'')"
    by (simp add: ex_routes_world_def mem_world_empty_def)
  moreover have "route_ParentRefs (route_Spec (ex_route ''a'')) = [\<lparr>parent_Group = GroupName,
      parent_Kind = ''VPNGateway'', parent_Namespace = ''vpn'', parent_Name = ''g''\<rparr>]"
    and "route_key (ex_route ''a'') = (''ns'', ''a'')"
    by (simp_all add: ex_route_def meta_key_def)
  moreover have "meta_Namespace (gw_Meta (ex_gateway RouteNamespaceAll)) = ''vpn''"
    "meta_Name (gw_Meta (ex_gateway RouteNamespaceAll)) = ''g''"
    by (simp_all add: ex_gateway_def object_meta_zero_def)
  ultimately show ?thesis
    using RoutesForGateway_exact [OF mem_routes.object_store_axioms list] st
    by (fastforce simp: ex_route_def object_meta_zero_def)
qed

end
