(* ===== verification/Gateway_Controllers.thy ===== *)
theory Gateway_Controllers
  imports Reference "HOL-Library.Multiset"
begin

text \<open>
  The controllers of gateway classes and gateways:
  \<open>src/internal/controller/vpngatewayclass_controller.go\<close> and
  \<open>src/internal/controller/replacement_vpngateway_controller.go\<close>. The runtime provisioner is an
  interface there (implemented by \<open>internal/gatewayruntime\<close>) and an argument here. The clock call
  stands for \<open>r.now()\<close>. A reconcile call returns the requeue delay and an optional error.
\<close>

section \<open>Gateway classes\<close>

definition is_hex_lower :: "char \<Rightarrow> bool" where
  "is_hex_lower c \<longleftrightarrow> is_digit c \<or> c \<in> set ''abcdef''"

text \<open>The pattern \<open>^sha256:[a-f0-9]{64}$\<close>.\<close>

definition releaseDigestPattern :: "string \<Rightarrow> bool" where
  "releaseDigestPattern s \<longleftrightarrow> HasPrefix s ''sha256:'' \<and> length s = 71 \<and> list_all is_hex_lower (drop 7 s)"

definition ValidReleaseIdentity :: "ReleaseIdentity \<Rightarrow> bool" where
  "ValidReleaseIdentity i \<longleftrightarrow> length (rel_Version i) > 0 \<and> length (rel_Version i) \<le> 128
     \<and> releaseDigestPattern (rel_ManifestDigest i)"

definition sameFeatures :: "string list \<Rightarrow> string list \<Rightarrow> bool" where
  "sameFeatures left right = (if length left \<noteq> length right then False else sort left = sort right)"

record 'w VPNGatewayClassReconciler =
  gcr_Client :: "'w cluster"
  gcr_ControllerName :: string
  gcr_ReleaseIdentity :: ReleaseIdentity
  gcr_ConformanceProfile :: string
  gcr_SupportedFeatures :: "string list"
  gcr_now :: "('w, time) call"

definition class_states :: "('w, 'z) VPNGatewayClassReconciler_scheme \<Rightarrow> VPNGatewayClass \<Rightarrow> string \<rightharpoonup> State" where
  "class_states r class = (
     let spec = class_Spec class;
         states = [ConditionAccepted \<mapsto> cond_True ReasonAccepted ''Gateway class is accepted'',
           ConditionResolvedRefs \<mapsto> cond_True ReasonResolvedRefs ''Gateway class references are resolved'',
           ConditionProgrammed \<mapsto> cond_True ReasonProgrammed ''Gateway class is available to the controller'',
           ConditionReady \<mapsto> cond_True ReasonReady ''Gateway class release and profile are available''];
         states = (if class_ReleaseIdentity spec \<noteq> gcr_ReleaseIdentity r
               \<or> class_ConformanceProfile spec \<noteq> gcr_ConformanceProfile r
             then states(ConditionAccepted \<mapsto> cond_False ReasonUnsupportedClass ''Gateway class release or conformance identity is unsupported'',
               ConditionProgrammed \<mapsto> cond_False ReasonPending ''Unsupported gateway class is not registered'',
               ConditionReady \<mapsto> cond_False ReasonNotReady ''Gateway class is unavailable'')
           else if \<not> sameFeatures (class_SupportedFeatures spec) (gcr_SupportedFeatures r)
             then states(ConditionAccepted \<mapsto> cond_False ReasonUnsupportedFeature ''Gateway class feature set does not match the release'',
               ConditionProgrammed \<mapsto> cond_False ReasonPending ''Unsupported gateway class is not registered'',
               ConditionReady \<mapsto> cond_False ReasonNotReady ''Gateway class is unavailable'')
           else states);
         states = (if class_ParametersRef spec \<noteq> None
             then states(ConditionAccepted \<mapsto> cond_False ReasonUnsupportedClass ''Gateway class parameters are not supported by this release'',
               ConditionResolvedRefs \<mapsto> cond_False ReasonIncompatibleRef ''Gateway class parameters are incompatible'',
               ConditionProgrammed \<mapsto> cond_False ReasonPending ''Gateway class parameters are not registered'',
               ConditionReady \<mapsto> cond_False ReasonNotReady ''Gateway class is unavailable'')
           else states) in
     if is_deleting (class_Meta class)
       then states(ConditionAccepted \<mapsto> cond_False ReasonDeleting ''Gateway class is deleting'',
         ConditionProgrammed \<mapsto> cond_False ReasonPending ''Deleting gateway class is not available'',
         ConditionReady \<mapsto> cond_False ReasonNotReady ''Gateway class is unavailable'')
     else states)"

definition class_desiredStatus ::
  "'k kube_lib_scheme \<Rightarrow> ('w, 'z) VPNGatewayClassReconciler_scheme \<Rightarrow> VPNGatewayClass \<Rightarrow> time \<Rightarrow> VPNGatewayClassStatus" where
  "class_desiredStatus K r class now = \<lparr>
     classst_ObservedGeneration = meta_Generation (class_Meta class),
     classst_Conditions = Build K (classst_Conditions (class_Status class)) (meta_Generation (class_Meta class)) now
       SummaryOrder (class_states r class)\<rparr>"

definition class_Reconcile :: "'k kube_lib_scheme \<Rightarrow> 'w VPNGatewayClassReconciler \<Rightarrow> request \<Rightarrow> ('w, go_error option) call" where
  "class_Reconcile K r request w = (case k_get (cl_classes (gcr_Client r)) request w of
     (Inl e, w1) \<Rightarrow> (IgnoreNotFound e, w1)
   | (Inr class, w1) \<Rightarrow>
       if class_ControllerName (class_Spec class) \<noteq> gcr_ControllerName r then (None, w1)
       else case gcr_now r w1 of (now, w2) \<Rightarrow>
         let desired = class_desiredStatus K r class now in
         if class_Status class = desired then (None, w2)
         else case k_apply_status (cl_classes (gcr_Client r))
             \<lparr>class_Meta = object_meta_zero\<lparr>meta_Name := meta_Name (class_Meta class)\<rparr>,
              class_Spec = class_Spec class, class_Status = desired\<rparr> w2 of
           (None, w3) \<Rightarrow> (None, w3)
         | (Some e, w3) \<Rightarrow> (Some (Errorf ''apply VPNGatewayClass status'' [e]), w3))"

section \<open>Gateways\<close>

abbreviation GluetunEnvironmentRole :: string where
  "GluetunEnvironmentRole \<equiv> ''networking.waycloak.io/GluetunEnvironment''"
abbreviation OpenVPNCredentialsRole :: string where
  "OpenVPNCredentialsRole \<equiv> ''networking.waycloak.io/OpenVPNCredentials''"
abbreviation GatewayRuntimeTLSRole :: string where
  "GatewayRuntimeTLSRole \<equiv> ''networking.waycloak.io/GatewayRuntimeTLS''"
abbreviation FeatureWorkloadAdapter :: string where
  "FeatureWorkloadAdapter \<equiv> ''networking.waycloak.io/WorkloadAdapter''"

record GatewayRuntimeObservation =
  gro_Programmed :: bool
  gro_Ready :: bool
  gro_TunnelReady :: bool
  gro_DNSReady :: bool
  gro_MembershipApplied :: bool
  gro_Addresses :: "GatewayAddress list"

record 'w VPNGatewayReconciler = "'w VPNGatewayClassReconciler" +
  gwr_APIReader :: "'w cluster option"
  gwr_NativeConfigRoles :: "string list"
  gwr_CredentialRoles :: "string list"
  gwr_ReferenceCheckInterval :: duration
  gwr_Runtime :: "(VPNGateway \<Rightarrow> ('w, GatewayRuntimeObservation result) call) option"

definition gwr_reader :: "'w VPNGatewayReconciler \<Rightarrow> 'w cluster" where
  "gwr_reader r = (case gwr_APIReader r of Some R \<Rightarrow> R | None \<Rightarrow> gcr_Client r)"

definition referenceCheckInterval :: "'w VPNGatewayReconciler \<Rightarrow> duration" where
  "referenceCheckInterval r = (if gwr_ReferenceCheckInterval r > 0 then gwr_ReferenceCheckInterval r else 10 * Second)"

definition hasRole :: "string list \<Rightarrow> string \<Rightarrow> bool" where
  "hasRole values expected = list_ex (\<lambda>v. v = expected) values"

definition hasFeature :: "string list \<Rightarrow> string \<Rightarrow> bool" where
  "hasFeature values expected = list_ex (\<lambda>v. v = expected) values"

fun firstUnsupported :: "string list \<Rightarrow> string list \<Rightarrow> string" where
  "firstUnsupported [] supported = []"
| "firstUnsupported (f # fs) supported = (if \<not> hasFeature supported f then f else firstUnsupported fs supported)"

definition sortedFeatures :: "string list \<Rightarrow> string list" where
  "sortedFeatures values = sort values"

definition gatewayPendingStates :: "string \<rightharpoonup> State" where
  "gatewayPendingStates = [
     ConditionAccepted \<mapsto> cond_False ReasonUnsupportedClass ''Gateway is not accepted'',
     ConditionResolvedRefs \<mapsto> cond_False ReasonRefNotFound ''Gateway references are unresolved'',
     ConditionProgrammed \<mapsto> cond_False ReasonPending ''Gateway data-plane programming has not started'',
     ConditionReady \<mapsto> cond_False ReasonNotReady ''Gateway data plane is not ready'',
     ConditionTunnelReady \<mapsto> cond_False ReasonTunnelNotReady ''Gateway tunnel is not ready'',
     ConditionDNSReady \<mapsto> cond_False ReasonDNSNotReady ''Gateway DNS path is not ready'',
     ConditionMembershipApplied \<mapsto> cond_False ReasonMembershipPending ''Gateway membership is not applied'']"

definition unresolvedReference :: "go_error \<Rightarrow> string \<Rightarrow> State" where
  "unresolvedReference e message =
     (if IsNotFound e then cond_False ReasonRefNotFound message
      else if IsForbidden e \<or> IsUnauthorized e then cond_False ReasonRefNotPermitted message
      else cond_Unknown ''Gateway reference observation is unavailable'')"

definition gateway_condition_order :: "string list" where
  "gateway_condition_order = [ConditionAccepted, ConditionResolvedRefs, ConditionProgrammed, ConditionReady,
     ConditionTunnelReady, ConditionDNSReady, ConditionMembershipApplied]"

definition finishStatus :: "'k kube_lib_scheme \<Rightarrow> 'w VPNGatewayReconciler \<Rightarrow> VPNGateway \<Rightarrow> VPNGatewayStatus \<Rightarrow>
    (string \<rightharpoonup> State) \<Rightarrow> ('w, VPNGatewayStatus) call" where
  "finishStatus K r gateway status states w = (case gcr_now r w of (now, w1) \<Rightarrow>
     (status\<lparr>gwst_Conditions := Build K (gwst_Conditions (gw_Status gateway)) (meta_Generation (gw_Meta gateway))
        now gateway_condition_order states\<rparr>, w1))"

text \<open>The two loops of \<open>resolveInputs\<close>: a state stops them; the credential loop also reports whether
  the runtime TLS role was seen.\<close>

fun resolve_config_refs :: "'w VPNGatewayReconciler \<Rightarrow> VPNGateway \<Rightarrow> RoleObjectReference list \<Rightarrow> ('w, State option) call" where
  "resolve_config_refs r gateway [] w = (None, w)"
| "resolve_config_refs r gateway (ref # refs) w =
     (if \<not> hasRole (gwr_NativeConfigRoles r) (role_Role ref)
        then (Some (cond_False ReasonIncompatibleRef ''Gateway native configuration role is unsupported''), w)
      else case k_get (cl_configmaps (gwr_reader r)) (meta_Namespace (gw_Meta gateway), role_Name ref) w of
        (Inl e, w1) \<Rightarrow> (Some (unresolvedReference e ''Gateway native configuration reference is unavailable''), w1)
      | (Inr _, w1) \<Rightarrow> resolve_config_refs r gateway refs w1)"

fun resolve_credential_refs :: "'w VPNGatewayReconciler \<Rightarrow> VPNGateway \<Rightarrow> RoleObjectReference list \<Rightarrow> bool \<Rightarrow> ('w, State + bool) call" where
  "resolve_credential_refs r gateway [] tls w = (Inr tls, w)"
| "resolve_credential_refs r gateway (ref # refs) tls w =
     (if \<not> hasRole (gwr_CredentialRoles r) (role_Role ref)
        then (Inl (cond_False ReasonIncompatibleRef ''Gateway credential role is unsupported''), w)
      else case k_get (cl_secrets (gwr_reader r)) (meta_Namespace (gw_Meta gateway), role_Name ref) w of
        (Inl e, w1) \<Rightarrow> (Inl (unresolvedReference e ''Gateway credential reference is unavailable''), w1)
      | (Inr _, w1) \<Rightarrow> resolve_credential_refs r gateway refs (tls \<or> role_Role ref = GatewayRuntimeTLSRole) w1)"

definition resolveInputs :: "'w VPNGatewayReconciler \<Rightarrow> VPNGateway \<Rightarrow> ('w, State option) call" where
  "resolveInputs r gateway w = (
     let runtimeRequested = hasFeature (gw_RequestedFeatures (gw_Spec gateway)) FeaturePortForwardSingleActive in
     case resolve_config_refs r gateway (gw_NativeConfigRefs (gw_Spec gateway)) w of
       (Some s, w1) \<Rightarrow> (Some s, w1)
     | (None, w1) \<Rightarrow> (case resolve_credential_refs r gateway (gw_CredentialRefs (gw_Spec gateway)) False w1 of
         (Inl s, w2) \<Rightarrow> (Some s, w2)
       | (Inr runtimeTLSRef, w2) \<Rightarrow>
           if runtimeRequested \<and> \<not> runtimeTLSRef
             then (Some (cond_False ReasonRefNotFound ''Gateway runtime TLS reference is required''), w2)
           else if \<not> runtimeRequested \<and> runtimeTLSRef
             then (Some (cond_False ReasonIncompatibleRef ''Gateway runtime TLS reference requires SingleActive port forwarding''), w2)
           else (None, w2)))"

definition observation_states :: "GatewayRuntimeObservation \<Rightarrow> (string \<rightharpoonup> State) \<Rightarrow> (string \<rightharpoonup> State)" where
  "observation_states obs states = (
     let states = (if gro_Programmed obs then states(ConditionProgrammed \<mapsto> cond_True ReasonProgrammed ''Gateway runtime is programmed'') else states);
         states = (if gro_TunnelReady obs then states(ConditionTunnelReady \<mapsto> cond_True ReasonTunnelReady ''Gateway tunnel is ready'') else states);
         states = (if gro_DNSReady obs then states(ConditionDNSReady \<mapsto> cond_True ReasonDNSReady ''Gateway DNS path is ready'') else states);
         states = (if gro_MembershipApplied obs then states(ConditionMembershipApplied \<mapsto> cond_True ReasonMembershipApplied ''Gateway membership data plane is applied'') else states) in
     if gro_Ready obs \<and> gro_Programmed obs \<and> gro_TunnelReady obs \<and> gro_DNSReady obs \<and> gro_MembershipApplied obs
       then states(ConditionReady \<mapsto> cond_True ReasonReady ''Gateway live data plane is ready'') else states)"

text \<open>
  The checks on a class that was read, in order: the two states they set when one fails.
\<close>

definition class_problem :: "'k kube_lib_scheme \<Rightarrow> 'w VPNGatewayReconciler \<Rightarrow> VPNGatewayClass \<Rightarrow> (State \<times> State) option" where
  "class_problem K r class = (
     let spec = class_Spec class; cs = classst_Conditions (class_Status class);
         sg = classst_ObservedGeneration (class_Status class); g = meta_Generation (class_Meta class) in
     if is_deleting (class_Meta class) then
       Some (cond_False ReasonUnsupportedClass ''Gateway class is deleting'',
             cond_False ReasonIncompatibleRef ''Gateway class is not currently available'')
     else if class_ControllerName spec \<noteq> gcr_ControllerName r then
       Some (cond_False ReasonControllerNotFound ''Gateway class belongs to another controller'',
             cond_False ReasonIncompatibleRef ''Gateway class controller is incompatible'')
     else if class_ReleaseIdentity spec \<noteq> gcr_ReleaseIdentity r \<or> class_ConformanceProfile spec \<noteq> gcr_ConformanceProfile r then
       Some (cond_False ReasonUnsupportedClass ''Gateway class release or conformance identity is unsupported'',
             cond_False ReasonIncompatibleRef ''Gateway class release identity is incompatible'')
     else if \<not> sameFeatures (class_SupportedFeatures spec) (gcr_SupportedFeatures r) then
       Some (cond_False ReasonUnsupportedFeature ''Gateway class feature set does not match the release'',
             cond_False ReasonIncompatibleRef ''Gateway class feature set is incompatible'')
     else if \<not> CurrentTrue K cs ConditionAccepted sg g \<or> \<not> CurrentTrue K cs ConditionReady sg g then
       Some (cond_False ReasonControllerNotFound ''Gateway class controller is not currently available'',
             cond_False ReasonIncompatibleRef ''Gateway class is not currently available'')
     else None)"

definition gateway_desiredStatus :: "'k kube_lib_scheme \<Rightarrow> 'w VPNGatewayReconciler \<Rightarrow> VPNGateway \<Rightarrow> ('w, VPNGatewayStatus) call" where
  "gateway_desiredStatus K r gateway w = (
     let status = \<lparr>gwst_ObservedGeneration = meta_Generation (gw_Meta gateway), gwst_GatewayClass = None,
           gwst_SupportedFeatures = [], gwst_Addresses = [], gwst_Conditions = []\<rparr>;
         states = gatewayPendingStates;
         requested = gw_RequestedFeatures (gw_Spec gateway) in
     case k_get (cl_classes (gwr_reader r)) ([], gw_GatewayClassName (gw_Spec gateway)) w of
       (Inl e, w1) \<Rightarrow> finishStatus K r gateway status
         (states(ConditionAccepted \<mapsto> cond_False ReasonUnsupportedClass ''Gateway class is unavailable'',
                 ConditionResolvedRefs \<mapsto> cond_False ReasonRefNotFound ''Gateway class reference is unresolved'')) w1
     | (Inr class, w1) \<Rightarrow>
         let status = status\<lparr>gwst_GatewayClass := Some \<lparr>obs_ControllerName = class_ControllerName (class_Spec class),
               obs_ReleaseIdentity = class_ReleaseIdentity (class_Spec class)\<rparr>\<rparr> in
         case class_problem K r class of
           Some (accepted, resolved) \<Rightarrow> finishStatus K r gateway status
             (states(ConditionAccepted \<mapsto> accepted, ConditionResolvedRefs \<mapsto> resolved)) w1
         | None \<Rightarrow>
             let status = status\<lparr>gwst_SupportedFeatures := sortedFeatures (gcr_SupportedFeatures r)\<rparr> in
             if firstUnsupported requested (gwst_SupportedFeatures status) \<noteq> [] then
               finishStatus K r gateway status
                 (states(ConditionAccepted \<mapsto> cond_False ReasonUnsupportedFeature ''Gateway requests a feature unsupported by its class'',
                         ConditionResolvedRefs \<mapsto> cond_True ReasonResolvedRefs ''Gateway class reference is resolved'')) w1
             else if hasFeature requested FeatureWorkloadAdapter \<and> \<not> hasFeature requested FeaturePortForwardSingleActive then
               finishStatus K r gateway status
                 (states(ConditionAccepted \<mapsto> cond_False ReasonUnsupportedFeature ''WorkloadAdapter requires SingleActive port forwarding'',
                         ConditionResolvedRefs \<mapsto> cond_True ReasonResolvedRefs ''Gateway class reference is resolved'')) w1
             else
               let states = states(ConditionAccepted \<mapsto> cond_True ReasonAccepted ''Gateway intent is accepted'') in
               case resolveInputs r gateway w1 of
                 (Some state, w2) \<Rightarrow> finishStatus K r gateway status (states(ConditionResolvedRefs \<mapsto> state)) w2
               | (None, w2) \<Rightarrow>
                   let states = states(ConditionResolvedRefs \<mapsto> cond_True ReasonResolvedRefs ''Gateway references are resolved'') in
                   (case gwr_Runtime r of
                      None \<Rightarrow> finishStatus K r gateway status states w2
                    | Some runtime \<Rightarrow> (case runtime gateway w2 of
                        (Inl e, w3) \<Rightarrow> finishStatus K r gateway status
                          (states(ConditionProgrammed \<mapsto> cond_False ReasonPending ''Gateway runtime reconciliation is pending'',
                                  ConditionReady \<mapsto> cond_False ReasonNotReady ''Gateway data plane is not ready'')) w3
                      | (Inr obs, w3) \<Rightarrow> finishStatus K r gateway (status\<lparr>gwst_Addresses := gro_Addresses obs\<rparr>)
                          (observation_states obs states) w3)))"

definition gateway_applyStatus :: "'w VPNGatewayReconciler \<Rightarrow> VPNGateway \<Rightarrow> VPNGatewayStatus \<Rightarrow> ('w, go_error option) call" where
  "gateway_applyStatus r gateway status w =
     (case k_apply_status (cl_gateways (gcr_Client r))
         (gateway\<lparr>gw_Meta := object_meta_zero\<lparr>meta_Name := meta_Name (gw_Meta gateway), meta_Namespace := meta_Namespace (gw_Meta gateway)\<rparr>,
           gw_Status := status\<rparr>) w of
        (None, w1) \<Rightarrow> (None, w1) | (Some e, w1) \<Rightarrow> (Some (Errorf ''apply VPNGateway status'' [e]), w1))"

definition gateway_Reconcile :: "'k kube_lib_scheme \<Rightarrow> 'w VPNGatewayReconciler \<Rightarrow> request \<Rightarrow> ('w, duration \<times> go_error option) call" where
  "gateway_Reconcile K r request w = (case k_get (cl_gateways (gcr_Client r)) request w of
     (Inl e, w1) \<Rightarrow> ((0, IgnoreNotFound e), w1)
   | (Inr gateway, w1) \<Rightarrow> (case gateway_desiredStatus K r gateway w1 of (desired, w2) \<Rightarrow>
       if gw_Status gateway \<noteq> desired then
         (case gateway_applyStatus r gateway desired w2 of
            (Some e, w3) \<Rightarrow> ((0, Some e), w3)
          | (None, w3) \<Rightarrow> ((referenceCheckInterval r, None), w3))
       else ((referenceCheckInterval r, None), w2)))"

definition matchingGateways :: "'w VPNGatewayReconciler \<Rightarrow> (VPNGateway \<Rightarrow> bool) \<Rightarrow> ('w, request list) call" where
  "matchingGateways r match w = (case k_list (cl_gateways (gcr_Client r)) (\<lambda>_. True) w of
     (Inl _, w1) \<Rightarrow> ([], w1)
   | (Inr gateways, w1) \<Rightarrow> (map gateway_key (filter match gateways), w1))"

definition gatewaysForClass :: "'w VPNGatewayReconciler \<Rightarrow> VPNGatewayClass \<Rightarrow> ('w, request list) call" where
  "gatewaysForClass r class = matchingGateways r (\<lambda>g. gw_GatewayClassName (gw_Spec g) = meta_Name (class_Meta class))"

definition gatewaysForConfigMap :: "'w VPNGatewayReconciler \<Rightarrow> object_meta \<Rightarrow> ('w, request list) call" where
  "gatewaysForConfigMap r object = matchingGateways r (\<lambda>g.
     if meta_Namespace (gw_Meta g) \<noteq> meta_Namespace object then False
     else list_ex (\<lambda>ref. role_Name ref = meta_Name object) (gw_NativeConfigRefs (gw_Spec g)))"

section \<open>Lemmas\<close>

lemma sameFeatures_mset: "sameFeatures left right \<longleftrightarrow> mset left = mset right"
proof
  assume "sameFeatures left right"
  then have "sort left = sort right" by (simp add: sameFeatures_def split: if_splits)
  then show "mset left = mset right" by (metis mset_sort)
next
  assume "mset left = mset right"
  moreover from this have "length left = length right" by (rule mset_eq_length)
  ultimately show "sameFeatures left right"
    by (simp add: sameFeatures_def flip: sorted_list_of_multiset_mset)
qed


lemma gateway_order_distinct: "distinct gateway_condition_order" "distinct SummaryOrder"
  by (simp_all add: gateway_condition_order_def SummaryOrder_def)

lemma state_of_upd [simp]:
  "state_of (m(k \<mapsto> v)) k = v" "k \<noteq> k' \<Longrightarrow> state_of (m(k' \<mapsto> v)) k = state_of m k"
  by (simp_all add: state_of_def)




lemma pending_not_Ready [simp]: "state_Status (state_of gatewayPendingStates ConditionReady) = ConditionFalse"
  by (simp add: gatewayPendingStates_def)


lemma class_problem_None:
  "class_problem K r class = None \<longleftrightarrow>
     \<not> is_deleting (class_Meta class) \<and> class_ControllerName (class_Spec class) = gcr_ControllerName r
     \<and> class_ReleaseIdentity (class_Spec class) = gcr_ReleaseIdentity r
     \<and> class_ConformanceProfile (class_Spec class) = gcr_ConformanceProfile r
     \<and> mset (class_SupportedFeatures (class_Spec class)) = mset (gcr_SupportedFeatures r)
     \<and> CurrentTrue K (classst_Conditions (class_Status class)) ConditionAccepted
         (classst_ObservedGeneration (class_Status class)) (meta_Generation (class_Meta class))
     \<and> CurrentTrue K (classst_Conditions (class_Status class)) ConditionReady
         (classst_ObservedGeneration (class_Status class)) (meta_Generation (class_Meta class))"
  by (auto simp: class_problem_def Let_def sameFeatures_mset)

section \<open>Properties\<close>

text \<open>An example release, its class, and a runtime that reports a given observation.\<close>

definition ex_release :: ReleaseIdentity where
  "ex_release = \<lparr>rel_Version = ''v1'', rel_ManifestDigest = ''sha256:00''\<rparr>"

definition ex_class :: VPNGatewayClass where
  "ex_class = \<lparr>class_Meta = object_meta_zero\<lparr>meta_Name := ''c'', meta_Generation := 1\<rparr>,
     class_Spec = \<lparr>class_ControllerName = ''ctl'', class_ParametersRef = None, class_ReleaseIdentity = ex_release,
       class_SupportedFeatures = [FeatureUDP, FeatureTCP], class_ConformanceProfile = ''core''\<rparr>,
     class_Status = \<lparr>classst_ObservedGeneration = 1, classst_Conditions =
       map (\<lambda>t. \<lparr>cond_Type = t, cond_Status = ConditionTrue, cond_ObservedGeneration = 1, cond_LastTransitionTime = 0,
         cond_Reason = t, cond_Message = []\<rparr>) [ConditionAccepted, ConditionReady]\<rparr>\<rparr>"

definition ex_class_reconciler :: "mem_world VPNGatewayClassReconciler" where
  "ex_class_reconciler = \<lparr>gcr_Client = mem_cluster, gcr_ControllerName = ''ctl'', gcr_ReleaseIdentity = ex_release,
     gcr_ConformanceProfile = ''core'', gcr_SupportedFeatures = [FeatureTCP, FeatureUDP], gcr_now = mem_now\<rparr>"




text \<open>
  C35: A gateway class is published as Ready for its current generation if and only if it names exactly
  the release and the conformance profile of this controller, lists exactly its features (in any order),
  asks for no parameters and is not being deleted.
\<close>

theorem class_Ready_iff:
  assumes "kube_library K"
  shows "CurrentTrue K (classst_Conditions (class_desiredStatus K r class now)) ConditionReady
       (classst_ObservedGeneration (class_desiredStatus K r class now)) (meta_Generation (class_Meta class))
     \<longleftrightarrow> class_ReleaseIdentity (class_Spec class) = gcr_ReleaseIdentity r
       \<and> class_ConformanceProfile (class_Spec class) = gcr_ConformanceProfile r
       \<and> mset (class_SupportedFeatures (class_Spec class)) = mset (gcr_SupportedFeatures r)
       \<and> class_ParametersRef (class_Spec class) = None \<and> \<not> is_deleting (class_Meta class)"
  using kube_library.CurrentTrue_Build [OF assms gateway_order_distinct(2), of ConditionReady]
  by (auto simp: class_desiredStatus_def class_states_def SummaryOrder_def Let_def sameFeatures_mset)

theorem class_Ready_iff_witness:
  "CurrentTrue kube_lib_ref (classst_Conditions (class_desiredStatus kube_lib_ref ex_class_reconciler ex_class 5)) ConditionReady
     (classst_ObservedGeneration (class_desiredStatus kube_lib_ref ex_class_reconciler ex_class 5)) (meta_Generation (class_Meta ex_class))"
  by (subst class_Ready_iff [OF ref.kube_library_axioms])
    (simp add: ex_class_def ex_class_reconciler_def object_meta_zero_def timestamp_set_def)






end
