(* ===== verification/Route_Controller.thy ===== *)
theory Route_Controller
  imports Gateway_Controllers Enrollment
begin

text \<open>
  \<open>src/internal/controller/vpnegressroute_controller.go\<close>: the status of an egress route from the
  authorized snapshot of its parent gateway. \<open>conditionState\<close> of the source has the fields of
  \<open>State\<close> and is that record here. The parent list is not empty by the schema of the resource; the
  index expression would panic on an empty one, which is the value None.
\<close>

abbreviation RouteControllerName :: string where
  "RouteControllerName \<equiv> ''networking.waycloak.io/route-controller''"

record routeConditionSet =
  rcs_accepted :: State
  rcs_resolved :: State
  rcs_programmed :: State
  rcs_ready :: State

abbreviation unavailable :: "string \<Rightarrow> State" where
  "unavailable message \<equiv> cond_Unknown message"

definition currentCondition :: "'k kube_lib_scheme \<Rightarrow> VPNGateway \<Rightarrow> string \<Rightarrow> condition option" where
  "currentCondition K gateway t = Current K (gwst_Conditions (gw_Status gateway)) t
     (gwst_ObservedGeneration (gw_Status gateway)) (meta_Generation (gw_Meta gateway))"

definition evaluateGateway ::
  "'k kube_lib_scheme \<Rightarrow> VPNEgressRoute \<Rightarrow> VPNGateway \<Rightarrow> routeConditionSet \<Rightarrow> routeConditionSet" where
  "evaluateGateway K route gateway statuses = (
     let statuses = statuses\<lparr>rcs_resolved := cond_True ReasonResolvedRefs ''Parent reference is resolved''\<rparr> in
     if is_deleting (gw_Meta gateway) then
       statuses\<lparr>rcs_accepted := cond_False ReasonDeleting ''Parent gateway is deleting'',
                rcs_programmed := cond_False ReasonPending ''Route programming is withdrawn'',
                rcs_ready := cond_False ReasonDeleting ''Parent gateway is deleting''\<rparr>
     else if gwst_ObservedGeneration (gw_Status gateway) \<noteq> meta_Generation (gw_Meta gateway) then
       statuses\<lparr>rcs_accepted := unavailable ''Parent acceptance observation is unavailable'',
                rcs_programmed := unavailable ''Parent programming observation is unavailable'',
                rcs_ready := unavailable ''Parent readiness observation is unavailable''\<rparr>
     else
       let unknown_accepted = statuses\<lparr>rcs_accepted := unavailable ''Parent acceptance observation is unavailable'',
             rcs_programmed := unavailable ''Parent programming observation is unavailable'',
             rcs_ready := unavailable ''Parent readiness observation is unavailable''\<rparr> in
       (case currentCondition K gateway ConditionAccepted of
          None \<Rightarrow> unknown_accepted
        | Some accepted \<Rightarrow>
          if cond_Status accepted = ConditionUnknown then unknown_accepted
          else if cond_Status accepted \<noteq> ConditionTrue then
            statuses\<lparr>rcs_accepted := cond_False ReasonUnsupportedClass ''Parent gateway is not accepted''\<rparr>
          else if list_ex (\<lambda>feature. feature \<notin> set (gwst_SupportedFeatures (gw_Status gateway)))
              (route_RequiredFeatures (route_Spec route)) then
            statuses\<lparr>rcs_accepted := cond_False ReasonUnsupportedFeature ''A required route feature is unavailable''\<rparr>
          else
            let unknown_programmed = statuses\<lparr>rcs_programmed := unavailable ''Parent programming observation is unavailable'',
                  rcs_ready := unavailable ''Parent readiness observation is unavailable''\<rparr> in
            (case currentCondition K gateway ConditionProgrammed of
               None \<Rightarrow> unknown_programmed
             | Some programmed \<Rightarrow>
               if cond_Status programmed = ConditionUnknown then unknown_programmed
               else if cond_Status programmed \<noteq> ConditionTrue then
                 statuses\<lparr>rcs_programmed := cond_False
                   (if cond_Reason programmed \<noteq> ReasonApplyFailed \<and> cond_Reason programmed \<noteq> ReasonStaleGeneration
                    then ReasonPending else cond_Reason programmed) ''Parent gateway is not programmed''\<rparr>
               else
                 let statuses = statuses\<lparr>rcs_programmed := cond_True ReasonProgrammed ''Parent gateway is programmed''\<rparr> in
                 (case currentCondition K gateway ConditionReady of
                    None \<Rightarrow> statuses\<lparr>rcs_ready := unavailable ''Parent readiness observation is unavailable''\<rparr>
                  | Some ready \<Rightarrow>
                    if cond_Status ready = ConditionUnknown
                      then statuses\<lparr>rcs_ready := unavailable ''Parent readiness observation is unavailable''\<rparr>
                    else if cond_Status ready \<noteq> ConditionTrue
                      then statuses\<lparr>rcs_ready := cond_False ReasonNotReady ''Parent gateway is not ready''\<rparr>
                    else statuses\<lparr>rcs_ready := cond_True ReasonReady ''Protected route is ready''\<rparr>))))"

definition route_conditions :: "'k kube_lib_scheme \<Rightarrow> routeConditionSet \<Rightarrow> condition list \<Rightarrow> int \<Rightarrow> time \<Rightarrow> condition list" where
  "route_conditions K s previous generation now = Build K previous generation now SummaryOrder
     [ConditionAccepted \<mapsto> rcs_accepted s, ConditionResolvedRefs \<mapsto> rcs_resolved s,
      ConditionProgrammed \<mapsto> rcs_programmed s, ConditionReady \<mapsto> rcs_ready s]"

record 'w VPNEgressRouteReconciler =
  err_Client :: "'w cluster"
  err_APIReader :: "'w cluster option"
  err_Authorizer :: "(string \<Rightarrow> NamespacedObjectReference \<Rightarrow> ('w, GatewayResolution result) call) option"
  err_now :: "('w, time) call"

definition route_authorizer :: "'k kube_lib_scheme \<Rightarrow> 'w VPNEgressRouteReconciler \<Rightarrow> string \<Rightarrow> NamespacedObjectReference \<Rightarrow>
    ('w, GatewayResolution result) call" where
  "route_authorizer K r = (case err_Authorizer r of Some authorize \<Rightarrow> authorize
     | None \<Rightarrow> ResolveGateway K (Some (case err_APIReader r of Some R \<Rightarrow> R | None \<Rightarrow> err_Client r)))"

definition route_initial :: routeConditionSet where
  "route_initial = \<lparr>
     rcs_accepted = cond_True ReasonAccepted ''Route intent is accepted'',
     rcs_resolved = cond_False ReasonRefNotFound ''Parent reference is unresolved'',
     rcs_programmed = cond_False ReasonPending ''Route programming is pending'',
     rcs_ready = cond_False ReasonNotReady ''Protected route is not ready''\<rparr>"

definition route_statuses :: "'k kube_lib_scheme \<Rightarrow> VPNEgressRoute \<Rightarrow> GatewayResolution result \<Rightarrow> routeConditionSet" where
  "route_statuses K route resolution = (case resolution of
     Inl _ \<Rightarrow> route_initial\<lparr>rcs_resolved := unavailable ''Reference authorization is unavailable'',
       rcs_programmed := unavailable ''Route programming observation is unavailable'',
       rcs_ready := unavailable ''Protected route observation is unavailable''\<rparr>
   | Inr res \<Rightarrow>
       if \<not> gres_Permitted res then
         route_initial\<lparr>rcs_resolved := cond_False ReasonRefNotPermitted ''Parent reference is not permitted''\<rparr>
       else case gres_Gateway res of
         None \<Rightarrow> route_initial\<lparr>rcs_resolved := cond_False ReasonRefNotFound ''Parent reference was not found''\<rparr>
       | Some gateway \<Rightarrow> evaluateGateway K route gateway route_initial)"

definition route_desiredStatus ::
  "'k kube_lib_scheme \<Rightarrow> 'w VPNEgressRouteReconciler \<Rightarrow> VPNEgressRoute \<Rightarrow> ('w, VPNEgressRouteStatus option) call" where
  "route_desiredStatus K r route w = (case route_ParentRefs (route_Spec route) of
     [] \<Rightarrow> (None, w)
   | parent # _ \<Rightarrow>
       (case route_authorizer K r (meta_Namespace (route_Meta route))
           \<lparr>oref_Namespace = parent_Namespace parent, oref_Name = parent_Name parent\<rparr> w of (resolution, w1) \<Rightarrow>
        case err_now r w1 of (now, w2) \<Rightarrow>
        let conditions = route_conditions K (route_statuses K route resolution)
              (routest_Conditions (route_Status route)) (meta_Generation (route_Meta route)) now in
        (Some \<lparr>routest_ObservedGeneration = meta_Generation (route_Meta route), routest_Conditions = conditions,
           routest_Parents = [\<lparr>rps_ParentRef = parent, rps_ControllerName = RouteControllerName,
             rps_Conditions = conditions\<rparr>]\<rparr>, w2)))"

text \<open>The outcome of a reconcile call: an optional error, or a panic.\<close>

definition route_Reconcile :: "'k kube_lib_scheme \<Rightarrow> 'w VPNEgressRouteReconciler \<Rightarrow> request \<Rightarrow> ('w, go_error option option) call" where
  "route_Reconcile K r request w = (case k_get (cl_routes (err_Client r)) request w of
     (Inl e, w1) \<Rightarrow> (Some (IgnoreNotFound e), w1)
   | (Inr route, w1) \<Rightarrow>
       if is_deleting (route_Meta route) then (Some None, w1)
       else case route_desiredStatus K r route w1 of
         (None, w2) \<Rightarrow> (None, w2)
       | (Some desired, w2) \<Rightarrow>
           if route_Status route = desired then (Some None, w2)
           else case k_apply_status (cl_routes (err_Client r))
               (route\<lparr>route_Meta := object_meta_zero\<lparr>meta_Name := meta_Name (route_Meta route), meta_Namespace := meta_Namespace (route_Meta route)\<rparr>,
                  route_Status := desired\<rparr>) w2 of
             (None, w3) \<Rightarrow> (Some None, w3)
           | (Some e, w3) \<Rightarrow> (Some (Some (Errorf ''apply VPNEgressRoute status'' [e])), w3))"

section \<open>Lemmas\<close>

lemma currentCondition_True:
  "(\<exists>c. currentCondition K g t = Some c \<and> cond_Status c = ConditionTrue) \<longleftrightarrow>
     CurrentTrue K (gwst_Conditions (gw_Status g)) t (gwst_ObservedGeneration (gw_Status g)) (meta_Generation (gw_Meta g))"
  by (auto simp: currentCondition_def CurrentTrue_def split: option.splits)

text \<open>What a gateway snapshot must say for a route on it to be ready.\<close>

definition gateway_serves :: "'k kube_lib_scheme \<Rightarrow> VPNEgressRoute \<Rightarrow> VPNGateway \<Rightarrow> bool" where
  "gateway_serves K route g \<longleftrightarrow> \<not> is_deleting (gw_Meta g)
     \<and> set (route_RequiredFeatures (route_Spec route)) \<subseteq> set (gwst_SupportedFeatures (gw_Status g))
     \<and> (\<forall>t\<in>{ConditionAccepted, ConditionProgrammed, ConditionReady}.
          CurrentTrue K (gwst_Conditions (gw_Status g)) t (gwst_ObservedGeneration (gw_Status g)) (meta_Generation (gw_Meta g)))"

lemma condition_status_not_True: "s \<noteq> ConditionTrue \<longleftrightarrow> s = ConditionFalse \<or> s = ConditionUnknown"
  by (cases s) auto

lemma evaluateGateway_ready:
  assumes "state_Status (rcs_ready statuses) \<noteq> ConditionTrue"
  shows "state_Status (rcs_ready (evaluateGateway K route g statuses)) = ConditionTrue \<longleftrightarrow> gateway_serves K route g"
proof (cases "is_deleting (gw_Meta g) \<or> gwst_ObservedGeneration (gw_Status g) \<noteq> meta_Generation (gw_Meta g)")
  case True
  then show ?thesis by (auto simp: evaluateGateway_def gateway_serves_def Let_def)
next
  case False
  let ?c = "currentCondition K g"
  have "gateway_serves K route g \<longleftrightarrow> set (route_RequiredFeatures (route_Spec route)) \<subseteq> set (gwst_SupportedFeatures (gw_Status g))
      \<and> (\<exists>a. ?c ConditionAccepted = Some a \<and> cond_Status a = ConditionTrue)
      \<and> (\<exists>p. ?c ConditionProgrammed = Some p \<and> cond_Status p = ConditionTrue)
      \<and> (\<exists>r. ?c ConditionReady = Some r \<and> cond_Status r = ConditionTrue)"
    using False by (simp add: gateway_serves_def currentCondition_True)
  moreover have "state_Status (rcs_ready (evaluateGateway K route g statuses)) = ConditionTrue \<longleftrightarrow> \<dots>"
    using False assms
    by (cases "?c ConditionAccepted"; cases "?c ConditionProgrammed"; cases "?c ConditionReady")
      (auto simp: evaluateGateway_def Let_def list_ex_iff)
  ultimately show ?thesis by simp
qed

lemma evaluateGateway_all:
  assumes "gateway_serves K route g"
  shows "state_Status (rcs_resolved (evaluateGateway K route g route_initial)) = ConditionTrue"
    "state_Status (rcs_accepted (evaluateGateway K route g route_initial)) = ConditionTrue"
    "state_Status (rcs_programmed (evaluateGateway K route g route_initial)) = ConditionTrue"
proof -
  from assms have c: "\<exists>a. currentCondition K g ConditionAccepted = Some a \<and> cond_Status a = ConditionTrue"
      "\<exists>p. currentCondition K g ConditionProgrammed = Some p \<and> cond_Status p = ConditionTrue"
      "\<exists>r. currentCondition K g ConditionReady = Some r \<and> cond_Status r = ConditionTrue"
    by (simp_all add: gateway_serves_def currentCondition_True)
  from assms have "gwst_ObservedGeneration (gw_Status g) = meta_Generation (gw_Meta g)"
    by (auto simp: gateway_serves_def elim: CurrentTrueD)
  with assms c show "state_Status (rcs_resolved (evaluateGateway K route g route_initial)) = ConditionTrue"
    "state_Status (rcs_accepted (evaluateGateway K route g route_initial)) = ConditionTrue"
    "state_Status (rcs_programmed (evaluateGateway K route g route_initial)) = ConditionTrue"
    by (auto simp: evaluateGateway_def gateway_serves_def Let_def list_ex_iff route_initial_def)
qed

lemma route_ready_iff:
  "state_Status (rcs_ready (route_statuses K route x)) = ConditionTrue \<longleftrightarrow>
     (\<exists>res g. x = Inr res \<and> gres_Permitted res \<and> gres_Gateway res = Some g \<and> gateway_serves K route g)"
proof -
  have i: "state_Status (rcs_ready route_initial) \<noteq> ConditionTrue" by (simp add: route_initial_def)
  show ?thesis
    using evaluateGateway_ready [OF i]
    by (cases x) (auto simp: route_statuses_def route_initial_def split: option.splits)
qed

abbreviation route_Ready :: "'k kube_lib_scheme \<Rightarrow> VPNEgressRouteStatus \<Rightarrow> int \<Rightarrow> bool" where
  "route_Ready K s generation \<equiv>
     CurrentTrue K (routest_Conditions s) ConditionReady (routest_ObservedGeneration s) generation"

lemma route_desiredStatusE:
  assumes "route_desiredStatus K r route w = (Some s, w')"
  obtains parent rest x w1 now where "route_ParentRefs (route_Spec route) = parent # rest"
    "route_authorizer K r (meta_Namespace (route_Meta route))
       \<lparr>oref_Namespace = parent_Namespace parent, oref_Name = parent_Name parent\<rparr> w = (x, w1)"
    "routest_ObservedGeneration s = meta_Generation (route_Meta route)"
    "routest_Conditions s = route_conditions K (route_statuses K route x) (routest_Conditions (route_Status route))
       (meta_Generation (route_Meta route)) now"
    "routest_Parents s = [\<lparr>rps_ParentRef = parent, rps_ControllerName = RouteControllerName, rps_Conditions = routest_Conditions s\<rparr>]"
proof (cases "route_ParentRefs (route_Spec route)")
  case Nil
  with assms show thesis by (simp add: route_desiredStatus_def)
next
  case (Cons parent rest)
  obtain x w1 where x: "route_authorizer K r (meta_Namespace (route_Meta route))
       \<lparr>oref_Namespace = parent_Namespace parent, oref_Name = parent_Name parent\<rparr> w = (x, w1)" by fastforce
  obtain now w2 where now: "err_now r w1 = (now, w2)" by fastforce
  from assms Cons x now that [OF Cons x, of now] show thesis by (auto simp: route_desiredStatus_def Let_def)
qed

lemma route_conditions_True:
  assumes "kube_library K" and "t \<in> set SummaryOrder"
  shows "CurrentTrue K (route_conditions K s previous g now) t sg g' \<longleftrightarrow> sg = g' \<and> g = g' \<and> state_Status (state_of
     [ConditionAccepted \<mapsto> rcs_accepted s, ConditionResolvedRefs \<mapsto> rcs_resolved s,
      ConditionProgrammed \<mapsto> rcs_programmed s, ConditionReady \<mapsto> rcs_ready s] t) = ConditionTrue"
  unfolding route_conditions_def
  by (rule kube_library.CurrentTrue_Build [OF assms(1) gateway_order_distinct(2) assms(2)])

lemma route_Ready_statuses:
  assumes "kube_library K" and "routest_ObservedGeneration s = g"
    and "routest_Conditions s = route_conditions K st previous g now"
  shows "route_Ready K s g \<longleftrightarrow> state_Status (rcs_ready st) = ConditionTrue"
  using assms(2,3) route_conditions_True [OF assms(1), of ConditionReady] by (simp add: SummaryOrder_def)

section \<open>Properties\<close>

text \<open>
  C29: A route is published as Ready for its current generation if and only if the authorizer permitted
  the reference and returned the gateway, and that very snapshot is not being deleted, supports every
  feature the route requires, and is Accepted, Programmed and Ready for its own current generation.
\<close>

theorem route_Ready_iff:
  assumes K: "kube_library K" and D: "route_desiredStatus K r route w = (Some s, w')"
  shows "route_Ready K s (meta_Generation (route_Meta route)) \<longleftrightarrow>
    (\<exists>parent rest res g w1. route_ParentRefs (route_Spec route) = parent # rest
       \<and> route_authorizer K r (meta_Namespace (route_Meta route))
           \<lparr>oref_Namespace = parent_Namespace parent, oref_Name = parent_Name parent\<rparr> w = (Inr res, w1)
       \<and> gres_Permitted res \<and> gres_Gateway res = Some g \<and> gateway_serves K route g)"
  using D
proof (rule route_desiredStatusE)
  fix parent rest x w1 now
  assume p: "route_ParentRefs (route_Spec route) = parent # rest"
    and a: "route_authorizer K r (meta_Namespace (route_Meta route))
       \<lparr>oref_Namespace = parent_Namespace parent, oref_Name = parent_Name parent\<rparr> w = (x, w1)"
    and s: "routest_ObservedGeneration s = meta_Generation (route_Meta route)"
      "routest_Conditions s = route_conditions K (route_statuses K route x) (routest_Conditions (route_Status route))
         (meta_Generation (route_Meta route)) now"
  from route_Ready_statuses [OF K s] route_ready_iff [of K route x] p a show ?thesis by auto
qed

definition ex_route_reconciler :: "mem_world VPNEgressRouteReconciler" where
  "ex_route_reconciler = \<lparr>err_Client = mem_cluster, err_APIReader = Some mem_cluster, err_Authorizer = None, err_now = (\<lambda>w. (5, w))\<rparr>"

definition ex_live_gateway :: VPNGateway where
  "ex_live_gateway = (ex_gateway RouteNamespaceAll)\<lparr>gw_Status := \<lparr>gwst_ObservedGeneration = 0, gwst_GatewayClass = None,
     gwst_SupportedFeatures = [FeatureTCP], gwst_Addresses = [], gwst_Conditions =
       map (\<lambda>t. \<lparr>cond_Type = t, cond_Status = ConditionTrue, cond_ObservedGeneration = 0, cond_LastTransitionTime = 0,
         cond_Reason = t, cond_Message = []\<rparr>) [ConditionAccepted, ConditionProgrammed, ConditionReady]\<rparr>\<rparr>"

definition ex_live_world :: mem_world where
  "ex_live_world = mem_world_empty\<lparr>mw_gateways := [((''vpn'', ''g''), ex_live_gateway)]\<rparr>"

lemma ex_route_ready:
  "case fst (route_desiredStatus kube_lib_ref ex_route_reconciler (ex_route ''a'') ex_live_world) of
     Some s \<Rightarrow> route_Ready kube_lib_ref s 0 | None \<Rightarrow> False"
  by code_simp

lemma ex_route_status:
  obtains s w' where "route_desiredStatus kube_lib_ref ex_route_reconciler (ex_route ''a'') ex_live_world = (Some s, w')"
    "route_Ready kube_lib_ref s (meta_Generation (route_Meta (ex_route ''a'')))"
proof -
  have g: "meta_Generation (route_Meta (ex_route ''a'')) = 0" by (simp add: ex_route_def object_meta_zero_def)
  from ex_route_ready obtain s where
    "fst (route_desiredStatus kube_lib_ref ex_route_reconciler (ex_route ''a'') ex_live_world) = Some s" "route_Ready kube_lib_ref s 0"
    by (auto split: option.splits)
  with that g show thesis by (metis prod.collapse)
qed

theorem route_Ready_iff_witness:
  "\<exists>g. gateway_serves kube_lib_ref (ex_route ''a'') g"
  using ex_route_status route_Ready_iff [OF ref.kube_library_axioms] by metis

text \<open>
  C30: The publisher and the consumers of route status agree. When a published route status is read back,
  the enrollment resolver, which insists on all four conditions, calls the route ready exactly when its
  Ready condition is true.
\<close>

theorem route_status_enrollment:
  assumes K: "kube_library K" and D: "route_desiredStatus K r route w = (Some s, w')"
    and "\<not> res_Ready result"
  shows "res_Ready (resolve_route K result (route\<lparr>route_Status := s\<rparr>)) \<longleftrightarrow>
     route_Ready K s (meta_Generation (route_Meta route))"
  using D
proof (rule route_desiredStatusE)
  fix parent rest x w1 now
  let ?st = "route_statuses K route x"
  assume s: "routest_ObservedGeneration s = meta_Generation (route_Meta route)"
      "routest_Conditions s = route_conditions K ?st (routest_Conditions (route_Status route))
         (meta_Generation (route_Meta route)) now"
  have "res_Ready (resolve_route K result (route\<lparr>route_Status := s\<rparr>)) \<longleftrightarrow>
      state_Status (rcs_accepted ?st) = ConditionTrue \<and> state_Status (rcs_resolved ?st) = ConditionTrue
      \<and> state_Status (rcs_programmed ?st) = ConditionTrue \<and> state_Status (rcs_ready ?st) = ConditionTrue"
    using s route_conditions_True [OF K]
    by (subst resolve_route_Ready_iff [OF assms(3)]) (auto simp: SummaryOrder_def)
  moreover have "state_Status (rcs_ready ?st) = ConditionTrue \<Longrightarrow> state_Status (rcs_accepted ?st) = ConditionTrue
      \<and> state_Status (rcs_resolved ?st) = ConditionTrue \<and> state_Status (rcs_programmed ?st) = ConditionTrue"
    using evaluateGateway_all [of K route] by (auto simp: route_ready_iff) (auto simp: route_statuses_def)
  ultimately show ?thesis using route_Ready_statuses [OF K s] by blast
qed

theorem route_status_enrollment_witness:
  "\<exists>s. res_Ready (resolve_route kube_lib_ref Resolution_zero ((ex_route ''a'')\<lparr>route_Status := s\<rparr>))"
proof -
  obtain s w' where s: "route_desiredStatus kube_lib_ref ex_route_reconciler (ex_route ''a'') ex_live_world = (Some s, w')"
    "route_Ready kube_lib_ref s (meta_Generation (route_Meta (ex_route ''a'')))" by (rule ex_route_status)
  have "\<not> res_Ready Resolution_zero" by (simp add: Resolution_zero_def)
  from route_status_enrollment [OF ref.kube_library_axioms s(1) this] s(2) show ?thesis by blast
qed

text \<open>
  C31: Route status is not an existence oracle. For a parent in another namespace, the status published
  at a given time is the same when the gateway is missing and when it exists but its owner does not
  consent to the route's namespace.
\<close>

theorem route_status_no_oracle:
  assumes "route_ParentRefs (route_Spec route) = parent # rest" and "err_Authorizer r = None" and "err_APIReader r = Some R"
    and "meta_Namespace (route_Meta route) \<noteq> []" "parent_Namespace parent \<noteq> []" "parent_Name parent \<noteq> []"
    and "meta_Namespace (route_Meta route) \<noteq> parent_Namespace parent"
    and missing: "k_get (cl_gateways R) (parent_Namespace parent, parent_Name parent) w = (Inl e, w1)" "IsNotFound e"
    and present: "k_get (cl_gateways R) (parent_Namespace parent, parent_Name parent) v = (Inr g, v1)"
    and labels: "k_get (cl_namespaces R) ([], meta_Namespace (route_Meta route)) v1 = (Inr n, v2)"
    and refused: "\<not> consents K g (meta_Labels (ns_Meta n))"
    and clock: "\<And>w. fst (err_now r w) = now"
  shows "fst (route_desiredStatus K r route w) = fst (route_desiredStatus K r route v)"
proof -
  let ?ns = "meta_Namespace (route_Meta route)"
  let ?ref = "\<lparr>oref_Namespace = parent_Namespace parent, oref_Name = parent_Name parent\<rparr>"
  have "fst (ResolveGateway K (Some R) ?ns ?ref w) = Inr GatewayResolution_zero"
    using assms(4-7) missing by (simp add: ResolveGateway_def)
  moreover have "fst (ResolveGateway K (Some R) ?ns ?ref v) = Inr GatewayResolution_zero"
    using assms(4-7) present labels refused
    by (auto simp: ResolveGateway_def consents_def Let_def split: option.splits sum.splits)
  ultimately have "fst (route_authorizer K r ?ns ?ref w) = fst (route_authorizer K r ?ns ?ref v)"
    using assms(2,3) by (simp add: route_authorizer_def)
  with assms(1) clock show ?thesis
    by (cases "route_authorizer K r ?ns ?ref w"; cases "route_authorizer K r ?ns ?ref v")
      (auto simp: route_desiredStatus_def Let_def split: prod.splits; metis fst_conv)
qed

definition ex_app_route :: VPNEgressRoute where
  "ex_app_route = (ex_route ''a'')\<lparr>route_Meta := (route_Meta (ex_route ''a''))\<lparr>meta_Namespace := ''app''\<rparr>\<rparr>"

theorem route_status_no_oracle_witness:
  "fst (route_desiredStatus kube_lib_ref ex_route_reconciler ex_app_route mem_world_empty) =
   fst (route_desiredStatus kube_lib_ref ex_route_reconciler ex_app_route (ex_consent_world ''b''))"
proof (rule route_status_no_oracle [where R = mem_cluster and n = "ex_namespace ''b''"
      and g = "ex_gateway RouteNamespaceSelector" and e = "ApiStatus StatusReasonNotFound" and now = 5])
  show "route_ParentRefs (route_Spec ex_app_route) = [\<lparr>parent_Group = GroupName, parent_Kind = ''VPNGateway'',
      parent_Namespace = ''vpn'', parent_Name = ''g''\<rparr>]"
    by (simp add: ex_app_route_def ex_route_def)
  show "\<not> consents kube_lib_ref (ex_gateway RouteNamespaceSelector) (meta_Labels (ns_Meta (ex_namespace ''b'')))"
    using ex_consents [of "''b''"] by (simp add: ex_namespace_def)
qed (simp_all add: ex_app_route_def ex_route_def ex_route_reconciler_def ex_consent_get del: mem_cluster_gateways,
     simp_all add: ex_consent_defs api_error_defs)

end
