(* ===== verification/Go_Netip.thy ===== *)
theory Go_Netip
  imports Waycloak_Prelude
begin

unbundle bit_operations_syntax

text \<open>
  Go's standard package \<open>net/netip\<close> as far as the sources use it: addresses, prefixes and
  address-port pairs with their parsers, printers and the containment test. IPv4 addresses are
  32-bit words and IPv6 addresses 128-bit words. The lemmas at the end are what the components
  need: the printers and parsers of IPv4 are inverse to each other, and containment of an IPv4
  address is agreement on the network bits.
\<close>

section \<open>Addresses\<close>

datatype addr = AddrZero | Addr4 "32 word" | Addr6 "128 word" string

fun addr_IsValid :: "addr \<Rightarrow> bool" where
  "addr_IsValid AddrZero = False"
| "addr_IsValid _ = True"

fun addr_Is4 :: "addr \<Rightarrow> bool" where
  "addr_Is4 (Addr4 _) = True"
| "addr_Is4 _ = False"

fun addr_Is6 :: "addr \<Rightarrow> bool" where
  "addr_Is6 (Addr6 _ _) = True"
| "addr_Is6 _ = False"

fun addr_BitLen :: "addr \<Rightarrow> nat" where
  "addr_BitLen AddrZero = 0"
| "addr_BitLen (Addr4 _) = 32"
| "addr_BitLen (Addr6 _ _) = 128"

fun addr_hasZone :: "addr \<Rightarrow> bool" where
  "addr_hasZone (Addr6 _ z) = (z \<noteq> [])"
| "addr_hasZone _ = False"

fun addr_withoutZone :: "addr \<Rightarrow> addr" where
  "addr_withoutZone (Addr6 w _) = Addr6 w []"
| "addr_withoutZone a = a"

definition is_4in6 :: "128 word \<Rightarrow> bool" where
  "is_4in6 w \<longleftrightarrow> drop_bit 32 w = 0xffff"

fun addr_Unmap :: "addr \<Rightarrow> addr" where
  "addr_Unmap (Addr6 w z) = (if is_4in6 w then Addr4 (ucast w) else Addr6 w z)"
| "addr_Unmap a = a"

fun addr_Next :: "addr \<Rightarrow> addr" where
  "addr_Next AddrZero = AddrZero"
| "addr_Next (Addr4 w) = (if w + 1 = 0 then AddrZero else Addr4 (w + 1))"
| "addr_Next (Addr6 w z) = (if w + 1 = 0 then AddrZero else Addr6 (w + 1) z)"

section \<open>Parsing addresses\<close>

text \<open>
  A dotted field: one to three digits, no leading zero, at most 255.
\<close>

definition parse_octet :: "string \<Rightarrow> nat option" where
  "parse_octet f =
     (if f = [] \<or> \<not> list_all is_digit f then None
      else if 1 < length f \<and> hd f = CHR ''0'' then None
      else if digits_val f > 255 then None else Some (digits_val f))"

definition word_of_octets :: "nat \<Rightarrow> nat \<Rightarrow> nat \<Rightarrow> nat \<Rightarrow> 32 word" where
  "word_of_octets a b c d =
     push_bit 24 (of_nat a) OR push_bit 16 (of_nat b) OR push_bit 8 (of_nat c) OR of_nat d"

definition parseIPv4Fields :: "string \<Rightarrow> 32 word option" where
  "parseIPv4Fields s =
     (case split_on CHR ''.'' s of
        [a, b, c, d] \<Rightarrow>
          (case (parse_octet a, parse_octet b, parse_octet c, parse_octet d) of
             (Some w, Some x, Some y, Some z) \<Rightarrow> Some (word_of_octets w x y z)
           | _ \<Rightarrow> None)
      | _ \<Rightarrow> None)"

definition hex_val :: "char \<Rightarrow> nat option" where
  "hex_val c =
     (let n = (of_char c :: nat) in
      if 48 \<le> n \<and> n \<le> 57 then Some (n - 48)
      else if 97 \<le> n \<and> n \<le> 102 then Some (n - 87)
      else if 65 \<le> n \<and> n \<le> 70 then Some (n - 55) else None)"

definition hex_group :: "string \<Rightarrow> nat" where
  "hex_group s = foldl (\<lambda>acc c. 16 * acc + (case hex_val c of Some v \<Rightarrow> v | None \<Rightarrow> 0)) 0 s"

text \<open>
  The group loop of \<open>parseIPv6\<close>. The first argument is the number of 16-bit groups still
  missing; the accumulator holds the groups read so far and the position of the ellipsis. The
  result is what is left of the input, the groups and the ellipsis.
\<close>

fun v6_groups :: "nat \<Rightarrow> string \<Rightarrow> nat list \<Rightarrow> nat option \<Rightarrow>
    (string \<times> nat list \<times> nat option) option" where
  "v6_groups 0 s gs e = Some (s, gs, e)"
| "v6_groups (Suc n) s gs e =
     (let h = takeWhile (\<lambda>c. hex_val c \<noteq> None) s; r = drop (length h) s in
      if h = [] \<or> 4 < length h then None
      else if r \<noteq> [] \<and> hd r = CHR ''.'' then
        (if e = None \<and> length gs \<noteq> 6 then None
         else if length gs + 2 > 8 then None
         else (case parseIPv4Fields s of None \<Rightarrow> None
               | Some w \<Rightarrow> Some ([], gs @ [unat (drop_bit 16 w), unat (w AND 0xffff)], e)))
      else
        (let gs' = gs @ [hex_group h] in
         case r of
           [] \<Rightarrow> Some ([], gs', e)
         | c # r1 \<Rightarrow>
             if c \<noteq> CHR '':'' then None
             else (case r1 of [] \<Rightarrow> None
                   | d # r2 \<Rightarrow>
                       if d = CHR '':'' then
                         (if e \<noteq> None then None
                          else if r2 = [] then Some ([], gs', Some (length gs'))
                          else v6_groups n r2 gs' (Some (length gs')))
                       else v6_groups n r1 gs' e)))"

definition word_of_groups :: "nat list \<Rightarrow> 128 word" where
  "word_of_groups gs = foldl (\<lambda>acc g. push_bit 16 acc OR of_nat g) 0 gs"

definition parseIPv6 :: "string \<Rightarrow> addr option" where
  "parseIPv6 inp =
     (let (s, zone, bad) = (case split_first CHR ''%'' inp of
            None \<Rightarrow> (inp, [], False) | Some (a, z) \<Rightarrow> (a, z, z = []));
          (s1, e0) = (if take 2 s = ''::'' then (drop 2 s, Some 0) else (s, None))
      in if bad then None
         else if e0 = Some 0 \<and> s1 = [] then Some (Addr6 0 zone)
         else (case v6_groups 8 s1 [] e0 of None \<Rightarrow> None
               | Some (rest, gs, e) \<Rightarrow>
                   if rest \<noteq> [] then None
                   else if length gs < 8 then
                     (case e of None \<Rightarrow> None
                      | Some k \<Rightarrow> Some (Addr6 (word_of_groups
                            (take k gs @ replicate (8 - length gs) 0 @ drop k gs)) zone))
                   else if e \<noteq> None then None
                   else Some (Addr6 (word_of_groups gs) zone)))"

definition ParseAddr :: "string \<Rightarrow> addr option" where
  "ParseAddr s =
     (case List.find (\<lambda>c. c \<in> {CHR ''.'', CHR '':'', CHR ''%''}) s of
        None \<Rightarrow> None
      | Some c \<Rightarrow>
          if c = CHR ''.'' then map_option Addr4 (parseIPv4Fields s)
          else if c = CHR '':'' then parseIPv6 s else None)"

section \<open>Printing addresses\<close>

definition octet :: "nat \<Rightarrow> 32 word \<Rightarrow> nat" where
  "octet k w = unat (drop_bit k w AND 255)"

definition string4 :: "32 word \<Rightarrow> string" where
  "string4 w = itoa (octet 24 w) @ CHR ''.'' # itoa (octet 16 w) @ CHR ''.'' # itoa (octet 8 w)
     @ CHR ''.'' # itoa (octet 0 w)"

definition hex_char :: "nat \<Rightarrow> char" where
  "hex_char d = (if d < 10 then char_of (48 + d) else char_of (87 + d))"

fun hex_nat :: "nat \<Rightarrow> string" where
  "hex_nat n = (if n < 16 then [hex_char n] else hex_nat (n div 16) @ [hex_char (n mod 16)])"

declare hex_nat.simps [simp del]

definition v6_u16 :: "128 word \<Rightarrow> nat list" where
  "v6_u16 w = map (\<lambda>i. unat (drop_bit (16 * (7 - i)) w AND 0xffff)) [0..<8]"

fun join_colon :: "string list \<Rightarrow> string" where
  "join_colon [] = []"
| "join_colon [x] = x"
| "join_colon (x # xs) = x @ CHR '':'' # join_colon xs"

text \<open>The first longest run of at least two zero groups, as (start, length).\<close>

fun zero_run :: "nat list \<Rightarrow> nat" where
  "zero_run (0 # xs) = Suc (zero_run xs)"
| "zero_run _ = 0"

fun best_run :: "nat \<Rightarrow> nat list \<Rightarrow> nat \<times> nat \<Rightarrow> nat \<times> nat" where
  "best_run i [] best = best"
| "best_run i (x # xs) best =
     (let l = zero_run (x # xs)
      in best_run (Suc i) xs (if 2 \<le> l \<and> snd best < l then (i, l) else best))"

definition string6 :: "128 word \<Rightarrow> string" where
  "string6 w =
     (let gs = v6_u16 w; (i, l) = best_run 0 gs (0, 0)
      in if l = 0 then join_colon (map hex_nat gs)
         else join_colon (map hex_nat (take i gs)) @ ''::'' @ join_colon (map hex_nat (drop (i + l) gs)))"

fun addr_String :: "addr \<Rightarrow> string" where
  "addr_String AddrZero = ''invalid IP''"
| "addr_String (Addr4 w) = string4 w"
| "addr_String (Addr6 w z) =
     (if is_4in6 w then ''::ffff:'' @ string4 (ucast w) else string6 w)
     @ (if z = [] then [] else CHR ''%'' # z)"

section \<open>Prefixes\<close>

text \<open>A prefix is an address with its number of network bits; no bits means invalid.\<close>

datatype prefix = Prefix (pfx_Addr: addr) (pfx_bits: "nat option")

abbreviation prefix_zero :: prefix where
  "prefix_zero \<equiv> Prefix AddrZero None"

definition pfx_IsValid :: "prefix \<Rightarrow> bool" where
  "pfx_IsValid p \<longleftrightarrow> pfx_bits p \<noteq> None"

definition pfx_Bits :: "prefix \<Rightarrow> int" where
  "pfx_Bits p = (case pfx_bits p of None \<Rightarrow> -1 | Some b \<Rightarrow> int b)"

definition PrefixFrom :: "addr \<Rightarrow> int \<Rightarrow> prefix" where
  "PrefixFrom a b =
     Prefix (addr_withoutZone a)
       (if a \<noteq> AddrZero \<and> 0 \<le> b \<and> b \<le> int (addr_BitLen a) then Some (nat b) else None)"

definition mask4 :: "nat \<Rightarrow> 32 word" where
  "mask4 b = push_bit (32 - b) (NOT 0)"

definition mask6 :: "nat \<Rightarrow> 128 word" where
  "mask6 b = push_bit (128 - b) (NOT 0)"

definition pfx_Masked :: "prefix \<Rightarrow> prefix" where
  "pfx_Masked p =
     (case (pfx_Addr p, pfx_bits p) of
        (Addr4 w, Some b) \<Rightarrow> if b \<le> 32 then Prefix (Addr4 (w AND mask4 b)) (Some b) else prefix_zero
      | (Addr6 w z, Some b) \<Rightarrow> if b \<le> 128 then Prefix (Addr6 (w AND mask6 b) []) (Some b) else prefix_zero
      | _ \<Rightarrow> prefix_zero)"

definition pfx_Contains :: "prefix \<Rightarrow> addr \<Rightarrow> bool" where
  "pfx_Contains p a =
     (case (pfx_Addr p, pfx_bits p, a) of
        (Addr4 n, Some b, Addr4 w) \<Rightarrow> drop_bit (32 - b) (w XOR n) = 0
      | (Addr6 n _, Some b, Addr6 w z) \<Rightarrow> z = [] \<and> (w XOR n) AND mask6 b = 0
      | _ \<Rightarrow> False)"

definition pfx_String :: "prefix \<Rightarrow> string" where
  "pfx_String p =
     (case pfx_bits p of None \<Rightarrow> ''invalid Prefix''
      | Some b \<Rightarrow> addr_String (pfx_Addr p) @ CHR ''/'' # itoa b)"

definition ParsePrefix :: "string \<Rightarrow> prefix option" where
  "ParsePrefix s =
     (case split_last CHR ''/'' s of None \<Rightarrow> None
      | Some (ip, bits) \<Rightarrow>
          (case ParseAddr ip of None \<Rightarrow> None
           | Some a \<Rightarrow>
               if addr_hasZone a then None
               else if 1 < length bits \<and> (\<not> is_digit (hd bits) \<or> hd bits = CHR ''0'') then None
               else (case ParseInt32 bits of None \<Rightarrow> None
                     | Some b \<Rightarrow> if b < 0 \<or> b > int (addr_BitLen a) then None
                                 else Some (PrefixFrom a b))))"

section \<open>Address-port pairs\<close>

datatype addrport = AddrPort (ap_Addr: addr) (ap_Port: "16 word")

abbreviation addrport_zero :: addrport where
  "addrport_zero \<equiv> AddrPort AddrZero 0"

definition ap_IsValid :: "addrport \<Rightarrow> bool" where
  "ap_IsValid p \<longleftrightarrow> addr_IsValid (ap_Addr p)"

definition ap_String :: "addrport \<Rightarrow> string" where
  "ap_String p =
     (case ap_Addr p of
        AddrZero \<Rightarrow> ''invalid AddrPort''
      | Addr4 w \<Rightarrow> string4 w @ CHR '':'' # itoa (unat (ap_Port p))
      | Addr6 w z \<Rightarrow> CHR ''['' # addr_String (Addr6 w z) @ '']:'' @ itoa (unat (ap_Port p)))"

definition splitAddrPort :: "string \<Rightarrow> (string \<times> string \<times> bool) option" where
  "splitAddrPort s =
     (case split_last CHR '':'' s of None \<Rightarrow> None
      | Some (ip, port) \<Rightarrow>
          if ip = [] \<or> port = [] then None
          else if hd ip = CHR ''['' then
            (if length ip < 2 \<or> last ip \<noteq> CHR '']'' then None else Some (butlast (tl ip), port, True))
          else Some (ip, port, False))"

definition ParseAddrPort :: "string \<Rightarrow> addrport option" where
  "ParseAddrPort s =
     (case splitAddrPort s of None \<Rightarrow> None
      | Some (ip, port, v6) \<Rightarrow>
          (case ParseUint16 port of None \<Rightarrow> None
           | Some n \<Rightarrow>
               (case ParseAddr ip of None \<Rightarrow> None
                | Some a \<Rightarrow>
                    if v6 \<and> addr_Is4 a then None
                    else if \<not> v6 \<and> addr_Is6 a then None
                    else Some (AddrPort a (of_nat n)))))"

section \<open>IPv4 printing and parsing are inverse\<close>

lemma octet_less: "octet k w < 256"
proof -
  have "octet k w = unat (take_bit 8 (drop_bit k w))"
    by (simp add: octet_def take_bit_eq_mask mask_eq_exp_minus_1)
  also have "\<dots> < 2 ^ 8"
    using take_bit_nat_less_exp [of 8 "unat (drop_bit k w)"] by (simp add: unsigned_take_bit_eq)
  finally show ?thesis by simp
qed

lemma parse_octet_itoa: "n < 256 \<Longrightarrow> parse_octet (itoa n) = Some n"
proof -
  assume n: "n < 256"
  have "\<not> (1 < length (itoa n) \<and> hd (itoa n) = CHR ''0'')"
  proof (cases "n = 0")
    case True
    then show ?thesis by (simp add: itoa_0)
  next
    case False
    then show ?thesis using itoa_no_leading_zero by blast
  qed
  with n show ?thesis by (simp add: parse_octet_def)
qed

lemma not_in_itoa [simp]:
  "CHR ''.'' \<notin> set (itoa n)" "CHR '':'' \<notin> set (itoa n)" "CHR ''/'' \<notin> set (itoa n)"
  "CHR ''%'' \<notin> set (itoa n)"
  by (auto dest!: is_digit_itoa simp: is_digit_def)

lemma split_on_string4:
  "split_on CHR ''.'' (string4 w) =
     [itoa (octet 24 w), itoa (octet 16 w), itoa (octet 8 w), itoa (octet 0 w)]"
  by (simp add: string4_def split_on_append split_on_no_sep)

lemma word_of_octets_octet:
  "word_of_octets (octet 24 w) (octet 16 w) (octet 8 w) (octet 0 w) = w"
proof -
  have m: "(255 :: 32 word) = mask 8" by (simp add: mask_eq_exp_minus_1)
  show ?thesis
    unfolding word_of_octets_def octet_def m
  proof (rule bit_word_eqI)
    fix n assume "n < LENGTH(32)"
    then consider "n < 8" | "8 \<le> n" "n < 16" | "16 \<le> n" "n < 24" | "24 \<le> n" "n < 32"
      by fastforce
    then show "bit (push_bit 24 (of_nat (unat (drop_bit 24 w AND mask 8)) :: 32 word)
        OR push_bit 16 (of_nat (unat (drop_bit 16 w AND mask 8)))
        OR push_bit 8 (of_nat (unat (drop_bit 8 w AND mask 8)))
        OR of_nat (unat (drop_bit 0 w AND mask 8))) n = bit w n"
      by cases (auto simp: bit_simps)
  qed
qed

lemma parseIPv4Fields_string4: "parseIPv4Fields (string4 w) = Some w"
  by (simp add: parseIPv4Fields_def split_on_string4 parse_octet_itoa octet_less
      word_of_octets_octet)

lemma find_dot_string4:
  "List.find (\<lambda>c. c \<in> {CHR ''.'', CHR '':'', CHR ''%''}) (string4 w) = Some CHR ''.''"
proof -
  have "List.find (\<lambda>c. c \<in> {CHR ''.'', CHR '':'', CHR ''%''}) (xs @ CHR ''.'' # ys) = Some CHR ''.''"
    if "\<forall>x \<in> set xs. is_digit x" for xs ys
    using that by (induction xs) (auto simp: is_digit_def)
  then show ?thesis
    using is_digit_itoa by (simp add: string4_def)
qed

lemma ParseAddr_string4 [simp]: "ParseAddr (string4 w) = Some (Addr4 w)"
  using find_dot_string4 [of w] by (simp add: ParseAddr_def parseIPv4Fields_string4)

lemma itoa_small_head:
  assumes "1 < length (itoa n)"
  shows "is_digit (hd (itoa n)) \<and> hd (itoa n) \<noteq> CHR ''0''"
proof -
  have "n \<noteq> 0" using assms by (metis One_nat_def itoa_0 length_Cons less_irrefl list.size(3))
  then show ?thesis
    using itoa_no_leading_zero is_digit_itoa hd_in_set itoa_nonempty by blast
qed

theorem ParsePrefix_String4:
  assumes "b \<le> 32"
  shows "ParsePrefix (pfx_String (Prefix (Addr4 w) (Some b))) = Some (Prefix (Addr4 w) (Some b))"
proof -
  have "split_last CHR ''/'' (string4 w @ CHR ''/'' # itoa b) = Some (string4 w, itoa b)"
    by (rule split_last_append) simp
  moreover have "ParseInt32 (itoa b) = Some (int b)"
    using assms by (intro ParseInt32_itoa) simp
  ultimately show ?thesis
    using assms itoa_small_head [of b]
    by (auto simp: ParsePrefix_def pfx_String_def PrefixFrom_def)
qed

lemma string4_no_colon: "CHR '':'' \<notin> set (string4 w)"
  by (auto simp: string4_def)

lemma string4_head: "string4 w \<noteq> [] \<and> hd (string4 w) \<noteq> CHR ''[''"
proof -
  have "is_digit (hd (itoa (octet 24 w)))"
    by (rule is_digit_itoa) (rule hd_in_set, simp)
  then show ?thesis by (auto simp: string4_def hd_append is_digit_def)
qed

theorem ParseAddrPort_String4: "ParseAddrPort (ap_String (AddrPort (Addr4 w) p)) = Some (AddrPort (Addr4 w) p)"
proof -
  have "split_last CHR '':'' (string4 w @ CHR '':'' # itoa (unat p)) = Some (string4 w, itoa (unat p))"
    by (rule split_last_append) simp
  moreover have "ParseUint16 (itoa (unat p)) = Some (unat p)"
    using unsigned_less [of p] by (intro ParseUint16_itoa) simp
  ultimately show ?thesis
    using string4_head [of w] by (auto simp: ParseAddrPort_def splitAddrPort_def ap_String_def)
qed

section \<open>Containment and masking of IPv4 prefixes\<close>

lemma unat_drop_bit_div: "unat (drop_bit k (w :: 'a::len word)) = unat w div 2 ^ k"
  by (simp only: unat_drop_bit_eq drop_bit_eq_div [where 'a = nat])

lemma pfx_Contains4:
  "pfx_Contains (Prefix (Addr4 n) (Some b)) (Addr4 w) \<longleftrightarrow>
     unat w div 2 ^ (32 - b) = unat n div 2 ^ (32 - b)"
proof -
  have "drop_bit (32 - b) (w XOR n) = 0 \<longleftrightarrow> drop_bit (32 - b) w = drop_bit (32 - b) n"
    by (auto simp: bit_eq_iff bit_simps)
  also have "\<dots> \<longleftrightarrow> unat (drop_bit (32 - b) w) = unat (drop_bit (32 - b) n)"
    by (simp add: word_unat_eq_iff)
  finally show ?thesis
    by (simp add: pfx_Contains_def unat_drop_bit_div)
qed

lemma pfx_Contains_4D: "pfx_Contains p (Addr4 w) \<Longrightarrow> \<exists>n b. p = Prefix (Addr4 n) (Some b)"
  by (cases p) (auto simp: pfx_Contains_def split: addr.splits option.splits)

lemma unat_mask4:
  assumes "b \<le> 32"
  shows "unat (w AND mask4 b) = unat w div 2 ^ (32 - b) * 2 ^ (32 - b)"
proof -
  let ?k = "32 - b" and ?x = "w AND mask4 b"
  have "drop_bit ?k ?x = drop_bit ?k w"
    unfolding mask4_def by (rule bit_word_eqI) (auto simp: bit_simps dest: bit_imp_le_length)
  then have d: "unat ?x div 2 ^ ?k = unat w div 2 ^ ?k"
    by (metis unat_drop_bit_div)
  have "take_bit ?k ?x = 0"
    unfolding mask4_def by (rule bit_word_eqI) (auto simp: bit_simps)
  then have "unat ?x mod 2 ^ ?k = 0"
    by (metis take_bit_eq_mod unsigned_take_bit_eq unsigned_0)
  with d show ?thesis
    by (metis add.right_neutral div_mult_mod_eq)
qed

lemma pfx_Masked4:
  "b \<le> 32 \<Longrightarrow> pfx_Masked (Prefix (Addr4 w) (Some b)) = Prefix (Addr4 (w AND mask4 b)) (Some b)"
  by (simp add: pfx_Masked_def)

lemma pfx_Masked_idem: "pfx_Masked (pfx_Masked p) = pfx_Masked p"
  by (cases p) (auto simp: pfx_Masked_def and.assoc split: addr.splits option.splits)

end
