(* ===== verification/Go_Sha256.thy ===== *)
theory Go_Sha256
  imports Waycloak_Prelude
begin

unbundle bit_operations_syntax

text \<open>
  Go's standard packages \<open>crypto/sha256\<close> and \<open>encoding/hex\<close>. The sources use SHA-256 as a
  fingerprint: for object names, allocation identities, probe seeds, file names and interface
  names. The definitions of the components take the fingerprint as a parameter of the locale
  \<open>digest\<close>, which asks only for a 32-byte result; the interpretation at the end shows that
  SHA-256 is one. No theorem assumes that distinct inputs have distinct fingerprints unless it
  says so.
\<close>

section \<open>SHA-256\<close>

definition sha_K :: "32 word list" where
  "sha_K = [
   1116352408, 1899447441, 3049323471, 3921009573, 961987163, 1508970993, 2453635748, 2870763221,
   3624381080, 310598401, 607225278, 1426881987, 1925078388, 2162078206, 2614888103, 3248222580,
   3835390401, 4022224774, 264347078, 604807628, 770255983, 1249150122, 1555081692, 1996064986,
   2554220882, 2821834349, 2952996808, 3210313671, 3336571891, 3584528711, 113926993, 338241895,
   666307205, 773529912, 1294757372, 1396182291, 1695183700, 1986661051, 2177026350, 2456956037,
   2730485921, 2820302411, 3259730800, 3345764771, 3516065817, 3600352804, 4094571909, 275423344,
   430227734, 506948616, 659060556, 883997877, 958139571, 1322822218, 1537002063, 1747873779,
   1955562222, 2024104815, 2227730452, 2361852424, 2428436474, 2756734187, 3204031479, 3329325298]"

definition sha_H0 :: "32 word list" where
  "sha_H0 = [1779033703, 3144134277, 1013904242, 2773480762,
             1359893119, 2600822924, 528734635, 1541459225]"

definition rotr32 :: "nat \<Rightarrow> 32 word \<Rightarrow> 32 word" where
  "rotr32 n x = drop_bit n x OR push_bit (32 - n) x"

fun be32 :: "8 word list \<Rightarrow> 32 word list" where
  "be32 (a # b # c # d # r) =
     (push_bit 24 (ucast a) OR push_bit 16 (ucast b) OR push_bit 8 (ucast c) OR ucast d) # be32 r"
| "be32 _ = []"

text \<open>The message schedule is kept with its newest word first.\<close>

definition sched_next :: "32 word list \<Rightarrow> 32 word" where
  "sched_next r =
     (let w2 = r ! 1; w7 = r ! 6; w15 = r ! 14; w16 = r ! 15;
          s0 = rotr32 7 w15 XOR rotr32 18 w15 XOR drop_bit 3 w15;
          s1 = rotr32 17 w2 XOR rotr32 19 w2 XOR drop_bit 10 w2
      in s1 + w7 + s0 + w16)"

fun sched :: "nat \<Rightarrow> 32 word list \<Rightarrow> 32 word list" where
  "sched 0 r = r"
| "sched (Suc n) r = sched n (sched_next r # r)"

fun sha_round :: "32 word list \<Rightarrow> 32 word \<times> 32 word \<Rightarrow> 32 word list" where
  "sha_round [a, b, c, d, e, f, g, h] (k, w) =
     (let t1 = h + (rotr32 6 e XOR rotr32 11 e XOR rotr32 25 e)
                 + ((e AND f) XOR (NOT e AND g)) + k + w;
          t2 = (rotr32 2 a XOR rotr32 13 a XOR rotr32 22 a)
                 + ((a AND b) XOR (a AND c) XOR (b AND c))
      in [t1 + t2, a, b, c, d + t1, e, f, g])"
| "sha_round s _ = s"

definition sha_block :: "32 word list \<Rightarrow> 8 word list \<Rightarrow> 32 word list" where
  "sha_block h blk =
     (let ws = rev (sched 48 (rev (be32 blk)))
      in map2 (+) h (foldl sha_round h (zip sha_K ws)))"

fun chunk64 :: "nat \<Rightarrow> 8 word list \<Rightarrow> 8 word list list" where
  "chunk64 0 bs = []"
| "chunk64 (Suc n) bs = take 64 bs # chunk64 n (drop 64 bs)"

definition be_bytes4 :: "32 word \<Rightarrow> 8 word list" where
  "be_bytes4 w = [ucast (drop_bit 24 w), ucast (drop_bit 16 w), ucast (drop_bit 8 w), ucast w]"

definition be_bytes8 :: "64 word \<Rightarrow> 8 word list" where
  "be_bytes8 w = be_bytes4 (ucast (drop_bit 32 w)) @ be_bytes4 (ucast w)"

definition sha_pad :: "8 word list \<Rightarrow> 8 word list" where
  "sha_pad m = m @ [128] @ replicate ((119 - length m mod 64) mod 64) 0
     @ be_bytes8 (of_nat (8 * length m))"

definition sha256 :: "8 word list \<Rightarrow> 8 word list" where
  "sha256 m = (let p = sha_pad m in
     concat (map be_bytes4 (foldl sha_block sha_H0 (chunk64 (length p div 64) p))))"

text \<open>\<open>sha256.Sum256([]byte(s))\<close>.\<close>

definition Sum256 :: "string \<Rightarrow> 8 word list" where
  "Sum256 s = sha256 (map of_char s)"

section \<open>Hexadecimal encoding\<close>

definition hex_digit :: "8 word \<Rightarrow> char" where
  "hex_digit d = (let n = unat d in if n < 10 then char_of (48 + n) else char_of (87 + n))"

definition EncodeToString :: "8 word list \<Rightarrow> string" where
  "EncodeToString bs = concat (map (\<lambda>b. [hex_digit (drop_bit 4 b), hex_digit (b AND 15)]) bs)"

lemma length_EncodeToString [simp]: "length (EncodeToString bs) = 2 * length bs"
  by (induction bs) (auto simp: EncodeToString_def)

section \<open>What the components use\<close>

locale digest =
  fixes H :: "string \<Rightarrow> 8 word list"
  assumes length_H: "length (H s) = 32"
begin

lemma take_H: "k \<le> 32 \<Longrightarrow> length (take k (H s)) = k"
  by (simp add: length_H)

lemma hex_prefix_length: "k \<le> 32 \<Longrightarrow> length (EncodeToString (take k (H s))) = 2 * k"
  by (simp add: length_H)

end

lemma length_sha_round [simp]: "length (sha_round s kw) = length s"
  by (induction s kw rule: sha_round.induct) (auto simp: Let_def)

lemma length_foldl_sha_round [simp]: "length (foldl sha_round s kws) = length s"
  by (induction kws arbitrary: s) auto

lemma length_foldl_sha_block [simp]: "length (foldl sha_block h blks) = length h"
  by (induction blks arbitrary: h) (auto simp: sha_block_def Let_def)

lemma length_concat_be_bytes4 [simp]: "length (concat (map be_bytes4 ws)) = 4 * length ws"
  by (induction ws) (auto simp: be_bytes4_def)

lemma length_sha256 [simp]: "length (sha256 m) = 32"
  by (simp add: sha256_def Let_def sha_H0_def)

interpretation sha: digest Sum256
  by unfold_locales (simp add: Sum256_def)

end
