(* ===== verification/Binding_Allocation.thy ===== *)
theory Binding_Allocation
  imports V1beta1 Go_Netip Go_Sha256
begin

text \<open>
  \<open>src/internal/binding/allocation.go\<close>: address reservations as coordination leases, one per
  address of a gateway pool, and \<open>src/internal/allocation/allocator.go\<close>. The digest is the
  parameter \<open>H\<close> (\<open>sha256.Sum256\<close> in the program). The probe loop of \<open>Reserve\<close> retries an address
  whose lease vanished between the create and the get, so it may run for ever against an adversarial
  server: it is a partial function, and it is proved to return when nobody interferes.
\<close>

section \<open>Leases\<close>

abbreviation ReservationManagedByLabel :: string where
  "ReservationManagedByLabel \<equiv> ''networking.waycloak.io/managed-by''"
abbreviation ReservationGatewayLabel :: string where
  "ReservationGatewayLabel \<equiv> ''networking.waycloak.io/gateway-identity''"
abbreviation ReservationManagedByValue :: string where "ReservationManagedByValue \<equiv> ''binding-controller''"
abbreviation ReservationGatewayUIDAnnotation :: string where
  "ReservationGatewayUIDAnnotation \<equiv> ''networking.waycloak.io/gateway-uid''"
abbreviation ReservationPodUIDAnnotation :: string where
  "ReservationPodUIDAnnotation \<equiv> ''networking.waycloak.io/pod-uid''"
abbreviation ReservationAddressAnnotation :: string where
  "ReservationAddressAnnotation \<equiv> ''networking.waycloak.io/address''"
abbreviation ReservationStateAnnotation :: string where
  "ReservationStateAnnotation \<equiv> ''networking.waycloak.io/reservation-state''"
abbreviation ReservationStateActive :: string where "ReservationStateActive \<equiv> ''Active''"
abbreviation ReservationStateQuarantined :: string where "ReservationStateQuarantined \<equiv> ''Quarantined''"

definition ErrPoolExhausted :: go_error where
  "ErrPoolExhausted = Err ''gateway workload address pool is exhausted''"
definition ErrUnsafePool :: go_error where
  "ErrUnsafePool = Err ''gateway workload address pool is not safely allocatable''"
definition ErrReservationConflict :: go_error where
  "ErrReservationConflict = Err ''address reservation belongs to another allocation''"
definition ErrReservationDeleting :: go_error where
  "ErrReservationDeleting = Err ''address reservation deletion is still in progress''"
definition ErrIdentityQuarantined :: go_error where
  "ErrIdentityQuarantined = Err ''allocation identity has a quarantined address''"

record Reservation =
  resv_Lease :: lease
  resv_Identity :: string
  resv_Address :: prefix
  resv_Recovered :: bool

text \<open>The clock field stands for \<open>a.now()\<close>, the injected or the system clock.\<close>

record 'w Allocator =
  a_Client :: "'w cluster option"
  a_Reader :: "'w cluster option"
  a_now :: "('w, time) call"

definition a_reader :: "'w Allocator \<Rightarrow> 'w cluster \<Rightarrow> ('w, lease) kube_client" where
  "a_reader a C = (case a_Reader a of Some R \<Rightarrow> cl_leases R | None \<Rightarrow> cl_leases C)"

definition shortHash :: "(string \<Rightarrow> 8 word list) \<Rightarrow> string \<Rightarrow> string" where
  "shortHash H v = EncodeToString (take 10 (H v))"

definition allocationIdentity :: "(string \<Rightarrow> 8 word list) \<Rightarrow> string \<Rightarrow> string \<Rightarrow> string" where
  "allocationIdentity H gatewayUID podUID = ''alloc-'' @ EncodeToString (take 16 (H
     (''waycloak-allocation-v1'' @ [CHR 0x00] @ gatewayUID @ [CHR 0x00] @ podUID)))"

definition BindingName :: "(string \<Rightarrow> 8 word list) \<Rightarrow> string \<Rightarrow> string" where
  "BindingName H podUID = ''pod-'' @ shortHash H podUID"

definition reservationName :: "(string \<Rightarrow> 8 word list) \<Rightarrow> string \<Rightarrow> prefix \<Rightarrow> string" where
  "reservationName H gatewayUID address =
     ''waycloak-address-'' @ shortHash H (gatewayUID @ [CHR 0x00] @ pfx_String address)"

definition desiredLease :: "(string \<Rightarrow> 8 word list) \<Rightarrow> time \<Rightarrow> object_meta \<Rightarrow> string \<Rightarrow> string \<Rightarrow> prefix \<Rightarrow> lease" where
  "desiredLease H now gateway podUID identity address = \<lparr>
     lease_Meta = object_meta_zero\<lparr>
       meta_Name := reservationName H (meta_UID gateway) address,
       meta_Namespace := meta_Namespace gateway,
       meta_Labels := [ReservationManagedByLabel \<mapsto> ReservationManagedByValue,
                       ReservationGatewayLabel \<mapsto> shortHash H (meta_UID gateway)],
       meta_Annotations := [ReservationGatewayUIDAnnotation \<mapsto> meta_UID gateway,
                            ReservationPodUIDAnnotation \<mapsto> podUID,
                            ReservationAddressAnnotation \<mapsto> pfx_String address,
                            ReservationStateAnnotation \<mapsto> ReservationStateActive],
       meta_OwnerReferences := [\<lparr>owner_APIVersion = ''networking.waycloak.io/v1beta1'',
         owner_Kind = ''VPNGateway'', owner_Name = meta_Name gateway, owner_UID = meta_UID gateway,
         owner_Controller = False\<rparr>]\<rparr>,
     lease_HolderIdentity = Some identity, lease_AcquireTime = Some now\<rparr>"

definition lease_annotation :: "lease \<Rightarrow> string \<Rightarrow> string" where
  "lease_annotation l k = map_index (meta_Annotations (lease_Meta l)) k"

definition reservationMatches :: "lease \<Rightarrow> string \<Rightarrow> string \<Rightarrow> string \<Rightarrow> prefix \<Rightarrow> bool" where
  "reservationMatches l gatewayUID podUID identity address \<longleftrightarrow>
     lease_HolderIdentity l = Some identity
     \<and> lease_annotation l ReservationGatewayUIDAnnotation = gatewayUID
     \<and> lease_annotation l ReservationPodUIDAnnotation = podUID
     \<and> lease_annotation l ReservationAddressAnnotation = pfx_String address
     \<and> lease_annotation l ReservationStateAnnotation = ReservationStateActive"

definition quarantineMatches :: "lease \<Rightarrow> string \<Rightarrow> string \<Rightarrow> string \<Rightarrow> prefix \<Rightarrow> bool" where
  "quarantineMatches l gatewayUID podUID identity address \<longleftrightarrow>
     lease_HolderIdentity l = Some identity
     \<and> lease_annotation l ReservationGatewayUIDAnnotation = gatewayUID
     \<and> lease_annotation l ReservationPodUIDAnnotation = podUID
     \<and> lease_annotation l ReservationAddressAnnotation = pfx_String address
     \<and> lease_annotation l ReservationStateAnnotation = ReservationStateQuarantined"

section \<open>Reserve\<close>

definition probe_value :: "32 word \<Rightarrow> 32 word \<Rightarrow> 32 word \<Rightarrow> 32 word \<Rightarrow> 32 word" where
  "probe_value baseValue start usable attempt = baseValue + (2 + (start + attempt) mod usable)"

definition probe_prefix :: "32 word \<Rightarrow> 32 word \<Rightarrow> 32 word \<Rightarrow> 32 word \<Rightarrow> prefix" where
  "probe_prefix baseValue start usable attempt = PrefixFrom (Addr4 (probe_value baseValue start usable attempt)) 32"

text \<open>
  The loop of \<open>Reserve\<close>: \<open>attempt--\<close> before the \<open>continue\<close> undoes the increment, but only when
  \<open>attempt\<close> is positive.
\<close>

partial_function (option) reserve_loop ::
  "(string \<Rightarrow> 8 word list) \<Rightarrow> 'w Allocator \<Rightarrow> 'w cluster \<Rightarrow> object_meta \<Rightarrow> string \<Rightarrow> string \<Rightarrow>
   32 word \<Rightarrow> 32 word \<Rightarrow> 32 word \<Rightarrow> 32 word \<Rightarrow> 'w \<Rightarrow> (Reservation result \<times> 'w) option" where
  "reserve_loop H a C gateway podUID identity baseValue start usable attempt w =
     (if attempt < usable then
        (let prefix = probe_prefix baseValue start usable attempt in
         case a_now a w of (now, w0) \<Rightarrow>
         let l = desiredLease H now gateway podUID identity prefix in
         case k_create (cl_leases C) l w0 of
           (Inr created, w1) \<Rightarrow>
             Some (Inr \<lparr>resv_Lease = created, resv_Identity = identity, resv_Address = prefix, resv_Recovered = False\<rparr>, w1)
         | (Inl e, w1) \<Rightarrow>
             if \<not> IsAlreadyExists e
               then Some (Inl (Errorf ''create durable address reservation'' [e]), w1)
             else case k_get (a_reader a C) (lease_key l) w1 of
               (Inl e', w2) \<Rightarrow>
                 if IsNotFound e'
                   then reserve_loop H a C gateway podUID identity baseValue start usable
                          ((if attempt > 0 then attempt - 1 else attempt) + 1) w2
                 else Some (Inl (Errorf ''read conflicting address reservation'' [e']), w2)
             | (Inr existing, w2) \<Rightarrow>
                 if reservationMatches existing (meta_UID gateway) podUID identity prefix
                   then Some (Inr \<lparr>resv_Lease = existing, resv_Identity = identity, resv_Address = prefix,
                                   resv_Recovered = True\<rparr>, w2)
                 else reserve_loop H a C gateway podUID identity baseValue start usable (attempt + 1) w2)
      else Some (Inl ErrPoolExhausted, w))"

definition probe_start :: "(string \<Rightarrow> 8 word list) \<Rightarrow> string \<Rightarrow> 32 word \<Rightarrow> 32 word" where
  "probe_start H podUID usable = (
     let seed = H podUID in
     (push_bit 24 (ucast (seed ! 0)) OR push_bit 16 (ucast (seed ! 1))
      OR push_bit 8 (ucast (seed ! 2)) OR ucast (seed ! 3)) mod usable)"

definition usable_hosts :: "prefix \<Rightarrow> 32 word" where
  "usable_hosts pool = push_bit (nat (32 - pfx_Bits pool)) 1 - 3"

definition listed_reservations :: "(string \<Rightarrow> 8 word list) \<Rightarrow> object_meta \<Rightarrow> lease \<Rightarrow> bool" where
  "listed_reservations H gateway l \<longleftrightarrow> meta_Namespace (lease_Meta l) = meta_Namespace gateway
     \<and> meta_Labels (lease_Meta l) ReservationManagedByLabel = Some ReservationManagedByValue
     \<and> meta_Labels (lease_Meta l) ReservationGatewayLabel = Some (shortHash H (meta_UID gateway))"

definition holds_quarantine :: "lease \<Rightarrow> string \<Rightarrow> string \<Rightarrow> string \<Rightarrow> bool" where
  "holds_quarantine l gatewayUID podUID identity \<longleftrightarrow>
     lease_annotation l ReservationGatewayUIDAnnotation = gatewayUID
     \<and> lease_annotation l ReservationPodUIDAnnotation = podUID
     \<and> lease_HolderIdentity l = Some identity
     \<and> lease_annotation l ReservationStateAnnotation = ReservationStateQuarantined"

definition Reserve :: "(string \<Rightarrow> 8 word list) \<Rightarrow> 'w Allocator \<Rightarrow> VPNGateway option \<Rightarrow> string \<Rightarrow> prefix \<Rightarrow>
    'w \<Rightarrow> (Reservation result \<times> 'w) option" where
  "Reserve H a gateway podUID pool w = (case (a_Client a, gateway) of
     (Some C, Some g) \<Rightarrow>
       if meta_UID (gw_Meta g) = [] \<or> podUID = []
         then Some (Inl (Err ''client and exact gateway and Pod UIDs are required''), w)
       else let pool = pfx_Masked pool in
       if \<not> pfx_IsValid pool \<or> \<not> addr_Is4 (pfx_Addr pool) \<or> pfx_Bits pool < 16 \<or> pfx_Bits pool > 29
         then Some (Inl (Errorf ''require an IPv4 /16 through /29 pool'' [ErrUnsafePool]), w)
       else let identity = allocationIdentity H (meta_UID (gw_Meta g)) podUID in
       (case k_list (a_reader a C) (listed_reservations H (gw_Meta g)) w of
          (Inl e, w1) \<Rightarrow> Some (Inl (Errorf ''inspect durable address reservations'' [e]), w1)
        | (Inr reservations, w1) \<Rightarrow>
            if list_ex (\<lambda>l. holds_quarantine l (meta_UID (gw_Meta g)) podUID identity) reservations
              then Some (Inl ErrIdentityQuarantined, w1)
            else let usable = usable_hosts pool in
              case pfx_Addr pool of
                Addr4 baseValue \<Rightarrow>
                  reserve_loop H a C (gw_Meta g) podUID identity baseValue (probe_start H podUID usable) usable 0 w1
              | _ \<Rightarrow> None)
   | _ \<Rightarrow> Some (Inl (Err ''client and exact gateway and Pod UIDs are required''), w))"

section \<open>Quarantine, release and ensure\<close>

definition binding_gateway_meta :: "VPNWorkloadBinding \<Rightarrow> object_meta" where
  "binding_gateway_meta b = object_meta_zero\<lparr>
     meta_Name := nref_Name (bind_GatewayRef (bind_Spec b)),
     meta_Namespace := nref_Namespace (bind_GatewayRef (bind_Spec b)),
     meta_UID := nref_UID (bind_GatewayRef (bind_Spec b))\<rparr>"

definition set_annotation :: "lease \<Rightarrow> string \<Rightarrow> string \<Rightarrow> lease" where
  "set_annotation l k v = l\<lparr>lease_Meta := (lease_Meta l)\<lparr>
     meta_Annotations := (meta_Annotations (lease_Meta l))(k \<mapsto> v)\<rparr>\<rparr>"

definition Quarantine :: "(string \<Rightarrow> 8 word list) \<Rightarrow> 'w Allocator \<Rightarrow> VPNWorkloadBinding \<Rightarrow> ('w, go_error option) call" where
  "Quarantine H a b w = (case a_Client a of
     None \<Rightarrow> (Some (Err ''client and binding are required''), w)
   | Some C \<Rightarrow> (case ParsePrefix (alloc_Address (bind_Allocation (bind_Spec b))) of
       None \<Rightarrow> (Some (Errorf ''parse binding address for quarantine'' []), w)
     | Some address \<Rightarrow>
         let gateway = binding_gateway_meta b;
             podUID = lref_UID (bind_PodRef (bind_Spec b));
             identity = alloc_Identity (bind_Allocation (bind_Spec b)) in
         case a_now a w of (now, w0) \<Rightarrow>
         let desired = set_annotation (desiredLease H now gateway podUID identity address)
                         ReservationStateAnnotation ReservationStateQuarantined in
         (case k_create (cl_leases C) desired w0 of
            (Inr _, w1) \<Rightarrow> (None, w1)
          | (Inl e, w1) \<Rightarrow>
              if \<not> IsAlreadyExists e then (Some (Errorf ''create durable quarantine'' [e]), w1)
              else (case k_get (a_reader a C) (lease_key desired) w1 of
                (Inl e', w2) \<Rightarrow> (Some (Errorf ''read address reservation for quarantine'' [e']), w2)
              | (Inr current, w2) \<Rightarrow>
                  if is_deleting (lease_Meta current) then (Some ErrReservationDeleting, w2)
                  else if lease_annotation current ReservationStateAnnotation = ReservationStateQuarantined then
                    (if quarantineMatches current (meta_UID gateway) podUID identity address
                       then (None, w2) else (Some ErrReservationConflict, w2))
                  else if \<not> reservationMatches current (meta_UID gateway) podUID identity address
                    then (Some ErrReservationConflict, w2)
                  else k_patch (cl_leases C) current
                         (set_annotation current ReservationStateAnnotation ReservationStateQuarantined) w2))))"

definition ReservationForBinding :: "(string \<Rightarrow> 8 word list) \<Rightarrow> VPNWorkloadBinding \<Rightarrow> object_key result" where
  "ReservationForBinding H b = (case ParsePrefix (alloc_Address (bind_Allocation (bind_Spec b))) of
     None \<Rightarrow> Inl (Errorf ''parse binding allocation address'' [])
   | Some address \<Rightarrow> Inr (nref_Namespace (bind_GatewayRef (bind_Spec b)),
       reservationName H (nref_UID (bind_GatewayRef (bind_Spec b))) address))"

definition Release :: "(string \<Rightarrow> 8 word list) \<Rightarrow> 'w Allocator \<Rightarrow> VPNWorkloadBinding \<Rightarrow> ('w, go_error option) call" where
  "Release H a b w = (case a_Client a of
     None \<Rightarrow> (Some (Err ''client and binding are required''), w)
   | Some C \<Rightarrow> (case ReservationForBinding H b of
       Inl e \<Rightarrow> (Some e, w)
     | Inr key \<Rightarrow> (case k_get (a_reader a C) key w of
         (Inl e, w1) \<Rightarrow> (IgnoreNotFound e, w1)
       | (Inr current, w1) \<Rightarrow> (case ParsePrefix (alloc_Address (bind_Allocation (bind_Spec b))) of
           None \<Rightarrow> (Some (Errorf ''parse'' []), w1)
         | Some address \<Rightarrow>
             if \<not> reservationMatches current (nref_UID (bind_GatewayRef (bind_Spec b)))
                   (lref_UID (bind_PodRef (bind_Spec b))) (alloc_Identity (bind_Allocation (bind_Spec b))) address
               then (Some ErrReservationConflict, w1)
             else (case k_delete (cl_leases C) current w1 of (e, w2) \<Rightarrow> (Option.bind e IgnoreNotFound, w2))))))"

definition Ensure :: "(string \<Rightarrow> 8 word list) \<Rightarrow> 'w Allocator \<Rightarrow> VPNGateway \<Rightarrow> VPNWorkloadBinding \<Rightarrow>
    ('w, lease result) call" where
  "Ensure H a g b w = (case a_Client a of
     None \<Rightarrow> (Inl (Err ''client, gateway, and binding are required''), w)
   | Some C \<Rightarrow> (case ParsePrefix (alloc_Address (bind_Allocation (bind_Spec b))) of
       None \<Rightarrow> (Inl (Errorf ''parse binding address'' []), w)
     | Some address \<Rightarrow>
         let podUID = lref_UID (bind_PodRef (bind_Spec b));
             identity = alloc_Identity (bind_Allocation (bind_Spec b)) in
         case a_now a w of (now, w0) \<Rightarrow>
         let l = desiredLease H now (gw_Meta g) podUID identity address in
         (case k_create (cl_leases C) l w0 of
            (Inr created, w1) \<Rightarrow> (Inr created, w1)
          | (Inl e, w1) \<Rightarrow>
              if \<not> IsAlreadyExists e then (Inl (Errorf ''restore durable address reservation'' [e]), w1)
              else (case k_get (a_reader a C) (lease_key l) w1 of
                (Inl e', w2) \<Rightarrow> (Inl (Errorf ''read durable address reservation'' [e']), w2)
              | (Inr existing, w2) \<Rightarrow>
                  if \<not> reservationMatches existing (meta_UID (gw_Meta g)) podUID identity address
                    then (Inl ErrReservationConflict, w2) else (Inr existing, w2)))))"

fun overlay_cidr_loop :: "GatewayAddress list \<Rightarrow> prefix result" where
  "overlay_cidr_loop [] = Inl (Err ''gateway has no observed overlay CIDR'')"
| "overlay_cidr_loop (x # xs) =
     (if ga_Type x \<noteq> GatewayAddressTypeOverlayCIDR then overlay_cidr_loop xs
      else case ParsePrefix (ga_Value x) of
        None \<Rightarrow> Inl (Errorf ''parse observed gateway overlay CIDR'' [])
      | Some p \<Rightarrow> Inr (pfx_Masked p))"

definition ParseOverlayCIDR :: "VPNGateway \<Rightarrow> prefix result" where
  "ParseOverlayCIDR g = overlay_cidr_loop (gwst_Addresses (gw_Status g))"

section \<open>The lowest free address\<close>

text \<open>
  \<open>allocation.Next\<close>. The address after the last one is the zero address, which no prefix contains,
  so the loop stops; the measure is the distance to the end of the address space. The prefix is an
  IPv4 prefix there, so an address it contains is an IPv4 address; the second conjunct of the loop
  condition only makes that visible to the measure.
\<close>

definition ErrExhausted :: go_error where
  "ErrExhausted = Err ''overlay address pool exhausted''"

lemma addr_Next_dist:
  assumes "(x :: 32 word) + 1 \<noteq> 0"
  shows "4294967296 - unat (x + 1) < 4294967296 - unat x"
proof -
  have "unat (1 + x) = Suc (unat x)" by (rule unatSuc) (use assms in \<open>simp add: add.commute\<close>)
  then have "unat (x + 1) = Suc (unat x)" by (simp only: add.commute)
  moreover have "unat x < 4294967296" using unsigned_less [of x, where 'a = nat] by simp
  ultimately show ?thesis by linarith
qed

function next_loop :: "prefix \<Rightarrow> (addr \<Rightarrow> bool) \<Rightarrow> addr \<Rightarrow> addr result" where
  "next_loop prefix used a =
     (if pfx_Contains prefix a \<and> addr_Is4 a then
        if addr_IsValid (addr_Next a) \<and> pfx_Contains prefix (addr_Next a) \<and> \<not> used a then Inr a
        else next_loop prefix used (addr_Next a)
      else Inl ErrExhausted)"
  by pat_completeness auto
termination
  by (relation "measure (\<lambda>(_, _, a). case a of Addr4 w \<Rightarrow> Suc (2 ^ 32 - unat w) | _ \<Rightarrow> 0)")
    (auto simp: addr_Next_dist split: addr.splits)

definition Next :: "string \<Rightarrow> (addr \<Rightarrow> bool) \<Rightarrow> addr result" where
  "Next cidr used = (case ParsePrefix cidr of
     None \<Rightarrow> Inl (Errorf ''invalid IPv4 overlay CIDR'' [])
   | Some prefix \<Rightarrow>
       if \<not> addr_Is4 (pfx_Addr prefix) then Inl (Errorf ''invalid IPv4 overlay CIDR'' [])
       else let prefix = pfx_Masked prefix in
       if pfx_Bits prefix > 30 then Inl (Errorf ''overlay CIDR has no client addresses'' [])
       else next_loop prefix used (addr_Next (addr_Next (pfx_Addr prefix))))"

definition GatewayOverlayAddress :: "string \<Rightarrow> addr result" where
  "GatewayOverlayAddress cidr = (case ParsePrefix cidr of
     None \<Rightarrow> Inl (Errorf ''invalid IPv4 overlay CIDR'' [])
   | Some p \<Rightarrow>
       if \<not> addr_Is4 (pfx_Addr p) then Inl (Errorf ''invalid IPv4 overlay CIDR'' [])
       else Inr (addr_Next (pfx_Addr (pfx_Masked p))))"

section \<open>Lemmas on the probe order\<close>

lemma usable_hosts_unat:
  assumes "16 \<le> b" "b \<le> 29"
  shows "unat (usable_hosts (Prefix x (Some b))) = 2 ^ (32 - b) - 3"
proof -
  have "b = 16 \<or> b = 17 \<or> b = 18 \<or> b = 19 \<or> b = 20 \<or> b = 21 \<or> b = 22 \<or> b = 23
      \<or> b = 24 \<or> b = 25 \<or> b = 26 \<or> b = 27 \<or> b = 28 \<or> b = 29" using assms by arith
  then show ?thesis
    by (elim disjE; simp add: usable_hosts_def pfx_Bits_def)
qed

lemma masked_base:
  assumes "pfx_Masked pool = Prefix (Addr4 base) (Some b)"
  shows "b \<le> 32" "unat base = unat base div 2 ^ (32 - b) * 2 ^ (32 - b)"
proof -
  from assms obtain w where w: "b \<le> 32" "base = w AND mask4 b"
    by (cases pool) (auto simp: pfx_Masked_def split: addr.splits option.splits if_splits)
  then show "b \<le> 32" by simp
  from w show "unat base = unat base div 2 ^ (32 - b) * 2 ^ (32 - b)" by (simp add: unat_mask4)
qed

lemma unat_add_no_wrap: "unat x + k < 2 ^ 32 \<Longrightarrow> unat y = k \<Longrightarrow> unat ((x :: 32 word) + y) = unat x + k"
  by (simp add: unat_word_ariths(1))

locale ipv4_pool =
  fixes base :: "32 word" and b :: nat and usable :: "32 word"
  assumes bits: "16 \<le> b" "b \<le> 29"
    and aligned: "unat base = unat base div 2 ^ (32 - b) * 2 ^ (32 - b)"
    and usable: "unat usable = 2 ^ (32 - b) - 3"
begin

abbreviation hosts :: nat where "hosts \<equiv> 2 ^ (32 - b)"

lemma hosts_bounds: "8 \<le> hosts" "hosts \<le> 65536"
proof -
  have "(2::nat) ^ 3 \<le> 2 ^ (32 - b)" using bits by (intro power_increasing) auto
  then show "8 \<le> hosts" by simp
  have "(2::nat) ^ (32 - b) \<le> 2 ^ 16" using bits by (intro power_increasing) auto
  then show "hosts \<le> 65536" by simp
qed

lemma base_top: "unat base + hosts \<le> 2 ^ 32"
proof -
  have "unat base < 2 ^ 32" using unsigned_less [of base, where 'a = nat] by simp
  moreover have "(2::nat) ^ 32 = 2 ^ b * hosts" using bits by (simp flip: power_add)
  ultimately have "unat base div hosts < 2 ^ b" by (simp add: less_mult_imp_div_less)
  then have "Suc (unat base div hosts) * hosts \<le> 2 ^ b * hosts" by (intro mult_right_mono) auto
  then show ?thesis using aligned \<open>2 ^ 32 = 2 ^ b * hosts\<close> by simp
qed

lemma probe_offset:
  obtains k where "k < hosts - 3" "unat (probe_value base start usable attempt) = unat base + 2 + k"
    "k = unat ((start + attempt) mod usable)"
proof -
  let ?k = "unat ((start + attempt) mod usable)"
  have pos: "0 < unat usable" using usable hosts_bounds by simp
  have k: "?k < hosts - 3" using pos usable by (simp add: unat_mod)
  have "unat (2 + (start + attempt) mod usable) = 2 + ?k"
    using unat_add_no_wrap [of 2 ?k "(start + attempt) mod usable"] k hosts_bounds by simp
  then have "unat (probe_value base start usable attempt) = unat base + (2 + ?k)"
    unfolding probe_value_def using k base_top by (intro unat_add_no_wrap) auto
  with k that show thesis by simp
qed

lemma probe_bounds:
  "unat base + 2 \<le> unat (probe_value base start usable attempt)"
  "unat (probe_value base start usable attempt) \<le> unat base + hosts - 2"
  using hosts_bounds by (auto intro: probe_offset [of start attempt])

lemma probe_contained: "pfx_Contains (Prefix (Addr4 base) (Some b)) (Addr4 (probe_value base start usable attempt))"
proof -
  let ?v = "unat (probe_value base start usable attempt)" and ?q = "unat base div hosts"
  have "?q * hosts \<le> ?v" "?v < Suc ?q * hosts"
    using probe_bounds [of start attempt] hosts_bounds aligned by auto
  then have "?v div hosts = ?q" by (intro div_nat_eqI) (auto simp: mult.commute)
  then show ?thesis by (simp add: pfx_Contains4)
qed

text \<open>Every client address of the pool is probed.\<close>

lemma probe_covers:
  assumes "unat base + 2 \<le> unat v" "unat v \<le> unat base + hosts - 2" "start < usable"
  obtains attempt where "attempt < usable" "probe_value base start usable attempt = v"
proof -
  define k where "k = unat v - (unat base + 2)"
  define u where "u = hosts - 3"
  define n where "n = unat start"
  have k: "k < u" using assms hosts_bounds by (simp add: k_def u_def)
  have s: "n < u" using assms usable by (simp add: word_less_nat_alt n_def u_def)
  define t where "t = (if n \<le> k then k - n else k + u - n)"
  have "n + t = k \<or> n + t = k + u" "t < u" using k s by (auto simp: t_def)
  then have t: "t < u" "(n + t) mod u = k" using k by auto
  let ?a = "of_nat t :: 32 word"
  have a: "unat ?a = t" using t hosts_bounds by (simp add: unat_of_nat take_bit_nat_eq_self u_def)
  have "unat (start + ?a) = n + t"
    unfolding n_def using s t a hosts_bounds by (intro unat_add_no_wrap) (auto simp: u_def n_def)
  then have m: "unat ((start + ?a) mod usable) = k" using t usable by (simp add: unat_mod u_def)
  have "unat (probe_value base start usable ?a) = unat v"
    by (rule probe_offset [of start ?a]) (use assms m in \<open>simp add: k_def\<close>)
  then have "probe_value base start usable ?a = v" by (simp add: word_unat_eq_iff)
  moreover have "?a < usable" using a t usable by (simp add: word_less_nat_alt u_def)
  ultimately show thesis using that by blast
qed

end

lemma ipv4_pool_masked:
  assumes "pfx_Masked pool = Prefix (Addr4 base) (Some b)" "16 \<le> b" "b \<le> 29"
  shows "ipv4_pool base b (usable_hosts (pfx_Masked pool))"
  by unfold_locales (use assms masked_base(2) [OF assms(1)] usable_hosts_unat in auto)

interpretation pool: ipv4_pool "w AND mask4 (16 + k mod 14)" "16 + k mod 14"
    "usable_hosts (pfx_Masked (Prefix (Addr4 w) (Some (16 + k mod 14))))" for w :: "32 word" and k :: nat
proof -
  have "16 + k mod 14 \<le> 29" using mod_less_divisor [of 14 k] by linarith
  then show "ipv4_pool (w AND mask4 (16 + k mod 14)) (16 + k mod 14)
      (usable_hosts (pfx_Masked (Prefix (Addr4 w) (Some (16 + k mod 14)))))"
    by (intro ipv4_pool_masked) (auto simp: pfx_Masked4)
qed

section \<open>Lemmas on leases\<close>

lemma lease_key_desired [simp]:
  "lease_key (desiredLease H now g p i address) = (meta_Namespace g, reservationName H (meta_UID g) address)"
  by (simp add: desiredLease_def meta_key_def)

lemma lease_key_set_annotation [simp]: "lease_key (set_annotation l k v) = lease_key l"
  by (simp add: set_annotation_def meta_key_def)

lemma lease_annotation_set [simp]:
  "lease_annotation (set_annotation l k v) k' = (if k' = k then v else lease_annotation l k')"
  "lease_HolderIdentity (set_annotation l k v) = lease_HolderIdentity l"
  by (simp_all add: set_annotation_def lease_annotation_def)

lemma desired_annotations [simp]:
  "lease_annotation (desiredLease H now g p i x) ReservationGatewayUIDAnnotation = meta_UID g"
  "lease_annotation (desiredLease H now g p i x) ReservationPodUIDAnnotation = p"
  "lease_annotation (desiredLease H now g p i x) ReservationAddressAnnotation = pfx_String x"
  "lease_annotation (desiredLease H now g p i x) ReservationStateAnnotation = ReservationStateActive"
  "lease_HolderIdentity (desiredLease H now g p i x) = Some i"
  by (simp_all add: desiredLease_def lease_annotation_def map_index_def)

lemma lease_same_annotation: "lease_same x y \<Longrightarrow> lease_annotation y k = lease_annotation x k"
  by (simp add: lease_same_def same_meta_def lease_annotation_def)

lemma lease_same_holder: "lease_same x y \<Longrightarrow> lease_HolderIdentity y = lease_HolderIdentity x"
  by (simp add: lease_same_def)

lemmas lease_same_sel = lease_same_annotation lease_same_holder

lemma created_matches:
  "lease_same (desiredLease H now g p i x) y \<Longrightarrow> reservationMatches y (meta_UID g) p i x"
  by (simp add: reservationMatches_def lease_same_sel)

lemma matches_exclusive:
  assumes "reservationMatches l g p i x" "reservationMatches l g' p' i' x'"
  shows "g' = g \<and> p' = p \<and> i' = i"
  using assms by (simp add: reservationMatches_def)

lemma matches_not_quarantined:
  "reservationMatches l g p i x \<Longrightarrow> \<not> quarantineMatches l g' p' i' x'"
  by (simp add: reservationMatches_def quarantineMatches_def)

section \<open>Lemmas on the probe loop\<close>

text \<open>What a successful reservation says of the store right after it, whoever else is writing.\<close>

definition reserved :: "(string \<Rightarrow> 8 word list) \<Rightarrow> ('w \<Rightarrow> object_key \<rightharpoonup> lease) \<Rightarrow> object_meta \<Rightarrow> string \<Rightarrow> string \<Rightarrow>
    Reservation \<Rightarrow> 'w \<Rightarrow> bool" where
  "reserved H st g p i r w \<longleftrightarrow>
     st w (meta_Namespace g, reservationName H (meta_UID g) (resv_Address r)) = Some (resv_Lease r)
     \<and> reservationMatches (resv_Lease r) (meta_UID g) p i (resv_Address r) \<and> resv_Identity r = i"

lemma reserve_loop_sound:
  assumes "reserve_loop H a C g p i base start usable attempt w = Some y" and "y = (Inr r, w')"
    and "lease_store (cl_leases C) st" and "lease_store (a_reader a C) st"
  shows "(\<exists>n < usable. resv_Address r = probe_prefix base start usable n) \<and> reserved H st g p i r w'"
  using assms(2-4)
proof (induction H a C g p i base start usable attempt w y rule: reserve_loop.raw_induct)
  case (1 loop H a C g p i base start usable attempt w y)
  note C = \<open>lease_store (cl_leases C) st\<close> and R = \<open>lease_store (a_reader a C) st\<close>
  note body = "1.hyps" [unfolded Let_def]
  from body \<open>y = (Inr r, w')\<close> have less: "attempt < usable"
    by (auto split: if_splits)
  let ?x = "probe_prefix base start usable attempt"
  obtain now w0 where now: "a_now a w = (now, w0)" by fastforce
  let ?l = "desiredLease H now g p i ?x"
  obtain c w1 where c: "k_create (cl_leases C) ?l w0 = (c, w1)" by fastforce
  show ?case
  proof (cases c)
    case (Inr l)
    with body now c less \<open>y = (Inr r, w')\<close>
    have r: "r = \<lparr>resv_Lease = l, resv_Identity = i, resv_Address = ?x, resv_Recovered = False\<rparr>" "w' = w1"
      by auto
    from Inr c have "k_create (cl_leases C) ?l w0 = (Inr l, w1)" by simp
    from object_store.create_ok [OF C this] have "st w1 (lease_key ?l) = Some l" "lease_same ?l l" by auto
    with r less show ?thesis by (auto simp: reserved_def created_matches)
  next
    case (Inl e)
    with body now c less \<open>y = (Inr r, w')\<close> have exists: "IsAlreadyExists e" by (auto split: if_splits)
    obtain d w2 where d: "k_get (a_reader a C) (lease_key ?l) w1 = (d, w2)" by fastforce
    show ?thesis
    proof (cases d)
      case (Inr l)
      show ?thesis
      proof (cases "reservationMatches l (meta_UID g) p i ?x")
        case True
        with body now c less Inl exists d Inr \<open>y = (Inr r, w')\<close>
        have r: "r = \<lparr>resv_Lease = l, resv_Identity = i, resv_Address = ?x, resv_Recovered = True\<rparr>" "w' = w2"
          by auto
        from d Inr have "k_get (a_reader a C) (lease_key ?l) w1 = (Inr l, w2)" by simp
        from object_store.get_ok [OF R this] r less True show ?thesis by (auto simp: reserved_def)
      next
        case False
        with body now c less Inl exists d Inr have "loop H a C g p i base start usable (attempt + 1) w2 = Some y"
          by auto
        from "1.IH" [OF this \<open>y = (Inr r, w')\<close> C R] show ?thesis .
      qed
    next
      case (Inl e')
      with body now c less \<open>c = Inl e\<close> exists d \<open>y = (Inr r, w')\<close>
      have "loop H a C g p i base start usable ((if attempt > 0 then attempt - 1 else attempt) + 1) w2 = Some y"
        by (auto split: if_splits)
      from "1.IH" [OF this \<open>y = (Inr r, w')\<close> C R] show ?thesis .
    qed
  qed
qed (rule assms(1))

text \<open>
  The abstract view of one address: free, held or quarantined for an owner (gateway UID, Pod UID and
  allocation identity), or something else's. An owner may claim a free address, release or quarantine
  the one it holds, and quarantine a free one.
\<close>

type_synonym owner = "string \<times> string \<times> string"

datatype addr_state = Free | Held owner | Quarantined owner | Foreign

definition lease_owner :: "lease \<Rightarrow> string \<Rightarrow> owner" where
  "lease_owner l i = (lease_annotation l ReservationGatewayUIDAnnotation,
     lease_annotation l ReservationPodUIDAnnotation, i)"

definition addr_state_of :: "lease option \<Rightarrow> addr_state" where
  "addr_state_of x = (case x of None \<Rightarrow> Free
   | Some l \<Rightarrow> (case lease_HolderIdentity l of None \<Rightarrow> Foreign
     | Some i \<Rightarrow>
         if lease_annotation l ReservationStateAnnotation = ReservationStateActive then Held (lease_owner l i)
         else if lease_annotation l ReservationStateAnnotation = ReservationStateQuarantined
           then Quarantined (lease_owner l i)
         else Foreign))"

inductive owner_step :: "owner \<Rightarrow> addr_state \<Rightarrow> addr_state \<Rightarrow> bool" for ow where
  claim: "owner_step ow Free (Held ow)"
| release: "owner_step ow (Held ow) Free"
| quarantine_held: "owner_step ow (Held ow) (Quarantined ow)"
| quarantine_free: "owner_step ow Free (Quarantined ow)"

inductive_simps owner_step_simps: "owner_step ow a b"

text \<open>Every address makes at most one step of the owner.\<close>

definition owner_moves :: "owner \<Rightarrow> (object_key \<rightharpoonup> lease) \<Rightarrow> (object_key \<rightharpoonup> lease) \<Rightarrow> bool" where
  "owner_moves ow s s' \<longleftrightarrow> (\<forall>k. addr_state_of (s' k) = addr_state_of (s k)
     \<or> owner_step ow (addr_state_of (s k)) (addr_state_of (s' k)))"

lemma owner_moves_refl [simp]: "owner_moves ow s s"
  by (simp add: owner_moves_def)

lemma owner_moves_upd:
  "owner_step ow (addr_state_of (s k)) (addr_state_of x) \<Longrightarrow> owner_moves ow s (s(k := x))"
  by (simp add: owner_moves_def)

lemma addr_state_matches: "reservationMatches l g p i x \<Longrightarrow> addr_state_of (Some l) = Held (g, p, i)"
  by (simp add: reservationMatches_def addr_state_of_def lease_owner_def)

lemma addr_state_quarantine: "quarantineMatches l g p i x \<Longrightarrow> addr_state_of (Some l) = Quarantined (g, p, i)"
  by (simp add: quarantineMatches_def addr_state_of_def lease_owner_def)

lemma addr_state_None [simp]: "addr_state_of None = Free"
  by (simp add: addr_state_of_def)

lemma claim_moves:
  "s k = None \<Longrightarrow> reservationMatches l g p i x \<Longrightarrow> owner_moves (g, p, i) s (s(k \<mapsto> l))"
  by (rule owner_moves_upd) (simp add: addr_state_matches owner_step_simps)

text \<open>
  Without interference the loop returns: it takes the first address in probe order whose lease is
  absent or its own, and reports exhaustion, leaving the store as it was, when there is none.
\<close>

definition available :: "(string \<Rightarrow> 8 word list) \<Rightarrow> (object_key \<rightharpoonup> lease) \<Rightarrow> object_meta \<Rightarrow> string \<Rightarrow> string \<Rightarrow> prefix \<Rightarrow> bool" where
  "available H s g p i x = (case s (meta_Namespace g, reservationName H (meta_UID g) x) of
     None \<Rightarrow> True | Some l \<Rightarrow> reservationMatches l (meta_UID g) p i x)"

lemma word_succ_unat: "(a :: 32 word) < b \<Longrightarrow> unat (a + 1) = Suc (unat a)"
  using unsigned_less [of b, where 'a = nat] by (intro unat_add_no_wrap [where k = 1, simplified])
    (auto simp: word_less_nat_alt)

lemma reserve_loop_quiet:
  assumes C: "quiet_lease_store (cl_leases C) st" and R: "quiet_lease_store (a_reader a C) st"
    and clock: "\<And>w. st (snd (a_now a w)) = st w"
  shows "\<exists>y w'. reserve_loop H a C g p i base start usable attempt w = Some (y, w') \<and>
    (case y of
       Inr r \<Rightarrow> (\<exists>n. attempt \<le> n \<and> n < usable \<and> resv_Address r = probe_prefix base start usable n
          \<and> available H (st w) g p i (probe_prefix base start usable n))
          \<and> owner_moves (meta_UID g, p, i) (st w) (st w')
     | Inl e \<Rightarrow> e = ErrPoolExhausted \<and> st w' = st w
          \<and> (\<forall>n. attempt \<le> n \<and> n < usable \<longrightarrow> \<not> available H (st w) g p i (probe_prefix base start usable n)))"
    (is "\<exists>y w'. _ \<and> ?Q attempt w y w'")
proof (induction "unat usable - unat attempt" arbitrary: attempt w rule: less_induct)
  case less
  show ?case
  proof (cases "attempt < usable")
    case False
    then show ?thesis
      by (subst reserve_loop.simps) (auto dest: order.strict_trans1)
  next
    case True
    let ?x = "probe_prefix base start usable attempt"
    obtain now w0 where now: "a_now a w = (now, w0)" by fastforce
    with clock [of w] have w0: "st w0 = st w" by simp
    let ?l = "desiredLease H now g p i ?x" and ?k = "(meta_Namespace g, reservationName H (meta_UID g) ?x)"
    show ?thesis
    proof (cases "st w ?k")
      case None
      with w0 quiet_store.create_fresh [OF C, of w0 ?l] obtain l w1
        where l: "k_create (cl_leases C) ?l w0 = (Inr l, w1)" "lease_same ?l l" "st w1 = (st w)(?k \<mapsto> l)" by auto
      have "owner_moves (meta_UID g, p, i) (st w) (st w1)"
        unfolding l(3) by (rule claim_moves, rule None, rule created_matches [OF l(2)])
      with True now None l(1) show ?thesis
        by (subst reserve_loop.simps) (auto simp: Let_def available_def intro!: exI [of _ attempt])
    next
      case (Some l)
      with w0 quiet_store.create_taken [OF C, of w0 ?l] obtain e w1
        where c: "k_create (cl_leases C) ?l w0 = (Inl e, w1)" "IsAlreadyExists e" "st w1 = st w0" by auto
      then have s1: "st w1 ?k = Some l" using Some w0 by simp
      obtain d w2 where d: "k_get (a_reader a C) ?k w1 = (d, w2)" by fastforce
      with quiet_store.get_found [OF R s1] have dl: "d = Inr l" by simp
      from d quiet_store.get_frame [OF R, of ?k w1] have s2: "st w2 = st w" using c w0 by simp
      show ?thesis
      proof (cases "reservationMatches l (meta_UID g) p i ?x")
        case match: True
        with True now c d dl Some s2 show ?thesis
          by (subst reserve_loop.simps) (auto simp: Let_def available_def intro!: exI [of _ attempt])
      next
        case nomatch: False
        have step: "reserve_loop H a C g p i base start usable attempt w =
            reserve_loop H a C g p i base start usable (attempt + 1) w2"
          by (subst reserve_loop.simps) (use True now c d dl nomatch in \<open>simp add: Let_def\<close>)
        have un: "unat (attempt + 1) = Suc (unat attempt)" by (rule word_succ_unat [OF True])
        then have "unat usable - unat (attempt + 1) < unat usable - unat attempt"
          using True by (simp add: word_less_nat_alt)
        from less [OF this, of w2] obtain y w' where
          IH: "reserve_loop H a C g p i base start usable (attempt + 1) w2 = Some (y, w')" "?Q (attempt + 1) w2 y w'"
          by blast
        have na: "\<not> available H (st w) g p i ?x" using Some nomatch by (simp add: available_def)
        have le: "attempt \<le> n \<longleftrightarrow> n = attempt \<or> attempt + 1 \<le> n" for n
          using un by (auto simp: word_le_nat_alt word_unat_eq_iff)
        have "?Q attempt w y w'"
          using IH(2) na le s2 by (cases y) auto
        with step IH(1) show ?thesis by auto
      qed
    qed
  qed
qed

section \<open>Lemmas on Reserve\<close>

lemma Reserve_pool:
  assumes "a_Client a = Some C" "meta_UID (gw_Meta g) \<noteq> []" "podUID \<noteq> []"
    and "pfx_Masked pool = Prefix (Addr4 base) (Some b)" "16 \<le> b" "b \<le> 29"
  shows "Reserve H a (Some g) podUID pool w =
    (let identity = allocationIdentity H (meta_UID (gw_Meta g)) podUID;
         usable = usable_hosts (pfx_Masked pool) in
     case k_list (a_reader a C) (listed_reservations H (gw_Meta g)) w of
       (Inl e, w1) \<Rightarrow> Some (Inl (Errorf ''inspect durable address reservations'' [e]), w1)
     | (Inr reservations, w1) \<Rightarrow>
         if list_ex (\<lambda>l. holds_quarantine l (meta_UID (gw_Meta g)) podUID identity) reservations
           then Some (Inl ErrIdentityQuarantined, w1)
         else reserve_loop H a C (gw_Meta g) podUID identity base (probe_start H podUID usable) usable 0 w1)"
  using assms by (simp add: Reserve_def Let_def pfx_IsValid_def pfx_Bits_def split: prod.split sum.split)

lemma Reserve_InrE:
  assumes "Reserve H a (Some g) podUID pool w = Some (Inr r, w')"
  obtains C base b reservations w1 where "a_Client a = Some C"
    "pfx_Masked pool = Prefix (Addr4 base) (Some b)" "16 \<le> b" "b \<le> 29"
    "k_list (a_reader a C) (listed_reservations H (gw_Meta g)) w = (Inr reservations, w1)"
    "\<not> list_ex (\<lambda>l. holds_quarantine l (meta_UID (gw_Meta g)) podUID
         (allocationIdentity H (meta_UID (gw_Meta g)) podUID)) reservations"
    "reserve_loop H a C (gw_Meta g) podUID (allocationIdentity H (meta_UID (gw_Meta g)) podUID) base
       (probe_start H podUID (usable_hosts (pfx_Masked pool))) (usable_hosts (pfx_Masked pool)) 0 w1 = Some (Inr r, w')"
proof -
  obtain C where C: "a_Client a = Some C" and ids: "meta_UID (gw_Meta g) \<noteq> []" "podUID \<noteq> []"
    using assms by (cases "a_Client a") (auto simp: Reserve_def split: if_splits)
  have v: "pfx_IsValid (pfx_Masked pool)" "addr_Is4 (pfx_Addr (pfx_Masked pool))"
    "\<not> pfx_Bits (pfx_Masked pool) < 16" "\<not> pfx_Bits (pfx_Masked pool) > 29"
    using assms C ids by (auto simp: Reserve_def Let_def split: if_splits)
  obtain base b where pool: "pfx_Masked pool = Prefix (Addr4 base) (Some b)" "16 \<le> b" "b \<le> 29"
    using v by (cases "pfx_Masked pool"; cases "pfx_Addr (pfx_Masked pool)")
      (auto simp: pfx_IsValid_def pfx_Bits_def)
  obtain x w1 where x: "k_list (a_reader a C) (listed_reservations H (gw_Meta g)) w = (x, w1)" by fastforce
  note R = Reserve_pool [OF C ids pool, of H w]
  show thesis
  proof (cases x)
    case (Inl e)
    with R x assms show thesis by (simp add: Let_def)
  next
    case (Inr ls)
    with R x assms that [OF C pool] show thesis by (auto simp: Let_def split: if_splits)
  qed
qed

lemma probe_start_less:
  assumes "0 < unat usable" shows "probe_start H p usable < usable"
  using assms by (simp add: probe_start_def Let_def word_less_nat_alt unat_mod)

lemma probe_prefix_eq: "probe_prefix base start usable n = Prefix (Addr4 (probe_value base start usable n)) (Some 32)"
  by (simp add: probe_prefix_def PrefixFrom_def)

lemma host_prefix_roundtrip: "ParsePrefix (pfx_String (Prefix (Addr4 v) (Some 32))) = Some (Prefix (Addr4 v) (Some 32))"
  by (simp add: ParsePrefix_String4)

lemma Reserve_reserved:
  assumes "Reserve H a (Some g) podUID pool w = Some (Inr r, w')"
    and "\<And>C. a_Client a = Some C \<Longrightarrow> lease_store (cl_leases C) st \<and> lease_store (a_reader a C) st"
  obtains base b n where "pfx_Masked pool = Prefix (Addr4 base) (Some b)" "16 \<le> b" "b \<le> 29"
    "resv_Address r = probe_prefix base (probe_start H podUID (usable_hosts (pfx_Masked pool))) (usable_hosts (pfx_Masked pool)) n"
    "reserved H st (gw_Meta g) podUID (allocationIdentity H (meta_UID (gw_Meta g)) podUID) r w'"
  using assms(1)
proof (rule Reserve_InrE)
  fix C base b reservations w1
  let ?u = "usable_hosts (pfx_Masked pool)" and ?i = "allocationIdentity H (meta_UID (gw_Meta g)) podUID"
  assume "a_Client a = Some C" and pool: "pfx_Masked pool = Prefix (Addr4 base) (Some b)" "16 \<le> b" "b \<le> 29"
    and loop: "reserve_loop H a C (gw_Meta g) podUID ?i base (probe_start H podUID ?u) ?u 0 w1 = Some (Inr r, w')"
  then show thesis
    using reserve_loop_sound [OF loop refl] assms(2) that by blast
qed

section \<open>Properties of Reserve\<close>

text \<open>
  C12: A successful reservation is durable and in bounds, whoever else writes to the store. Its address
  is a host prefix of the pool that is neither the network, the gateway nor the broadcast address, and
  right after the call the store holds at the key of that address an active lease for exactly this
  gateway UID, Pod UID, allocation identity and address.
\<close>

theorem Reserve_sound:
  assumes "Reserve H a (Some g) podUID pool w = Some (Inr r, w')"
    and "\<And>C. a_Client a = Some C \<Longrightarrow> lease_store (cl_leases C) st \<and> lease_store (a_reader a C) st"
  shows "\<exists>base b v. pfx_Masked pool = Prefix (Addr4 base) (Some b)
     \<and> resv_Address r = Prefix (Addr4 v) (Some 32)
     \<and> pfx_Contains (pfx_Masked pool) (Addr4 v)
     \<and> unat base + 2 \<le> unat v \<and> unat v + 2 \<le> unat base + 2 ^ (32 - b)
     \<and> st w' (meta_Namespace (gw_Meta g), reservationName H (meta_UID (gw_Meta g)) (resv_Address r)) = Some (resv_Lease r)
     \<and> reservationMatches (resv_Lease r) (meta_UID (gw_Meta g)) podUID
         (allocationIdentity H (meta_UID (gw_Meta g)) podUID) (resv_Address r)"
proof -
  let ?u = "usable_hosts (pfx_Masked pool)" and ?i = "allocationIdentity H (meta_UID (gw_Meta g)) podUID"
  from Reserve_reserved [OF assms] obtain base b n where
    pool: "pfx_Masked pool = Prefix (Addr4 base) (Some b)" "16 \<le> b" "b \<le> 29"
    and n: "resv_Address r = probe_prefix base (probe_start H podUID ?u) ?u n"
    and st: "reserved H st (gw_Meta g) podUID ?i r w'" by blast
  note P = ipv4_pool_masked [OF pool]
  let ?v = "probe_value base (probe_start H podUID ?u) ?u n"
  have "unat base + 2 \<le> unat ?v" "unat ?v + 2 \<le> unat base + 2 ^ (32 - b)"
    using ipv4_pool.probe_bounds [OF P, of "probe_start H podUID ?u" n] ipv4_pool.hosts_bounds [OF P] by linarith+
  with n st pool ipv4_pool.probe_contained [OF P, of "probe_start H podUID ?u" n] show ?thesis
    by (auto simp: probe_prefix_eq reserved_def)
qed

text \<open>An example allocator: an in-memory cluster, a /29 pool and a digest that keeps the tail of its input.\<close>

declare reserve_loop.simps [code]

definition ex_H :: "string \<Rightarrow> 8 word list" where
  "ex_H s = take 32 (map of_char (rev s) @ replicate 32 0)"

definition ex_allocator :: "mem_world Allocator" where
  "ex_allocator = \<lparr>a_Client = Some mem_cluster, a_Reader = None, a_now = mem_now\<rparr>"

definition ex_pool_gateway :: VPNGateway where
  "ex_pool_gateway = \<lparr>gw_Meta = object_meta_zero\<lparr>meta_Name := ''g'', meta_Namespace := ''vpn'', meta_UID := ''gu''\<rparr>,
     gw_Spec = \<lparr>gw_GatewayClassName = ''c'', gw_NativeConfigRefs = [], gw_CredentialRefs = [],
       gw_RequestedFeatures = [],
       gw_AllowedRoutes = \<lparr>allowed_Namespaces = \<lparr>rns_From = [], rns_Selector = None\<rparr>\<rparr>,
       gw_ClusterTraffic = \<lparr>ct_Mode = ClusterTrafficTunnelAll, ct_BypassCIDRs = []\<rparr>,
       gw_DNS = \<lparr>dns_Mode = DNSModeGateway\<rparr>\<rparr>,
     gw_Status = \<lparr>gwst_ObservedGeneration = 0, gwst_GatewayClass = None, gwst_SupportedFeatures = [],
       gwst_Addresses = [], gwst_Conditions = []\<rparr>\<rparr>"

abbreviation ex_pool :: prefix where
  "ex_pool \<equiv> Prefix (Addr4 167772160) (Some 29)"

definition reserved_address :: "(Reservation result \<times> 'w) option \<Rightarrow> prefix option" where
  "reserved_address x = (case x of Some (Inr r, _) \<Rightarrow> Some (resv_Address r) | _ \<Rightarrow> None)"

lemma ex_reserved:
  "reserved_address (Reserve ex_H ex_allocator (Some ex_pool_gateway) ''p'' ex_pool mem_world_empty) =
     Some (Prefix (Addr4 167772164) (Some 32))"
  by code_simp

lemma reserved_addressD:
  assumes "reserved_address x = Some v" obtains r w' where "x = Some (Inr r, w')" "resv_Address r = v"
  using assms that by (auto simp: reserved_address_def split: option.splits prod.splits sum.splits)

lemma ex_store:
  assumes "a_Client ex_allocator = Some C"
  shows "lease_store (cl_leases C) (\<lambda>w. map_of (mw_leases w)) \<and> lease_store (a_reader ex_allocator C) (\<lambda>w. map_of (mw_leases w))"
  using assms mem_leases.object_store_axioms by (auto simp: ex_allocator_def a_reader_def)

theorem Reserve_sound_witness:
  "\<exists>r w'. Reserve ex_H ex_allocator (Some ex_pool_gateway) ''p'' ex_pool mem_world_empty = Some (Inr r, w')
     \<and> reservationMatches (resv_Lease r) ''gu'' ''p'' (allocationIdentity ex_H ''gu'' ''p'') (resv_Address r)"
proof -
  from ex_reserved obtain r w' where r: "Reserve ex_H ex_allocator (Some ex_pool_gateway) ''p'' ex_pool mem_world_empty = Some (Inr r, w')"
    by (rule reserved_addressD)
  from Reserve_sound [OF r ex_store] have "reservationMatches (resv_Lease r) (meta_UID (gw_Meta ex_pool_gateway)) ''p''
      (allocationIdentity ex_H (meta_UID (gw_Meta ex_pool_gateway)) ''p'') (resv_Address r)" by blast
  moreover have "meta_UID (gw_Meta ex_pool_gateway) = ''gu''" by (simp add: ex_pool_gateway_def)
  ultimately show ?thesis using r by auto
qed

text \<open>
  C11: Addresses are exclusive. If, right after a reservation succeeds, the store holds at the key of an
  address an active lease of another Pod, or a quarantined lease of anyone, then that address is not
  the one that was handed out.
\<close>

theorem Reserve_exclusive:
  assumes "Reserve H a (Some g) podUID pool w = Some (Inr r, w')"
    and "\<And>C. a_Client a = Some C \<Longrightarrow> lease_store (cl_leases C) st \<and> lease_store (a_reader a C) st"
    and "st w' (meta_Namespace (gw_Meta g), reservationName H (meta_UID (gw_Meta g)) x) = Some l"
    and "podUID' \<noteq> podUID \<and> reservationMatches l gatewayUID' podUID' identity' x
         \<or> quarantineMatches l gatewayUID' podUID' identity' x"
  shows "resv_Address r \<noteq> x"
proof
  assume x: "resv_Address r = x"
  from Reserve_reserved [OF assms(1,2)]
  have st: "reserved H st (gw_Meta g) podUID (allocationIdentity H (meta_UID (gw_Meta g)) podUID) r w'" by metis
  with assms(3) x have "resv_Lease r = l" by (simp add: reserved_def)
  with st x have m: "reservationMatches l (meta_UID (gw_Meta g)) podUID
      (allocationIdentity H (meta_UID (gw_Meta g)) podUID) x" by (simp add: reserved_def)
  from assms(4) show False
    using matches_exclusive [OF m] matches_not_quarantined [OF m] by blast
qed

definition ex_taken_world :: mem_world where
  "ex_taken_world = (case Reserve ex_H ex_allocator (Some ex_pool_gateway) ''p'' ex_pool mem_world_empty of
     Some (_, w) \<Rightarrow> w | None \<Rightarrow> mem_world_empty)"

abbreviation ex_taken :: prefix where "ex_taken \<equiv> Prefix (Addr4 167772164) (Some 32)"

definition leaves_lease :: "(Reservation result \<times> mem_world) option \<Rightarrow> object_key \<Rightarrow> (lease \<Rightarrow> bool) \<Rightarrow> bool" where
  "leaves_lease x k P = (case x of None \<Rightarrow> False | Some y \<Rightarrow> \<not> isl (fst y)
     \<and> (case map_of (mw_leases (snd y)) k of None \<Rightarrow> False | Some l \<Rightarrow> P l))"

lemma leaves_leaseE:
  assumes "leaves_lease x k P"
  obtains r w' l where "x = Some (Inr r, w')" "map_of (mw_leases w') k = Some l" "P l"
proof -
  from assms obtain y where y: "x = Some y" "\<not> isl (fst y)" by (auto simp: leaves_lease_def split: option.splits)
  then obtain r where "fst y = Inr r" by (cases "fst y") auto
  moreover from assms y obtain l where "map_of (mw_leases (snd y)) k = Some l" "P l"
    by (auto simp: leaves_lease_def split: option.splits)
  ultimately show thesis using y that [of r "snd y" l] by (cases y) simp
qed

lemma ex_taken_held:
  "leaves_lease (Reserve ex_H ex_allocator (Some ex_pool_gateway) ''q'' ex_pool ex_taken_world)
     (''vpn'', reservationName ex_H ''gu'' ex_taken)
     (\<lambda>l. reservationMatches l ''gu'' ''p'' (allocationIdentity ex_H ''gu'' ''p'') ex_taken)"
  by code_simp

theorem Reserve_exclusive_witness:
  "\<exists>r w'. Reserve ex_H ex_allocator (Some ex_pool_gateway) ''q'' ex_pool ex_taken_world = Some (Inr r, w')
     \<and> resv_Address r \<noteq> ex_taken"
proof -
  from ex_taken_held obtain r w' l where
    r: "Reserve ex_H ex_allocator (Some ex_pool_gateway) ''q'' ex_pool ex_taken_world = Some (Inr r, w')"
    and l: "map_of (mw_leases w') (''vpn'', reservationName ex_H ''gu'' ex_taken) = Some l"
    and m: "reservationMatches l ''gu'' ''p'' (allocationIdentity ex_H ''gu'' ''p'') ex_taken"
    by (rule leaves_leaseE)
  have "meta_UID (gw_Meta ex_pool_gateway) = ''gu''" "meta_Namespace (gw_Meta ex_pool_gateway) = ''vpn''"
    by (simp_all add: ex_pool_gateway_def)
  with Reserve_exclusive [OF r ex_store, of ex_taken l "''p''" "''gu''"] l m r show ?thesis by auto
qed

text \<open>
  C15: Reserving ends, and it fails only for a reason. When nobody else writes meanwhile, the pool is an
  IPv4 /16 to /29 and no lease of the identity is quarantined, the probe loop returns; it hands out an
  address if any client address of the pool has no lease or the Pod's own active lease, and otherwise
  reports that the pool is exhausted and leaves the store unchanged.
\<close>

theorem Reserve_returns:
  assumes C: "a_Client a = Some C" "quiet_lease_store (cl_leases C) st" "quiet_lease_store (a_reader a C) st"
    and clock: "\<And>w. st (snd (a_now a w)) = st w"
    and ids: "meta_UID (gw_Meta g) \<noteq> []" "podUID \<noteq> []"
    and pool: "pfx_Masked pool = Prefix (Addr4 base) (Some b)" "16 \<le> b" "b \<le> 29"
    and i: "i = allocationIdentity H (meta_UID (gw_Meta g)) podUID"
    and noq: "\<And>k l. st w k = Some l \<Longrightarrow> \<not> holds_quarantine l (meta_UID (gw_Meta g)) podUID i"
  shows "\<exists>y w'. Reserve H a (Some g) podUID pool w = Some (y, w') \<and>
    (if \<exists>v. unat base + 2 \<le> unat v \<and> unat v + 2 \<le> unat base + 2 ^ (32 - b)
           \<and> available H (st w) (gw_Meta g) podUID i (Prefix (Addr4 v) (Some 32))
     then \<exists>r. y = Inr r else y = Inl ErrPoolExhausted \<and> st w' = st w)"
proof -
  let ?u = "usable_hosts (pfx_Masked pool)" and ?s = "probe_start H podUID (usable_hosts (pfx_Masked pool))"
  note P = ipv4_pool_masked [OF pool]
  have start: "?s < ?u"
    by (rule probe_start_less) (use ipv4_pool.usable [OF P] ipv4_pool.hosts_bounds [OF P] in simp)
  obtain ls w1 where ls: "k_list (a_reader a C) (listed_reservations H (gw_Meta g)) w = (Inr ls, w1)"
    using quiet_store.list_answers [OF C(3)] by (metis prod.collapse)
  have st1: "st w1 = st w" using quiet_store.list_frame [OF C(3)] ls by (metis snd_conv)
  from C(3) have o: "lease_store (a_reader a C) st" by (simp add: quiet_store_def)
  have "\<not> list_ex (\<lambda>l. holds_quarantine l (meta_UID (gw_Meta g)) podUID i) ls"
    using object_store.list_ok [OF o ls] noq st1 by (fastforce simp: list_ex_iff)
  then have R: "Reserve H a (Some g) podUID pool w = reserve_loop H a C (gw_Meta g) podUID i base ?s ?u 0 w1"
    using Reserve_pool [OF C(1) ids pool, of H w] ls i by (simp add: Let_def)
  from reserve_loop_quiet [OF C(2,3) clock, of H "gw_Meta g" podUID i base ?s ?u 0 w1] obtain y w' where
    y: "reserve_loop H a C (gw_Meta g) podUID i base ?s ?u 0 w1 = Some (y, w')"
    and Q: "case y of
       Inr r \<Rightarrow> (\<exists>n. 0 \<le> n \<and> n < ?u \<and> resv_Address r = probe_prefix base ?s ?u n
          \<and> available H (st w1) (gw_Meta g) podUID i (probe_prefix base ?s ?u n))
          \<and> owner_moves (meta_UID (gw_Meta g), podUID, i) (st w1) (st w')
     | Inl e \<Rightarrow> e = ErrPoolExhausted \<and> st w' = st w1
          \<and> (\<forall>n. 0 \<le> n \<and> n < ?u \<longrightarrow> \<not> available H (st w1) (gw_Meta g) podUID i (probe_prefix base ?s ?u n))"
    by blast
  let ?free = "\<exists>v. unat base + 2 \<le> unat v \<and> unat v + 2 \<le> unat base + 2 ^ (32 - b)
      \<and> available H (st w) (gw_Meta g) podUID i (Prefix (Addr4 v) (Some 32))"
  have "if ?free then \<exists>r. y = Inr r else y = Inl ErrPoolExhausted \<and> st w' = st w"
  proof (cases y)
    case (Inl e)
    have "\<not> ?free"
    proof
      assume ?free
      then obtain v where v: "unat base + 2 \<le> unat v" "unat v + 2 \<le> unat base + 2 ^ (32 - b)"
        "available H (st w) (gw_Meta g) podUID i (Prefix (Addr4 v) (Some 32))" by blast
      from v(2) have "unat v \<le> unat base + 2 ^ (32 - b) - 2" by linarith
      from ipv4_pool.probe_covers [OF P v(1) this start] obtain n where
        "n < ?u" "probe_value base ?s ?u n = v" by blast
      with v(3) Q Inl st1 show False by (auto simp: probe_prefix_eq)
    qed
    with Q Inl st1 show ?thesis by simp
  next
    case (Inr r)
    with Q obtain n where n: "available H (st w1) (gw_Meta g) podUID i (probe_prefix base ?s ?u n)" by auto
    have "unat (probe_value base ?s ?u n) + 2 \<le> unat base + 2 ^ (32 - b)"
      using ipv4_pool.probe_bounds [OF P, of ?s n] ipv4_pool.hosts_bounds [OF P] by linarith
    with n ipv4_pool.probe_bounds(1) [OF P, of ?s n] st1 have ?free by (auto simp: probe_prefix_eq)
    with Inr show ?thesis by simp
  qed
  with R y show ?thesis by auto
qed

theorem Reserve_returns_witness:
  "\<exists>r w'. Reserve ex_H ex_allocator (Some ex_pool_gateway) ''p'' ex_pool mem_world_empty = Some (Inr r, w')"
proof -
  have pool: "pfx_Masked ex_pool = Prefix (Addr4 167772160) (Some 29)" by code_simp
  have free: "unat (167772160 :: 32 word) + 2 \<le> unat (167772162 :: 32 word)
      \<and> unat (167772162 :: 32 word) + 2 \<le> unat (167772160 :: 32 word) + 2 ^ (32 - 29)
      \<and> available ex_H (map_of (mw_leases mem_world_empty)) (gw_Meta ex_pool_gateway) ''p''
          (allocationIdentity ex_H (meta_UID (gw_Meta ex_pool_gateway)) ''p'') (Prefix (Addr4 167772162) (Some 32))"
    by (simp add: available_def mem_world_empty_def)
  have "\<exists>y w'. Reserve ex_H ex_allocator (Some ex_pool_gateway) ''p'' ex_pool mem_world_empty = Some (y, w') \<and>
    (if \<exists>v. unat (167772160 :: 32 word) + 2 \<le> unat v \<and> unat v + 2 \<le> unat (167772160 :: 32 word) + 2 ^ (32 - 29)
           \<and> available ex_H (map_of (mw_leases mem_world_empty)) (gw_Meta ex_pool_gateway) ''p''
               (allocationIdentity ex_H (meta_UID (gw_Meta ex_pool_gateway)) ''p'') (Prefix (Addr4 v) (Some 32))
     then \<exists>r. y = Inr r else y = Inl ErrPoolExhausted \<and> map_of (mw_leases w') = map_of (mw_leases mem_world_empty))"
    by (rule Reserve_returns [where C = mem_cluster and st = "\<lambda>w. map_of (mw_leases w)", OF _ _ _ _ _ _ pool])
      (use mem_leases.quiet_store_axioms in
        \<open>auto simp: ex_allocator_def a_reader_def mem_now_def ex_pool_gateway_def mem_world_empty_def\<close>)
  with free show ?thesis by (metis (no_types, lifting))
qed

end
