(* ===== verification/Binding_Controllers.thy ===== *)
theory Binding_Controllers
  imports Route_Controller Binding_Allocation
begin

text \<open>
  \<open>src/internal/controller/vpnworkloadbinding_controller.go\<close>: the controller that creates one
  binding per enrolled Pod UID, and the controller that owns binding status and cleanup. \<open>H\<close> is the
  digest, \<open>K\<close> the Kubernetes library. Results are the requeue delay and an optional error; the outer
  option of the Pod controller is None only when the address probe loop does not return.
\<close>

abbreviation DataplaneCleanupFinalizer :: string where
  "DataplaneCleanupFinalizer \<equiv> ''networking.waycloak.io/dataplane-cleanup''"

definition defaultCleanupTimeout :: duration where "defaultCleanupTimeout = 10 * Minute"
definition defaultObservationTTL :: duration where "defaultObservationTTL = 30 * Second"

section \<open>Eligibility and network intent\<close>

definition routeEligible :: "'k kube_lib_scheme \<Rightarrow> VPNEgressRoute \<Rightarrow> bool" where
  "routeEligible K route =
     (if meta_UID (route_Meta route) = [] \<or> is_deleting (route_Meta route)
         \<or> length (route_ParentRefs (route_Spec route)) \<noteq> 1 \<or> length (routest_Parents (route_Status route)) \<noteq> 1
      then False
      else let parent = hd (routest_Parents (route_Status route));
               sg = routest_ObservedGeneration (route_Status route); g = meta_Generation (route_Meta route) in
        rps_ControllerName parent = RouteControllerName
        \<and> rps_ParentRef parent = hd (route_ParentRefs (route_Spec route))
        \<and> CurrentTrue K (routest_Conditions (route_Status route)) ConditionReady sg g
        \<and> CurrentTrue K (rps_Conditions parent) ConditionReady sg g)"

definition gatewayEligible :: "'k kube_lib_scheme \<Rightarrow> VPNGateway \<Rightarrow> bool" where
  "gatewayEligible K g \<longleftrightarrow> meta_UID (gw_Meta g) \<noteq> [] \<and> \<not> is_deleting (gw_Meta g)
     \<and> CurrentTrue K (gwst_Conditions (gw_Status g)) ConditionReady
         (gwst_ObservedGeneration (gw_Status g)) (meta_Generation (gw_Meta g))"

definition bindingMatches :: "VPNWorkloadBinding \<Rightarrow> pod \<Rightarrow> VPNEgressRoute \<Rightarrow> VPNGateway \<Rightarrow> bool" where
  "bindingMatches b pod route g \<longleftrightarrow>
     lref_Name (bind_PodRef (bind_Spec b)) = meta_Name (pod_Meta pod) \<and> lref_UID (bind_PodRef (bind_Spec b)) = meta_UID (pod_Meta pod)
     \<and> lref_Name (bind_RouteRef (bind_Spec b)) = meta_Name (route_Meta route) \<and> lref_UID (bind_RouteRef (bind_Spec b)) = meta_UID (route_Meta route)
     \<and> nref_Namespace (bind_GatewayRef (bind_Spec b)) = meta_Namespace (gw_Meta g) \<and> nref_Name (bind_GatewayRef (bind_Spec b)) = meta_Name (gw_Meta g)
     \<and> nref_UID (bind_GatewayRef (bind_Spec b)) = meta_UID (gw_Meta g)
     \<and> bind_NodeName (bind_Spec b) = pod_NodeName pod \<and> \<not> is_deleting (bind_Meta b)"

definition address_values :: "GatewayAddress list \<Rightarrow> string \<rightharpoonup> string" where
  "address_values addresses = foldl (\<lambda>m x. m(ga_Type x \<mapsto> ga_Value x)) Map.empty addresses"

definition required_address_types :: "string list" where
  "required_address_types = [GatewayAddressTypeOverlayCIDR, GatewayAddressTypeOverlayAddress,
     GatewayAddressTypeUnderlayEndpoint, GatewayAddressTypeOverlayHealthPort, GatewayAddressTypeVNI, GatewayAddressTypeMTU]"

definition in_range :: "int option \<Rightarrow> int \<Rightarrow> int \<Rightarrow> bool" where
  "in_range x lo hi = (case x of None \<Rightarrow> False | Some v \<Rightarrow> lo \<le> v \<and> v \<le> hi)"

definition workloadNetworkIntent :: "VPNGateway \<Rightarrow> WorkloadNetworkIntent result" where
  "workloadNetworkIntent g = (
     let values = map_index (address_values (gwst_Addresses (gw_Status g))) in
     if list_ex (\<lambda>t. values t = []) required_address_types
       then Inl (Errorf ''gateway status address is unavailable'' [])
     else case ParsePrefix (values GatewayAddressTypeOverlayCIDR) of
       None \<Rightarrow> Inl (Errorf ''parse gateway overlay CIDR'' [])
     | Some overlay \<Rightarrow> (case ParseAddr (values GatewayAddressTypeOverlayAddress) of
         None \<Rightarrow> Inl (Err ''gateway overlay address is invalid'')
       | Some gatewayAddress \<Rightarrow>
           if \<not> pfx_Contains overlay gatewayAddress then Inl (Err ''gateway overlay address is invalid'')
           else (case ParseAddrPort (values GatewayAddressTypeUnderlayEndpoint) of
             None \<Rightarrow> Inl (Err ''gateway underlay endpoint is invalid'')
           | Some endpoint \<Rightarrow>
               if ap_Port endpoint = 0 then Inl (Err ''gateway underlay endpoint is invalid'')
               else
                 let healthPort = ParseInt32 (values GatewayAddressTypeOverlayHealthPort);
                     vni = ParseInt32 (values GatewayAddressTypeVNI);
                     mtu = ParseInt32 (values GatewayAddressTypeMTU) in
                 if \<not> in_range healthPort 1 65535 then Inl (Err ''gateway overlay health port is invalid'')
                 else if \<not> in_range vni 1 16777215 then Inl (Err ''gateway VNI is invalid'')
                 else if \<not> in_range mtu 576 9000 then Inl (Err ''gateway MTU is invalid'')
                 else Inr \<lparr>net_GatewayGeneration = meta_Generation (gw_Meta g),
                   net_OverlayCIDR = pfx_String (pfx_Masked overlay), net_GatewayAddress = addr_String gatewayAddress,
                   net_GatewayEndpoint = ap_String endpoint, net_GatewayHealthPort = the healthPort,
                   net_VNI = the vni, net_MTU = the mtu, net_ClusterTraffic = gw_ClusterTraffic (gw_Spec g)\<rparr>)))"

section \<open>The Pod binding controller\<close>

record 'w PodBindingReconciler =
  pbr_Client :: "'w cluster"
  pbr_APIReader :: "'w cluster option"
  pbr_now :: "('w, time) call"

definition pbr_reader :: "'w PodBindingReconciler \<Rightarrow> 'w cluster" where
  "pbr_reader r = (case pbr_APIReader r of Some R \<Rightarrow> R | None \<Rightarrow> pbr_Client r)"

definition pbr_allocator :: "'w PodBindingReconciler \<Rightarrow> 'w Allocator" where
  "pbr_allocator r = \<lparr>a_Client = Some (pbr_Client r), a_Reader = Some (pbr_reader r), a_now = pbr_now r\<rparr>"

definition new_binding :: "string \<Rightarrow> pod \<Rightarrow> VPNEgressRoute \<Rightarrow> VPNGateway \<Rightarrow> Reservation \<Rightarrow> WorkloadNetworkIntent \<Rightarrow> VPNWorkloadBinding" where
  "new_binding name pod route g reservation network = \<lparr>
     bind_Meta = object_meta_zero\<lparr>meta_Name := name, meta_Namespace := meta_Namespace (pod_Meta pod),
       meta_Finalizers := [DataplaneCleanupFinalizer],
       meta_OwnerReferences := [\<lparr>owner_APIVersion = ''v1'', owner_Kind = ''Pod'', owner_Name = meta_Name (pod_Meta pod),
         owner_UID = meta_UID (pod_Meta pod), owner_Controller = True\<rparr>]\<rparr>,
     bind_Spec = \<lparr>bind_PodRef = \<lparr>lref_Name = meta_Name (pod_Meta pod), lref_UID = meta_UID (pod_Meta pod)\<rparr>,
       bind_RouteRef = \<lparr>lref_Name = meta_Name (route_Meta route), lref_UID = meta_UID (route_Meta route)\<rparr>,
       bind_GatewayRef = \<lparr>nref_Namespace = meta_Namespace (gw_Meta g), nref_Name = meta_Name (gw_Meta g), nref_UID = meta_UID (gw_Meta g)\<rparr>,
       bind_NodeName = pod_NodeName pod,
       bind_Allocation = \<lparr>alloc_Identity = resv_Identity reservation, alloc_Address = pfx_String (resv_Address reservation)\<rparr>,
       bind_Network = network\<rparr>,
     bind_Status = \<lparr>bindst_ObservedGeneration = 0, bindst_AppliedGeneration = 0, bindst_ObservedPodUID = [],
       bindst_ObservedGatewayUID = [], bindst_Agent = None, bindst_Conditions = []\<rparr>\<rparr>"

text \<open>The branch for a binding that exists, and the one for a Pod without a binding.\<close>

definition reconcile_existing :: "(string \<Rightarrow> 8 word list) \<Rightarrow> 'w PodBindingReconciler \<Rightarrow> pod \<Rightarrow> VPNEgressRoute \<Rightarrow>
    VPNGateway \<Rightarrow> WorkloadNetworkIntent \<Rightarrow> VPNWorkloadBinding \<Rightarrow> ('w, duration \<times> go_error option) call" where
  "reconcile_existing H r pod route g network existing w =
     (if lref_UID (bind_PodRef (bind_Spec existing)) \<noteq> meta_UID (pod_Meta pod)
        then ((0, Some (Err ''UID-derived binding name collision'')), w)
      else if \<not> bindingMatches existing pod route g then
        (if \<not> is_deleting (bind_Meta existing) then
           (case k_delete (cl_bindings (pbr_Client r)) existing w of
              (Some e, w1) \<Rightarrow> ((0, Some (Errorf ''withdraw obsolete workload binding'' [e])), w1)
            | (None, w1) \<Rightarrow> ((Second, None), w1))
         else ((Second, None), w))
      else if bind_Network (bind_Spec existing) \<noteq> network then
        (case k_patch (cl_bindings (pbr_Client r)) existing
            (existing\<lparr>bind_Spec := (bind_Spec existing)\<lparr>bind_Network := network\<rparr>\<rparr>) w of
           (Some e, w1) \<Rightarrow> ((0, Some (Errorf ''update credential-free binding network intent'' [e])), w1)
         | (None, w1) \<Rightarrow> ((0, None), w1))
      else (case Ensure H (pbr_allocator r) g existing w of
        (Inl e, w1) \<Rightarrow>
          (if errors_Is e ErrReservationConflict \<and> \<not> is_deleting (bind_Meta existing) then
             (case k_delete (cl_bindings (pbr_Client r)) existing w1 of
                (_, w2) \<Rightarrow> ((0, Some (Errorf ''validate binding reservation'' [e])), w2))
           else ((0, Some (Errorf ''validate binding reservation'' [e])), w1))
      | (Inr _, w1) \<Rightarrow> ((0, None), w1)))"

definition reconcile_new :: "(string \<Rightarrow> 8 word list) \<Rightarrow> 'w PodBindingReconciler \<Rightarrow> pod \<Rightarrow> VPNEgressRoute \<Rightarrow>
    VPNGateway \<Rightarrow> WorkloadNetworkIntent \<Rightarrow> prefix \<Rightarrow> string \<Rightarrow> 'w \<Rightarrow> ((duration \<times> go_error option) \<times> 'w) option" where
  "reconcile_new H r pod route g network pool name w =
     (case Reserve H (pbr_allocator r) (Some g) (meta_UID (pod_Meta pod)) pool w of
        None \<Rightarrow> None
      | Some (Inl e, w1) \<Rightarrow>
          if errors_Is e ErrPoolExhausted then Some ((Second, None), w1) else Some ((0, Some e), w1)
      | Some (Inr reservation, w1) \<Rightarrow>
          (case k_create (cl_bindings (pbr_Client r)) (new_binding name pod route g reservation network) w1 of
             (Inl e, w2) \<Rightarrow>
               if \<not> IsAlreadyExists e then Some ((0, Some (Errorf ''persist UID-bound workload binding'' [e])), w2)
               else Some ((0, None), w2)
           | (Inr _, w2) \<Rightarrow> Some ((0, None), w2)))"

definition pod_Reconcile :: "(string \<Rightarrow> 8 word list) \<Rightarrow> 'k kube_lib_scheme \<Rightarrow> 'w PodBindingReconciler \<Rightarrow> request \<Rightarrow>
    'w \<Rightarrow> ((duration \<times> go_error option) \<times> 'w) option" where
  "pod_Reconcile H K r request w = (case k_get (cl_pods (pbr_Client r)) request w of
     (Inl e, w1) \<Rightarrow> Some ((0, IgnoreNotFound e), w1)
   | (Inr pod, w1) \<Rightarrow>
     let routeName = map_index (meta_Labels (pod_Meta pod)) RouteLabel in
     if routeName = [] \<or> meta_UID (pod_Meta pod) = [] \<or> pod_NodeName pod = [] \<or> is_deleting (pod_Meta pod)
       then Some ((0, None), w1)
     else case k_get (cl_routes (pbr_reader r)) (meta_Namespace (pod_Meta pod), routeName) w1 of
       (Inl e, w2) \<Rightarrow> if IsNotFound e then Some ((Second, None), w2)
                      else Some ((0, Some (Errorf ''resolve enrolled route'' [e])), w2)
     | (Inr route, w2) \<Rightarrow>
       if \<not> routeEligible K route then Some ((Second, None), w2)
       else let parent = hd (route_ParentRefs (route_Spec route)) in
       case k_get (cl_gateways (pbr_reader r)) (parent_Namespace parent, parent_Name parent) w2 of
         (Inl e, w3) \<Rightarrow> if IsNotFound e then Some ((Second, None), w3)
                        else Some ((0, Some (Errorf ''resolve binding gateway'' [e])), w3)
       | (Inr g, w3) \<Rightarrow>
         if meta_UID (gw_Meta g) = [] \<or> \<not> gatewayEligible K g then Some ((Second, None), w3)
         else case ParseOverlayCIDR g of
           Inl _ \<Rightarrow> Some ((Second, None), w3)
         | Inr pool \<Rightarrow> (case workloadNetworkIntent g of
             Inl _ \<Rightarrow> Some ((Second, None), w3)
           | Inr network \<Rightarrow>
               let name = BindingName H (meta_UID (pod_Meta pod)) in
               (case k_get (cl_bindings (pbr_Client r)) (meta_Namespace (pod_Meta pod), name) w3 of
                  (Inr existing, w4) \<Rightarrow> Some (reconcile_existing H r pod route g network existing w4)
                | (Inl e, w4) \<Rightarrow>
                    if \<not> IsNotFound e then Some ((0, Some (Errorf ''read UID-bound workload binding'' [e])), w4)
                    else reconcile_new H r pod route g network pool name w4)))"

definition gatewayReferenceKey :: "string \<Rightarrow> string \<Rightarrow> string" where
  "gatewayReferenceKey namespace name = namespace @ ''/'' @ name"

definition pod_route_index :: "pod \<Rightarrow> string list" where
  "pod_route_index pod = (let value = map_index (meta_Labels (pod_Meta pod)) RouteLabel in if value \<noteq> [] then [value] else [])"

definition route_gateway_index :: "VPNEgressRoute \<Rightarrow> string list" where
  "route_gateway_index route = map (\<lambda>p. gatewayReferenceKey (parent_Namespace p) (parent_Name p))
     (filter (\<lambda>p. parent_Group p = GroupName \<and> parent_Kind p = ''VPNGateway'' \<and> parent_Namespace p \<noteq> [] \<and> parent_Name p \<noteq> [])
       (route_ParentRefs (route_Spec route)))"

text \<open>Listing in the empty namespace lists every namespace.\<close>

definition podsForRoute :: "'w PodBindingReconciler \<Rightarrow> object_meta \<Rightarrow> ('w, request list) call" where
  "podsForRoute r object w = (case k_list (cl_pods (pbr_Client r))
       (\<lambda>p. (meta_Namespace object = [] \<or> meta_Namespace (pod_Meta p) = meta_Namespace object)
          \<and> meta_Name object \<in> set (pod_route_index p)) w of
     (Inl _, w1) \<Rightarrow> ([], w1) | (Inr pods, w1) \<Rightarrow> (map pod_key pods, w1))"

text \<open>The double loop with its set of seen keys; the keys seen are the requests collected so far.\<close>

fun add_unseen :: "request list \<Rightarrow> request list \<Rightarrow> request list" where
  "add_unseen requests [] = requests"
| "add_unseen requests (q # qs) = add_unseen (if q \<in> set requests then requests else requests @ [q]) qs"

fun pods_for_routes :: "'w PodBindingReconciler \<Rightarrow> request list \<Rightarrow> VPNEgressRoute list \<Rightarrow> ('w, request list) call" where
  "pods_for_routes r requests [] w = (requests, w)"
| "pods_for_routes r requests (route # routes) w = (case podsForRoute r (route_Meta route) w of
     (qs, w1) \<Rightarrow> pods_for_routes r (add_unseen requests qs) routes w1)"

definition podsForGateway :: "'w PodBindingReconciler \<Rightarrow> object_meta \<Rightarrow> ('w, request list) call" where
  "podsForGateway r object w = (case k_list (cl_routes (pbr_Client r))
       (\<lambda>route. gatewayReferenceKey (meta_Namespace object) (meta_Name object) \<in> set (route_gateway_index route)) w of
     (Inl _, w1) \<Rightarrow> ([], w1) | (Inr routes, w1) \<Rightarrow> pods_for_routes r [] routes w1)"

section \<open>The binding status controller\<close>

record 'w VPNWorkloadBindingReconciler =
  wbr_Client :: "'w cluster"
  wbr_APIReader :: "'w cluster option"
  wbr_now :: "('w, time) call"
  wbr_CleanupTimeout :: duration
  wbr_ObservationTTL :: duration

definition wbr_reader :: "'w VPNWorkloadBindingReconciler \<Rightarrow> 'w cluster" where
  "wbr_reader r = (case wbr_APIReader r of Some R \<Rightarrow> R | None \<Rightarrow> wbr_Client r)"

definition cleanupTimeout :: "'w VPNWorkloadBindingReconciler \<Rightarrow> duration" where
  "cleanupTimeout r = (if wbr_CleanupTimeout r > 0 then wbr_CleanupTimeout r else defaultCleanupTimeout)"

definition observationTTL :: "'w VPNWorkloadBindingReconciler \<Rightarrow> duration" where
  "observationTTL r = (if wbr_ObservationTTL r > 0 then wbr_ObservationTTL r else defaultObservationTTL)"

record bindingGatewayObservation =
  bgo_resolved :: State
  bgo_ready :: State

definition gateway_observation :: "'k kube_lib_scheme \<Rightarrow> VPNWorkloadBinding \<Rightarrow> VPNGateway result \<Rightarrow> bindingGatewayObservation" where
  "gateway_observation K b got = (case got of
     Inl e \<Rightarrow>
       if IsNotFound e then
         \<lparr>bgo_resolved = cond_False ReasonRefNotFound ''Exact gateway reference is unavailable'',
          bgo_ready = cond_False ReasonNotReady ''Referenced gateway data plane is unavailable''\<rparr>
       else \<lparr>bgo_resolved = cond_Unknown ''Exact gateway reference observation is unavailable'',
             bgo_ready = cond_Unknown ''Referenced gateway readiness observation is unavailable''\<rparr>
   | Inr g \<Rightarrow>
       if meta_UID (gw_Meta g) = [] \<or> meta_UID (gw_Meta g) \<noteq> nref_UID (bind_GatewayRef (bind_Spec b)) \<or> is_deleting (gw_Meta g) then
         \<lparr>bgo_resolved = cond_False ReasonIncompatibleRef ''Exact gateway reference no longer matches'',
          bgo_ready = cond_False ReasonNotReady ''Referenced gateway data plane is unavailable''\<rparr>
       else \<lparr>bgo_resolved = cond_True ReasonResolvedRefs ''UID-bound references are resolved'',
         bgo_ready =
           if net_GatewayGeneration (bind_Network (bind_Spec b)) \<noteq> meta_Generation (gw_Meta g)
             then cond_False ReasonNotReady ''Binding network intent does not match the current gateway generation''
           else if \<not> gatewayEligible K g
             then cond_False ReasonNotReady ''Referenced gateway data plane is not ready''
           else cond_True ReasonReady ''Referenced gateway live data plane is ready''\<rparr>)"

definition observeGateway :: "'k kube_lib_scheme \<Rightarrow> 'w VPNWorkloadBindingReconciler \<Rightarrow> VPNWorkloadBinding \<Rightarrow>
    ('w, bindingGatewayObservation) call" where
  "observeGateway K r b w = (case k_get (cl_gateways (wbr_reader r))
       (nref_Namespace (bind_GatewayRef (bind_Spec b)), nref_Name (bind_GatewayRef (bind_Spec b))) w of
     (got, w1) \<Rightarrow> (gateway_observation K b got, w1))"

definition binding_exact :: "VPNWorkloadBinding \<Rightarrow> bool" where
  "binding_exact b \<longleftrightarrow> bindst_ObservedPodUID (bind_Status b) = lref_UID (bind_PodRef (bind_Spec b))
     \<and> bindst_ObservedGatewayUID (bind_Status b) = nref_UID (bind_GatewayRef (bind_Spec b))
     \<and> (case bindst_Agent (bind_Status b) of None \<Rightarrow> False | Some a \<Rightarrow> agent_NodeName a = bind_NodeName (bind_Spec b))"

definition observation_age :: "time \<Rightarrow> VPNWorkloadBinding \<Rightarrow> duration" where
  "observation_age now b = (case bindst_Agent (bind_Status b) of None \<Rightarrow> 0
     | Some a \<Rightarrow> let age = time_Sub now (agent_ObservedAt a) in if age < 0 then 0 else age)"

definition binding_condition_order :: "string list" where
  "binding_condition_order = [ConditionAccepted, ConditionResolvedRefs, ConditionProgrammed, ConditionReady, ConditionNodeReady]"

definition binding_states :: "'w VPNWorkloadBindingReconciler \<Rightarrow> VPNWorkloadBinding \<Rightarrow> bindingGatewayObservation \<Rightarrow> time \<Rightarrow>
    (string \<rightharpoonup> State) \<times> duration" where
  "binding_states r b obs now = (
     let states = [ConditionAccepted \<mapsto> cond_True ReasonAccepted ''Binding intent is accepted'',
           ConditionResolvedRefs \<mapsto> bgo_resolved obs,
           ConditionProgrammed \<mapsto> cond_False ReasonPending ''Binding programming is pending'',
           ConditionReady \<mapsto> cond_Unknown ''Live protected-path observation is unavailable'',
           ConditionNodeReady \<mapsto> cond_Unknown ''Node-agent observation is unavailable''];
         applied = bindst_AppliedGeneration (bind_Status b);
         generation = meta_Generation (bind_Meta b);
         age = observation_age now b;
         (states, requeue) =
           (if applied > 0 \<and> applied \<noteq> generation then
              (states(ConditionProgrammed \<mapsto> cond_False ReasonStaleGeneration ''Node applied generation is stale''), 0)
            else if applied = generation \<and> binding_exact b then
              let states = states(ConditionProgrammed \<mapsto> cond_True ReasonProgrammed ''Current binding generation is applied'') in
              if age < observationTTL r then
                (states(ConditionNodeReady \<mapsto> cond_True ReasonNodeReady ''Current node data plane is observed'',
                        ConditionReady \<mapsto> cond_True ReasonReady ''Exact Pod protected path is live''), observationTTL r - age)
              else
                (states(ConditionNodeReady \<mapsto> cond_False ReasonNodeNotReady ''Node-agent observation is stale'',
                        ConditionReady \<mapsto> cond_False ReasonNotReady ''Protected-path observation is stale''), 0)
            else if applied = generation \<and> \<not> binding_exact b then
              (states(ConditionProgrammed \<mapsto> cond_False ReasonApplyFailed ''Applied binding identity does not match desired state'',
                      ConditionNodeReady \<mapsto> cond_False ReasonNodeNotReady ''Node-agent identity does not match binding'',
                      ConditionReady \<mapsto> cond_False ReasonNotReady ''Protected-path identity does not match binding''), 0)
            else (states, 0)) in
     (if state_Status (bgo_ready obs) \<noteq> ConditionTrue then states(ConditionReady \<mapsto> bgo_ready obs) else states, requeue))"

definition binding_desiredStatus :: "'k kube_lib_scheme \<Rightarrow> 'w VPNWorkloadBindingReconciler \<Rightarrow> VPNWorkloadBinding \<Rightarrow>
    bindingGatewayObservation \<Rightarrow> time \<Rightarrow> VPNWorkloadBindingStatus \<times> duration" where
  "binding_desiredStatus K r b obs now = (case binding_states r b obs now of (states, requeue) \<Rightarrow>
     ((bind_Status b)\<lparr>bindst_ObservedGeneration := meta_Generation (bind_Meta b),
        bindst_Conditions := Build K (bindst_Conditions (bind_Status b)) (meta_Generation (bind_Meta b)) now
          binding_condition_order states\<rparr>, requeue))"

definition deletingStatus :: "'k kube_lib_scheme \<Rightarrow> VPNWorkloadBinding \<Rightarrow> time \<Rightarrow> VPNWorkloadBindingStatus" where
  "deletingStatus K b now = (bind_Status b)\<lparr>bindst_ObservedGeneration := meta_Generation (bind_Meta b),
     bindst_Conditions := Build K (bindst_Conditions (bind_Status b)) (meta_Generation (bind_Meta b)) now binding_condition_order
       [ConditionAccepted \<mapsto> cond_False ReasonDeleting ''Binding is deleting'',
        ConditionResolvedRefs \<mapsto> cond_True ReasonResolvedRefs ''UID-bound references remain resolved for cleanup'',
        ConditionProgrammed \<mapsto> cond_False ReasonPending ''Binding programming is withdrawn'',
        ConditionReady \<mapsto> cond_False ReasonDeleting ''Protected path is withdrawing'',
        ConditionNodeReady \<mapsto> cond_False ReasonNodeNotReady ''Node cleanup is pending'']\<rparr>"

text \<open>The status subresource reads name, namespace and status of the object it is given and nothing else.\<close>

definition binding_applyStatus :: "'w VPNWorkloadBindingReconciler \<Rightarrow> VPNWorkloadBinding \<Rightarrow> VPNWorkloadBindingStatus \<Rightarrow> ('w, go_error option) call" where
  "binding_applyStatus r b status w =
     (case k_apply_status (cl_bindings (wbr_Client r))
         (b\<lparr>bind_Meta := object_meta_zero\<lparr>meta_Name := meta_Name (bind_Meta b), meta_Namespace := meta_Namespace (bind_Meta b)\<rparr>,
            bind_Status := status\<rparr>) w of
        (None, w1) \<Rightarrow> (None, w1) | (Some e, w1) \<Rightarrow> (Some (Errorf ''apply VPNWorkloadBinding status'' [e]), w1))"

definition containsString :: "string list \<Rightarrow> string \<Rightarrow> bool" where
  "containsString values wanted = list_ex (\<lambda>v. v = wanted) values"

definition removeString :: "string list \<Rightarrow> string \<Rightarrow> string list" where
  "removeString values unwanted = filter (\<lambda>v. v \<noteq> unwanted) values"

definition removeFinalizer :: "'w VPNWorkloadBindingReconciler \<Rightarrow> VPNWorkloadBinding \<Rightarrow> ('w, go_error option) call" where
  "removeFinalizer r b w =
     (case k_patch (cl_bindings (wbr_Client r)) b
         (b\<lparr>bind_Meta := (bind_Meta b)\<lparr>meta_Finalizers := removeString (meta_Finalizers (bind_Meta b)) DataplaneCleanupFinalizer\<rparr>\<rparr>) w of
        (None, w1) \<Rightarrow> (None, w1)
      | (Some e, w1) \<Rightarrow> (Some (Errorf ''release bounded data-plane cleanup finalizer'' [e]), w1))"

definition withdrawalConfirmed :: "'w VPNWorkloadBindingReconciler \<Rightarrow> VPNWorkloadBinding \<Rightarrow> time \<Rightarrow> bool" where
  "withdrawalConfirmed r b now =
     (if bindst_AppliedGeneration (bind_Status b) \<noteq> 0
         \<or> bindst_ObservedPodUID (bind_Status b) \<noteq> lref_UID (bind_PodRef (bind_Spec b))
         \<or> bindst_ObservedGatewayUID (bind_Status b) \<noteq> nref_UID (bind_GatewayRef (bind_Spec b)) then False
      else case bindst_Agent (bind_Status b) of None \<Rightarrow> False
      | Some a \<Rightarrow> if agent_NodeName a \<noteq> bind_NodeName (bind_Spec b) then False
          else let age = time_Sub now (agent_ObservedAt a) in age \<ge> 0 \<and> age < observationTTL r)"

definition wbr_allocator :: "'w VPNWorkloadBindingReconciler \<Rightarrow> 'w Allocator" where
  "wbr_allocator r = \<lparr>a_Client = Some (wbr_Client r), a_Reader = Some (wbr_reader r), a_now = wbr_now r\<rparr>"

definition deletion_deadline :: "'w VPNWorkloadBindingReconciler \<Rightarrow> VPNWorkloadBinding \<Rightarrow> time" where
  "deletion_deadline r b = (case meta_DeletionTimestamp (bind_Meta b) of None \<Rightarrow> time_zero | Some t \<Rightarrow> t) + cleanupTimeout r"

definition reconcileDeletion :: "(string \<Rightarrow> 8 word list) \<Rightarrow> 'k kube_lib_scheme \<Rightarrow> 'w VPNWorkloadBindingReconciler \<Rightarrow> VPNWorkloadBinding \<Rightarrow>
    ('w, duration \<times> go_error option) call" where
  "reconcileDeletion H K r b w =
     (if \<not> containsString (meta_Finalizers (bind_Meta b)) DataplaneCleanupFinalizer then ((0, None), w)
      else case wbr_now r w of (now1, w1) \<Rightarrow>
      let desired = deletingStatus K b now1 in
      if bind_Status b \<noteq> desired then
        (case binding_applyStatus r b desired w1 of
           (Some e, w2) \<Rightarrow> ((0, Some e), w2) | (None, w2) \<Rightarrow> ((Nanosecond, None), w2))
      else case wbr_now r w1 of (now2, w2) \<Rightarrow>
      if withdrawalConfirmed r b now2 then
        (case Release H (wbr_allocator r) b w2 of
           (Some e, w3) \<Rightarrow> ((0, Some (Errorf ''release withdrawn address reservation'' [e])), w3)
         | (None, w3) \<Rightarrow> (case removeFinalizer r b w3 of (e, w4) \<Rightarrow> ((0, e), w4)))
      else let deadline = deletion_deadline r b in
      case wbr_now r w2 of (now3, w3) \<Rightarrow>
      if now3 < deadline then
        (case wbr_now r w3 of (now4, w4) \<Rightarrow> ((time_Sub deadline now4, None), w4))
      else (case Quarantine H (wbr_allocator r) b w3 of
        (Some e, w4) \<Rightarrow> ((0, Some (Errorf ''quarantine unconfirmed address withdrawal'' [e])), w4)
      | (None, w4) \<Rightarrow> (case removeFinalizer r b w4 of (e, w5) \<Rightarrow> ((0, e), w5))))"

definition binding_Reconcile :: "(string \<Rightarrow> 8 word list) \<Rightarrow> 'k kube_lib_scheme \<Rightarrow> 'w VPNWorkloadBindingReconciler \<Rightarrow> request \<Rightarrow>
    ('w, duration \<times> go_error option) call" where
  "binding_Reconcile H K r request w = (case k_get (cl_bindings (wbr_Client r)) request w of
     (Inl e, w1) \<Rightarrow> ((0, IgnoreNotFound e), w1)
   | (Inr b, w1) \<Rightarrow>
       if is_deleting (bind_Meta b) then reconcileDeletion H K r b w1
       else case observeGateway K r b w1 of (obs, w2) \<Rightarrow>
       case wbr_now r w2 of (now, w3) \<Rightarrow>
       case binding_desiredStatus K r b obs now of (desired, requeue) \<Rightarrow>
       if bind_Status b = desired then ((requeue, None), w3)
       else (case binding_applyStatus r b desired w3 of
         (Some e, w4) \<Rightarrow> ((0, Some e), w4) | (None, w4) \<Rightarrow> ((requeue, None), w4)))"

definition binding_gateway_index :: "VPNWorkloadBinding \<Rightarrow> string list" where
  "binding_gateway_index b = (let g = bind_GatewayRef (bind_Spec b) in
     if nref_Namespace g = [] \<or> nref_Name g = [] then [] else [gatewayReferenceKey (nref_Namespace g) (nref_Name g)])"

definition bindingsForGateway :: "'w VPNWorkloadBindingReconciler \<Rightarrow> object_meta \<Rightarrow> ('w, request list) call" where
  "bindingsForGateway r object w = (case k_list (cl_bindings (wbr_Client r))
       (\<lambda>b. gatewayReferenceKey (meta_Namespace object) (meta_Name object) \<in> set (binding_gateway_index b)) w of
     (Inl _, w1) \<Rightarrow> ([], w1) | (Inr bs, w1) \<Rightarrow> (map binding_key bs, w1))"

end
