(* ===== verification/Reservation_Lifecycle.thy ===== *)
theory Reservation_Lifecycle
  imports Binding_Allocation
begin

text \<open>
  The life cycle of one address under the operations of \<open>src/internal/binding/allocation.go\<close>: what
  \<open>Release\<close>, \<open>Quarantine\<close> and \<open>Ensure\<close> do to the store, and that the allocator refines the
  abstract state machine \<open>owner_step\<close>.
\<close>

section \<open>Lemmas on the other operations\<close>

context quiet_store
begin

text \<open>What a quiet store answers, as equations.\<close>

lemma get_cases:
  obtains (absent) e w' where "k_get C k w = (Inl e, w')" "IsNotFound e" "st w' = st w" "st w k = None"
  | (present) x w' where "k_get C k w = (Inr x, w')" "st w' = st w" "st w k = Some x"
proof (cases "st w k")
  case None
  from get_notfound [OF this] obtain e where "fst (k_get C k w) = Inl e" "IsNotFound e" by blast
  with absent get_frame [of k w] None show thesis by (metis prod.collapse)
next
  case (Some x)
  from get_found [OF this] present get_frame [of k w] Some show thesis by (metis prod.collapse)
qed

lemma create_cases:
  obtains (fresh) y w' where "k_create C x w = (Inr y, w')" "same x y" "st w (key x) = None" "st w' = (st w)(key x \<mapsto> y)"
  | (taken) e w' y where "k_create C x w = (Inl e, w')" "IsAlreadyExists e" "st w (key x) = Some y" "st w' = st w"
  using create_fresh [of w x] create_taken [of w x] by (cases "st w (key x)") auto

end

lemma merge_map_self [simp]: "merge_map x x y = y"
  by (auto simp: merge_map_def fun_eq_iff)

lemma lease_state_patched:
  assumes "lease_merged cur cur (set_annotation cur ReservationStateAnnotation ReservationStateQuarantined) z"
    and "reservationMatches cur g p i x"
  shows "quarantineMatches z g p i x"
proof -
  let ?y = "set_annotation cur ReservationStateAnnotation ReservationStateQuarantined"
  have "lease_annotation z k = lease_annotation ?y k" for k
    using assms(1) by (simp add: lease_merged_def lease_annotation_def)
  with assms show ?thesis
    by (simp add: quarantineMatches_def reservationMatches_def lease_merged_def)
qed

abbreviation binding_owner :: "VPNWorkloadBinding \<Rightarrow> owner" where
  "binding_owner b \<equiv> (nref_UID (bind_GatewayRef (bind_Spec b)), lref_UID (bind_PodRef (bind_Spec b)),
     alloc_Identity (bind_Allocation (bind_Spec b)))"

lemma ReservationForBinding_Inr:
  "ParsePrefix (alloc_Address (bind_Allocation (bind_Spec b))) = Some x \<Longrightarrow>
     ReservationForBinding H b = Inr (nref_Namespace (bind_GatewayRef (bind_Spec b)),
       reservationName H (nref_UID (bind_GatewayRef (bind_Spec b))) x)"
  by (simp add: ReservationForBinding_def)

lemma binding_gateway_sel [simp]:
  "meta_UID (binding_gateway_meta b) = nref_UID (bind_GatewayRef (bind_Spec b))"
  "meta_Namespace (binding_gateway_meta b) = nref_Namespace (bind_GatewayRef (bind_Spec b))"
  by (simp_all add: binding_gateway_meta_def)

definition well_keyed :: "(object_key \<rightharpoonup> lease) \<Rightarrow> bool" where
  "well_keyed s \<longleftrightarrow> (\<forall>k l. s k = Some l \<longrightarrow> lease_key l = k)"

lemma well_keyedD: "well_keyed s \<Longrightarrow> s k = Some l \<Longrightarrow> lease_key l = k"
  unfolding well_keyed_def by blast

text \<open>The effect of each operation on a quiet store, branch by branch.\<close>

lemma Release_quiet:
  assumes C: "a_Client a = Some C" "quiet_lease_store (cl_leases C) st" "quiet_lease_store (a_reader a C) st"
    and keys: "well_keyed (st w)"
    and x: "ParsePrefix (alloc_Address (bind_Allocation (bind_Spec b))) = Some x"
    and k: "ReservationForBinding H b = Inr k"
  shows "\<exists>e w'. Release H a b w = (e, w') \<and> (case st w k of
      None \<Rightarrow> e = None \<and> st w' = st w
    | Some l \<Rightarrow> if reservationMatches l (nref_UID (bind_GatewayRef (bind_Spec b))) (lref_UID (bind_PodRef (bind_Spec b)))
           (alloc_Identity (bind_Allocation (bind_Spec b))) x
        then e = None \<and> st w' = (st w)(k := None) else e = Some ErrReservationConflict \<and> st w' = st w)"
proof (rule quiet_store.get_cases [OF C(3), of k w])
  fix e w' assume "k_get (a_reader a C) k w = (Inl e, w')" "IsNotFound e" "st w' = st w" "st w k = None"
  then show ?thesis using C(1) k by (auto simp: Release_def IgnoreNotFound_def)
next
  fix l w1 assume l: "k_get (a_reader a C) k w = (Inr l, w1)" "st w1 = st w" "st w k = Some l"
  then have kl: "lease_key l = k" using keys by (blast dest: well_keyedD)
  with l have "st w1 (lease_key l) \<noteq> None" by simp
  from quiet_store.delete_present [OF C(2) this] obtain w2
    where "k_delete (cl_leases C) l w1 = (None, w2)" "st w2 = (st w1)(lease_key l := None)" by blast
  then show ?thesis using C(1) k l x kl by (auto simp: Release_def)
qed

lemma Quarantine_quiet:
  assumes C: "a_Client a = Some C" "quiet_lease_store (cl_leases C) st" "quiet_lease_store (a_reader a C) st"
    and clock: "\<And>w. st (snd (a_now a w)) = st w"
    and keys: "well_keyed (st w)"
    and x: "ParsePrefix (alloc_Address (bind_Allocation (bind_Spec b))) = Some x"
    and k: "ReservationForBinding H b = Inr k"
  shows "\<exists>e w'. Quarantine H a b w = (e, w') \<and>
     (e \<noteq> None \<and> st w' = st w
      \<or> e = None \<and> (\<exists>l. st w' = (st w)(k \<mapsto> l) \<and> quarantineMatches l (nref_UID (bind_GatewayRef (bind_Spec b)))
            (lref_UID (bind_PodRef (bind_Spec b))) (alloc_Identity (bind_Allocation (bind_Spec b))) x
          \<and> (case st w k of None \<Rightarrow> True | Some l0 \<Rightarrow>
               reservationMatches l0 (nref_UID (bind_GatewayRef (bind_Spec b))) (lref_UID (bind_PodRef (bind_Spec b)))
                 (alloc_Identity (bind_Allocation (bind_Spec b))) x \<or> l0 = l)))"
proof -
  obtain now w0 where now: "a_now a w = (now, w0)" by fastforce
  with clock [of w] have w0: "st w0 = st w" by simp
  let ?d = "set_annotation (desiredLease H now (binding_gateway_meta b) (lref_UID (bind_PodRef (bind_Spec b)))
      (alloc_Identity (bind_Allocation (bind_Spec b))) x) ReservationStateAnnotation ReservationStateQuarantined"
  have kd: "lease_key ?d = k" using k x by (simp add: ReservationForBinding_def)
  show ?thesis
  proof (rule quiet_store.create_cases [OF C(2), of ?d w0])
    fix y w' assume y: "k_create (cl_leases C) ?d w0 = (Inr y, w')" "lease_same ?d y" "st w0 (lease_key ?d) = None"
      "st w' = (st w0)(lease_key ?d \<mapsto> y)"
    then have "quarantineMatches y (nref_UID (bind_GatewayRef (bind_Spec b))) (lref_UID (bind_PodRef (bind_Spec b)))
        (alloc_Identity (bind_Allocation (bind_Spec b))) x"
      by (simp add: quarantineMatches_def lease_same_sel)
    then show ?thesis using C(1) x now y kd w0 by (auto simp: Quarantine_def Let_def)
  next
    fix e w1 y assume y: "k_create (cl_leases C) ?d w0 = (Inl e, w1)" "IsAlreadyExists e"
      "st w0 (lease_key ?d) = Some y" "st w1 = st w0"
    then have s1: "st w1 k = Some y" "st w k = Some y" "st w1 = st w" using kd w0 by simp_all
    show ?thesis
    proof (rule quiet_store.get_cases [OF C(3), of k w1])
      fix l w2 assume l: "k_get (a_reader a C) k w1 = (Inr l, w2)" "st w2 = st w1" "st w1 k = Some l"
      then have ly: "l = y" "lease_key l = k" using s1 keys by (auto dest: well_keyedD)
      then have "st w2 (lease_key l) = Some l" using l by simp
      from quiet_store.patch_present [OF C(2) this, where y = "set_annotation l ReservationStateAnnotation ReservationStateQuarantined"]
      obtain z w3 where z: "k_patch (cl_leases C) l (set_annotation l ReservationStateAnnotation ReservationStateQuarantined) w2 = (None, w3)"
        "lease_merged l l (set_annotation l ReservationStateAnnotation ReservationStateQuarantined) z"
        "st w3 = (st w2)(lease_key l \<mapsto> z)" by blast
      have same: "(st w)(k \<mapsto> y) = st w" using s1 by (simp add: fun_upd_idem)
      show ?thesis
        using C(1) x now y(1,2) kd l z ly s1 same lease_state_patched [OF z(2)]
        by (cases "is_deleting (lease_Meta y)";
            cases "lease_annotation y ReservationStateAnnotation = ReservationStateQuarantined";
            cases "reservationMatches y (nref_UID (bind_GatewayRef (bind_Spec b))) (lref_UID (bind_PodRef (bind_Spec b)))
              (alloc_Identity (bind_Allocation (bind_Spec b))) x";
            cases "quarantineMatches y (nref_UID (bind_GatewayRef (bind_Spec b))) (lref_UID (bind_PodRef (bind_Spec b)))
              (alloc_Identity (bind_Allocation (bind_Spec b))) x")
          (simp_all add: Quarantine_def Let_def, auto dest: matches_not_quarantined)
    qed (use s1 in simp)
  qed
qed

lemma Ensure_quiet:
  assumes C: "a_Client a = Some C" "quiet_lease_store (cl_leases C) st" "quiet_lease_store (a_reader a C) st"
    and clock: "\<And>w. st (snd (a_now a w)) = st w"
    and x: "ParsePrefix (alloc_Address (bind_Allocation (bind_Spec b))) = Some x"
    and k: "k = (meta_Namespace (gw_Meta g), reservationName H (meta_UID (gw_Meta g)) x)"
  shows "\<exists>y w'. Ensure H a g b w = (y, w') \<and>
    (let M = (\<lambda>l. reservationMatches l (meta_UID (gw_Meta g)) (lref_UID (bind_PodRef (bind_Spec b)))
                (alloc_Identity (bind_Allocation (bind_Spec b))) x) in
     case st w k of
       None \<Rightarrow> (\<exists>l. y = Inr l \<and> M l \<and> st w' = (st w)(k \<mapsto> l))
     | Some l \<Rightarrow> st w' = st w \<and> y = (if M l then Inr l else Inl ErrReservationConflict))"
proof -
  obtain now w0 where now: "a_now a w = (now, w0)" by fastforce
  with clock [of w] have w0: "st w0 = st w" by simp
  let ?d = "desiredLease H now (gw_Meta g) (lref_UID (bind_PodRef (bind_Spec b)))
      (alloc_Identity (bind_Allocation (bind_Spec b))) x"
  show ?thesis
  proof (rule quiet_store.create_cases [OF C(2), of ?d w0])
    fix y w' assume y: "k_create (cl_leases C) ?d w0 = (Inr y, w')" "lease_same ?d y" "st w0 (lease_key ?d) = None"
      "st w' = (st w0)(lease_key ?d \<mapsto> y)"
    with created_matches [OF y(2)] C(1) x now k w0 show ?thesis by (simp add: Ensure_def Let_def)
  next
    fix e w1 y assume y: "k_create (cl_leases C) ?d w0 = (Inl e, w1)" "IsAlreadyExists e"
      "st w0 (lease_key ?d) = Some y" "st w1 = st w0"
    show ?thesis
    proof (rule quiet_store.get_cases [OF C(3), of "lease_key ?d" w1])
      fix l w2 assume "k_get (a_reader a C) (lease_key ?d) w1 = (Inr l, w2)" "st w2 = st w1" "st w1 (lease_key ?d) = Some l"
      with y C(1) x now k w0 show ?thesis by (simp add: Ensure_def Let_def)
    qed (use y in simp)
  qed
qed

section \<open>Properties of the reservation life cycle\<close>

text \<open>
  One operation of some allocator on a store that nobody else writes to meanwhile. The clock does not
  write, and the store keeps each lease under its own key.
\<close>

inductive alloc_step :: "(string \<Rightarrow> 8 word list) \<Rightarrow> ('w \<Rightarrow> object_key \<rightharpoonup> lease) \<Rightarrow> owner \<Rightarrow> 'w \<Rightarrow> 'w \<Rightarrow> bool" for H st where
  reserve: "\<lbrakk>a_Client a = Some C; quiet_lease_store (cl_leases C) st; quiet_lease_store (a_reader a C) st;
     \<And>w. st (snd (a_now a w)) = st w; Reserve H a (Some g) p pool w = Some (y, w')\<rbrakk>
   \<Longrightarrow> alloc_step H st (meta_UID (gw_Meta g), p, allocationIdentity H (meta_UID (gw_Meta g)) p) w w'"
| ensure: "\<lbrakk>a_Client a = Some C; quiet_lease_store (cl_leases C) st; quiet_lease_store (a_reader a C) st;
     \<And>w. st (snd (a_now a w)) = st w; Ensure H a g b w = (y, w'); meta_UID (gw_Meta g) = nref_UID (bind_GatewayRef (bind_Spec b))\<rbrakk>
   \<Longrightarrow> alloc_step H st (binding_owner b) w w'"
| release: "\<lbrakk>a_Client a = Some C; quiet_lease_store (cl_leases C) st; quiet_lease_store (a_reader a C) st;
     well_keyed (st w); Release H a b w = (e, w')\<rbrakk>
   \<Longrightarrow> alloc_step H st (binding_owner b) w w'"
| quarantine: "\<lbrakk>a_Client a = Some C; quiet_lease_store (cl_leases C) st; quiet_lease_store (a_reader a C) st;
     \<And>w. st (snd (a_now a w)) = st w; well_keyed (st w); Quarantine H a b w = (e, w')\<rbrakk>
   \<Longrightarrow> alloc_step H st (binding_owner b) w w'"

lemma Reserve_moves:
  assumes C: "a_Client a = Some C" "quiet_lease_store (cl_leases C) st" "quiet_lease_store (a_reader a C) st"
    and clock: "\<And>w. st (snd (a_now a w)) = st w" and R: "Reserve H a (Some g) p pool w = Some (y, w')"
  shows "owner_moves (meta_UID (gw_Meta g), p, allocationIdentity H (meta_UID (gw_Meta g)) p) (st w) (st w')"
proof (cases "meta_UID (gw_Meta g) = [] \<or> p = [] \<or> \<not> pfx_IsValid (pfx_Masked pool) \<or> \<not> addr_Is4 (pfx_Addr (pfx_Masked pool))
    \<or> pfx_Bits (pfx_Masked pool) < 16 \<or> pfx_Bits (pfx_Masked pool) > 29")
  case True
  with R C(1) have "w' = w" by (auto simp: Reserve_def Let_def split: if_splits)
  then show ?thesis by simp
next
  case False
  then obtain base b where pool: "pfx_Masked pool = Prefix (Addr4 base) (Some b)" "16 \<le> b" "b \<le> 29"
    by (cases "pfx_Masked pool"; cases "pfx_Addr (pfx_Masked pool)") (auto simp: pfx_IsValid_def pfx_Bits_def)
  from False have ids: "meta_UID (gw_Meta g) \<noteq> []" "p \<noteq> []" by auto
  let ?i = "allocationIdentity H (meta_UID (gw_Meta g)) p" and ?u = "usable_hosts (pfx_Masked pool)"
  obtain ls w1 where ls: "k_list (a_reader a C) (listed_reservations H (gw_Meta g)) w = (Inr ls, w1)"
    using quiet_store.list_answers [OF C(3)] by (metis prod.collapse)
  have st1: "st w1 = st w" using quiet_store.list_frame [OF C(3)] ls by (metis snd_conv)
  show ?thesis
  proof (cases "list_ex (\<lambda>l. holds_quarantine l (meta_UID (gw_Meta g)) p ?i) ls")
    case True
    with R ls Reserve_pool [OF C(1) ids pool, of H w] have "w' = w1" by (simp add: Let_def)
    with st1 show ?thesis by simp
  next
    case False
    with R ls Reserve_pool [OF C(1) ids pool, of H w]
    have "reserve_loop H a C (gw_Meta g) p ?i base (probe_start H p ?u) ?u 0 w1 = Some (y, w')" by (simp add: Let_def)
    with reserve_loop_quiet [OF C(2,3) clock, of H "gw_Meta g" p ?i base "probe_start H p ?u" ?u 0 w1] st1
    show ?thesis by (auto split: sum.splits)
  qed
qed

lemma Release_moves:
  assumes C: "a_Client a = Some C" "quiet_lease_store (cl_leases C) st" "quiet_lease_store (a_reader a C) st"
    and keys: "well_keyed (st w)" and R: "Release H a b w = (e, w')"
  shows "owner_moves (binding_owner b) (st w) (st w')"
proof (cases "ParsePrefix (alloc_Address (bind_Allocation (bind_Spec b)))")
  case None
  with R C(1) have "w' = w" by (simp add: Release_def ReservationForBinding_def)
  then show ?thesis by simp
next
  case (Some x)
  note k = ReservationForBinding_Inr [OF Some, of H]
  from Release_quiet [OF C keys Some k] R show ?thesis
    by (auto split: option.splits if_splits intro!: owner_moves_upd simp: addr_state_matches owner_step_simps)
qed

lemma Quarantine_moves:
  assumes C: "a_Client a = Some C" "quiet_lease_store (cl_leases C) st" "quiet_lease_store (a_reader a C) st"
    and clock: "\<And>w. st (snd (a_now a w)) = st w"
    and keys: "well_keyed (st w)" and R: "Quarantine H a b w = (e, w')"
  shows "owner_moves (binding_owner b) (st w) (st w')"
proof (cases "ParsePrefix (alloc_Address (bind_Allocation (bind_Spec b)))")
  case None
  with R C(1) have "w' = w" by (simp add: Quarantine_def)
  then show ?thesis by simp
next
  case (Some x)
  note k = ReservationForBinding_Inr [OF Some, of H]
  let ?k = "(nref_Namespace (bind_GatewayRef (bind_Spec b)), reservationName H (nref_UID (bind_GatewayRef (bind_Spec b))) x)"
  let ?M = "\<lambda>l. reservationMatches l (nref_UID (bind_GatewayRef (bind_Spec b))) (lref_UID (bind_PodRef (bind_Spec b)))
          (alloc_Identity (bind_Allocation (bind_Spec b))) x"
  from Quarantine_quiet [OF C clock keys Some k] obtain e2 w2 where eq: "Quarantine H a b w = (e2, w2)"
    and D: "e2 \<noteq> None \<and> st w2 = st w \<or> e2 = None \<and> (\<exists>l. st w2 = (st w)(?k \<mapsto> l)
      \<and> quarantineMatches l (nref_UID (bind_GatewayRef (bind_Spec b))) (lref_UID (bind_PodRef (bind_Spec b)))
          (alloc_Identity (bind_Allocation (bind_Spec b))) x
      \<and> (case st w ?k of None \<Rightarrow> True | Some l0 \<Rightarrow> ?M l0 \<or> l0 = l))" by (elim exE conjE)
  from eq R have [simp]: "e2 = e" "w2 = w'" by simp_all
  from D show ?thesis
  proof (elim disjE conjE exE)
    fix l assume l: "st w2 = (st w)(?k \<mapsto> l)" and m: "quarantineMatches l (nref_UID (bind_GatewayRef (bind_Spec b)))
        (lref_UID (bind_PodRef (bind_Spec b))) (alloc_Identity (bind_Allocation (bind_Spec b))) x"
      and old: "case st w ?k of None \<Rightarrow> True | Some l0 \<Rightarrow> ?M l0 \<or> l0 = l"
    note q = addr_state_quarantine [OF m]
    show ?thesis
    proof (cases "st w ?k = Some l")
      case True
      then show ?thesis using l by (simp add: fun_upd_idem)
    next
      case False
      with old have "addr_state_of (st w ?k) = Free \<or> addr_state_of (st w ?k) = Held (binding_owner b)"
        by (auto simp: addr_state_matches split: option.splits)
      with q show ?thesis using l by (auto simp: owner_step_simps intro!: owner_moves_upd)
    qed
  qed simp
qed

lemma Ensure_moves:
  assumes C: "a_Client a = Some C" "quiet_lease_store (cl_leases C) st" "quiet_lease_store (a_reader a C) st"
    and clock: "\<And>w. st (snd (a_now a w)) = st w" and R: "Ensure H a g b w = (y, w')"
    and "meta_UID (gw_Meta g) = nref_UID (bind_GatewayRef (bind_Spec b))"
  shows "owner_moves (binding_owner b) (st w) (st w')"
proof (cases "ParsePrefix (alloc_Address (bind_Allocation (bind_Spec b)))")
  case None
  with R C(1) have "w' = w" by (simp add: Ensure_def)
  then show ?thesis by simp
next
  case (Some x)
  from Ensure_quiet [OF C clock Some refl, where g = g and H = H and w = w] R assms(6) show ?thesis
    by (auto simp: Let_def split: option.splits intro!: claim_moves)
qed

lemma alloc_step_moves:
  "alloc_step H st ow w w' \<Longrightarrow> owner_moves ow (st w) (st w')"
  by (induction rule: alloc_step.induct) (auto intro: Reserve_moves Ensure_moves Release_moves Quarantine_moves)

text \<open>
  C13: The allocator refines the address life cycle. On a store nobody else writes to, every operation
  (Reserve, Ensure, Release, Quarantine), whatever it returns, moves each address by at most one step of
  its own owner: claim a free address, release or quarantine the one it holds, quarantine a free one.
\<close>

theorem alloc_refines:
  assumes "alloc_step H st ow w w'"
  shows "\<forall>k. addr_state_of (st w' k) = addr_state_of (st w k)
     \<or> owner_step ow (addr_state_of (st w k)) (addr_state_of (st w' k))"
  using alloc_step_moves [OF assms] unfolding owner_moves_def .

lemma ex_Reserve_step:
  "\<exists>w'. alloc_step ex_H (\<lambda>w. map_of (mw_leases w)) (''gu'', ''p'', allocationIdentity ex_H ''gu'' ''p'') mem_world_empty w'
     \<and> map_of (mw_leases w') (''vpn'', reservationName ex_H ''gu'' ex_taken) \<noteq> None"
proof -
  from ex_reserved obtain r w' where r: "Reserve ex_H ex_allocator (Some ex_pool_gateway) ''p'' ex_pool mem_world_empty = Some (Inr r, w')"
    "resv_Address r = ex_taken" by (rule reserved_addressD)
  have sel: "meta_UID (gw_Meta ex_pool_gateway) = ''gu''" "meta_Namespace (gw_Meta ex_pool_gateway) = ''vpn''"
    by (simp_all add: ex_pool_gateway_def)
  have "alloc_step ex_H (\<lambda>w. map_of (mw_leases w)) (meta_UID (gw_Meta ex_pool_gateway), ''p'',
      allocationIdentity ex_H (meta_UID (gw_Meta ex_pool_gateway)) ''p'') mem_world_empty w'"
    by (rule alloc_step.reserve [where a = ex_allocator and C = mem_cluster, OF _ _ _ _ r(1)])
      (use mem_leases.quiet_store_axioms in \<open>auto simp: ex_allocator_def a_reader_def mem_now_def\<close>)
  moreover have "reserved ex_H (\<lambda>w. map_of (mw_leases w)) (gw_Meta ex_pool_gateway) ''p''
      (allocationIdentity ex_H (meta_UID (gw_Meta ex_pool_gateway)) ''p'') r w'"
    using Reserve_reserved [OF r(1) ex_store] by metis
  ultimately show ?thesis using sel r by (auto simp: reserved_def)
qed

theorem alloc_refines_witness:
  "\<exists>w' :: mem_world. map_of (mw_leases w') (''vpn'', reservationName ex_H ''gu'' ex_taken) \<noteq> None
     \<and> (\<forall>k. addr_state_of (map_of (mw_leases w') k) = addr_state_of (map_of (mw_leases mem_world_empty) k)
          \<or> owner_step (''gu'', ''p'', allocationIdentity ex_H ''gu'' ''p'')
              (addr_state_of (map_of (mw_leases mem_world_empty) k)) (addr_state_of (map_of (mw_leases w') k)))"
proof -
  from ex_Reserve_step obtain w' where
    w': "alloc_step ex_H (\<lambda>w. map_of (mw_leases w)) (''gu'', ''p'', allocationIdentity ex_H ''gu'' ''p'') mem_world_empty w'"
    "map_of (mw_leases w') (''vpn'', reservationName ex_H ''gu'' ex_taken) \<noteq> None" by blast
  show ?thesis by (rule exI [of _ w'], rule conjI [OF w'(2) alloc_refines [OF w'(1)]])
qed

text \<open>Any number of operations of any owners, one after the other.\<close>

inductive alloc_run :: "(string \<Rightarrow> 8 word list) \<Rightarrow> ('w \<Rightarrow> object_key \<rightharpoonup> lease) \<Rightarrow> 'w \<Rightarrow> 'w \<Rightarrow> bool" for H st where
  start: "alloc_run H st w w"
| step: "alloc_run H st w w' \<Longrightarrow> alloc_step H st ow w' w'' \<Longrightarrow> alloc_run H st w w''"

text \<open>
  C14: Quarantine is terminal. Once an address is quarantined, no sequence of allocator operations, by
  whatever owners, ever frees it, hands it out again or changes whose quarantine it is.
\<close>

theorem quarantine_terminal:
  assumes "alloc_run H st w w'" and "addr_state_of (st w k) = Quarantined ow"
  shows "addr_state_of (st w' k) = Quarantined ow"
  using assms
proof (induction rule: alloc_run.induct)
  case (step w w' ow' w'')
  from alloc_step_moves [OF step.hyps(2)]
  have "addr_state_of (st w'' k) = addr_state_of (st w' k) \<or> owner_step ow' (addr_state_of (st w' k)) (addr_state_of (st w'' k))"
    unfolding owner_moves_def by (rule spec)
  with step.IH [OF step.prems] show ?case by (auto elim: owner_step.cases)
qed

definition ex_quarantined_lease :: lease where
  "ex_quarantined_lease = set_annotation (desiredLease ex_H 0 (gw_Meta ex_pool_gateway) ''z'' ''iz'' ex_taken)
     ReservationStateAnnotation ReservationStateQuarantined"

definition ex_quarantined_world :: mem_world where
  "ex_quarantined_world = mem_world_empty\<lparr>mw_leases :=
     [((''vpn'', reservationName ex_H ''gu'' ex_taken), ex_quarantined_lease)]\<rparr>"

lemma ex_quarantined_reserve:
  "reserved_address (Reserve ex_H ex_allocator (Some ex_pool_gateway) ''p'' ex_pool ex_quarantined_world) =
     Some (Prefix (Addr4 167772165) (Some 32))"
  by code_simp

lemma ex_quarantined_state:
  "addr_state_of (map_of (mw_leases ex_quarantined_world) (''vpn'', reservationName ex_H ''gu'' ex_taken)) =
     Quarantined (''gu'', ''z'', ''iz'')"
proof -
  have "quarantineMatches ex_quarantined_lease (meta_UID (gw_Meta ex_pool_gateway)) ''z'' ''iz'' ex_taken"
    by (simp add: quarantineMatches_def ex_quarantined_lease_def)
  moreover have "meta_UID (gw_Meta ex_pool_gateway) = ''gu''" by (simp add: ex_pool_gateway_def)
  ultimately show ?thesis by (simp add: ex_quarantined_world_def addr_state_quarantine)
qed

theorem quarantine_terminal_witness:
  "\<exists>w' r. Reserve ex_H ex_allocator (Some ex_pool_gateway) ''p'' ex_pool ex_quarantined_world = Some (Inr r, w')
     \<and> addr_state_of (map_of (mw_leases w') (''vpn'', reservationName ex_H ''gu'' ex_taken)) = Quarantined (''gu'', ''z'', ''iz'')"
proof -
  from ex_quarantined_reserve obtain r w' where
    r: "Reserve ex_H ex_allocator (Some ex_pool_gateway) ''p'' ex_pool ex_quarantined_world = Some (Inr r, w')"
    by (rule reserved_addressD)
  have run: "alloc_run ex_H (\<lambda>w. map_of (mw_leases w)) ex_quarantined_world w'"
    by (rule alloc_run.step [OF alloc_run.start], rule alloc_step.reserve [where a = ex_allocator and C = mem_cluster, OF _ _ _ _ r])
      (use mem_leases.quiet_store_axioms in \<open>auto simp: ex_allocator_def a_reader_def mem_now_def\<close>)
  from r quarantine_terminal [OF run, of "(''vpn'', reservationName ex_H ''gu'' ex_taken)" "(''gu'', ''z'', ''iz'')"]
    ex_quarantined_state show ?thesis by (intro exI conjI) auto
qed

end
