(* ===== verification/Binding_Lifecycle.thy ===== *)
theory Binding_Lifecycle
  imports Binding_Controllers Reservation_Lifecycle
begin

text \<open>
  What the two binding controllers of \<open>Binding_Controllers\<close> guarantee: when a binding is Ready and for
  how long, that cleanup never lets go of a binding whose address could still be in use, and that a new
  binding names exactly the reservation it was given.
\<close>

section \<open>Readiness\<close>

abbreviation binding_Ready :: "'k kube_lib_scheme \<Rightarrow> VPNWorkloadBindingStatus \<Rightarrow> int \<Rightarrow> bool" where
  "binding_Ready K s generation \<equiv>
     CurrentTrue K (bindst_Conditions s) ConditionReady (bindst_ObservedGeneration s) generation"


definition node_observed :: "'w VPNWorkloadBindingReconciler \<Rightarrow> VPNWorkloadBinding \<Rightarrow> time \<Rightarrow> bool" where
  "node_observed r b now \<longleftrightarrow> bindst_AppliedGeneration (bind_Status b) = meta_Generation (bind_Meta b)
     \<and> binding_exact b \<and> observation_age now b < observationTTL r"

lemma binding_order: "distinct binding_condition_order" "ConditionReady \<in> set binding_condition_order"
  by (simp_all add: binding_condition_order_def)


lemma binding_states_ready:
  "state_Status (state_of (fst (binding_states r b obs now)) ConditionReady) = ConditionTrue \<longleftrightarrow>
     node_observed r b now \<and> state_Status (bgo_ready obs) = ConditionTrue"
  by (auto simp: binding_states_def node_observed_def Let_def state_of_def)

lemma binding_states_requeue:
  "node_observed r b now \<Longrightarrow> snd (binding_states r b obs now) = observationTTL r - observation_age now b"
  by (simp add: binding_states_def node_observed_def Let_def)

lemma binding_Ready_states:
  assumes "kube_library K" and "binding_desiredStatus K r b obs now = (s, d)"
  shows "binding_Ready K s (meta_Generation (bind_Meta b)) \<longleftrightarrow>
     node_observed r b now \<and> state_Status (bgo_ready obs) = ConditionTrue"
    and "d = snd (binding_states r b obs now)"
  using assms(2) kube_library.CurrentTrue_Build [OF assms(1) binding_order]
    binding_states_ready [of r b obs now]
  by (auto simp: binding_desiredStatus_def split: prod.splits)

lemma observationTTL_pos: "0 < observationTTL r"
  by (simp add: observationTTL_def defaultObservationTTL_def Second_def)

lemma observation_age_nonneg: "0 \<le> observation_age now b"
  by (simp add: observation_age_def Let_def split: option.split)


text \<open>
  C18: Readiness expires. When a binding is published as Ready on an observation that is not dated in the
  future, the controller asks to be called again after a positive delay of at most the time to live, and
  at any time from then on a recomputation from the same node observation, whatever the gateway says,
  does not publish Ready.
\<close>

theorem binding_Ready_expires:
  assumes K: "kube_library K" and D: "binding_desiredStatus K r b obs now = (s, d)"
    and ready: "binding_Ready K s (meta_Generation (bind_Meta b))"
    and agent: "bindst_Agent (bind_Status b) = Some a" "agent_ObservedAt a \<le> now"
    and ttl: "observationTTL r < 2 ^ 63"
    and later: "now + d \<le> now'" and D': "binding_desiredStatus K r b obs' now' = (s', d')"
  shows "0 < d \<and> d \<le> observationTTL r \<and> \<not> binding_Ready K s' (meta_Generation (bind_Meta b))"
proof -
  from ready have n: "node_observed r b now" using binding_Ready_states(1) [OF K D] by blast
  have d: "d = observationTTL r - observation_age now b"
    using binding_Ready_states(2) [OF K D] binding_states_requeue [OF n] by simp
  from n have age: "observation_age now b < observationTTL r" by (simp add: node_observed_def)
  have "observation_age now b = now - agent_ObservedAt a"
    using age agent ttl by (auto simp: observation_age_def Let_def time_Sub_def max_def min_def split: if_splits)
  with d later have "observationTTL r \<le> now' - agent_ObservedAt a" by simp
  then have "observationTTL r \<le> observation_age now' b"
    using agent ttl observationTTL_pos [of r] by (auto simp: observation_age_def Let_def time_Sub_def max_def min_def)
  then have "\<not> node_observed r b now'" by (simp add: node_observed_def)
  with d age observation_age_nonneg [of now b] show ?thesis using binding_Ready_states(1) [OF K D'] by auto
qed

text \<open>
  An observation dated in the future counts as fresh however far ahead it is, while the withdrawal check
  refuses it: a node clock that runs ahead keeps a binding Ready for as long as it is ahead.
\<close>

lemma future_observation_fresh:
  assumes "bindst_AppliedGeneration (bind_Status b) = meta_Generation (bind_Meta b)" "binding_exact b"
    and "bindst_Agent (bind_Status b) = Some a" "now < agent_ObservedAt a"
  shows "node_observed r b now \<and> \<not> withdrawalConfirmed r b now"
proof -
  from assms(4) have "time_Sub now (agent_ObservedAt a) < 0" using time_Sub_nonneg [of now "agent_ObservedAt a"] by linarith
  with assms observationTTL_pos [of r] show ?thesis
    by (simp add: node_observed_def observation_age_def withdrawalConfirmed_def Let_def)
qed

section \<open>Cleanup\<close>








text \<open>The readings of the clock one after the other, when nothing else runs in between.\<close>

primrec reading :: "'w VPNWorkloadBindingReconciler \<Rightarrow> nat \<Rightarrow> 'w \<Rightarrow> time" where
  "reading r 0 w = fst (wbr_now r w)"
| "reading r (Suc n) w = reading r n (snd (wbr_now r w))"




text \<open>
  The waiting branch reads the clock twice. When the deadline passes between the two readings, the delay
  it asks for is not positive, which the controller runtime takes as no further call; the finalizer
  stays until another event arrives.
\<close>

lemma deletion_requeue_lost:
  assumes "containsString (meta_Finalizers (bind_Meta b)) DataplaneCleanupFinalizer"
    and "bind_Status b = deletingStatus K b (reading r 0 w)" "\<not> withdrawalConfirmed r b (reading r 1 w)"
    and "reading r 2 w < deletion_deadline r b" "deletion_deadline r b \<le> reading r 3 w"
  shows "\<exists>d w'. reconcileDeletion H K r b w = ((d, None), w') \<and> d \<le> 0"
proof -
  obtain n1 w1 n2 w2 n3 w3 n4 w4 where n: "wbr_now r w = (n1, w1)" "wbr_now r w1 = (n2, w2)" "wbr_now r w2 = (n3, w3)"
    "wbr_now r w3 = (n4, w4)" by (metis surj_pair)
  then have rd: "reading r 0 w = n1" "reading r 1 w = n2" "reading r 2 w = n3" "reading r 3 w = n4"
    by (simp_all add: numeral_2_eq_2 numeral_3_eq_3)
  have "time_Sub (deletion_deadline r b) n4 \<le> 0" using assms(5) rd by (auto simp: time_Sub_def)
  with assms n rd show ?thesis by (simp add: reconcileDeletion_def Let_def)
qed

section \<open>New bindings\<close>

text \<open>
  C19: A new binding and its reservation name each other. When the reservation for a Pod succeeds, the
  binding built from it parses back to the key of exactly the lease the store holds for it, that lease
  matches the UIDs, identity and address the later Ensure, Release and Quarantine compare, and the
  binding matches the Pod, route and gateway it was built from, so that the next reconciliation keeps it.
\<close>

theorem new_binding_roundtrip:
  assumes R: "Reserve H (pbr_allocator r) (Some g) (meta_UID (pod_Meta pod)) pool w = Some (Inr rv, w')"
    and "lease_store (cl_leases (pbr_Client r)) st" "lease_store (cl_leases (pbr_reader r)) st"
    and b: "b = new_binding name pod route g rv network"
  shows "\<exists>k x. ReservationForBinding H b = Inr k
     \<and> ParsePrefix (alloc_Address (bind_Allocation (bind_Spec b))) = Some x \<and> resv_Address rv = x
     \<and> st w' k = Some (resv_Lease rv)
     \<and> reservationMatches (resv_Lease rv) (nref_UID (bind_GatewayRef (bind_Spec b))) (lref_UID (bind_PodRef (bind_Spec b)))
         (alloc_Identity (bind_Allocation (bind_Spec b))) x
     \<and> bindingMatches b pod route g"
proof -
  have st: "\<And>C. a_Client (pbr_allocator r) = Some C \<Longrightarrow> lease_store (cl_leases C) st \<and> lease_store (a_reader (pbr_allocator r) C) st"
    using assms(2,3) by (simp add: pbr_allocator_def a_reader_def)
  from R st show ?thesis
  proof (rule Reserve_reserved)
    fix base n u v
    assume x: "resv_Address rv = probe_prefix base v u n"
      and rs: "reserved H st (gw_Meta g) (meta_UID (pod_Meta pod))
        (allocationIdentity H (meta_UID (gw_Meta g)) (meta_UID (pod_Meta pod))) rv w'"
    have p: "ParsePrefix (alloc_Address (bind_Allocation (bind_Spec b))) = Some (resv_Address rv)"
      by (simp add: b new_binding_def x probe_prefix_eq host_prefix_roundtrip)
    have "ReservationForBinding H b = Inr (meta_Namespace (gw_Meta g), reservationName H (meta_UID (gw_Meta g)) (resv_Address rv))"
      using ReservationForBinding_Inr [OF p] by (simp add: b new_binding_def)
    moreover have "bindingMatches b pod route g"
      by (simp add: b new_binding_def bindingMatches_def object_meta_zero_def timestamp_set_def)
    ultimately show ?thesis using p rs by (simp add: reserved_def b new_binding_def)
  qed
qed

text \<open>
  The network intent of a binding is within the bounds of the data plane. When the controller
  computes an intent, the health port is a port, the network identifier fits 24 bits and is not zero,
  the MTU is between 576 and 9000, the endpoint has a port, the gateway address lies in the overlay
  network whose masked form the intent carries, and the intent is of the gateway's current generation.
\<close>

lemma network_intent_bounds:
  assumes "workloadNetworkIntent g = Inr n"
  shows "1 \<le> net_GatewayHealthPort n \<and> net_GatewayHealthPort n \<le> 65535
     \<and> 1 \<le> net_VNI n \<and> net_VNI n < 2 ^ 24 \<and> 576 \<le> net_MTU n \<and> net_MTU n \<le> 9000
     \<and> net_GatewayGeneration n = meta_Generation (gw_Meta g)
     \<and> (\<exists>overlay address endpoint.
          ParsePrefix (map_index (address_values (gwst_Addresses (gw_Status g))) GatewayAddressTypeOverlayCIDR) = Some overlay
          \<and> ParseAddr (map_index (address_values (gwst_Addresses (gw_Status g))) GatewayAddressTypeOverlayAddress) = Some address
          \<and> ParseAddrPort (map_index (address_values (gwst_Addresses (gw_Status g))) GatewayAddressTypeUnderlayEndpoint) = Some endpoint
          \<and> pfx_Contains overlay address \<and> ap_Port endpoint \<noteq> 0
          \<and> net_OverlayCIDR n = pfx_String (pfx_Masked overlay) \<and> net_GatewayAddress n = addr_String address
          \<and> net_GatewayEndpoint n = ap_String endpoint)"
  using assms
  by (auto simp: workloadNetworkIntent_def Let_def in_range_def split: if_splits option.splits)

definition ex_network_gateway :: VPNGateway where
  "ex_network_gateway = ex_live_gateway\<lparr>gw_Status := (gw_Status ex_live_gateway)\<lparr>gwst_Addresses :=
     map (\<lambda>(t, v). \<lparr>ga_Type = t, ga_Value = v\<rparr>)
       [(GatewayAddressTypeOverlayCIDR, pfx_String (Prefix (Addr4 167772161) (Some 29))), (GatewayAddressTypeOverlayAddress, string4 167772161),
        (GatewayAddressTypeUnderlayEndpoint, ap_String (AddrPort (Addr4 3232235778) 4789)), (GatewayAddressTypeOverlayHealthPort, itoa 8080),
        (GatewayAddressTypeVNI, itoa 42), (GatewayAddressTypeMTU, itoa 1370)]\<rparr>\<rparr>"

lemma ex_network_values:
  "map_index (address_values (gwst_Addresses (gw_Status ex_network_gateway))) GatewayAddressTypeOverlayCIDR = pfx_String (Prefix (Addr4 167772161) (Some 29))"
  "map_index (address_values (gwst_Addresses (gw_Status ex_network_gateway))) GatewayAddressTypeOverlayAddress = string4 167772161"
  "map_index (address_values (gwst_Addresses (gw_Status ex_network_gateway))) GatewayAddressTypeUnderlayEndpoint = ap_String (AddrPort (Addr4 3232235778) 4789)"
  "map_index (address_values (gwst_Addresses (gw_Status ex_network_gateway))) GatewayAddressTypeOverlayHealthPort = itoa 8080"
  "map_index (address_values (gwst_Addresses (gw_Status ex_network_gateway))) GatewayAddressTypeVNI = itoa 42"
  "map_index (address_values (gwst_Addresses (gw_Status ex_network_gateway))) GatewayAddressTypeMTU = itoa 1370"
  by (simp_all add: ex_network_gateway_def address_values_def)

lemma ex_network_contains: "pfx_Contains (Prefix (Addr4 167772161) (Some 29)) (Addr4 167772161)"
  by (simp add: pfx_Contains_def)

lemma ex_network_nonempty: "pfx_String (Prefix a (Some n)) \<noteq> []" "ap_String (AddrPort (Addr4 v) p) \<noteq> []"
  by (simp_all add: pfx_String_def ap_String_def)

lemma ex_network_intent: "\<exists>n. workloadNetworkIntent ex_network_gateway = Inr n \<and> net_VNI n = 42"
  by (simp add: workloadNetworkIntent_def ex_network_values ex_network_contains ex_network_nonempty string4_head
      ParsePrefix_String4 ParseAddrPort_String4 ParseInt32_itoa required_address_types_def in_range_def Let_def)

section \<open>Witnesses\<close>

definition ex_net :: WorkloadNetworkIntent where
  "ex_net = \<lparr>net_GatewayGeneration = 0, net_OverlayCIDR = [], net_GatewayAddress = [], net_GatewayEndpoint = [],
     net_GatewayHealthPort = 1, net_VNI = 1, net_MTU = 1400, net_ClusterTraffic = \<lparr>ct_Mode = ClusterTrafficTunnelAll, ct_BypassCIDRs = []\<rparr>\<rparr>"

definition ex_bound :: VPNWorkloadBinding where
  "ex_bound = \<lparr>bind_Meta = object_meta_zero\<lparr>meta_Name := ''b'', meta_Namespace := ''a'', meta_Generation := 1,
       meta_Finalizers := [DataplaneCleanupFinalizer]\<rparr>,
     bind_Spec = \<lparr>bind_PodRef = \<lparr>lref_Name = ''pod'', lref_UID = ''p''\<rparr>, bind_RouteRef = \<lparr>lref_Name = ''r'', lref_UID = ''ru''\<rparr>,
       bind_GatewayRef = \<lparr>nref_Namespace = ''vpn'', nref_Name = ''g'', nref_UID = meta_UID (gw_Meta ex_live_gateway)\<rparr>,
       bind_NodeName = ''n'', bind_Allocation = \<lparr>alloc_Identity = ''i'', alloc_Address = ''10.0.0.4/32''\<rparr>, bind_Network = ex_net\<rparr>,
     bind_Status = \<lparr>bindst_ObservedGeneration = 0, bindst_AppliedGeneration = 1, bindst_ObservedPodUID = ''p'',
       bindst_ObservedGatewayUID = meta_UID (gw_Meta ex_live_gateway),
       bindst_Agent = Some \<lparr>agent_NodeName = ''n'', agent_NodeBootID = ''nb'', agent_InstanceID = ''ni'', agent_ObservedAt = 0\<rparr>, bindst_Conditions = []\<rparr>\<rparr>"

definition ex_binding_reconciler :: "mem_world VPNWorkloadBindingReconciler" where
  "ex_binding_reconciler = \<lparr>wbr_Client = mem_cluster, wbr_APIReader = None, wbr_now = mem_now,
     wbr_CleanupTimeout = 0, wbr_ObservationTTL = 0\<rparr>"

lemma ex_bound_ready:
  "binding_Ready kube_lib_ref (fst (binding_desiredStatus kube_lib_ref ex_binding_reconciler ex_bound
     (fst (observeGateway kube_lib_ref ex_binding_reconciler ex_bound ex_live_world)) 5)) 1"
  by code_simp

lemma ex_bound_generation: "meta_Generation (bind_Meta ex_bound) = 1"
  by (simp add: ex_bound_def)


theorem binding_Ready_expires_witness:
  "\<exists>d. 0 < d \<and> d \<le> 30 * Second \<and> (\<forall>obs s d'. binding_desiredStatus kube_lib_ref ex_binding_reconciler ex_bound obs (5 + d) = (s, d')
     \<longrightarrow> \<not> binding_Ready kube_lib_ref s 1)"
proof -
  obtain obs w' where o: "observeGateway kube_lib_ref ex_binding_reconciler ex_bound ex_live_world = (obs, w')" by fastforce
  obtain s d where d: "binding_desiredStatus kube_lib_ref ex_binding_reconciler ex_bound obs 5 = (s, d)" by fastforce
  from ex_bound_ready o d have r: "binding_Ready kube_lib_ref s (meta_Generation (bind_Meta ex_bound))"
    by (simp add: ex_bound_generation)
  have t: "observationTTL ex_binding_reconciler = 30 * Second"
    by (simp add: observationTTL_def ex_binding_reconciler_def defaultObservationTTL_def)
  have a: "bindst_Agent (bind_Status ex_bound) = Some \<lparr>agent_NodeName = ''n'', agent_NodeBootID = ''nb'', agent_InstanceID = ''ni'', agent_ObservedAt = 0\<rparr>"
    by (simp add: ex_bound_def)
  have *: "0 < d \<and> d \<le> 30 * Second \<and> \<not> binding_Ready kube_lib_ref s' 1"
    if "binding_desiredStatus kube_lib_ref ex_binding_reconciler ex_bound obs' (5 + d) = (s', d')" for obs' s' d'
    using binding_Ready_expires [OF ref.kube_library_axioms d r a _ _ order_refl that] t
    by (simp add: ex_bound_generation Second_def)
  obtain s' d' where "binding_desiredStatus kube_lib_ref ex_binding_reconciler ex_bound obs (5 + d) = (s', d')" by fastforce
  with * show ?thesis by blast
qed







definition ex_pod_reconciler :: "mem_world PodBindingReconciler" where
  "ex_pod_reconciler = \<lparr>pbr_Client = mem_cluster, pbr_APIReader = None, pbr_now = mem_now\<rparr>"

definition ex_pod :: pod where
  "ex_pod = \<lparr>pod_Meta = object_meta_zero\<lparr>meta_Name := ''pod'', meta_Namespace := ''a'', meta_UID := ''p''\<rparr>,
     pod_NodeName = ''n'', pod_HostNetwork = False, pod_ServiceAccountName = [], pod_Phase = PodRunning\<rparr>"

lemma ex_pod_reserved: "reserved_address (Reserve ex_H (pbr_allocator ex_pod_reconciler) (Some ex_pool_gateway)
    (meta_UID (pod_Meta ex_pod)) ex_pool mem_world_empty) = Some (Prefix (Addr4 167772164) (Some 32))"
  by code_simp

theorem new_binding_roundtrip_witness:
  "\<exists>rv. ParsePrefix (alloc_Address (bind_Allocation (bind_Spec (new_binding ''b'' ex_pod (ex_route ''a'') ex_pool_gateway rv ex_net))))
     = Some (Prefix (Addr4 167772164) (Some 32))"
proof -
  from ex_pod_reserved obtain rv w' where rv: "Reserve ex_H (pbr_allocator ex_pod_reconciler) (Some ex_pool_gateway)
    (meta_UID (pod_Meta ex_pod)) ex_pool mem_world_empty = Some (Inr rv, w')" "resv_Address rv = Prefix (Addr4 167772164) (Some 32)"
    by (rule reserved_addressD)
  have "lease_store (cl_leases (pbr_Client ex_pod_reconciler)) (\<lambda>w. map_of (mw_leases w))"
    "lease_store (cl_leases (pbr_reader ex_pod_reconciler)) (\<lambda>w. map_of (mw_leases w))"
    using mem_leases.object_store_axioms by (simp_all add: ex_pod_reconciler_def pbr_reader_def)
  from new_binding_roundtrip [OF rv(1) this refl, of "''b''" "ex_route ''a''" ex_net] rv(2) show ?thesis by auto
qed

end
