(* ===== verification/Cni_Plugin.thy ===== *)
theory Cni_Plugin
  imports Waycloak_Prelude "HOL-Library.Monad_Syntax"
begin

text \<open>
  The chained CNI plugin: \<open>src/internal/cni/types.go\<close> and \<open>src/internal/cni/plugin.go\<close>. The agent, the
  enforcer and the store are Go interfaces, so they are records of calls here; nil is None. The outer
  option of Add is None only when a bounded wait never ends. \<open>pl_wait d t\<close> is the select between the
  end of the context with deadline \<open>t\<close> (True) and a timer of \<open>d\<close> (False).
\<close>

section \<open>Types\<close>

definition ErrNotExist :: go_error where "ErrNotExist = Err ''file does not exist''"
definition ErrBindingNotReady :: go_error where "ErrBindingNotReady = Err ''workload binding is not ready''"
definition ErrPodNotFound :: go_error where "ErrPodNotFound = Err ''exact Kubernetes Pod is absent''"

record PodIdentity =
  pi_Namespace :: string
  pi_Name :: string
  pi_UID :: string
  pi_ContainerID :: string
  pi_IfName :: string
  pi_NetNS :: string

definition pod_Validate :: "PodIdentity \<Rightarrow> go_error option" where
  "pod_Validate p =
     (if pi_Namespace p = [] \<or> pi_Name p = [] \<or> pi_UID p = []
        then Some (Err ''exact Pod namespace, name, and UID are required'')
      else if pi_ContainerID p = [] \<or> pi_IfName p = [] \<or> pi_NetNS p = []
        then Some (Err ''exact sandbox container, interface, and network namespace identities are required'')
      else None)"

record cni_Resolution =
  cr_PodUID :: string
  cr_Enrolled :: bool
  cr_Terminating :: bool

record cni_Binding =
  cb_UID :: string
  cb_Generation :: int
  cb_PodUID :: string
  cb_GatewayUID :: string

definition binding_Validate :: "cni_Binding \<Rightarrow> string \<Rightarrow> go_error option" where
  "binding_Validate b expectedPodUID =
     (if cb_UID b = [] \<or> cb_Generation b < 1 \<or> cb_PodUID b = [] \<or> cb_GatewayUID b = []
        then Some (Err ''binding UID, generation, Pod UID, and gateway UID are required'')
      else if cb_PodUID b \<noteq> expectedPodUID then Some (Err ''binding Pod UID does not match exact CNI Pod UID'')
      else None)"

record 'w Agent =
  ag_Resolve :: "PodIdentity \<Rightarrow> ('w, cni_Resolution result) call"
  ag_Binding :: "PodIdentity \<Rightarrow> ('w, cni_Binding result) call"
  ag_Prepare :: "PodIdentity \<Rightarrow> cni_Binding \<Rightarrow> ('w, go_error option) call"
  ag_Check :: "PodIdentity \<Rightarrow> cni_Binding \<Rightarrow> ('w, go_error option) call"
  ag_Withdraw :: "PodIdentity \<Rightarrow> ('w, go_error option) call"
  ag_Status :: "('w, go_error option) call"

record 'w Enforcer =
  en_Identity :: "string \<Rightarrow> ('w, string result) call"
  en_InstallLockdown :: "string \<Rightarrow> string \<Rightarrow> ('w, go_error option) call"
  en_Cleanup :: "string \<Rightarrow> string \<Rightarrow> ('w, go_error option) call"

text \<open>A phase is a string in the source; one that is neither of the two constants is \<open>PhaseOther\<close>.\<close>

datatype Phase = PhaseLockedDown | PhaseReady | PhaseOther string

record Attachment =
  at_Network :: string
  at_Pod :: PodIdentity
  at_NamespaceIdentity :: string
  at_Phase :: Phase
  at_BindingUID :: string
  at_BindingGeneration :: int
  at_GatewayUID :: string
  at_UpdatedAt :: time

record cni_Key =
  key_Network :: string
  key_ContainerID :: string
  key_IfName :: string

definition at_Key :: "Attachment \<Rightarrow> cni_Key" where
  "at_Key a = \<lparr>key_Network = at_Network a, key_ContainerID = pi_ContainerID (at_Pod a), key_IfName = pi_IfName (at_Pod a)\<rparr>"

definition attachment_Validate :: "Attachment \<Rightarrow> go_error option" where
  "attachment_Validate a =
     (if at_Network a = [] then Some (Err ''CNI network name is required'')
      else case pod_Validate (at_Pod a) of Some e \<Rightarrow> Some e
      | None \<Rightarrow>
        if at_NamespaceIdentity a = [] then Some (Err ''network namespace identity is required'')
        else (case at_Phase a of
           PhaseLockedDown \<Rightarrow> None
         | PhaseReady \<Rightarrow>
             if at_BindingUID a = [] \<or> at_BindingGeneration a < 1 \<or> at_GatewayUID a = []
               then Some (Err ''ready attachment requires exact current binding identity'') else None
         | PhaseOther _ \<Rightarrow> Some (Err ''unknown attachment phase'')))"

definition key_Validate :: "cni_Key \<Rightarrow> go_error option" where
  "key_Validate k = (if key_Network k = [] \<or> key_ContainerID k = [] \<or> key_IfName k = []
     then Some (Err ''network, container ID, and interface name are required'') else None)"

record 'w Store =
  s_Load :: "cni_Key \<Rightarrow> ('w, Attachment result) call"
  s_Save :: "Attachment \<Rightarrow> ('w, go_error option) call"
  s_Delete :: "cni_Key \<Rightarrow> ('w, go_error option) call"
  s_List :: "string \<Rightarrow> ('w, Attachment list result) call"

record cni_Request =
  rq_Network :: string
  rq_Pod :: PodIdentity

definition rq_Key :: "cni_Request \<Rightarrow> cni_Key" where
  "rq_Key r = \<lparr>key_Network = rq_Network r, key_ContainerID = pi_ContainerID (rq_Pod r), key_IfName = pi_IfName (rq_Pod r)\<rparr>"

definition request_Validate :: "cni_Request \<Rightarrow> go_error option" where
  "request_Validate r = (if rq_Network r = [] then Some (Err ''CNI network name is required'') else pod_Validate (rq_Pod r))"

section \<open>The plugin\<close>

record 'w Plugin =
  pl_Agent :: "'w Agent option"
  pl_Enforcer :: "'w Enforcer option"
  pl_Store :: "'w Store option"
  pl_ResolveTimeout :: duration
  pl_BindingTimeout :: duration
  pl_RetryInterval :: duration
  pl_now :: "('w, time) call"
  pl_wait :: "duration \<Rightarrow> time \<Rightarrow> ('w, bool) call"

definition resolveTimeout :: "'w Plugin \<Rightarrow> duration" where
  "resolveTimeout p = (if pl_ResolveTimeout p > 0 then pl_ResolveTimeout p else 2 * Second)"
definition bindingTimeout :: "'w Plugin \<Rightarrow> duration" where
  "bindingTimeout p = (if pl_BindingTimeout p > 0 then pl_BindingTimeout p else 10 * Second)"
definition retryInterval :: "'w Plugin \<Rightarrow> duration" where
  "retryInterval p = (if pl_RetryInterval p > 0 then pl_RetryInterval p else 100 * Millisecond)"

partial_function (option) retry_loop :: "(duration \<Rightarrow> time \<Rightarrow> ('w, bool) call) \<Rightarrow> time \<Rightarrow> duration \<Rightarrow>
    ('w, 'a result) call \<Rightarrow> 'w \<Rightarrow> ('a result \<times> 'w) option" where
  "retry_loop wait deadline interval operation w = (case operation w of
     (Inr value, w1) \<Rightarrow> Some (Inr value, w1)
   | (Inl e, w1) \<Rightarrow> (case wait interval deadline w1 of (expired, w2) \<Rightarrow>
       if expired then Some (Inl (Errorf ''bounded wait expired'' [e]), w2)
       else retry_loop wait deadline interval operation w2))"

declare retry_loop.simps [code]

definition retryValue :: "'w Plugin \<Rightarrow> duration \<Rightarrow> duration \<Rightarrow> ('w, 'a result) call \<Rightarrow> 'w \<Rightarrow> ('a result \<times> 'w) option" where
  "retryValue p timeout interval operation w = (case pl_now p w of (now, w1) \<Rightarrow>
     retry_loop (pl_wait p) (now + timeout) interval operation w1)"

definition plugin_validate :: "'w Plugin \<Rightarrow> cni_Request \<Rightarrow> ('w Agent \<times> 'w Enforcer \<times> 'w Store) result" where
  "plugin_validate p request = (case request_Validate request of Some e \<Rightarrow> Inl e
   | None \<Rightarrow> (case (pl_Agent p, pl_Enforcer p, pl_Store p) of
       (Some A, Some E, Some S) \<Rightarrow> Inr (A, E, S)
     | _ \<Rightarrow> Inl (Err ''local agent, namespace enforcer, and state store are required'')))"

definition sameAttachment :: "Attachment \<Rightarrow> cni_Request \<Rightarrow> string \<Rightarrow> go_error option" where
  "sameAttachment a request namespaceIdentity =
     (if at_Network a \<noteq> rq_Network request \<or> at_Pod a \<noteq> rq_Pod request
        then Some (Err ''stored attachment does not match exact CNI attachment identity'')
      else if at_NamespaceIdentity a \<noteq> namespaceIdentity
        then Some (Err ''network namespace identity changed for the same CNI attachment'')
      else None)"

definition errorWithContext :: "string \<Rightarrow> go_error option \<Rightarrow> go_error option" where
  "errorWithContext message err = map_option (\<lambda>e. Errorf message [e]) err"

definition stored_binding :: "Attachment \<Rightarrow> cni_Request \<Rightarrow> cni_Binding" where
  "stored_binding a request = \<lparr>cb_UID = at_BindingUID a, cb_Generation = at_BindingGeneration a,
     cb_PodUID = pi_UID (rq_Pod request), cb_GatewayUID = at_GatewayUID a\<rparr>"

definition same_pod :: "PodIdentity \<Rightarrow> PodIdentity \<Rightarrow> bool" where
  "same_pod p q \<longleftrightarrow> pi_Namespace p = pi_Namespace q \<and> pi_Name p = pi_Name q \<and> pi_UID p = pi_UID q"

definition hasPriorEnrollment :: "'w Store \<Rightarrow> cni_Request \<Rightarrow> ('w, bool result) call" where
  "hasPriorEnrollment S request w = (case s_List S (rq_Network request) w of
     (Inl e, w1) \<Rightarrow> (Inl e, w1)
   | (Inr attachments, w1) \<Rightarrow> (Inr (list_ex (\<lambda>a. same_pod (at_Pod a) (rq_Pod request)) attachments), w1))"

text \<open>
  Add, from the first call that changes anything on: deny first and record it; then wait for the binding,
  record it, prepare and record ready.
\<close>

definition add_bind :: "'w Plugin \<Rightarrow> 'w Agent \<Rightarrow> 'w Store \<Rightarrow> cni_Request \<Rightarrow> Attachment \<Rightarrow>
    'w \<Rightarrow> (go_error option \<times> 'w) option" where
  "add_bind p A S request attachment w =
     (case retryValue p (bindingTimeout p) (retryInterval p) (ag_Binding A (rq_Pod request)) w of
        None \<Rightarrow> None
      | Some (Inl e, w1) \<Rightarrow> Some (Some (Errorf ''wait for UID-bound allocation with deny retained'' [e]), w1)
      | Some (Inr binding, w1) \<Rightarrow> (case binding_Validate binding (pi_UID (rq_Pod request)) of
          Some e \<Rightarrow> Some (Some (Errorf ''validate UID-bound protected-path configuration with deny retained'' [e]), w1)
        | None \<Rightarrow> (case pl_now p w1 of (t2, w2) \<Rightarrow>
          let attachment = attachment\<lparr>at_BindingUID := cb_UID binding, at_BindingGeneration := cb_Generation binding,
                at_GatewayUID := cb_GatewayUID binding, at_UpdatedAt := t2\<rparr> in
          (case s_Save S attachment w2 of
             (Some e, w3) \<Rightarrow> Some (Some (Errorf ''record allocated attachment state'' [e]), w3)
           | (None, w3) \<Rightarrow> (case ag_Prepare A (rq_Pod request) binding w3 of
               (Some e, w4) \<Rightarrow> Some (Some (Errorf ''ask local agent to program and verify protected path after deny'' [e]), w4)
             | (None, w4) \<Rightarrow> (case pl_now p w4 of (t3, w5) \<Rightarrow>
               (case s_Save S (attachment\<lparr>at_Phase := PhaseReady, at_UpdatedAt := t3\<rparr>) w5 of
                  (Some e, w6) \<Rightarrow> Some (Some (Errorf ''record ready attachment state'' [e]), w6)
                | (None, w6) \<Rightarrow> Some (None, w6))))))))"

definition locked_attachment :: "cni_Request \<Rightarrow> string \<Rightarrow> time \<Rightarrow> Attachment" where
  "locked_attachment request namespaceIdentity t = \<lparr>at_Network = rq_Network request, at_Pod = rq_Pod request,
     at_NamespaceIdentity = namespaceIdentity, at_Phase = PhaseLockedDown,
     at_BindingUID = [], at_BindingGeneration = 0, at_GatewayUID = [], at_UpdatedAt = t\<rparr>"

definition add_protect :: "'w Plugin \<Rightarrow> 'w Agent \<Rightarrow> 'w Enforcer \<Rightarrow> 'w Store \<Rightarrow> cni_Request \<Rightarrow> string \<Rightarrow>
    'w \<Rightarrow> (go_error option \<times> 'w) option" where
  "add_protect p A E S request namespaceIdentity w =
     (case en_InstallLockdown E (pi_NetNS (rq_Pod request)) (pi_UID (rq_Pod request)) w of
        (Some e, w1) \<Rightarrow> Some (Some (Errorf ''install deny-first policy'' [e]), w1)
      | (None, w1) \<Rightarrow> (case pl_now p w1 of (t1, w2) \<Rightarrow>
        let attachment = locked_attachment request namespaceIdentity t1 in
        (case s_Save S attachment w2 of
           (Some e, w3) \<Rightarrow> (case en_Cleanup E (pi_NetNS (rq_Pod request)) (pi_UID (rq_Pod request)) w3 of
             (rollback, w4) \<Rightarrow> Some (errors_Join [Some (Errorf ''record deny-first attachment state'' [e]),
                 errorWithContext ''roll back unrecorded deny-first state'' rollback], w4))
         | (None, w3) \<Rightarrow> add_bind p A S request attachment w3)))"

definition Add :: "'w Plugin \<Rightarrow> cni_Request \<Rightarrow> 'w \<Rightarrow> (go_error option \<times> 'w) option" where
  "Add p request w = (case plugin_validate p request of Inl e \<Rightarrow> Some (Some e, w)
   | Inr (A, E, S) \<Rightarrow> (case en_Identity E (pi_NetNS (rq_Pod request)) w of
       (Inl e, w1) \<Rightarrow> Some (Some (Errorf ''resolve exact network namespace identity'' [e]), w1)
     | (Inr namespaceIdentity, w1) \<Rightarrow> (case s_Load S (rq_Key request) w1 of
         (Inr existing, w2) \<Rightarrow> (case sameAttachment existing request namespaceIdentity of
             Some e \<Rightarrow> Some (Some e, w2)
           | None \<Rightarrow>
               if at_Phase existing = PhaseReady then
                 (case ag_Check A (rq_Pod request) (stored_binding existing request) w2 of
                    (None, w3) \<Rightarrow> Some (None, w3)
                  | (Some _, w3) \<Rightarrow> add_protect p A E S request namespaceIdentity w3)
               else add_protect p A E S request namespaceIdentity w2)
       | (Inl loadErr, w2) \<Rightarrow>
           if \<not> errors_Is loadErr ErrNotExist then Some (Some (Errorf ''load prior attachment state'' [loadErr]), w2)
           else (case hasPriorEnrollment S request w2 of
             (Inl e, w3) \<Rightarrow> Some (Some (Errorf ''find prior UID-bound enrollment'' [e]), w3)
           | (Inr sticky, w3) \<Rightarrow>
               if sticky then add_protect p A E S request namespaceIdentity w3
               else (case retryValue p (resolveTimeout p) (retryInterval p) (ag_Resolve A (rq_Pod request)) w3 of
                  None \<Rightarrow> None
                | Some (Inl e, w4) \<Rightarrow> Some (Some (Errorf ''resolve exact Pod enrollment through local agent'' [e]), w4)
                | Some (Inr resolution, w4) \<Rightarrow>
                    if cr_PodUID resolution \<noteq> pi_UID (rq_Pod request)
                      then Some (Some (Err ''local agent resolved Pod UID, expected''), w4)
                    else if \<not> cr_Enrolled resolution then Some (None, w4)
                    else add_protect p A E S request namespaceIdentity w4)))))"

definition Check :: "'w Plugin \<Rightarrow> cni_Request \<Rightarrow> ('w, go_error option) call" where
  "Check p request w = (case plugin_validate p request of Inl e \<Rightarrow> (Some e, w)
   | Inr (A, E, S) \<Rightarrow> (case s_Load S (rq_Key request) w of
       (Inl e, w1) \<Rightarrow> (Some (Errorf ''load attachment state for CHECK'' [e]), w1)
     | (Inr attachment, w1) \<Rightarrow> (case en_Identity E (pi_NetNS (rq_Pod request)) w1 of
         (Inl e, w2) \<Rightarrow> (Some (Errorf ''resolve network namespace identity for CHECK'' [e]), w2)
       | (Inr namespaceIdentity, w2) \<Rightarrow> (case sameAttachment attachment request namespaceIdentity of
           Some e \<Rightarrow> (Some e, w2)
         | None \<Rightarrow>
             if at_Phase attachment \<noteq> PhaseReady
               then (Some (Err ''attachment has not completed deny-first protected-path setup''), w2)
             else (case ag_Check A (rq_Pod request) (stored_binding attachment request) w2 of
               (Some e, w3) \<Rightarrow> (Some (Errorf ''local agent cannot confirm live attachment'' [e]), w3)
             | (None, w3) \<Rightarrow> (None, w3))))))"

definition delete_confirmed :: "'w Agent \<Rightarrow> 'w Enforcer \<Rightarrow> 'w Store \<Rightarrow> cni_Key \<Rightarrow> string \<Rightarrow> Attachment \<Rightarrow> ('w, go_error option) call" where
  "delete_confirmed A E S key netns attachment w = (
     let path = (if netns = [] then pi_NetNS (at_Pod attachment) else netns) in
     case en_Identity E path w of (identity, w1) \<Rightarrow>
       if (case identity of Inl e \<Rightarrow> \<not> errors_Is e ErrNotExist | Inr _ \<Rightarrow> False)
         then (Some (Errorf ''observe exact network namespace for DEL'' (case identity of Inl e \<Rightarrow> [e] | Inr _ \<Rightarrow> [])), w1)
       else (case ag_Withdraw A (at_Pod attachment) w1 of
         (Some e, w2) \<Rightarrow> (Some (Errorf ''confirm exact attachment withdrawal'' [e]), w2)
       | (None, w2) \<Rightarrow>
           (case (if identity = Inr (at_NamespaceIdentity attachment)
                    then en_Cleanup E path (pi_UID (at_Pod attachment)) w2 else (None, w2)) of
              (Some e, w3) \<Rightarrow> (Some (Errorf ''remove exact Waycloak network state'' [e]), w3)
            | (None, w3) \<Rightarrow> (case s_Delete S key w3 of
                (Some e, w4) \<Rightarrow> (Some (Errorf ''delete attachment state'' [e]), w4)
              | (None, w4) \<Rightarrow> (None, w4)))))"

definition plugin_Delete :: "'w Plugin \<Rightarrow> cni_Key \<Rightarrow> string \<Rightarrow> ('w, go_error option) call" where
  "plugin_Delete p key netns w = (case (pl_Agent p, pl_Store p, pl_Enforcer p) of
     (Some A, Some S, Some E) \<Rightarrow> (case s_Load S key w of
         (Inl e, w1) \<Rightarrow> if errors_Is e ErrNotExist then (None, w1)
                        else (Some (Errorf ''load attachment state for DEL'' [e]), w1)
       | (Inr attachment, w1) \<Rightarrow> (case ag_Resolve A (at_Pod attachment) w1 of
           (Inl e, w2) \<Rightarrow>
             if \<not> errors_Is e ErrPodNotFound
               then (Some (Errorf ''resolve exact Pod for DEL with durable state retained'' [e]), w2)
             else delete_confirmed A E S key netns attachment w2
         | (Inr resolution, w2) \<Rightarrow>
             if cr_PodUID resolution \<noteq> pi_UID (at_Pod attachment) \<or> \<not> cr_Terminating resolution then (None, w2)
             else delete_confirmed A E S key netns attachment w2))
   | _ \<Rightarrow> (Some (Err ''local agent, CNI store, and enforcer are required''), w))"

fun gc_loop :: "'w Enforcer \<Rightarrow> 'w Store \<Rightarrow> (cni_Key \<Rightarrow> bool) \<Rightarrow> Attachment list \<Rightarrow> ('w, go_error option list) call" where
  "gc_loop E S valid [] w = ([], w)"
| "gc_loop E S valid (a # as) w =
     (if valid (at_Key a) then gc_loop E S valid as w
      else case en_Identity E (pi_NetNS (at_Pod a)) w of (identity, w1) \<Rightarrow>
        (case (if identity = Inr (at_NamespaceIdentity a)
                 then en_Cleanup E (pi_NetNS (at_Pod a)) (pi_UID (at_Pod a)) w1 else (None, w1)) of
           (Some e, w2) \<Rightarrow> (case gc_loop E S valid as w2 of (errs, w3) \<Rightarrow> (Some e # errs, w3))
         | (None, w2) \<Rightarrow> (case s_Delete S (at_Key a) w2 of
             (e, w3) \<Rightarrow> (case gc_loop E S valid as w3 of (errs, w4) \<Rightarrow> (e # errs, w4)))))"

definition GC :: "'w Plugin \<Rightarrow> string \<Rightarrow> (cni_Key \<Rightarrow> bool) \<Rightarrow> ('w, go_error option) call" where
  "GC p network valid w = (case (pl_Store p, pl_Enforcer p) of
     (Some S, Some E) \<Rightarrow> (case s_List S network w of
         (Inl e, w1) \<Rightarrow> (Some e, w1)
       | (Inr attachments, w1) \<Rightarrow> (case gc_loop E S valid attachments w1 of (errs, w2) \<Rightarrow> (errors_Join errs, w2)))
   | _ \<Rightarrow> (Some (Err ''CNI store and enforcer are required''), w))"

definition plugin_Status :: "'w Plugin \<Rightarrow> ('w, go_error option) call" where
  "plugin_Status p w = (case pl_Agent p of None \<Rightarrow> (Some (Err ''local agent is required''), w) | Some A \<Rightarrow> ag_Status A w)"

section \<open>What the plugin relies on of its store\<close>

text \<open>
  \<open>st w k\<close> is the attachment a load of \<open>k\<close> would find. Saving and deleting may make another key
  unreadable, never readable with other content; a failed write changes nothing.
\<close>

locale attachment_store =
  fixes S :: "'w Store" and st :: "'w \<Rightarrow> cni_Key \<rightharpoonup> Attachment"
  assumes load_keeps: "keeps st (s_Load S k)"
    and load_ok: "s_Load S k w = (Inr a, w') \<Longrightarrow> st w k = Some a"
    and load_missing: "s_Load S k w = (Inl e, w') \<Longrightarrow> errors_Is e ErrNotExist \<Longrightarrow> st w k = None"
    and save_ok: "s_Save S a w = (None, w') \<Longrightarrow> st w' (at_Key a) = Some a \<and> attachment_Validate a = None"
    and save_other: "s_Save S a w = (None, w') \<Longrightarrow> k \<noteq> at_Key a \<Longrightarrow> st w' k = st w k \<or> st w' k = None"
    and save_failed: "s_Save S a w = (Some e, w') \<Longrightarrow> st w' = st w"
    and delete_ok: "s_Delete S k w = (None, w') \<Longrightarrow> st w' k = None"
    and delete_other: "s_Delete S k w = (None, w') \<Longrightarrow> st w' k' = st w k' \<or> st w' k' = None"
    and delete_failed: "s_Delete S k w = (Some e, w') \<Longrightarrow> st w' = st w"
    and list_keeps: "keeps st (s_List S n)"
    and list_complete: "s_List S n w = (Inr as, w') \<Longrightarrow> st w k = Some a \<Longrightarrow> at_Network a = n \<Longrightarrow> a \<in> set as"
begin

lemma load_frame: "s_Load S k w = (y, w') \<Longrightarrow> st w' = st w"
  by (rule keepsD [OF load_keeps])

lemma prior_frame: "hasPriorEnrollment S request w = (y, w') \<Longrightarrow> st w' = st w"
  by (auto simp: hasPriorEnrollment_def split: prod.splits sum.splits dest: keepsD [OF list_keeps])

lemma prior_complete:
  "hasPriorEnrollment S request w = (Inr False, w') \<Longrightarrow> st w k = Some a \<Longrightarrow> at_Network a = rq_Network request \<Longrightarrow>
    \<not> same_pod (at_Pod a) (rq_Pod request)"
  by (auto simp: hasPriorEnrollment_def list_ex_iff split: prod.splits sum.splits dest: list_complete)

end

end
