(* ===== verification/Cni_Store.thy ===== *)
theory Cni_Store
  imports Cni_Plugin Go_Sha256 Go_Netip "HOL-Library.Sublist"
begin

text \<open>
  \<open>src/internal/cni/store.go\<close>: attachments as one JSON file each. The operating system is the record
  \<open>'w os\<close>, with its documented behaviour as the locale \<open>file_system\<close>; the JSON codec of an attachment is
  a pair of functions, of which only that decoding undoes encoding is used. \<open>H\<close> is the digest.
\<close>

record 'w os =
  os_ReadFile :: "string \<Rightarrow> ('w, string result) call"
  os_ReadDir :: "string \<Rightarrow> ('w, (string \<times> bool) list result) call"
  os_MkdirAll :: "string \<Rightarrow> ('w, go_error option) call"
  os_CreateTemp :: "string \<Rightarrow> string \<Rightarrow> ('w, string result) call"
  os_Chmod :: "string \<Rightarrow> ('w, go_error option) call"
  os_Write :: "string \<Rightarrow> string \<Rightarrow> ('w, go_error option) call"
  os_Sync :: "string \<Rightarrow> ('w, go_error option) call"
  os_Close :: "string \<Rightarrow> ('w, go_error option) call"
  os_Rename :: "string \<Rightarrow> string \<Rightarrow> ('w, go_error option) call"
  os_Remove :: "string \<Rightarrow> ('w, go_error option) call"

record codec =
  json_Marshal :: "Attachment \<Rightarrow> string result"
  json_Unmarshal :: "string \<Rightarrow> Attachment result"

text \<open>The directory is a clean path, so that joining a name to it is plain concatenation.\<close>

definition path_Join :: "string \<Rightarrow> string \<Rightarrow> string" where
  "path_Join directory name = directory @ ''/'' @ name"

definition key_name :: "(string \<Rightarrow> 8 word list) \<Rightarrow> cni_Key \<Rightarrow> string" where
  "key_name H key = EncodeToString (H (key_Network key @ [CHR 0x00] @ key_ContainerID key @ [CHR 0x00] @ key_IfName key)) @ ''.json''"

definition store_path :: "(string \<Rightarrow> 8 word list) \<Rightarrow> string \<Rightarrow> cni_Key \<Rightarrow> string" where
  "store_path H directory key = path_Join directory (key_name H key)"

definition Load :: "(string \<Rightarrow> 8 word list) \<Rightarrow> codec \<Rightarrow> 'w os \<Rightarrow> string \<Rightarrow> cni_Key \<Rightarrow> ('w, Attachment result) call" where
  "Load H J OS directory key w = (case key_Validate key of Some e \<Rightarrow> (Inl e, w)
   | None \<Rightarrow> (case os_ReadFile OS (store_path H directory key) w of
       (Inl e, w1) \<Rightarrow> (Inl e, w1)
     | (Inr data, w1) \<Rightarrow> (case json_Unmarshal J data of
         Inl e \<Rightarrow> (Inl (Errorf ''decode attachment state'' [e]), w1)
       | Inr attachment \<Rightarrow> (case attachment_Validate attachment of
           Some e \<Rightarrow> (Inl (Errorf ''validate attachment state'' [e]), w1)
         | None \<Rightarrow>
             if at_Key attachment \<noteq> key then (Inl (Err ''attachment state key does not match its filename''), w1)
             else (Inr attachment, w1)))))"

text \<open>Writing and publishing the temporary file; the deferred removal runs on every way out.\<close>

definition close_with :: "'w os \<Rightarrow> string \<Rightarrow> go_error \<Rightarrow> ('w, go_error option) call" where
  "close_with OS temporary e w = (case os_Close OS temporary w of (_, w1) \<Rightarrow> (Some e, w1))"

definition publish :: "'w os \<Rightarrow> string \<Rightarrow> string \<Rightarrow> string \<Rightarrow> ('w, go_error option) call" where
  "publish OS temporary data target w =
     (case os_Chmod OS temporary w of (Some e, w1) \<Rightarrow> close_with OS temporary e w1
      | (None, w1) \<Rightarrow> (case os_Write OS temporary data w1 of (Some e, w2) \<Rightarrow> close_with OS temporary e w2
      | (None, w2) \<Rightarrow> (case os_Sync OS temporary w2 of (Some e, w3) \<Rightarrow> close_with OS temporary e w3
      | (None, w3) \<Rightarrow> (case os_Close OS temporary w3 of (Some e, w4) \<Rightarrow> (Some e, w4)
      | (None, w4) \<Rightarrow> (case os_Rename OS temporary target w4 of
          (Some e, w5) \<Rightarrow> (Some (Errorf ''publish attachment state'' [e]), w5)
        | (None, w5) \<Rightarrow> (None, w5))))))"

definition Save :: "(string \<Rightarrow> 8 word list) \<Rightarrow> codec \<Rightarrow> 'w os \<Rightarrow> string \<Rightarrow> Attachment \<Rightarrow> ('w, go_error option) call" where
  "Save H J OS directory attachment w = (case attachment_Validate attachment of Some e \<Rightarrow> (Some e, w)
   | None \<Rightarrow> (case os_MkdirAll OS directory w of
       (Some e, w1) \<Rightarrow> (Some (Errorf ''create CNI state directory'' [e]), w1)
     | (None, w1) \<Rightarrow> (case json_Marshal J attachment of
         Inl e \<Rightarrow> (Some (Errorf ''encode attachment state'' [e]), w1)
       | Inr data \<Rightarrow> (case os_CreateTemp OS directory ''.waycloak-attachment-*'' w1 of
           (Inl e, w2) \<Rightarrow> (Some (Errorf ''create temporary attachment state'' [e]), w2)
         | (Inr temporary, w2) \<Rightarrow>
             (case publish OS temporary data (store_path H directory (at_Key attachment)) w2 of (e, w3) \<Rightarrow>
              (case os_Remove OS temporary w3 of (_, w4) \<Rightarrow> (e, w4)))))))"

definition store_Delete :: "(string \<Rightarrow> 8 word list) \<Rightarrow> 'w os \<Rightarrow> string \<Rightarrow> cni_Key \<Rightarrow> ('w, go_error option) call" where
  "store_Delete H OS directory key w = (case key_Validate key of Some e \<Rightarrow> (Some e, w)
   | None \<Rightarrow> (case os_Remove OS (store_path H directory key) w of
       (None, w1) \<Rightarrow> (None, w1)
     | (Some e, w1) \<Rightarrow> if errors_Is e ErrNotExist then (None, w1) else (Some e, w1)))"

fun list_loop :: "codec \<Rightarrow> 'w os \<Rightarrow> string \<Rightarrow> (Attachment \<Rightarrow> bool) \<Rightarrow> (string \<times> bool) list \<Rightarrow> Attachment list \<Rightarrow>
    ('w, Attachment list result) call" where
  "list_loop J OS directory wanted [] attachments w = (Inr attachments, w)"
| "list_loop J OS directory wanted ((name, isDir) # entries) attachments w =
     (if isDir \<or> \<not> suffix ''.json'' name then list_loop J OS directory wanted entries attachments w
      else case os_ReadFile OS (path_Join directory name) w of
        (Inl e, w1) \<Rightarrow> (Inl e, w1)
      | (Inr data, w1) \<Rightarrow> (case json_Unmarshal J data of
          Inl e \<Rightarrow> (Inl (Errorf ''decode attachment state'' [e]), w1)
        | Inr attachment \<Rightarrow> (case attachment_Validate attachment of
            Some e \<Rightarrow> (Inl (Errorf ''validate attachment state'' [e]), w1)
          | None \<Rightarrow> list_loop J OS directory wanted entries
                (if wanted attachment then attachments @ [attachment] else attachments) w1)))"

definition list_directory :: "codec \<Rightarrow> 'w os \<Rightarrow> string \<Rightarrow> (Attachment \<Rightarrow> bool) \<Rightarrow> ('w, Attachment list result) call" where
  "list_directory J OS directory wanted w = (case os_ReadDir OS directory w of
     (Inl e, w1) \<Rightarrow> if errors_Is e ErrNotExist then (Inr [], w1) else (Inl e, w1)
   | (Inr entries, w1) \<Rightarrow> list_loop J OS directory wanted entries [] w1)"

definition store_List :: "codec \<Rightarrow> 'w os \<Rightarrow> string \<Rightarrow> string \<Rightarrow> ('w, Attachment list result) call" where
  "store_List J OS directory network w =
     (if network = [] then (Inl (Err ''CNI network name is required''), w)
      else list_directory J OS directory (\<lambda>a. at_Network a = network) w)"

definition ListAll :: "codec \<Rightarrow> 'w os \<Rightarrow> string \<Rightarrow> ('w, Attachment list result) call" where
  "ListAll J OS directory = list_directory J OS directory (\<lambda>_. True)"

definition FileStore :: "(string \<Rightarrow> 8 word list) \<Rightarrow> codec \<Rightarrow> 'w os \<Rightarrow> string \<Rightarrow> 'w Store" where
  "FileStore H J OS directory = \<lparr>s_Load = Load H J OS directory, s_Save = Save H J OS directory,
     s_Delete = store_Delete H OS directory, s_List = store_List J OS directory\<rparr>"

section \<open>The file system\<close>

text \<open>
  \<open>files w\<close> maps paths to contents. A temporary file is new, and its name does not end in the suffix of
  a record; writing touches the named file only; renaming and removing happen at once or not at all.
\<close>

locale file_system =
  fixes OS :: "'w os" and files :: "'w \<Rightarrow> string \<rightharpoonup> string"
  assumes read_keeps: "keeps files (os_ReadFile OS p)"
    and read_ok: "os_ReadFile OS p w = (Inr d, w') \<Longrightarrow> files w p = Some d"
    and read_missing: "os_ReadFile OS p w = (Inl e, w') \<Longrightarrow> errors_Is e ErrNotExist \<Longrightarrow> files w p = None"
    and dir_keeps: "keeps files (os_ReadDir OS p)"
    and dir_complete: "os_ReadDir OS p w = (Inr es, w') \<Longrightarrow> CHR ''/'' \<notin> set name \<Longrightarrow>
      files w (path_Join p name) = Some d \<Longrightarrow> (name, False) \<in> set es"
    and dir_missing: "os_ReadDir OS p w = (Inl e, w') \<Longrightarrow> errors_Is e ErrNotExist \<Longrightarrow> files w (path_Join p name) = None"
    and mkdir_keeps: "keeps files (os_MkdirAll OS p)"
    and temp_ok: "os_CreateTemp OS p pattern w = (Inr t, w') \<Longrightarrow>
      files w t = None \<and> files w' = (files w)(t \<mapsto> []) \<and> \<not> suffix ''.json'' t"
    and temp_failed: "os_CreateTemp OS p pattern w = (Inl e, w') \<Longrightarrow> files w' = files w"
    and chmod_keeps: "keeps files (os_Chmod OS p)"
    and write_ok: "os_Write OS p d w = (None, w') \<Longrightarrow> files w p = Some c \<Longrightarrow> files w' = (files w)(p \<mapsto> c @ d)"
    and write_other: "os_Write OS p d w = (y, w') \<Longrightarrow> q \<noteq> p \<Longrightarrow> files w' q = files w q"
    and sync_keeps: "keeps files (os_Sync OS p)"
    and close_keeps: "keeps files (os_Close OS p)"
    and rename_ok: "os_Rename OS p q w = (None, w') \<Longrightarrow> p \<noteq> q \<Longrightarrow> files w' = (files w)(p := None, q := files w p)"
    and rename_failed: "os_Rename OS p q w = (Some e, w') \<Longrightarrow> files w' = files w"
    and remove_ok: "os_Remove OS p w = (None, w') \<Longrightarrow> files w' = (files w)(p := None)"
    and remove_failed: "os_Remove OS p w = (Some e, w') \<Longrightarrow> files w' = files w"
    and remove_missing: "os_Remove OS p w = (Some e, w') \<Longrightarrow> errors_Is e ErrNotExist \<Longrightarrow> files w p = None"

section \<open>The file store keeps the contract of a store\<close>

definition loadable :: "(string \<Rightarrow> 8 word list) \<Rightarrow> codec \<Rightarrow> string \<Rightarrow> (string \<rightharpoonup> string) \<Rightarrow> cni_Key \<rightharpoonup> Attachment" where
  "loadable H J directory fs k = (if key_Validate k \<noteq> None then None
     else case fs (store_path H directory k) of None \<Rightarrow> None
     | Some d \<Rightarrow> (case json_Unmarshal J d of Inl _ \<Rightarrow> None
       | Inr a \<Rightarrow> if attachment_Validate a = None \<and> at_Key a = k then Some a else None))"

lemma hex_digit_no_slash: "unat d < 16 \<Longrightarrow> hex_digit d \<noteq> CHR ''/''"
  by (auto simp: hex_digit_def Let_def char_of_eq_iff take_bit_eq_mod)

lemma hex_no_slash: "CHR ''/'' \<notin> set (EncodeToString bs)"
proof -
  have "unat (drop_bit 4 (b :: 8 word)) < 16" "unat (b AND 15) < 16" for b
    using unsigned_less [of b, where 'a = nat] word_and_le1 [of b 15]
    by (simp_all add: unat_drop_bit_div word_le_nat_alt)
  then show ?thesis using hex_digit_no_slash by (auto simp: EncodeToString_def) (metis)+
qed

lemma suffix_store_path: "suffix ''.json'' (store_path H directory k)"
  by (simp add: store_path_def path_Join_def key_name_def suffix_def)

lemma key_name_suffix: "suffix ''.json'' (key_name H k)"
  by (simp add: key_name_def suffix_def)

lemma attachment_key_valid: "attachment_Validate a = None \<Longrightarrow> key_Validate (at_Key a) = None"
  by (auto simp: attachment_Validate_def key_Validate_def at_Key_def pod_Validate_def split: if_splits option.splits)

lemma loadable_cong:
  "(\<And>k. fs' (store_path H directory k) = fs (store_path H directory k)) \<Longrightarrow> loadable H J directory fs' = loadable H J directory fs"
  by (simp add: loadable_def fun_eq_iff)

lemma loadable_other:
  assumes "\<And>q. q \<noteq> p \<Longrightarrow> suffix ''.json'' q \<Longrightarrow> fs' q = fs q"
    and "\<And>d a. fs' p = Some d \<Longrightarrow> json_Unmarshal J d = Inr a \<Longrightarrow> at_Key a \<noteq> k"
  shows "loadable H J directory fs' k = loadable H J directory fs k \<or> loadable H J directory fs' k = None"
proof (cases "store_path H directory k = p")
  case True
  then have "loadable H J directory fs' k = None"
    using assms(2) by (auto simp: loadable_def split: option.splits sum.splits)
  then show ?thesis by simp
next
  case False
  then show ?thesis using assms(1) [OF _ suffix_store_path] by (simp add: loadable_def)
qed

context file_system
begin

lemma close_with_keeps: "close_with OS t e w = (y, w') \<Longrightarrow> y = Some e \<and> files w' = files w"
  by (auto simp: close_with_def split: prod.splits dest: keepsD [OF close_keeps])

lemma publish_other:
  assumes "publish OS t d target w = (Some e, w')" and "q \<noteq> t"
  shows "files w' q = files w q"
  using assms(1) unfolding publish_def
  by (auto split: prod.splits option.splits dest!: close_with_keeps keepsD [OF chmod_keeps] keepsD [OF sync_keeps]
      keepsD [OF close_keeps] rename_failed write_other [OF _ assms(2)])

lemma publish_ok:
  assumes "publish OS t d target w = (None, w')" and "files w t = Some []" and "t \<noteq> target"
  shows "files w' = (files w)(t := None, target \<mapsto> d)"
proof -
  obtain w1 w2 w3 w4 where c: "os_Chmod OS t w = (None, w1)" and wr: "os_Write OS t d w1 = (None, w2)"
    and sy: "os_Sync OS t w2 = (None, w3)" and cl: "os_Close OS t w3 = (None, w4)" and rn: "os_Rename OS t target w4 = (None, w')"
    using assms(1) unfolding publish_def by (auto split: prod.splits option.splits dest!: close_with_keeps)
  have "files w1 = files w" by (rule keepsD [OF chmod_keeps c])
  with assms(2) write_ok [OF wr, of "[]"] have "files w2 = (files w)(t \<mapsto> d)" by simp
  with keepsD [OF sync_keeps sy] keepsD [OF close_keeps cl] have "files w4 = (files w)(t \<mapsto> d)" by simp
  with rename_ok [OF rn assms(3)] show ?thesis by simp
qed

end

locale file_store = file_system OS files
  for OS :: "'w os" and files :: "'w \<Rightarrow> string \<rightharpoonup> string" +
  fixes J :: codec
  assumes codec: "json_Marshal J a = Inr d \<Longrightarrow> json_Unmarshal J d = Inr a"
begin

lemma Load_cases:
  assumes "Load H J OS directory k w = (y, w')"
  shows "files w' = files w" and "y = Inr a \<Longrightarrow> loadable H J directory (files w) k = Some a"
    and "y = Inl e \<Longrightarrow> errors_Is e ErrNotExist \<Longrightarrow> loadable H J directory (files w) k = None"
proof -
  have "files w' = files w \<and> (y = Inr a \<longrightarrow> loadable H J directory (files w) k = Some a) \<and> (y = Inl e \<longrightarrow> errors_Is e ErrNotExist \<longrightarrow> loadable H J directory (files w) k = None)"
  proof (cases "key_Validate k")
    case (Some x)
    with assms show ?thesis by (auto simp: Load_def loadable_def)
  next
    case valid: None
    obtain r w1 where r: "os_ReadFile OS (store_path H directory k) w = (r, w1)" by fastforce
    have f: "files w1 = files w" by (rule keepsD [OF read_keeps r])
    show ?thesis
    proof (cases r)
      case (Inl x)
      with assms valid r have y: "y = Inl x" "w' = w1" by (simp_all add: Load_def)
      with f read_missing [OF r [unfolded Inl]] show ?thesis by (simp add: loadable_def)
    next
      case (Inr d)
      have d: "files w (store_path H directory k) = Some d" by (rule read_ok [OF r [unfolded Inr]])
      have "w' = w1 \<and> (case y of Inr a \<Rightarrow> loadable H J directory (files w) k = Some a | Inl _ \<Rightarrow> loadable H J directory (files w) k = None)"
      proof (cases "json_Unmarshal J d")
        case (Inl x)
        with assms valid r \<open>r = Inr d\<close> d show ?thesis by (auto simp: Load_def loadable_def)
      next
        case (Inr b)
        show ?thesis
        proof (cases "attachment_Validate b = None \<and> at_Key b = k")
          case True
          with assms valid r \<open>r = Inr d\<close> d Inr have "y = Inr b" "w' = w1" by (simp_all add: Load_def)
          with True valid d Inr show ?thesis by (simp add: loadable_def)
        next
          case False
          with assms valid r \<open>r = Inr d\<close> d Inr have "(\<exists>e. y = Inl e) \<and> w' = w1"
            by (cases "attachment_Validate b") (auto simp: Load_def)
          with False valid d Inr show ?thesis by (auto simp: loadable_def)
        qed
      qed
      with f show ?thesis by (auto split: sum.splits)
    qed
  qed
  then show "files w' = files w" "y = Inr a \<Longrightarrow> loadable H J directory (files w) k = Some a"
    "y = Inl e \<Longrightarrow> errors_Is e ErrNotExist \<Longrightarrow> loadable H J directory (files w) k = None" by blast+
qed

lemma Save_cases:
  assumes "Save H J OS directory a w = (y, w')"
  obtains (failed) e where "y = Some e" "\<And>q. suffix ''.json'' q \<Longrightarrow> files w' q = files w q"
  | (saved) d where "y = None" "attachment_Validate a = None" "json_Marshal J a = Inr d"
      "\<And>q. suffix ''.json'' q \<Longrightarrow> files w' q = (if q = store_path H directory (at_Key a) then Some d else files w q)"
proof -
  let ?p = "store_path H directory (at_Key a)"
  obtain r1 w1 where mk: "os_MkdirAll OS directory w = (r1, w1)" by fastforce
  obtain r2 w2 where ct: "os_CreateTemp OS directory ''.waycloak-attachment-*'' w1 = (r2, w2)" by fastforce
  have f1: "files w1 = files w" by (rule keepsD [OF mkdir_keeps mk])
  note body = assms [unfolded Save_def mk prod.case ct]
  show thesis
  proof (cases "attachment_Validate a")
    case (Some e)
    with body have "y = Some e" "w' = w" by simp_all
    then show thesis by (intro failed [of e]) simp_all
  next
    case valid: None
    show thesis
    proof (cases "r1 \<noteq> None \<or> (\<exists>e. json_Marshal J a = Inl e) \<or> (\<exists>e. r2 = Inl e)")
      case True
      have "\<exists>e. y = Some e \<and> files w' = files w"
      proof (cases "r1 = None \<and> (\<exists>d. json_Marshal J a = Inr d)")
        case d: True
        with True obtain e where e: "r2 = Inl e" by auto
        with body valid d have "\<exists>e. y = Some e" "w' = w2" by auto
        with temp_failed [OF ct [unfolded e]] f1 show ?thesis by simp
      next
        case False
        with body valid have "(\<exists>e. y = Some e) \<and> w' = w1"
          by (cases r1; cases "json_Marshal J a") auto
        with f1 show ?thesis by simp
      qed
      then obtain e where "y = Some e" "files w' = files w" by blast
      then show thesis by (intro failed [of e]) simp_all
    next
      case False
      then obtain d t where d: "json_Marshal J a = Inr d" and t: "r2 = Inr t" and r1: "r1 = None"
        by (cases "json_Marshal J a"; cases r2) auto
      obtain r3 w3 where pb: "publish OS t d ?p w2 = (r3, w3)" by fastforce
      obtain r4 w4 where rm: "os_Remove OS t w3 = (r4, w4)" by fastforce
      have y: "y = r3" "w' = w4" using body valid d t r1 pb rm by simp_all
      from temp_ok [OF ct [unfolded t]] have t': "files w2 = (files w)(t \<mapsto> [])" "\<not> suffix ''.json'' t" using f1 by auto
      then have ne: "t \<noteq> ?p" and q: "\<And>q. suffix ''.json'' q \<Longrightarrow> q \<noteq> t" using suffix_store_path by auto
      have rmf: "files w4 q = files w3 q" if "q \<noteq> t" for q
        using rm that by (cases r4) (auto dest: remove_ok remove_failed)
      show thesis
      proof (cases r3)
        case (Some e)
        have "files w' q = files w q" if "suffix ''.json'' q" for q
          using rmf [OF q [OF that]] publish_other [OF pb [unfolded Some] q [OF that]] t'(1) q [OF that] y(2) by simp
        with y(1) Some show thesis by (intro failed [of e]) simp_all
      next
        case None
        with publish_ok [OF pb [unfolded None] _ ne] t'(1) have "files w3 = (files w)(t := None, ?p \<mapsto> d)" by simp
        then have "files w' x = (if x = ?p then Some d else files w x)" if "suffix ''.json'' x" for x
          using rmf [OF q [OF that]] q [OF that] y(2) by simp
        with y(1) None valid d show thesis by (intro saved [of d]) simp_all
      qed
    qed
  qed
qed

lemma Save_ok:
  assumes "Save H J OS directory a w = (None, w')"
  shows "loadable H J directory (files w') (at_Key a) = Some a" "attachment_Validate a = None" "loadable H J directory (files w') k = loadable H J directory (files w) k \<or> k = at_Key a \<or> loadable H J directory (files w') k = None"
proof -
  from assms obtain d where d: "attachment_Validate a = None" "json_Marshal J a = Inr d"
    and f: "\<And>q. suffix ''.json'' q \<Longrightarrow> files w' q = (if q = store_path H directory (at_Key a) then Some d else files w q)"
    by (rule Save_cases) auto
  show "attachment_Validate a = None" by (rule d(1))
  show "loadable H J directory (files w') (at_Key a) = Some a"
    using f [OF suffix_store_path] codec [OF d(2)] d(1) attachment_key_valid [OF d(1)] by (simp add: loadable_def)
  show "loadable H J directory (files w') k = loadable H J directory (files w) k \<or> k = at_Key a \<or> loadable H J directory (files w') k = None"
  proof (cases "k = at_Key a")
    case False
    have "loadable H J directory (files w') k = loadable H J directory (files w) k \<or> loadable H J directory (files w') k = None"
      by (rule loadable_other [of "store_path H directory (at_Key a)"])
        (use f f [OF suffix_store_path] codec [OF d(2)] False in auto)
    then show ?thesis by (elim disjE) simp_all
  qed simp
qed

lemma Save_failed: "Save H J OS directory a w = (Some e, w') \<Longrightarrow> loadable H J directory (files w') = loadable H J directory (files w)"
  by (erule Save_cases) (auto intro!: loadable_cong simp: suffix_store_path)

lemma Delete_cases:
  assumes "store_Delete H OS directory k w = (y, w')"
  obtains (failed) e where "y = Some e" "files w' = files w"
  | (gone) "y = None" "files w' = (files w)(store_path H directory k := None)"
proof (cases "key_Validate k")
  case (Some e)
  with assms failed [of e] show thesis by (simp add: store_Delete_def)
next
  case None
  obtain r w1 where r: "os_Remove OS (store_path H directory k) w = (r, w1)" by fastforce
  show thesis
  proof (cases r)
    case None
    with assms \<open>key_Validate k = None\<close> r gone remove_ok [of "store_path H directory k" w w1]
    show thesis by (simp add: store_Delete_def)
  next
    case (Some e)
    note r = r [unfolded Some]
    have f: "files w1 = files w" by (rule remove_failed [OF r])
    show thesis
    proof (cases "errors_Is e ErrNotExist")
      case True
      with remove_missing [OF r] have "files w1 = (files w)(store_path H directory k := None)" using f by auto
      with assms \<open>key_Validate k = None\<close> r True gone show thesis by (simp add: store_Delete_def)
    next
      case False
      with assms \<open>key_Validate k = None\<close> r f failed [of e] show thesis by (simp add: store_Delete_def)
    qed
  qed
qed

lemma Delete_None:
  "store_Delete H OS directory k w = (None, w') \<Longrightarrow> files w' = (files w)(store_path H directory k := None)"
  by (erule Delete_cases) simp_all

lemma Delete_Some: "store_Delete H OS directory k w = (Some e, w') \<Longrightarrow> files w' = files w"
  by (erule Delete_cases) simp_all

lemma list_loop_step:
  assumes "list_loop J OS directory wanted ((name, isDir) # es) as w = (y, w')"
  obtains (skip) "isDir \<or> \<not> suffix ''.json'' name" "list_loop J OS directory wanted es as w = (y, w')"
  | (stop) e where "y = Inl e" "files w' = files w"
  | (more) d a w1 where "files w (path_Join directory name) = Some d" "json_Unmarshal J d = Inr a" "files w1 = files w"
      "list_loop J OS directory wanted es (if wanted a then as @ [a] else as) w1 = (y, w')"
proof (cases "isDir \<or> \<not> suffix ''.json'' name")
  case True
  with assms skip show thesis by simp
next
  case False
  obtain r w1 where r: "os_ReadFile OS (path_Join directory name) w = (r, w1)" by fastforce
  have f: "files w1 = files w" by (rule keepsD [OF read_keeps r])
  show thesis
  proof (cases r)
    case (Inl e)
    with assms False r f stop [of e] show thesis by simp
  next
    case (Inr d)
    note d = read_ok [OF r [unfolded Inr]]
    show thesis
    proof (cases "json_Unmarshal J d")
      case (Inl e)
      with assms False r f \<open>r = Inr d\<close> stop [of "Errorf ''decode attachment state'' [e]"] show thesis by simp
    next
      case a: (Inr a)
      show thesis
      proof (cases "attachment_Validate a")
        case None
        with assms False r f \<open>r = Inr d\<close> a d more [of d a w1] show thesis by simp
      next
        case (Some e)
        with assms False r f \<open>r = Inr d\<close> a stop [of "Errorf ''validate attachment state'' [e]"] show thesis by simp
      qed
    qed
  qed
qed

lemma list_loop_keeps: "list_loop J OS directory wanted es as w = (y, w') \<Longrightarrow> files w' = files w"
proof (induction es arbitrary: as w)
  case (Cons x es)
  obtain n isDir where x: "x = (n, isDir)" by fastforce
  from Cons.prems show ?case unfolding x by (rule list_loop_step) (auto dest: Cons.IH)
qed simp

lemma list_loop_grows:
  "list_loop J OS directory wanted es as w = (Inr xs, w') \<Longrightarrow> set as \<subseteq> set xs"
proof (induction es arbitrary: as w)
  case (Cons x es)
  obtain n isDir where x: "x = (n, isDir)" by fastforce
  from Cons.prems show ?case unfolding x by (rule list_loop_step) (auto dest!: Cons.IH split: if_splits)
qed simp

lemma list_loop_complete:
  assumes a: "suffix ''.json'' name" "json_Unmarshal J d = Inr a" "wanted a"
  shows "list_loop J OS directory wanted es as w = (Inr xs, w') \<Longrightarrow> (name, False) \<in> set es \<Longrightarrow>
    files w (path_Join directory name) = Some d \<Longrightarrow> a \<in> set xs"
proof (induction es arbitrary: as w)
  case (Cons x es)
  obtain n isDir where x: "x = (n, isDir)" by fastforce
  from Cons.prems(1) [unfolded x] show ?case
  proof (cases rule: list_loop_step)
    case skip
    have "(name, False) \<in> set es" using skip(1) Cons.prems(2) x a(1) by fastforce
    from Cons.IH [OF skip(2) this Cons.prems(3)] show ?thesis .
  next
    case (more d' a' w1)
    show ?thesis
    proof (cases "(name, False) = x")
      case True
      have "d' = d" using True x more(1) Cons.prems(3) by simp
      then have "a' = a" using more(2) a(2) by simp
      then show ?thesis using list_loop_grows [OF more(4)] a(3) by simp
    next
      case False
      have m: "(name, False) \<in> set es" using False Cons.prems(2) by simp
      have "files w1 (path_Join directory name) = Some d" using more(3) Cons.prems(3) by simp
      from Cons.IH [OF more(4) m this] show ?thesis .
    qed
  next
    case (stop e)
    then show ?thesis by simp
  qed
next
  case Nil
  then show ?case by simp
qed

lemma list_directory_keeps: "list_directory J OS directory wanted w = (y, w') \<Longrightarrow> files w' = files w"
  by (auto simp: list_directory_def split: prod.splits sum.splits if_splits
      dest!: list_loop_keeps keepsD [OF dir_keeps])

lemma key_name_no_slash: "CHR ''/'' \<notin> set (key_name H k)"
  using hex_no_slash by (simp add: key_name_def)

lemma list_directory_complete:
  assumes L: "list_directory J OS directory wanted w = (Inr xs, w')" and k: "loadable H J directory (files w) k = Some a" and "wanted a"
  shows "a \<in> set xs"
proof -
  from k obtain d where d: "files w (path_Join directory (key_name H k)) = Some d" "json_Unmarshal J d = Inr a"
    by (auto simp: loadable_def store_path_def split: if_splits option.splits sum.splits)
  obtain r w1 where r: "os_ReadDir OS directory w = (r, w1)" by fastforce
  have f: "files w1 = files w" by (rule keepsD [OF dir_keeps r])
  show ?thesis
  proof (cases r)
    case (Inl e)
    with L r have "errors_Is e ErrNotExist" by (simp add: list_directory_def split: if_splits)
    from dir_missing [OF r [unfolded Inl] this] d(1) show ?thesis by simp
  next
    case (Inr es)
    with L r have "list_loop J OS directory wanted es [] w1 = (Inr xs, w')" by (simp add: list_directory_def)
    from list_loop_complete [OF key_name_suffix d(2) assms(3) this dir_complete [OF r [unfolded Inr] key_name_no_slash d(1)]]
    show ?thesis using f d(1) by simp
  qed
qed

lemma List_keeps: "store_List J OS directory n w = (y, w') \<Longrightarrow> files w' = files w"
  by (auto simp: store_List_def split: if_splits dest: list_directory_keeps)

lemma List_complete:
  "store_List J OS directory n w = (Inr xs, w') \<Longrightarrow> loadable H J directory (files w) k = Some a \<Longrightarrow> at_Network a = n \<Longrightarrow> a \<in> set xs"
  by (auto simp: store_List_def split: if_splits dest: list_directory_complete)

end

lemma file_store_contract:
  assumes F: "file_store OS files J"
  shows "attachment_store (FileStore H J OS directory) (\<lambda>w. loadable H J directory (files w))"
proof
  fix k k' :: cni_Key and w w' and a :: Attachment and e and n and xs :: "Attachment list"
  let ?S = "FileStore H J OS directory" and ?st = "\<lambda>w. loadable H J directory (files w)"
  show "keeps ?st (s_Load ?S k)"
    by (simp add: keeps_def FileStore_def file_store.Load_cases(1) [OF F, OF prod.collapse [symmetric]])
  show "s_Load ?S k w = (Inr a, w') \<Longrightarrow> ?st w k = Some a"
    by (auto simp: FileStore_def dest: file_store.Load_cases(2) [OF F])
  show "s_Load ?S k w = (Inl e, w') \<Longrightarrow> errors_Is e ErrNotExist \<Longrightarrow> ?st w k = None"
    by (auto simp: FileStore_def dest: file_store.Load_cases(3) [OF F])
  show "s_Save ?S a w = (None, w') \<Longrightarrow> ?st w' (at_Key a) = Some a \<and> attachment_Validate a = None"
    by (simp add: FileStore_def file_store.Save_ok(1,2) [OF F])
  show "s_Save ?S a w = (None, w') \<Longrightarrow> k \<noteq> at_Key a \<Longrightarrow> ?st w' k = ?st w k \<or> ?st w' k = None"
    using file_store.Save_ok(3) [OF F, of H directory a w w' k] by (simp add: FileStore_def)
  show "s_Save ?S a w = (Some e, w') \<Longrightarrow> ?st w' = ?st w"
    by (simp add: FileStore_def file_store.Save_failed [OF F])
  show "s_Delete ?S k w = (None, w') \<Longrightarrow> ?st w' k = None"
    by (simp add: FileStore_def loadable_def file_store.Delete_None [OF F])
  show "s_Delete ?S k w = (None, w') \<Longrightarrow> ?st w' k' = ?st w k' \<or> ?st w' k' = None"
    by (simp add: FileStore_def loadable_def file_store.Delete_None [OF F])
  show "s_Delete ?S k w = (Some e, w') \<Longrightarrow> ?st w' = ?st w"
    by (simp add: FileStore_def file_store.Delete_Some [OF F])
  show "keeps ?st (s_List ?S n)"
    by (simp add: keeps_def FileStore_def file_store.List_keeps [OF F, OF prod.collapse [symmetric]])
  show "s_List ?S n w = (Inr xs, w') \<Longrightarrow> ?st w k = Some a \<Longrightarrow> at_Network a = n \<Longrightarrow> a \<in> set xs"
    by (simp add: FileStore_def file_store.List_complete [OF F])
qed

section \<open>An in-memory file system and a codec\<close>

record mem_fs =
  mf_files :: "(string \<times> string) list"

definition mem_temp :: "string \<Rightarrow> string \<Rightarrow> (string \<times> string) list \<Rightarrow> string" where
  "mem_temp p pattern fs = path_Join p (butlast pattern @ replicate (Suc (sum_list (map (length \<circ> fst) fs))) CHR ''0'')"

definition mem_os :: "'z mem_fs_scheme os" where
  "mem_os = \<lparr>
     os_ReadFile = (\<lambda>p w. (case map_of (mf_files w) p of None \<Rightarrow> Inl ErrNotExist | Some d \<Rightarrow> Inr d, w)),
     os_ReadDir = (\<lambda>p w. (Inr (map (\<lambda>(q, _). (drop (Suc (length p)) q, False))
         (filter (\<lambda>(q, _). prefix (p @ ''/'') q) (mf_files w))), w)),
     os_MkdirAll = (\<lambda>p w. (None, w)),
     os_CreateTemp = (\<lambda>p pattern w. let t = mem_temp p pattern (mf_files w) in (Inr t, w\<lparr>mf_files := (t, []) # mf_files w\<rparr>)),
     os_Chmod = (\<lambda>p w. (None, w)),
     os_Write = (\<lambda>p d w. case map_of (mf_files w) p of None \<Rightarrow> (Some ErrNotExist, w)
         | Some c \<Rightarrow> (None, w\<lparr>mf_files := (p, c @ d) # mf_files w\<rparr>)),
     os_Sync = (\<lambda>p w. (None, w)),
     os_Close = (\<lambda>p w. (None, w)),
     os_Rename = (\<lambda>p q w. case map_of (mf_files w) p of None \<Rightarrow> (Some ErrNotExist, w)
         | Some c \<Rightarrow> (None, w\<lparr>mf_files := (q, c) # filter (\<lambda>(x, _). x \<noteq> p) (mf_files w)\<rparr>)),
     os_Remove = (\<lambda>p w. if map_of (mf_files w) p = None then (Some ErrNotExist, w)
         else (None, w\<lparr>mf_files := filter (\<lambda>(x, _). x \<noteq> p) (mf_files w)\<rparr>))\<rparr>"

lemma map_of_without: "map_of (filter (\<lambda>(x, _). x \<noteq> p) fs) = (map_of fs)(p := None)"
  by (induction fs) (auto simp: fun_eq_iff)

lemma mem_temp_fresh: "map_of fs (mem_temp p pattern fs) = None"
proof (cases "map_of fs (mem_temp p pattern fs)")
  case (Some d)
  then have "length (mem_temp p pattern fs) \<in> set (map (length \<circ> fst) fs)" by (force dest: map_of_SomeD)
  then have "length (mem_temp p pattern fs) \<le> sum_list (map (length \<circ> fst) fs)" by (rule member_le_sum_list) simp
  then show ?thesis by (simp add: mem_temp_def path_Join_def)
qed

lemma mem_temp_suffix: "\<not> suffix ''.json'' (mem_temp p pattern fs)"
proof
  assume "suffix ''.json'' (mem_temp p pattern fs)"
  then have "last (mem_temp p pattern fs) = CHR ''n''" by (auto simp: suffix_def)
  then show False by (simp add: mem_temp_def path_Join_def del: replicate_Suc split: if_splits)
qed

lemma mem_os_sel:
  "os_ReadFile mem_os p w = (case map_of (mf_files w) p of None \<Rightarrow> Inl ErrNotExist | Some d \<Rightarrow> Inr d, w)"
  "os_ReadDir mem_os p w = (Inr (map (\<lambda>(q, _). (drop (Suc (length p)) q, False))
         (filter (\<lambda>(q, _). prefix (p @ ''/'') q) (mf_files w))), w)"
  "os_MkdirAll mem_os p w = (None, w)" "os_Chmod mem_os p w = (None, w)" "os_Sync mem_os p w = (None, w)" "os_Close mem_os p w = (None, w)"
  "os_CreateTemp mem_os p pattern w = (Inr (mem_temp p pattern (mf_files w)), w\<lparr>mf_files := (mem_temp p pattern (mf_files w), []) # mf_files w\<rparr>)"
  "os_Write mem_os p d w = (case map_of (mf_files w) p of None \<Rightarrow> (Some ErrNotExist, w)
         | Some c \<Rightarrow> (None, w\<lparr>mf_files := (p, c @ d) # mf_files w\<rparr>))"
  "os_Rename mem_os p q w = (case map_of (mf_files w) p of None \<Rightarrow> (Some ErrNotExist, w)
         | Some c \<Rightarrow> (None, w\<lparr>mf_files := (q, c) # filter (\<lambda>(x, _). x \<noteq> p) (mf_files w)\<rparr>))"
  "os_Remove mem_os p w = (if map_of (mf_files w) p = None then (Some ErrNotExist, w)
         else (None, w\<lparr>mf_files := filter (\<lambda>(x, _). x \<noteq> p) (mf_files w)\<rparr>))"
  by (simp_all add: mem_os_def Let_def)

lemma mem_ReadDir_complete:
  assumes "map_of fs (path_Join p name) = Some d"
  shows "(name, False) \<in> set (map (\<lambda>(q, _). (drop (Suc (length p)) q, False)) (filter (\<lambda>(q, _). prefix (p @ ''/'') q) fs))"
proof -
  from assms have "(path_Join p name, d) \<in> set (filter (\<lambda>(q, _). prefix (p @ ''/'') q) fs)"
    by (auto simp: path_Join_def dest: map_of_SomeD)
  then show ?thesis by (force simp: path_Join_def)
qed

interpretation mem_files: file_system mem_os "\<lambda>w. map_of (mf_files w)"
proof
  fix p q w w' d c e es name t pattern y
  note sel = mem_os_sel
  show "keeps (\<lambda>w. map_of (mf_files w)) (os_ReadFile mem_os p)" "keeps (\<lambda>w. map_of (mf_files w)) (os_ReadDir mem_os p)"
    "keeps (\<lambda>w. map_of (mf_files w)) (os_MkdirAll mem_os p)" "keeps (\<lambda>w. map_of (mf_files w)) (os_Chmod mem_os p)"
    "keeps (\<lambda>w. map_of (mf_files w)) (os_Sync mem_os p)" "keeps (\<lambda>w. map_of (mf_files w)) (os_Close mem_os p)"
    by (simp_all add: keeps_def sel)
  show "os_ReadFile mem_os p w = (Inr d, w') \<Longrightarrow> map_of (mf_files w) p = Some d"
    "os_ReadFile mem_os p w = (Inl e, w') \<Longrightarrow> errors_Is e ErrNotExist \<Longrightarrow> map_of (mf_files w) p = None"
    by (auto simp: sel split: option.splits)
  show "os_ReadDir mem_os p w = (Inr es, w') \<Longrightarrow> CHR ''/'' \<notin> set name \<Longrightarrow>
      map_of (mf_files w) (path_Join p name) = Some d \<Longrightarrow> (name, False) \<in> set es"
    using mem_ReadDir_complete [of "mf_files w" p name d] by (auto simp only: sel prod.inject sum.inject)
  show "os_ReadDir mem_os p w = (Inl e, w') \<Longrightarrow> errors_Is e ErrNotExist \<Longrightarrow> map_of (mf_files w) (path_Join p name) = None"
    by (simp add: sel)
  show "os_CreateTemp mem_os p pattern w = (Inr t, w') \<Longrightarrow>
      map_of (mf_files w) t = None \<and> map_of (mf_files w') = (map_of (mf_files w))(t \<mapsto> []) \<and> \<not> suffix ''.json'' t"
    "os_CreateTemp mem_os p pattern w = (Inl e, w') \<Longrightarrow> map_of (mf_files w') = map_of (mf_files w)"
    by (auto simp: sel mem_temp_fresh mem_temp_suffix)
  show "os_Write mem_os p d w = (None, w') \<Longrightarrow> map_of (mf_files w) p = Some c \<Longrightarrow> map_of (mf_files w') = (map_of (mf_files w))(p \<mapsto> c @ d)"
    "os_Write mem_os p d w = (y, w') \<Longrightarrow> q \<noteq> p \<Longrightarrow> map_of (mf_files w') q = map_of (mf_files w) q"
    by (auto simp: sel split: option.splits)
  show "os_Rename mem_os p q w = (None, w') \<Longrightarrow> p \<noteq> q \<Longrightarrow> map_of (mf_files w') = (map_of (mf_files w))(p := None, q := map_of (mf_files w) p)"
    "os_Rename mem_os p q w = (Some e, w') \<Longrightarrow> map_of (mf_files w') = map_of (mf_files w)"
    by (auto simp: sel map_of_without split: option.splits)
  show "os_Remove mem_os p w = (None, w') \<Longrightarrow> map_of (mf_files w') = (map_of (mf_files w))(p := None)"
    "os_Remove mem_os p w = (Some e, w') \<Longrightarrow> map_of (mf_files w') = map_of (mf_files w)"
    "os_Remove mem_os p w = (Some e, w') \<Longrightarrow> errors_Is e ErrNotExist \<Longrightarrow> map_of (mf_files w) p = None"
    by (auto simp: sel map_of_without split: if_splits)
qed

text \<open>A codec with length-prefixed fields.\<close>

definition enc_str :: "string \<Rightarrow> string" where
  "enc_str s = replicate (length s) CHR ''1'' @ CHR ''0'' # s"

definition dec_str :: "string \<Rightarrow> string \<times> string" where
  "dec_str x = (let n = length (takeWhile (\<lambda>c. c = CHR ''1'') x); rest = drop (Suc n) x in (take n rest, drop n rest))"

definition enc_int :: "int \<Rightarrow> string" where
  "enc_int i = enc_str (if i < 0 then CHR ''-'' # itoa (nat (- i)) else itoa (nat i))"

definition dec_int :: "string \<Rightarrow> int \<times> string" where
  "dec_int x = (case dec_str x of (s, r) \<Rightarrow>
     (if s \<noteq> [] \<and> hd s = CHR ''-'' then - int (digits_val (tl s)) else int (digits_val s), r))"

lemma takeWhile_ones: "takeWhile (\<lambda>c. c = CHR ''1'') (replicate n CHR ''1'' @ CHR ''0'' # x) = replicate n CHR ''1''"
  by (induction n) simp_all

lemma dec_enc_str [simp]: "dec_str (enc_str s @ r) = (s, r)"
  by (simp add: dec_str_def enc_str_def takeWhile_ones Let_def)

lemma dec_enc_int [simp]: "dec_int (enc_int i @ r) = (i, r)"
proof (cases "i < 0")
  case True
  then show ?thesis by (simp add: dec_int_def enc_int_def)
next
  case False
  have "hd (itoa n) \<noteq> CHR ''-''" for n using itoa_no_sign [of n] by (cases "itoa n") auto
  with False show ?thesis by (simp add: dec_int_def enc_int_def)
qed

definition enc_phase :: "Phase \<Rightarrow> string" where
  "enc_phase p = (case p of PhaseLockedDown \<Rightarrow> enc_str ''LockedDown'' | PhaseReady \<Rightarrow> enc_str ''Ready'' | PhaseOther s \<Rightarrow> enc_str (CHR ''?'' # s))"

definition dec_phase :: "string \<Rightarrow> Phase \<times> string" where
  "dec_phase x = (case dec_str x of (s, r) \<Rightarrow>
     (if s = ''LockedDown'' then PhaseLockedDown else if s = ''Ready'' then PhaseReady else PhaseOther (tl s), r))"

lemma dec_enc_phase [simp]: "dec_phase (enc_phase p @ r) = (p, r)"
  by (cases p) (simp_all add: dec_phase_def enc_phase_def)

definition ex_codec :: codec where
  "ex_codec = \<lparr>
     json_Marshal = (\<lambda>a. Inr (enc_str (at_Network a) @ enc_str (pi_Namespace (at_Pod a)) @ enc_str (pi_Name (at_Pod a))
       @ enc_str (pi_UID (at_Pod a)) @ enc_str (pi_ContainerID (at_Pod a)) @ enc_str (pi_IfName (at_Pod a))
       @ enc_str (pi_NetNS (at_Pod a)) @ enc_str (at_NamespaceIdentity a) @ enc_phase (at_Phase a)
       @ enc_str (at_BindingUID a) @ enc_int (at_BindingGeneration a) @ enc_str (at_GatewayUID a) @ enc_int (at_UpdatedAt a) @ [])),
     json_Unmarshal = (\<lambda>x. case dec_str x of (network, x) \<Rightarrow> case dec_str x of (ns, x) \<Rightarrow> case dec_str x of (name, x) \<Rightarrow>
       case dec_str x of (uid, x) \<Rightarrow> case dec_str x of (cid, x) \<Rightarrow> case dec_str x of (ifn, x) \<Rightarrow> case dec_str x of (netns, x) \<Rightarrow>
       case dec_str x of (nsid, x) \<Rightarrow> case dec_phase x of (phase, x) \<Rightarrow> case dec_str x of (buid, x) \<Rightarrow>
       case dec_int x of (gen, x) \<Rightarrow> case dec_str x of (guid, x) \<Rightarrow> case dec_int x of (t, x) \<Rightarrow>
       Inr \<lparr>at_Network = network, at_Pod = \<lparr>pi_Namespace = ns, pi_Name = name, pi_UID = uid, pi_ContainerID = cid, pi_IfName = ifn, pi_NetNS = netns\<rparr>,
         at_NamespaceIdentity = nsid, at_Phase = phase, at_BindingUID = buid, at_BindingGeneration = gen, at_GatewayUID = guid, at_UpdatedAt = t\<rparr>)\<rparr>"

interpretation mem_store: file_store mem_os "\<lambda>w. map_of (mf_files w)" ex_codec
  by unfold_locales (auto simp: ex_codec_def simp del: append_Nil2)

abbreviation ex_store_dir :: string where "ex_store_dir \<equiv> ''/state''"

interpretation mem_attachments: attachment_store "FileStore Sum256 ex_codec mem_os ex_store_dir"
    "\<lambda>w. loadable Sum256 ex_codec ex_store_dir (map_of (mf_files w))"
  by (rule file_store_contract) (rule mem_store.file_store_axioms)

section \<open>Properties\<close>

text \<open>
  C21: A saved attachment is read back. After a save that reports success, a load of the attachment's key
  returns exactly the attachment, unless the operating system refuses to read the file.
\<close>

theorem Save_Load_roundtrip:
  assumes F: "file_store OS files J" and S: "Save H J OS directory a w = (None, w')"
  shows "(\<exists>w''. Load H J OS directory (at_Key a) w' = (Inr a, w''))
     \<or> (\<exists>e w''. os_ReadFile OS (store_path H directory (at_Key a)) w' = (Inl e, w''))"
proof -
  have st: "loadable H J directory (files w') (at_Key a) = Some a" by (rule file_store.Save_ok(1) [OF F S])
  obtain r w1 where r: "os_ReadFile OS (store_path H directory (at_Key a)) w' = (r, w1)" by fastforce
  show ?thesis
  proof (cases r)
    case (Inr d)
    from F have "file_system OS files" by (simp add: file_store_def)
    from file_system.read_ok [OF this r [unfolded Inr]] st r Inr show ?thesis
      by (auto simp: Load_def loadable_def split: if_splits sum.splits)
  qed (use r in blast)
qed

text \<open>
  C22: A save is all or nothing. When saving reports an error, at whatever step (directory, temporary
  file, mode, write, sync, close or rename), every key loads exactly what it loaded before.
\<close>

theorem Save_atomic:
  assumes "file_store OS files J" and "Save H J OS directory a w = (Some e, w')"
  shows "loadable H J directory (files w') = loadable H J directory (files w)"
  by (rule file_store.Save_failed [OF assms])

definition ex_attachment :: Attachment where
  "ex_attachment = \<lparr>at_Network = ''n'', at_Pod = \<lparr>pi_Namespace = ''a'', pi_Name = ''pod'', pi_UID = ''p'', pi_ContainerID = ''c'',
       pi_IfName = ''eth0'', pi_NetNS = ''/ns''\<rparr>, at_NamespaceIdentity = ''4:1'', at_Phase = PhaseLockedDown, at_BindingUID = [],
     at_BindingGeneration = 0, at_GatewayUID = [], at_UpdatedAt = 0\<rparr>"

lemma ex_attachment_valid: "attachment_Validate ex_attachment = None"
  by (simp add: ex_attachment_def attachment_Validate_def pod_Validate_def)

lemma mem_Save: "attachment_Validate a = None \<Longrightarrow> \<exists>w'. Save H ex_codec mem_os directory a w = (None, w')"
  by (simp add: Save_def publish_def mem_os_sel ex_codec_def Let_def)

theorem Save_Load_roundtrip_witness:
  "\<exists>w' w''. Save Sum256 ex_codec mem_os ex_store_dir ex_attachment \<lparr>mf_files = []\<rparr> = (None, w')
     \<and> Load Sum256 ex_codec mem_os ex_store_dir (at_Key ex_attachment) w' = (Inr ex_attachment, w'')"
proof -
  obtain w' where w': "Save Sum256 ex_codec mem_os ex_store_dir ex_attachment \<lparr>mf_files = []\<rparr> = (None, w')"
    using mem_Save [OF ex_attachment_valid] by blast
  have "loadable Sum256 ex_codec ex_store_dir (map_of (mf_files w')) (at_Key ex_attachment) = Some ex_attachment"
    by (rule mem_store.Save_ok(1) [OF w'])
  then have "\<not> (\<exists>e w''. os_ReadFile mem_os (store_path Sum256 ex_store_dir (at_Key ex_attachment)) w' = (Inl e, w''))"
    by (auto simp: loadable_def mem_os_sel split: if_splits option.splits)
  with Save_Load_roundtrip [OF mem_store.file_store_axioms w'] w' show ?thesis by blast
qed

theorem Save_atomic_witness:
  "loadable Sum256 ex_codec ex_store_dir (map_of (mf_files (snd (Save Sum256 ex_codec mem_os ex_store_dir
     (ex_attachment\<lparr>at_Network := []\<rparr>) \<lparr>mf_files = []\<rparr>)))) = loadable Sum256 ex_codec ex_store_dir (map_of [])"
proof -
  have "Save Sum256 ex_codec mem_os ex_store_dir (ex_attachment\<lparr>at_Network := []\<rparr>) \<lparr>mf_files = []\<rparr>
      = (Some (Err ''CNI network name is required''), \<lparr>mf_files = []\<rparr>)"
    by (simp add: Save_def attachment_Validate_def)
  from Save_atomic [OF mem_store.file_store_axioms this] this show ?thesis by simp
qed

end
