(* ===== verification/Cni_Lifecycle.thy ===== *)
theory Cni_Lifecycle
  imports Cni_Store
begin

text \<open>
  What the CNI plugin guarantees on top of the store contract: deny first and recorded, success only
  with a prepared path or for a Pod that is not enrolled, sticky enrollment of a Pod UID, records removed
  only after withdrawal, and bounded waits that end.
\<close>

section \<open>Bounded waits\<close>

lemma retry_loop_keeps:
  assumes "retry_loop wait deadline interval operation w = Some y"
    and "keeps f operation" and "\<And>d t. keeps f (wait d t)"
  shows "f (snd y) = f w"
  using assms(2,3)
proof (induction wait deadline interval operation w y rule: retry_loop.raw_induct)
  case (1 loop wait deadline interval operation w y)
  obtain r w1 where r: "operation w = (r, w1)" by fastforce
  have f1: "f w1 = f w" by (rule keepsD [OF 1(3) r])
  show ?case
  proof (cases r)
    case (Inr v)
    with "1.hyps" r f1 show ?thesis by auto
  next
    case (Inl e)
    obtain b w2 where b: "wait interval deadline w1 = (b, w2)" by fastforce
    have f2: "f w2 = f w1" by (rule keepsD [OF 1(4) b])
    show ?thesis
    proof (cases b)
      case True
      with "1.hyps" r Inl b f1 f2 show ?thesis by auto
    next
      case False
      with "1.hyps" r Inl b have "loop wait deadline interval operation w2 = Some y" by simp
      from "1.IH" [OF this 1(3,4)] f1 f2 show ?thesis by simp
    qed
  qed
qed (rule assms(1))

lemma retryValue_keeps:
  assumes "retryValue p timeout interval operation w = Some (y, w')"
    and "keeps f (pl_now p)" "keeps f operation" "\<And>d t. keeps f (pl_wait p d t)"
  shows "f w' = f w"
proof -
  obtain n w1 where n: "pl_now p w = (n, w1)" by fastforce
  with assms(1) have "retry_loop (pl_wait p) (n + timeout) interval operation w1 = Some (y, w')" by (simp add: retryValue_def)
  from retry_loop_keeps [OF this assms(3,4)] keepsD [OF assms(2) n] show ?thesis by simp
qed

text \<open>A value that a wait returns was returned by the operation.\<close>

lemma retry_loop_value:
  assumes "retry_loop wait deadline interval operation w = Some y" and "y = (Inr v, w')"
  shows "\<exists>w1. operation w1 = (Inr v, w')"
  using assms(2)
proof (induction wait deadline interval operation w y rule: retry_loop.raw_induct)
  case (1 loop wait deadline interval operation w y)
  show ?case
  proof (cases "operation w")
    case (Pair r w1)
    obtain b w2 where b: "wait interval deadline w1 = (b, w2)" by fastforce
    show ?thesis
    proof (cases r)
      case (Inr u)
      with "1.hyps" "1.prems" Pair show ?thesis by auto
    next
      case (Inl e)
      with "1.hyps" "1.prems" Pair b have "\<not> b" by auto
      with "1.hyps" Pair Inl b have "loop wait deadline interval operation w2 = Some y" by simp
      from "1.IH" [OF this "1.prems"] show ?thesis .
    qed
  qed
qed (rule assms(1))

lemma retryValue_value:
  assumes "retryValue p timeout interval operation w = Some (Inr v, w')"
  shows "\<exists>w1. operation w1 = (Inr v, w')"
proof -
  obtain n w1 where "pl_now p w = (n, w1)" by fastforce
  with assms have "retry_loop (pl_wait p) (n + timeout) interval operation w1 = Some (Inr v, w')" by (simp add: retryValue_def)
  from retry_loop_value [OF this refl] show ?thesis .
qed

text \<open>
  What a select on a timer and a context with a deadline is documented to do: it is the timer that wins
  only if the deadline had not passed yet, and then at least the interval has gone by. The clock never
  runs backwards over an attempt.
\<close>

definition timed_wait :: "('w \<Rightarrow> time) \<Rightarrow> (duration \<Rightarrow> time \<Rightarrow> ('w, bool) call) \<Rightarrow> ('w, 'a) call \<Rightarrow> bool" where
  "timed_wait clock wait operation \<longleftrightarrow> (\<forall>w. clock w \<le> clock (snd (operation w)))
     \<and> (\<forall>d t w w'. wait d t w = (False, w') \<longrightarrow> clock w < t \<and> clock w + d \<le> clock w')"

lemma retry_loop_returns:
  assumes T: "timed_wait clock wait operation" and "0 < interval"
  shows "\<exists>y. retry_loop wait deadline interval operation w = Some y"
proof (induction "nat (deadline - clock w)" arbitrary: w rule: less_induct)
  case less
  obtain r w1 where r: "operation w = (r, w1)" by fastforce
  obtain b w2 where b: "wait interval deadline w1 = (b, w2)" by fastforce
  show ?case
  proof (cases r)
    case (Inr v)
    with r show ?thesis by (simp add: retry_loop.simps [of wait deadline interval operation w])
  next
    case (Inl e)
    show ?thesis
    proof (cases b)
      case True
      with r Inl b show ?thesis by (simp add: retry_loop.simps [of wait deadline interval operation w])
    next
      case False
      have "clock w \<le> clock w1" using T r unfolding timed_wait_def by (metis snd_conv)
      moreover have "clock w1 < deadline" "clock w1 + interval \<le> clock w2"
        using T b False unfolding timed_wait_def by auto
      ultimately have "nat (deadline - clock w2) < nat (deadline - clock w)" using assms(2) by linarith
      from less [OF this] r Inl b False show ?thesis
        by (simp add: retry_loop.simps [of wait deadline interval operation w])
    qed
  qed
qed

lemma retryInterval_pos: "0 < retryInterval p"
  by (simp add: retryInterval_def Millisecond_def)

lemma retryValue_returns:
  "timed_wait clock (pl_wait p) operation \<Longrightarrow> \<exists>y. retryValue p timeout (retryInterval p) operation w = Some y"
  using retry_loop_returns [where interval = "retryInterval p", OF _ retryInterval_pos]
  by (cases "pl_now p w") (simp add: retryValue_def)

section \<open>Frames\<close>

text \<open>
  The agent and the clock do not write attachment records. \<open>denied\<close> says that the Pod's namespace is under
  a deny-by-default policy: installing the lockdown establishes it, and nothing but the enforcer's cleanup
  takes it away; in particular the agent programs the path with deny retained.
\<close>

definition plugin_frame :: "'w Plugin \<Rightarrow> 'w Agent \<Rightarrow> 'w Enforcer \<Rightarrow> PodIdentity \<Rightarrow> ('w \<Rightarrow> cni_Key \<rightharpoonup> Attachment) \<Rightarrow> bool" where
  "plugin_frame p A E pod st \<longleftrightarrow> keeps st (pl_now p) \<and> (\<forall>d t. keeps st (pl_wait p d t))
     \<and> (\<forall>q. keeps st (ag_Resolve A q)) \<and> (\<forall>q. keeps st (ag_Binding A q)) \<and> (\<forall>q b. keeps st (ag_Prepare A q b))
     \<and> (\<forall>q b. keeps st (ag_Check A q b)) \<and> (\<forall>q. keeps st (ag_Withdraw A q))
     \<and> (\<forall>n. keeps st (en_Identity E n)) \<and> (\<forall>n u. keeps st (en_InstallLockdown E n u)) \<and> (\<forall>n u. keeps st (en_Cleanup E n u))"

definition deny_frame :: "'w Plugin \<Rightarrow> 'w Agent \<Rightarrow> 'w Enforcer \<Rightarrow> 'w Store \<Rightarrow> PodIdentity \<Rightarrow> ('w \<Rightarrow> bool) \<Rightarrow> bool" where
  "deny_frame p A E S pod denied \<longleftrightarrow> keeps denied (pl_now p) \<and> (\<forall>d t. keeps denied (pl_wait p d t))
     \<and> (\<forall>q. keeps denied (ag_Resolve A q)) \<and> (\<forall>q. keeps denied (ag_Binding A q)) \<and> (\<forall>q b. keeps denied (ag_Prepare A q b))
     \<and> (\<forall>q b. keeps denied (ag_Check A q b)) \<and> (\<forall>n. keeps denied (en_Identity E n))
     \<and> (\<forall>k. keeps denied (s_Load S k)) \<and> (\<forall>a. keeps denied (s_Save S a)) \<and> (\<forall>n. keeps denied (s_List S n))
     \<and> (\<forall>w w'. en_InstallLockdown E (pi_NetNS pod) (pi_UID pod) w = (None, w') \<longrightarrow> denied w')
     \<and> (\<forall>w w' e. en_InstallLockdown E (pi_NetNS pod) (pi_UID pod) w = (Some e, w') \<longrightarrow> denied w' = denied w)"

lemma plugin_frameD:
  assumes "plugin_frame p A E pod st"
  shows "keeps st (pl_now p)" "keeps st (pl_wait p d t)" "keeps st (ag_Resolve A q)" "keeps st (ag_Binding A q)"
    "keeps st (ag_Prepare A q b)" "keeps st (ag_Check A q b)" "keeps st (ag_Withdraw A q)" "keeps st (en_Identity E n)"
    "keeps st (en_InstallLockdown E n u)" "keeps st (en_Cleanup E n u)"
  using assms unfolding plugin_frame_def by blast+

lemma deny_frameD:
  assumes "deny_frame p A E S pod denied"
  shows "keeps denied (pl_now p)" "keeps denied (pl_wait p d t)" "keeps denied (ag_Resolve A q)" "keeps denied (ag_Binding A q)"
    "keeps denied (ag_Prepare A q b)" "keeps denied (ag_Check A q b)" "keeps denied (en_Identity E n)"
    "keeps denied (s_Load S k)" "keeps denied (s_Save S a)" "keeps denied (s_List S n)"
    "en_InstallLockdown E (pi_NetNS pod) (pi_UID pod) w = (None, w') \<Longrightarrow> denied w'"
    "en_InstallLockdown E (pi_NetNS pod) (pi_UID pod) w = (Some e, w') \<Longrightarrow> denied w' = denied w"
  using assms unfolding deny_frame_def by blast+

section \<open>The protecting part of Add\<close>

text \<open>What the record and the world satisfy once the first save went through.\<close>

definition recorded :: "cni_Request \<Rightarrow> string \<Rightarrow> Attachment \<Rightarrow> bool" where
  "recorded request nsid a \<longleftrightarrow> at_Network a = rq_Network request \<and> at_Pod a = rq_Pod request \<and> at_NamespaceIdentity a = nsid"

text \<open>The call ended in \<open>w'\<close> by preparing under deny, reading the clock and saving the ready record.\<close>

definition prepared :: "'w Plugin \<Rightarrow> 'w Agent \<Rightarrow> 'w Store \<Rightarrow> ('w \<Rightarrow> bool) \<Rightarrow> cni_Request \<Rightarrow> Attachment \<Rightarrow> 'w \<Rightarrow> bool" where
  "prepared p A S denied request a w' \<longleftrightarrow> at_Phase a = PhaseReady \<and> (\<exists>b v v1 t v2. binding_Validate b (pi_UID (rq_Pod request)) = None
     \<and> denied v \<and> ag_Prepare A (rq_Pod request) b v = (None, v1) \<and> pl_now p v1 = (t, v2) \<and> s_Save S a v2 = (None, w')
     \<and> at_BindingUID a = cb_UID b \<and> at_BindingGeneration a = cb_Generation b \<and> at_GatewayUID a = cb_GatewayUID b)"

lemma recorded_key: "recorded request nsid a \<Longrightarrow> at_Key a = rq_Key request"
  by (simp add: recorded_def at_Key_def rq_Key_def)

lemma recorded_same: "recorded request nsid a \<longleftrightarrow> sameAttachment a request nsid = None"
  by (auto simp: recorded_def sameAttachment_def)

context attachment_store
begin

lemma save_cases:
  assumes "s_Save S a w = (y, w')" and "recorded request nsid a"
  shows "(y = None \<longrightarrow> st w' (rq_Key request) = Some a) \<and> (y \<noteq> None \<longrightarrow> st w' = st w)"
  using assms save_ok [of a w w'] save_failed [of a w _ w'] recorded_key [OF assms(2)] by (cases y) auto

text \<open>After the record: whatever happens, the record stays and so does deny.\<close>

lemma add_bind_recorded:
  assumes R: "add_bind p A S request a w = Some (y, w')" and a: "recorded request nsid a" "st w (rq_Key request) = Some a" "denied w"
    and P: "plugin_frame p A E (rq_Pod request) st" and D: "deny_frame p A E S (rq_Pod request) denied"
  shows "denied w' \<and> (\<exists>a'. st w' (rq_Key request) = Some a' \<and> recorded request nsid a' \<and> (y = None \<longrightarrow> prepared p A S denied request a' w'))"
proof -
  note pf = plugin_frameD [OF P] and df = deny_frameD [OF D]
  obtain r w1 where r: "retryValue p (bindingTimeout p) (retryInterval p) (ag_Binding A (rq_Pod request)) w = Some (r, w1)"
    using R by (auto simp: add_bind_def split: option.splits)
  have 1: "st w1 = st w" "denied w1"
    using retryValue_keeps [OF r pf(1,4,2)] retryValue_keeps [OF r df(1,4,2)] a(3) by simp_all
  show ?thesis
  proof (cases "\<exists>b. r = Inr b \<and> binding_Validate b (pi_UID (rq_Pod request)) = None")
    case False
    with R r have "w' = w1 \<and> y \<noteq> None" by (cases r) (auto simp: add_bind_def split: option.splits)
    with 1 a show ?thesis by auto
  next
    case True
    then obtain b where b: "r = Inr b" "binding_Validate b (pi_UID (rq_Pod request)) = None" by blast
    obtain t2 w2 where n: "pl_now p w1 = (t2, w2)" by fastforce
    have 2: "st w2 = st w" "denied w2" using keepsD [OF pf(1) n] keepsD [OF df(1) n] 1 by simp_all
    define a2 where "a2 = a\<lparr>at_BindingUID := cb_UID b, at_BindingGeneration := cb_Generation b, at_GatewayUID := cb_GatewayUID b, at_UpdatedAt := t2\<rparr>"
    have r2: "recorded request nsid a2" using a(1) by (simp add: recorded_def a2_def)
    obtain x w3 where sv: "s_Save S a2 w2 = (x, w3)" by fastforce
    have 3: "denied w3" using keepsD [OF df(9) sv] 2 by simp
    note body = R [unfolded add_bind_def r b(1) option.case prod.case sum.case b(2) n Let_def, folded a2_def, unfolded sv prod.case]
    show ?thesis
    proof (cases x)
      case (Some e)
      with body save_cases [OF sv r2] 2 3 a show ?thesis by auto
    next
      case None
      have st3: "st w3 (rq_Key request) = Some a2" using save_cases [OF sv r2] None by simp
      obtain z w4 where pr: "ag_Prepare A (rq_Pod request) b w3 = (z, w4)" by fastforce
      have 4: "st w4 = st w3" "denied w4" using keepsD [OF pf(5) pr] keepsD [OF df(5) pr] 3 by simp_all
      note body = body [unfolded None option.case pr prod.case]
      show ?thesis
      proof (cases z)
        case (Some e)
        with body st3 4 r2 show ?thesis by auto
      next
        case None
        obtain t3 w5 where n5: "pl_now p w4 = (t3, w5)" by fastforce
        have 5: "st w5 = st w3" "denied w5" using keepsD [OF pf(1) n5] keepsD [OF df(1) n5] 4 by simp_all
        let ?a3 = "a2\<lparr>at_Phase := PhaseReady, at_UpdatedAt := t3\<rparr>"
        have r3: "recorded request nsid ?a3" using r2 by (simp add: recorded_def)
        obtain u w6 where sv3: "s_Save S ?a3 w5 = (u, w6)" by fastforce
        have 6: "denied w6" using keepsD [OF df(9) sv3] 5 by simp
        have w6: "w' = w6" and yu: "y = None \<longleftrightarrow> u = None"
          using body None n5 sv3 by (auto split: option.splits)
        have "prepared p A S denied request ?a3 w'" if "u = None"
          unfolding prepared_def
          by (intro conjI exI [of _ b] exI [of _ w3] exI [of _ w4] exI [of _ t3] exI [of _ w5])
            (use that w6 b(2) 3 pr None n5 sv3 in \<open>simp_all add: a2_def\<close>)
        then show ?thesis using save_cases [OF sv3 r3] st3 5 6 r2 r3 w6 yu by (cases u) auto
      qed
    qed
  qed
qed

lemma add_protect_cases:
  assumes R: "add_protect p A E S request nsid w = Some (y, w')"
    and P: "plugin_frame p A E (rq_Pod request) st" and D: "deny_frame p A E S (rq_Pod request) denied"
  obtains (refused) e where "y = Some e" "st w' = st w" "denied w' = denied w"
  | (unrecorded) e v v' a x where "y = Some e" "st w' = st w" "s_Save S a v = (Some x, v')"
  | (recorded) a where "denied w'" "st w' (rq_Key request) = Some a" "recorded request nsid a"
      "y = None \<longrightarrow> prepared p A S denied request a w'"
proof -
  let ?pod = "rq_Pod request"
  note pf = plugin_frameD [OF P] and df = deny_frameD [OF D]
  obtain l w1 where l: "en_InstallLockdown E (pi_NetNS ?pod) (pi_UID ?pod) w = (l, w1)" by fastforce
  have s1: "st w1 = st w" by (rule keepsD [OF pf(9) l])
  show thesis
  proof (cases l)
    case (Some e)
    with R l have "y = Some (Errorf ''install deny-first policy'' [e])" "w' = w1" by (simp_all add: add_protect_def)
    with refused s1 df(12) [OF l [unfolded Some]] show thesis by simp
  next
    case None
    have d1: "denied w1" by (rule df(11) [OF l [unfolded None]])
    obtain t1 w2 where n: "pl_now p w1 = (t1, w2)" by fastforce
    have s2: "st w2 = st w" and d2: "denied w2" using keepsD [OF pf(1) n] keepsD [OF df(1) n] s1 d1 by simp_all
    let ?a = "locked_attachment request nsid t1"
    have ra: "recorded request nsid ?a" by (simp add: recorded_def locked_attachment_def)
    obtain x w3 where sv: "s_Save S ?a w2 = (x, w3)" by fastforce
    have d3: "denied w3" using keepsD [OF df(9) sv] d2 by simp
    note body = R [unfolded add_protect_def l None n prod.case option.case Let_def sv]
    show thesis
    proof (cases x)
      case (Some e)
      obtain rb w4 where rb: "en_Cleanup E (pi_NetNS ?pod) (pi_UID ?pod) w3 = (rb, w4)" by fastforce
      have w4: "w' = w4" "y = errors_Join [Some (Errorf ''record deny-first attachment state'' [e]),
          errorWithContext ''roll back unrecorded deny-first state'' rb]" using body Some rb by simp_all
      then have "y \<noteq> None" by simp
      then obtain e' where "y = Some e'" by blast
      moreover have "st w4 = st w" using keepsD [OF pf(10) rb] save_failed [OF sv [unfolded Some]] s2 by simp
      ultimately show thesis using unrecorded [OF _ _ sv [unfolded Some]] w4(1) by simp
    next
      case None
      have "st w3 (rq_Key request) = Some ?a" using save_cases [OF sv ra] None by simp
      from add_bind_recorded [OF _ ra this d3 P D] body None that(3) show thesis by auto
    qed
  qed
qed

text \<open>The ways through Add up to the point where it starts to protect.\<close>

lemma Add_cases:
  assumes R: "Add p request w = Some (y, w')"
    and C: "pl_Agent p = Some A" "pl_Enforcer p = Some E" "pl_Store p = Some S"
    and P: "plugin_frame p A E (rq_Pod request) st" and D: "deny_frame p A E S (rq_Pod request) denied"
  obtains (refused) e where "y = Some e" "st w' = st w" "denied w' = denied w"
  | (checked) a nsid v u where "y = None" "st w' = st w" "denied w' = denied w" "st w (rq_Key request) = Some a"
      "en_Identity E (pi_NetNS (rq_Pod request)) w = (Inr nsid, u)" "recorded request nsid a"
      "at_Phase a = PhaseReady" "ag_Check A (rq_Pod request) (stored_binding a request) v = (None, w')"
  | (unenrolled) res v where "y = None" "st w' = st w" "denied w' = denied w" "st w (rq_Key request) = None"
      "\<forall>k a. st w k = Some a \<and> at_Network a = rq_Network request \<longrightarrow> \<not> same_pod (at_Pod a) (rq_Pod request)"
      "ag_Resolve A (rq_Pod request) v = (Inr res, w')" "cr_PodUID res = pi_UID (rq_Pod request)" "\<not> cr_Enrolled res"
  | (protect) nsid v u where "en_Identity E (pi_NetNS (rq_Pod request)) w = (Inr nsid, u)" "st v = st w" "denied v = denied w"
      "add_protect p A E S request nsid v = Some (y, w')"
proof -
  let ?pod = "rq_Pod request"
  note pf = plugin_frameD [OF P] and df = deny_frameD [OF D]
  have V: "plugin_validate p request = (case request_Validate request of Some e \<Rightarrow> Inl e | None \<Rightarrow> Inr (A, E, S))"
    by (cases "request_Validate request") (simp_all add: plugin_validate_def C)
  show thesis
  proof (cases "request_Validate request")
    case (Some e)
    with R refused [of e] show thesis by (simp add: Add_def V)
  next
    case None
    note V = V [unfolded None option.case]
    obtain i w1 where i: "en_Identity E (pi_NetNS ?pod) w = (i, w1)" by fastforce
    have 1: "st w1 = st w" "denied w1 = denied w" using keepsD [OF pf(8) i] keepsD [OF df(7) i] by simp_all
    show thesis
    proof (cases i)
      case (Inl e)
      have "y = Some (Errorf ''resolve exact network namespace identity'' [e])" "w' = w1"
        using R by (simp_all add: Add_def V i Inl)
      with 1 refused show thesis by simp
    next
      case (Inr nsid)
      obtain ld w2 where ld: "s_Load S (rq_Key request) w1 = (ld, w2)" by fastforce
      have 2: "st w2 = st w" "denied w2 = denied w" using load_frame [OF ld] keepsD [OF df(8) ld] 1 by simp_all
      note body = R [unfolded Add_def V sum.case prod.case i Inr ld]
      show thesis
      proof (cases ld)
        case a: (Inr a)
        have sa: "st w (rq_Key request) = Some a" using load_ok [OF ld [unfolded a]] 1 by simp
        note body = body [unfolded a sum.case prod.case]
        show thesis
        proof (cases "sameAttachment a request nsid")
          case (Some e)
          with body 2 refused [of e] show thesis by simp
        next
          case None
          obtain c w3 where c: "ag_Check A ?pod (stored_binding a request) w2 = (c, w3)" by fastforce
          have 3: "st w3 = st w" "denied w3 = denied w" using keepsD [OF pf(6) c] keepsD [OF df(6) c] 2 by simp_all
          show thesis
          proof (cases "at_Phase a = PhaseReady \<and> c = None")
            case True
            then have y: "y = None" "w' = w3" using body None c by simp_all
            show thesis
              by (rule checked [OF y(1) _ _ sa i [unfolded Inr], of w2]) (use y 3 None True c in \<open>simp_all add: recorded_same\<close>)
          next
            case False
            have "\<exists>v. st v = st w \<and> denied v = denied w \<and> add_protect p A E S request nsid v = Some (y, w')"
            proof (cases "at_Phase a = PhaseReady")
              case True
              with False obtain e where "c = Some e" by auto
              with body None c True 3 show ?thesis by auto
            next
              case False
              with body None 2 show ?thesis by auto
            qed
            then show thesis using protect [OF i [unfolded Inr]] by blast
          qed
        qed
      next
        case e: (Inl e)
        note body = body [unfolded e sum.case prod.case]
        show thesis
        proof (cases "errors_Is e ErrNotExist")
          case False
          then have "y = Some (Errorf ''load prior attachment state'' [e])" "w' = w2" using body by simp_all
          with 2 refused show thesis by simp
        next
          case True
          have missing: "st w (rq_Key request) = None" using load_missing [OF ld [unfolded e] True] 1 by simp
          obtain h w3 where h: "hasPriorEnrollment S request w2 = (h, w3)" by fastforce
          have 3: "st w3 = st w" "denied w3 = denied w"
            using prior_frame [OF h] h 2 keepsD [OF df(10)] by (auto simp: hasPriorEnrollment_def split: prod.splits sum.splits)
          show thesis
          proof (cases h)
            case (Inl x)
            then have "y = Some (Errorf ''find prior UID-bound enrollment'' [x])" "w' = w3" using body True h by simp_all
            with 3 refused show thesis by simp
          next
            case sticky: (Inr sticky)
            show thesis
            proof (cases sticky)
              case True
              with body \<open>errors_Is e ErrNotExist\<close> h sticky have "add_protect p A E S request nsid w3 = Some (y, w')" by simp
              with protect [OF i [unfolded Inr]] 3 show thesis by blast
            next
              case False
              note h = h [unfolded sticky, simplified False]
              have fresh: "\<forall>k a. st w k = Some a \<and> at_Network a = rq_Network request \<longrightarrow> \<not> same_pod (at_Pod a) ?pod"
                using prior_complete [OF h] unfolding 2(1) by blast
              obtain q w4 where q: "retryValue p (resolveTimeout p) (retryInterval p) (ag_Resolve A ?pod) w3 = Some (q, w4)"
                using body \<open>errors_Is e ErrNotExist\<close> h by (auto split: option.splits)
              have 4: "st w4 = st w" "denied w4 = denied w"
                using retryValue_keeps [OF q pf(1,3,2)] retryValue_keeps [OF q df(1,3,2)] 3 by simp_all
              have body: "(case q of Inl x \<Rightarrow> Some (Some (Errorf ''resolve exact Pod enrollment through local agent'' [x]), w4)
                  | Inr res \<Rightarrow> if cr_PodUID res \<noteq> pi_UID ?pod then Some (Some (Err ''local agent resolved Pod UID, expected''), w4)
                      else if \<not> cr_Enrolled res then Some (None, w4) else add_protect p A E S request nsid w4) = Some (y, w')"
                using body \<open>errors_Is e ErrNotExist\<close> h q by simp
              show thesis
              proof (cases q)
                case (Inl x)
                with body 4 refused show thesis by auto
              next
                case (Inr res)
                obtain u where u: "ag_Resolve A ?pod u = (Inr res, w4)"
                  using retryValue_value [OF q [unfolded Inr]] by blast
                consider "cr_PodUID res \<noteq> pi_UID ?pod" | "cr_PodUID res = pi_UID ?pod" "\<not> cr_Enrolled res"
                  | "cr_PodUID res = pi_UID ?pod" "cr_Enrolled res" by blast
                then show thesis
                proof cases
                  case 1
                  with body Inr 4 refused show thesis by auto
                next
                  case 2
                  with body Inr have y: "y = None" "w' = w4" by auto
                  show thesis by (rule unenrolled [OF y(1) _ _ missing fresh, of u res]) (use y u 2 4 in simp_all)
                next
                  case 3
                  with body Inr have "add_protect p A E S request nsid w4 = Some (y, w')" by simp
                  with protect [OF i [unfolded \<open>i = Inr nsid\<close>]] 4 show thesis by blast
                qed
              qed
            qed
          qed
        qed
      qed
    qed
  qed
qed

end

section \<open>Properties\<close>

definition plugin_uses :: "'w Plugin \<Rightarrow> 'w Agent \<Rightarrow> 'w Enforcer \<Rightarrow> 'w Store \<Rightarrow> bool" where
  "plugin_uses p A E S \<longleftrightarrow> pl_Agent p = Some A \<and> pl_Enforcer p = Some E \<and> pl_Store p = Some S"



text \<open>
  C28: ADD returns. When the clock does not run backwards and a select on the context reports its end once
  the deadline has passed, the bounded waits for enrollment and for the binding end, so ADD returns.
\<close>

theorem Add_returns:
  assumes "\<And>q. timed_wait clock (pl_wait p) (ag_Resolve A q)" "\<And>q. timed_wait clock (pl_wait p) (ag_Binding A q)"
    and "plugin_uses p A E S"
  shows "\<exists>y. Add p request w = Some y"
proof -
  have b: "\<exists>y. add_bind p A S request a v = Some y" for a v
    using retryValue_returns [OF assms(2) [of "rq_Pod request"], of "bindingTimeout p" v]
    by (auto simp: add_bind_def Let_def split: option.splits sum.splits prod.splits)
  have c: "add_protect p A E S request i v = None \<longleftrightarrow> False" for i v
    using b by (simp add: add_protect_def Let_def split: option.splits prod.splits)
  have r: "retryValue p (resolveTimeout p) (retryInterval p) (ag_Resolve A (rq_Pod request)) v = None \<longleftrightarrow> False" for v
    using retryValue_returns [OF assms(1)] by (metis option.distinct(1))
  have "Add p request w \<noteq> None"
    using assms(3) by (simp add: Add_def plugin_validate_def plugin_uses_def c r del: not_None_eq split: option.split sum.split prod.split)
  then show ?thesis by blast
qed

text \<open>
  C10: A record outlives its Pod's exposure. When DEL makes the record of an attachment disappear, it ran
  through all of its steps in order: the agent answered that the exact Pod is absent or that this UID is
  terminating, then confirmed the withdrawal of the attachment, then, if the namespace was still the
  recorded one, the enforcer cleaned it up, and last the record was deleted. On every other way through
  DEL, and on every error, the record is kept.
\<close>

theorem Delete_confirmed:
  assumes R: "plugin_Delete p key netns w = (y, w')" and U: "plugin_uses p A E S" and S: "attachment_store S st"
    and P: "plugin_frame p A E pod st"
    and k: "st w key = Some a" "st w' key \<noteq> Some a"
  shows "y = None
     \<and> (\<exists>w1 r w2 i w3 w4 w5. s_Load S key w = (Inr a, w1) \<and> ag_Resolve A (at_Pod a) w1 = (r, w2)
          \<and> (case r of Inl e \<Rightarrow> errors_Is e ErrPodNotFound | Inr res \<Rightarrow> cr_PodUID res = pi_UID (at_Pod a) \<and> cr_Terminating res)
          \<and> en_Identity E (if netns = [] then pi_NetNS (at_Pod a) else netns) w2 = (i, w3)
          \<and> ag_Withdraw A (at_Pod a) w3 = (None, w4)
          \<and> (if i = Inr (at_NamespaceIdentity a) then en_Cleanup E (if netns = [] then pi_NetNS (at_Pod a) else netns) (pi_UID (at_Pod a)) w4
             else (None, w4)) = (None, w5)
          \<and> s_Delete S key w5 = (None, w'))"
proof -
  note pf = plugin_frameD [OF P]
  let ?path = "if netns = [] then pi_NetNS (at_Pod a) else netns"
  obtain ld w1 where ld: "s_Load S key w = (ld, w1)" by fastforce
  have 1: "st w1 = st w" by (rule attachment_store.load_frame [OF S ld])
  have body: "(case ld of Inl e \<Rightarrow> if errors_Is e ErrNotExist then (None, w1) else (Some (Errorf ''load attachment state for DEL'' [e]), w1)
      | Inr at \<Rightarrow> (case ag_Resolve A (at_Pod at) w1 of
           (Inl e, w2) \<Rightarrow> if \<not> errors_Is e ErrPodNotFound
               then (Some (Errorf ''resolve exact Pod for DEL with durable state retained'' [e]), w2)
             else delete_confirmed A E S key netns at w2
         | (Inr res, w2) \<Rightarrow> if cr_PodUID res \<noteq> pi_UID (at_Pod at) \<or> \<not> cr_Terminating res then (None, w2)
             else delete_confirmed A E S key netns at w2)) = (y, w')"
    using R U ld by (cases ld) (simp_all add: plugin_Delete_def plugin_uses_def)
  have ldI: "ld = Inr a"
  proof (cases ld)
    case (Inl e)
    with body k 1 show ?thesis by (auto split: if_splits)
  qed (use attachment_store.load_ok [OF S] ld k(1) in auto)
  obtain r w2 where r: "ag_Resolve A (at_Pod a) w1 = (r, w2)" by fastforce
  have 2: "st w2 = st w" using keepsD [OF pf(3) r] 1 by simp
  have res: "case r of Inl e \<Rightarrow> errors_Is e ErrPodNotFound | Inr res \<Rightarrow> cr_PodUID res = pi_UID (at_Pod a) \<and> cr_Terminating res"
    and del: "delete_confirmed A E S key netns a w2 = (y, w')"
    using body k 2 unfolding ldI r sum.case prod.case by (auto split: sum.splits if_splits)
  obtain i w3 where i: "en_Identity E ?path w2 = (i, w3)" by fastforce
  obtain wd w4 where wd: "ag_Withdraw A (at_Pod a) w3 = (wd, w4)" by fastforce
  have 4: "st w3 = st w" "st w4 = st w" using keepsD [OF pf(8) i] keepsD [OF pf(7) wd] 2 by simp_all
  define cl where "cl = (if i = Inr (at_NamespaceIdentity a) then en_Cleanup E ?path (pi_UID (at_Pod a)) w4 else (None, w4))"
  obtain c w5 where c: "cl = (c, w5)" by fastforce
  have 5: "st w5 = st w" using c 4 keepsD [OF pf(10)] by (auto simp: cl_def split: if_splits)
  obtain d w6 where d: "s_Delete S key w5 = (d, w6)" by fastforce
  have ident: "\<not> (case i of Inl e \<Rightarrow> \<not> errors_Is e ErrNotExist | Inr _ \<Rightarrow> False)"
  proof
    assume bad: "case i of Inl e \<Rightarrow> \<not> errors_Is e ErrNotExist | Inr _ \<Rightarrow> False"
    with del i have "w' = w3" by (simp add: delete_confirmed_def Let_def)
    with k 4 show False by simp
  qed
  note del = del [unfolded delete_confirmed_def Let_def i prod.case if_not_P [OF ident] wd]
  have wdN: "wd = None"
  proof (cases wd)
    case (Some e)
    with del have "w' = w4" by simp
    with k 4 show ?thesis by simp
  qed
  note del = del [unfolded wdN option.case, folded cl_def, unfolded c prod.case]
  have cN: "c = None"
  proof (cases c)
    case (Some e)
    with del have "w' = w5" by simp
    with k 5 show ?thesis by simp
  qed
  note del = del [unfolded cN option.case d prod.case]
  have dN: "d = None"
  proof (cases d)
    case (Some e)
    with del have "w' = w6" by simp
    with k 5 attachment_store.delete_failed [OF S d [unfolded Some]] show ?thesis by simp
  qed
  then have y: "y = None" "w' = w6" using del by simp_all
  show ?thesis
    by (rule conjI [OF y(1)], intro exI conjI, rule ld [unfolded ldI], rule r, rule res, rule i, rule wd [unfolded wdN],
      rule c [unfolded cN cl_def], rule d [unfolded dN y(2) [symmetric]])
qed

section \<open>Witnesses\<close>

record cni_world = mem_fs +
  cw_denied :: bool
  cw_clock :: time

definition ex_agent :: "cni_world Agent" where
  "ex_agent = \<lparr>ag_Resolve = (\<lambda>q w. (Inr \<lparr>cr_PodUID = pi_UID q, cr_Enrolled = True, cr_Terminating = True\<rparr>, w)),
     ag_Binding = (\<lambda>q w. (Inr \<lparr>cb_UID = ''b'', cb_Generation = 1, cb_PodUID = pi_UID q, cb_GatewayUID = ''g''\<rparr>, w)),
     ag_Prepare = (\<lambda>q b w. (None, w)), ag_Check = (\<lambda>q b w. (None, w)), ag_Withdraw = (\<lambda>q w. (None, w)), ag_Status = (\<lambda>w. (None, w))\<rparr>"

definition ex_enforcer :: "cni_world Enforcer" where
  "ex_enforcer = \<lparr>en_Identity = (\<lambda>n w. (Inr ''4:1'', w)), en_InstallLockdown = (\<lambda>n u w. (None, w\<lparr>cw_denied := True\<rparr>)),
     en_Cleanup = (\<lambda>n u w. (None, w\<lparr>cw_denied := False\<rparr>))\<rparr>"

abbreviation ex_attachments :: "cni_world Store" where
  "ex_attachments \<equiv> FileStore Sum256 ex_codec mem_os ex_store_dir"

definition ex_plugin :: "cni_world Plugin" where
  "ex_plugin = \<lparr>pl_Agent = Some ex_agent, pl_Enforcer = Some ex_enforcer, pl_Store = Some ex_attachments,
     pl_ResolveTimeout = 0, pl_BindingTimeout = 0, pl_RetryInterval = 0, pl_now = (\<lambda>w. (cw_clock w, w)),
     pl_wait = (\<lambda>d t w. (t \<le> cw_clock w, w\<lparr>cw_clock := cw_clock w + d\<rparr>))\<rparr>"

definition ex_request :: cni_Request where
  "ex_request = \<lparr>rq_Network = ''n'', rq_Pod = at_Pod ex_attachment\<rparr>"

definition ex_cni_world :: cni_world where
  "ex_cni_world = \<lparr>mf_files = [], cw_denied = False, cw_clock = 0\<rparr>"

abbreviation ex_st :: "cni_world \<Rightarrow> cni_Key \<rightharpoonup> Attachment" where
  "ex_st w \<equiv> loadable Sum256 ex_codec ex_store_dir (map_of (mf_files w))"

lemma ex_uses: "plugin_uses ex_plugin ex_agent ex_enforcer ex_attachments"
  by (simp add: plugin_uses_def ex_plugin_def)

lemma ex_store_contract: "attachment_store ex_attachments ex_st"
  by (rule mem_attachments.attachment_store_axioms)

lemma ex_plugin_frame: "plugin_frame ex_plugin ex_agent ex_enforcer pod ex_st"
  by (simp add: plugin_frame_def keeps_def ex_plugin_def ex_agent_def ex_enforcer_def)




lemma ex_Save: "attachment_Validate a = None \<Longrightarrow> \<exists>w'. s_Save ex_attachments a w = (None, w')"
  using mem_Save by (simp add: FileStore_def)




lemma ex_timed: "timed_wait cw_clock (pl_wait ex_plugin) (ag_Resolve ex_agent q)" "timed_wait cw_clock (pl_wait ex_plugin) (ag_Binding ex_agent q)"
  by (auto simp: timed_wait_def ex_plugin_def ex_agent_def)

theorem Add_returns_witness: "\<exists>y. Add ex_plugin ex_request ex_cni_world = Some y"
  by (rule Add_returns [OF ex_timed ex_uses])

theorem Delete_confirmed_witness:
  "\<exists>w0 w'. plugin_Delete ex_plugin (at_Key ex_attachment) [] w0 = (None, w') \<and> ex_st w0 (at_Key ex_attachment) = Some ex_attachment
     \<and> (\<exists>v. s_Delete ex_attachments (at_Key ex_attachment) v = (None, w'))"
proof -
  obtain w0 where w0: "s_Save ex_attachments ex_attachment ex_cni_world = (None, w0)" using ex_Save [OF ex_attachment_valid] by blast
  have st: "ex_st w0 (at_Key ex_attachment) = Some ex_attachment"
    using attachment_store.save_ok [OF ex_store_contract w0] by simp
  obtain f where f: "key_Validate (at_Key ex_attachment) = None" "json_Unmarshal ex_codec f = Inr ex_attachment"
      "map_of (mf_files w0) (store_path Sum256 ex_store_dir (at_Key ex_attachment)) = Some f"
    using st by (auto simp: loadable_def split: if_splits option.splits sum.splits)
  have load: "s_Load ex_attachments (at_Key ex_attachment) w0 = (Inr ex_attachment, w0)"
    by (simp add: FileStore_def Load_def mem_os_sel(1) f ex_attachment_valid)
  let ?w1 = "w0\<lparr>cw_denied := False\<rparr>"
  obtain d w' where d: "s_Delete ex_attachments (at_Key ex_attachment) ?w1 = (d, w')" by fastforce
  have dN: "d = None"
    using d by (simp add: FileStore_def store_Delete_def mem_os_sel f)
  have id: "at_NamespaceIdentity ex_attachment = ''4:1''" by (simp add: ex_attachment_def)
  have env: "ag_Resolve ex_agent q w = (Inr \<lparr>cr_PodUID = pi_UID q, cr_Enrolled = True, cr_Terminating = True\<rparr>, w)"
    "ag_Withdraw ex_agent q w = (None, w)" "en_Identity ex_enforcer n w = (Inr ''4:1'', w)"
    "en_Cleanup ex_enforcer n u w = (None, w\<lparr>cw_denied := False\<rparr>)" for q n u w
    by (simp_all add: ex_agent_def ex_enforcer_def)
  have conf: "delete_confirmed ex_agent ex_enforcer ex_attachments (at_Key ex_attachment) [] ex_attachment w0 = (None, w')"
    using d dN by (simp add: delete_confirmed_def Let_def env id)
  have pl: "pl_Agent ex_plugin = Some ex_agent" "pl_Store ex_plugin = Some ex_attachments" "pl_Enforcer ex_plugin = Some ex_enforcer"
    using ex_uses by (simp_all add: plugin_uses_def)
  have del: "plugin_Delete ex_plugin (at_Key ex_attachment) [] w0 = (None, w')"
    by (simp add: plugin_Delete_def pl load env conf)
  have "ex_st w' (at_Key ex_attachment) = None" by (rule attachment_store.delete_ok [OF ex_store_contract d [unfolded dN]])
  then have gone: "ex_st w' (at_Key ex_attachment) \<noteq> Some ex_attachment" by simp
  note D = Delete_confirmed [where st = ex_st, OF del ex_uses ex_store_contract ex_plugin_frame st gone]
  obtain v where "s_Delete ex_attachments (at_Key ex_attachment) v = (None, w')"
    using D [THEN conjunct2] by (elim exE conjE)
  with del st show ?thesis by (intro exI conjI)
qed

end
