(* ===== verification/Go_Base64.thy ===== *)
theory Go_Base64
  imports Waycloak_Prelude "HOL-Library.Word"
begin

text \<open>
  \<open>base64.RawURLEncoding\<close>: the URL alphabet without padding. Decoding skips line breaks and, not being
  strict, ignores the unused low bits of the last character.
\<close>

definition b64_alphabet :: string where
  "b64_alphabet = ''ABCDEFGHIJKLMNOPQRSTUVWXYZabcdefghijklmnopqrstuvwxyz0123456789-_''"

definition b64_char :: "nat \<Rightarrow> char" where
  "b64_char n = b64_alphabet ! n"

definition b64_val :: "char \<Rightarrow> nat option" where
  "b64_val c = (let n = length (takeWhile (\<lambda>x. x \<noteq> c) b64_alphabet) in if n < 64 then Some n else None)"

fun b64_encode :: "nat list \<Rightarrow> string" where
  "b64_encode (a # b # c # xs) =
     b64_char (a div 4) # b64_char (a mod 4 * 16 + b div 16) # b64_char (b mod 16 * 4 + c div 64) # b64_char (c mod 64) # b64_encode xs"
| "b64_encode [a, b] = [b64_char (a div 4), b64_char (a mod 4 * 16 + b div 16), b64_char (b mod 16 * 4)]"
| "b64_encode [a] = [b64_char (a div 4), b64_char (a mod 4 * 16)]"
| "b64_encode [] = []"

fun b64_decode :: "nat list \<Rightarrow> nat list option" where
  "b64_decode (p # q # r # s # xs) = (case b64_decode xs of None \<Rightarrow> None
     | Some ys \<Rightarrow> Some ((p * 4 + q div 16) # (q mod 16 * 16 + r div 4) # (r mod 4 * 64 + s) # ys))"
| "b64_decode [p, q, r] = Some [p * 4 + q div 16, q mod 16 * 16 + r div 4]"
| "b64_decode [p, q] = Some [p * 4 + q div 16]"
| "b64_decode [p] = None"
| "b64_decode [] = Some []"

fun b64_values :: "string \<Rightarrow> nat list option" where
  "b64_values [] = Some []"
| "b64_values (c # cs) = (case b64_val c of None \<Rightarrow> None | Some n \<Rightarrow> map_option ((#) n) (b64_values cs))"

definition RawURLEncode :: "8 word list \<Rightarrow> string" where
  "RawURLEncode bs = b64_encode (map unat bs)"

definition RawURLDecode :: "string \<Rightarrow> 8 word list option" where
  "RawURLDecode s = (case b64_values (filter (\<lambda>c. c \<noteq> CHR 0x0A \<and> c \<noteq> CHR 0x0D) s) of None \<Rightarrow> None
     | Some vs \<Rightarrow> map_option (map of_nat) (b64_decode vs))"

section \<open>Decoding undoes encoding\<close>

lemma b64_val_all: "list_all (\<lambda>n. b64_val (b64_char n) = Some n \<and> b64_char n \<noteq> CHR 0x0A \<and> b64_char n \<noteq> CHR 0x0D) [0..<64]"
  by code_simp

lemma b64_val_char: "n < 64 \<Longrightarrow> b64_val (b64_char n) = Some n \<and> b64_char n \<noteq> CHR 0x0A \<and> b64_char n \<noteq> CHR 0x0D"
  using b64_val_all by (auto simp: list_all_iff)

definition b64_ok :: "string \<Rightarrow> nat list \<Rightarrow> bool" where
  "b64_ok s vs \<longleftrightarrow> b64_values (filter (\<lambda>c. c \<noteq> CHR 0x0A \<and> c \<noteq> CHR 0x0D) s) = Some vs"

lemma b64_ok_Nil: "b64_ok [] []"
  by (simp add: b64_ok_def)

lemma b64_ok_Cons: "n < 64 \<Longrightarrow> b64_ok s vs \<Longrightarrow> b64_ok (b64_char n # s) (n # vs)"
  using b64_val_char [of n] by (simp add: b64_ok_def)

lemma b64_roundtrip:
  "\<forall>x \<in> set xs. x < 256 \<Longrightarrow> \<exists>vs. b64_ok (b64_encode xs) vs \<and> b64_decode vs = Some xs"
proof (induction xs rule: b64_encode.induct)
  case (1 a b c xs)
  then obtain vs where vs: "b64_ok (b64_encode xs) vs" "b64_decode vs = Some xs" by auto
  from 1 have l: "a div 4 < 64" "a mod 4 * 16 + b div 16 < 64" "b mod 16 * 4 + c div 64 < 64" "c mod 64 < 64" by auto
  have "b64_ok (b64_encode (a # b # c # xs)) (a div 4 # (a mod 4 * 16 + b div 16) # (b mod 16 * 4 + c div 64) # (c mod 64) # vs)"
    using l vs(1) by (simp add: b64_ok_Cons)
  moreover have "b64_decode (a div 4 # (a mod 4 * 16 + b div 16) # (b mod 16 * 4 + c div 64) # (c mod 64) # vs) = Some (a # b # c # xs)"
  proof -
    have "b div 16 < 16" "c div 64 < 4" using 1(2) by auto
    then show ?thesis using vs(2) by simp
  qed
  ultimately show ?case by blast
next
  case (2 a b)
  then have l: "a div 4 < 64" "a mod 4 * 16 + b div 16 < 64" "b mod 16 * 4 < 64" by auto
  then have "b64_ok (b64_encode [a, b]) [a div 4, a mod 4 * 16 + b div 16, b mod 16 * 4]"
    by (simp add: b64_ok_Cons b64_ok_Nil)
  moreover have "b64_decode [a div 4, a mod 4 * 16 + b div 16, b mod 16 * 4] = Some [a, b]"
  proof -
    have "b div 16 < 16" using 2 by auto
    then show ?thesis by simp
  qed
  ultimately show ?case by blast
next
  case (3 a)
  then have l: "a div 4 < 64" "a mod 4 * 16 < 64" by auto
  then have "b64_ok (b64_encode [a]) [a div 4, a mod 4 * 16]" by (simp add: b64_ok_Cons b64_ok_Nil)
  moreover have "b64_decode [a div 4, a mod 4 * 16] = Some [a]" by simp
  ultimately show ?case by blast
qed (auto intro: exI [of _ "[]"] simp: b64_ok_Nil)

theorem RawURLDecode_Encode: "RawURLDecode (RawURLEncode bs) = Some bs"
proof -
  have "\<forall>x \<in> set (map unat bs). x < 256"
    using unsigned_less [where 'a = nat and 'b = 8] by auto
  from b64_roundtrip [OF this] obtain vs where "b64_ok (b64_encode (map unat bs)) vs" "b64_decode vs = Some (map unat bs)" by blast
  then show ?thesis by (simp add: RawURLDecode_def RawURLEncode_def b64_ok_def comp_def)
qed

end
