(* ===== verification/Cni_Auth.thy ===== *)
theory Cni_Auth
  imports Go_Base64 Go_Sha256
begin

text \<open>
  \<open>src/internal/cni/protocol_auth.go\<close>: authentication of the local protocol between the CNI plugin and
  the node agent. A header is a list of name and value pairs in canonical spelling; bytes are characters.
  \<open>H\<close> is the digest; \<open>F\<close> formats and parses time stamps. The verifier's state is passed explicitly.
  A verification reads the clock once and then updates the replay window under its lock; the steps below
  are in the order in which the lock is taken, each with its own clock reading.
\<close>

section \<open>Headers, digests and authentication codes\<close>

type_synonym header = "(string \<times> string) list"

definition header_Values :: "header \<Rightarrow> string \<Rightarrow> string list" where
  "header_Values h name = map snd (filter (\<lambda>(n, _). n = name) h)"

definition header_Set :: "header \<Rightarrow> string \<Rightarrow> string \<Rightarrow> header" where
  "header_Set h name v = filter (\<lambda>(n, _). n \<noteq> name) h @ [(name, v)]"

record time_format =
  tf_Format :: "time \<Rightarrow> string"
  tf_Parse :: "string \<Rightarrow> time option"

definition AgentAPIVersion :: string where "AgentAPIVersion = ''networking.waycloak.io/cni-node/v1''"
definition ProtocolKeySize :: nat where "ProtocolKeySize = 32"
definition ProtocolMaxMessage :: nat where "ProtocolMaxMessage = 2 ^ 20"
definition ProtocolMaxClockSkew :: duration where "ProtocolMaxClockSkew = 30 * Second"
definition ProtocolMaxReplayIDs :: nat where "ProtocolMaxReplayIDs = 4096"
abbreviation protocolHeaderVersion :: string where "protocolHeaderVersion \<equiv> ''X-Waycloak-Protocol''"
abbreviation protocolHeaderID :: string where "protocolHeaderID \<equiv> ''X-Waycloak-Request-Id''"
abbreviation protocolHeaderTime :: string where "protocolHeaderTime \<equiv> ''X-Waycloak-Issued-At''"
abbreviation protocolHeaderAuth :: string where "protocolHeaderAuth \<equiv> ''X-Waycloak-Authentication''"

definition bytes_string :: "8 word list \<Rightarrow> string" where
  "bytes_string bs = map (\<lambda>b. char_of (unat b)) bs"

text \<open>\<open>hmac.New(sha256.New, key)\<close> for a key of at most one block of 64 bytes.\<close>

definition hmac :: "(string \<Rightarrow> 8 word list) \<Rightarrow> 8 word list \<Rightarrow> string \<Rightarrow> 8 word list" where
  "hmac H key m = (let k = key @ replicate (64 - length key) 0 in
     H (bytes_string (map (\<lambda>b. b XOR 0x5C) k) @ bytes_string (H (bytes_string (map (\<lambda>b. b XOR 0x36) k) @ m))))"

definition mac_field :: "string \<Rightarrow> string" where
  "mac_field field = bytes_string (be_bytes8 (of_nat (length field))) @ field"

definition mac_message :: "string list \<Rightarrow> string" where
  "mac_message fs = concat (map mac_field fs)"

definition mac :: "(string \<Rightarrow> 8 word list) \<Rightarrow> 8 word list \<Rightarrow> string list \<Rightarrow> 8 word list" where
  "mac H key fs = hmac H key (mac_message fs)"

definition body_digest :: "(string \<Rightarrow> 8 word list) \<Rightarrow> string \<Rightarrow> string" where
  "body_digest H body = RawURLEncode (H body)"

definition encodeMAC :: "8 word list \<Rightarrow> string" where
  "encodeMAC value = RawURLEncode value"

definition oneHeader :: "header \<Rightarrow> string \<Rightarrow> string result" where
  "oneHeader h name = (case header_Values h name of
     [v] \<Rightarrow> if v = [] then Inl (Err ''header must appear exactly once'') else Inr v
   | _ \<Rightarrow> Inl (Err ''header must appear exactly once''))"

definition decodeMACHeader :: "header \<Rightarrow> 8 word list result" where
  "decodeMACHeader h = (case oneHeader h protocolHeaderAuth of Inl e \<Rightarrow> Inl e
   | Inr value \<Rightarrow> (case RawURLDecode value of
       None \<Rightarrow> Inl (Err ''invalid local protocol authenticator'')
     | Some decoded \<Rightarrow> if length decoded \<noteq> 32 then Inl (Err ''invalid local protocol authenticator'') else Inr decoded))"

section \<open>The authenticator\<close>

record ProtocolAuthenticator =
  pa_key :: "8 word list"
  pa_maxSkew :: duration
  pa_maxReplay :: nat
  pa_seen :: "(string \<times> time) list"

definition NewProtocolAuthenticator :: "8 word list \<Rightarrow> ProtocolAuthenticator result" where
  "NewProtocolAuthenticator key =
     (if length key \<noteq> ProtocolKeySize then Inl (Err ''local protocol key must be exactly 32 bytes'')
      else Inr \<lparr>pa_key = key, pa_maxSkew = ProtocolMaxClockSkew, pa_maxReplay = ProtocolMaxReplayIDs, pa_seen = []\<rparr>)"

definition requestMAC :: "(string \<Rightarrow> 8 word list) \<Rightarrow> ProtocolAuthenticator \<Rightarrow> string \<Rightarrow> string \<Rightarrow> string \<Rightarrow> string \<Rightarrow> string \<Rightarrow> 8 word list" where
  "requestMAC H a identifier issuedAt method requestPath body =
     mac H (pa_key a) [''request'', AgentAPIVersion, identifier, issuedAt, method, requestPath, body_digest H body]"

definition responseMAC :: "(string \<Rightarrow> 8 word list) \<Rightarrow> ProtocolAuthenticator \<Rightarrow> string \<Rightarrow> nat \<Rightarrow> string \<Rightarrow> 8 word list" where
  "responseMAC H a identifier status body =
     mac H (pa_key a) [''response'', AgentAPIVersion, identifier, itoa status, body_digest H body]"

text \<open>\<open>random\<close> is what reading 16 random bytes gives.\<close>

definition SignRequest :: "(string \<Rightarrow> 8 word list) \<Rightarrow> time_format \<Rightarrow> ProtocolAuthenticator \<Rightarrow> 8 word list result \<Rightarrow> time \<Rightarrow>
    string \<Rightarrow> string \<Rightarrow> string \<Rightarrow> header result" where
  "SignRequest H F a random now method requestPath body = (case random of
     Inl e \<Rightarrow> Inl (Errorf ''generate local protocol request identity'' [e])
   | Inr identifierBytes \<Rightarrow>
       let identifier = RawURLEncode identifierBytes; issuedAt = tf_Format F now in
       Inr (header_Set (header_Set (header_Set (header_Set [] protocolHeaderVersion AgentAPIVersion)
         protocolHeaderID identifier) protocolHeaderTime issuedAt)
         protocolHeaderAuth (encodeMAC (requestMAC H a identifier issuedAt method requestPath body))))"

definition consumeRequestID :: "ProtocolAuthenticator \<Rightarrow> string \<Rightarrow> time \<Rightarrow> time \<Rightarrow> go_error option \<times> ProtocolAuthenticator" where
  "consumeRequestID a identifier issuedAt now = (
     let seen = filter (\<lambda>(_, timestamp). \<not> timestamp < now - pa_maxSkew a) (pa_seen a); a = a\<lparr>pa_seen := seen\<rparr> in
     if identifier \<in> fst ` set seen then (Some (Err ''local protocol request was replayed''), a)
     else if length seen \<ge> pa_maxReplay a then (Some (Err ''local protocol replay window is full''), a)
     else (None, a\<lparr>pa_seen := (identifier, issuedAt) # seen\<rparr>))"

text \<open>Everything before the replay window is touched: the identity and time of an authentic, fresh request.\<close>

definition authenticate :: "(string \<Rightarrow> 8 word list) \<Rightarrow> time_format \<Rightarrow> ProtocolAuthenticator \<Rightarrow> time \<Rightarrow> string \<Rightarrow> string \<Rightarrow> header \<Rightarrow>
    string \<Rightarrow> (string \<times> time) result" where
  "authenticate H F a now method requestPath h body =
     (if oneHeader h protocolHeaderVersion \<noteq> Inr AgentAPIVersion then Inl (Err ''invalid local protocol version'')
      else case oneHeader h protocolHeaderID of
        Inl _ \<Rightarrow> Inl (Err ''invalid local protocol request identity'')
      | Inr identifier \<Rightarrow> (case RawURLDecode identifier of
          None \<Rightarrow> Inl (Err ''invalid local protocol request identity'')
        | Some decoded \<Rightarrow>
            if length decoded \<noteq> 16 then Inl (Err ''invalid local protocol request identity'')
            else case oneHeader h protocolHeaderTime of
              Inl _ \<Rightarrow> Inl (Err ''invalid local protocol timestamp'')
            | Inr issuedAtText \<Rightarrow> (case tf_Parse F issuedAtText of
                None \<Rightarrow> Inl (Err ''invalid local protocol timestamp'')
              | Some issuedAt \<Rightarrow>
                  if decodeMACHeader h \<noteq> Inr (requestMAC H a identifier issuedAtText method requestPath body)
                    then Inl (Err ''local protocol request authentication failed'')
                  else if issuedAt < now - pa_maxSkew a \<or> now + pa_maxSkew a < issuedAt
                    then Inl (Err ''local protocol request is outside the freshness window'')
                  else Inr (identifier, issuedAt))))"

definition VerifyRequest :: "(string \<Rightarrow> 8 word list) \<Rightarrow> time_format \<Rightarrow> ProtocolAuthenticator \<Rightarrow> time \<Rightarrow> string \<Rightarrow> string \<Rightarrow> header \<Rightarrow>
    string \<Rightarrow> string result \<times> ProtocolAuthenticator" where
  "VerifyRequest H F a now method requestPath h body = (case authenticate H F a now method requestPath h body of
     Inl e \<Rightarrow> (Inl e, a)
   | Inr (identifier, issuedAt) \<Rightarrow> (case consumeRequestID a identifier issuedAt now of
       (Some e, a') \<Rightarrow> (Inl e, a') | (None, a') \<Rightarrow> (Inr identifier, a')))"

definition SignResponse :: "(string \<Rightarrow> 8 word list) \<Rightarrow> ProtocolAuthenticator \<Rightarrow> string \<Rightarrow> nat \<Rightarrow> string \<Rightarrow> header" where
  "SignResponse H a requestID status body = header_Set (header_Set (header_Set [] protocolHeaderVersion AgentAPIVersion)
     protocolHeaderID requestID) protocolHeaderAuth (encodeMAC (responseMAC H a requestID status body))"

definition VerifyResponse :: "(string \<Rightarrow> 8 word list) \<Rightarrow> ProtocolAuthenticator \<Rightarrow> string \<Rightarrow> nat \<Rightarrow> header \<Rightarrow> string \<Rightarrow> go_error option" where
  "VerifyResponse H a requestID status h body =
     (if oneHeader h protocolHeaderVersion \<noteq> Inr AgentAPIVersion then Some (Err ''invalid local protocol response version'')
      else if oneHeader h protocolHeaderID \<noteq> Inr requestID then Some (Err ''local protocol response identity mismatch'')
      else if decodeMACHeader h \<noteq> Inr (responseMAC H a requestID status body)
        then Some (Err ''local protocol response authentication failed'')
      else None)"

section \<open>The handler\<close>

text \<open>What a handler does to its response writer, and the buffered response it leaves.\<close>

datatype response_op = WriteHeader nat | Write string

record authenticatedResponse =
  ar_status :: nat
  ar_body :: string
  ar_large :: bool

fun response_step :: "authenticatedResponse \<Rightarrow> response_op \<Rightarrow> authenticatedResponse" where
  "response_step w (WriteHeader status) = (if ar_status w = 0 then w\<lparr>ar_status := status\<rparr> else w)"
| "response_step w (Write value) = (
     let w = (if ar_status w = 0 then w\<lparr>ar_status := 200\<rparr> else w) in
     if length (ar_body w) + length value > ProtocolMaxMessage then w\<lparr>ar_large := True\<rparr>
     else w\<lparr>ar_body := ar_body w @ value\<rparr>)"

record http_response =
  hr_header :: header
  hr_status :: nat
  hr_body :: string

definition http_Error :: "string \<Rightarrow> nat \<Rightarrow> http_response" where
  "http_Error message status = \<lparr>hr_header = [(''Content-Type'', ''text/plain; charset=utf-8''), (''X-Content-Type-Options'', ''nosniff'')],
     hr_status = status, hr_body = message @ [CHR 0x0A]\<rparr>"

definition signed_response :: "(string \<Rightarrow> 8 word list) \<Rightarrow> ProtocolAuthenticator \<Rightarrow> string \<Rightarrow> header \<Rightarrow> response_op list \<Rightarrow> http_response" where
  "signed_response H a requestID h ops = (
     let buffered = foldl response_step \<lparr>ar_status = 0, ar_body = [], ar_large = False\<rparr> ops;
         status = (if ar_status buffered = 0 then 200 else ar_status buffered);
         (status, responseBody) = (if ar_large buffered then (500, ''local protocol response rejected'' @ [CHR 0x0A]) else (status, ar_body buffered));
         kept = filter (\<lambda>(name, _). name \<notin> {protocolHeaderVersion, protocolHeaderID, protocolHeaderTime, protocolHeaderAuth, ''Content-Length''}) h in
     \<lparr>hr_header = kept @ SignResponse H a requestID status responseBody, hr_status = status, hr_body = responseBody\<rparr>)"

text \<open>\<open>next\<close> is the wrapped handler: it sees the request and answers with its header and writes.\<close>

definition AuthenticatedAgentHandler :: "(string \<Rightarrow> 8 word list) \<Rightarrow> time_format \<Rightarrow> (string \<Rightarrow> string \<Rightarrow> header \<Rightarrow> string \<Rightarrow> ('w, header \<times> response_op list) call) \<Rightarrow>
    ProtocolAuthenticator \<Rightarrow> time \<Rightarrow> string \<Rightarrow> string \<Rightarrow> header \<Rightarrow> string result \<Rightarrow> 'w \<Rightarrow> (http_response \<times> ProtocolAuthenticator) \<times> 'w" where
  "AuthenticatedAgentHandler H F nxt a now method requestPath h read w = (case read of
     Inl _ \<Rightarrow> ((http_Error ''local protocol request rejected'' 413, a), w)
   | Inr body \<Rightarrow>
       if length body > ProtocolMaxMessage then ((http_Error ''local protocol request rejected'' 413, a), w)
       else case VerifyRequest H F a now method requestPath h body of
         (Inl _, a') \<Rightarrow> ((http_Error ''local protocol request rejected'' 401, a'), w)
       | (Inr requestID, a') \<Rightarrow> (case nxt method requestPath h body w of
           ((answer, ops), w1) \<Rightarrow> ((signed_response H a' requestID answer ops, a'), w1)))"

section \<open>Framing of the authenticated fields\<close>

lemma bytes_string_inj: "bytes_string xs = bytes_string ys \<Longrightarrow> xs = ys"
proof (rule map_injective [of "\<lambda>b :: 8 word. char_of (unat b)"])
  show "inj (\<lambda>b :: 8 word. char_of (unat b) :: char)"
  proof (rule injI)
    fix a b :: "8 word"
    assume "(char_of (unat a) :: char) = char_of (unat b)"
    then have "unat a mod 256 = unat b mod 256" by (simp add: char_of_eq_iff of_char_of take_bit_eq_mod)
    moreover have "unat a < 256" "unat b < 256"
      using unsigned_less [of a, where 'a = nat] unsigned_less [of b, where 'a = nat] by simp_all
    ultimately show "a = b" by (simp add: unsigned_word_eqI)
  qed
qed (simp add: bytes_string_def)

lemma be_bytes8_length [simp]: "length (be_bytes8 n) = 8"
  by (simp add: be_bytes8_def be_bytes4_def)

lemma byte_eq_bit:
  assumes "(ucast (drop_bit k (v :: 'a::len word)) :: 8 word) = ucast (drop_bit k w)" and "n < 8"
  shows "bit v (k + n) = bit w (k + n)"
proof -
  from assms(1) have "bit (ucast (drop_bit k v) :: 8 word) n = bit (ucast (drop_bit k w) :: 8 word) n" by simp
  with assms(2) show ?thesis by (simp add: bit_simps)
qed

lemma be_bytes4_inj:
  fixes v w :: "32 word"
  assumes "be_bytes4 v = be_bytes4 w"
  shows "v = w"
proof (rule bit_word_eqI)
  fix n assume "n < LENGTH(32)"
  then have n: "n < 32" by simp
  from assms have e: "(ucast (drop_bit 24 v) :: 8 word) = ucast (drop_bit 24 w)" "(ucast (drop_bit 16 v) :: 8 word) = ucast (drop_bit 16 w)"
    "(ucast (drop_bit 8 v) :: 8 word) = ucast (drop_bit 8 w)" "(ucast (drop_bit 0 v) :: 8 word) = ucast (drop_bit 0 w)"
    by (simp_all add: be_bytes4_def)
  consider "n < 8" | "8 \<le> n" "n < 16" | "16 \<le> n" "n < 24" | "24 \<le> n" by linarith
  then show "bit v n = bit w n"
    using byte_eq_bit [OF e(1), of "n - 24"] byte_eq_bit [OF e(2), of "n - 16"] byte_eq_bit [OF e(3), of "n - 8"]
      byte_eq_bit [OF e(4), of n] n by cases simp_all
qed

lemma be_bytes8_inj:
  fixes v w :: "64 word"
  assumes "be_bytes8 v = be_bytes8 w"
  shows "v = w"
proof (rule bit_word_eqI)
  fix n assume "n < LENGTH(64)"
  then have n: "n < 64" by simp
  from assms have "be_bytes4 (ucast (drop_bit 32 v)) = be_bytes4 (ucast (drop_bit 32 w))" "be_bytes4 (ucast v) = be_bytes4 (ucast w)"
    by (simp_all add: be_bytes8_def be_bytes4_def)
  then have e: "(ucast (drop_bit 32 v) :: 32 word) = ucast (drop_bit 32 w)" "(ucast v :: 32 word) = ucast w"
    by (auto dest: be_bytes4_inj)
  have "bit (ucast (drop_bit 32 v) :: 32 word) (n - 32) = bit (ucast (drop_bit 32 w) :: 32 word) (n - 32)"
    "bit (ucast v :: 32 word) n = bit (ucast w :: 32 word) n" using e by simp_all
  then show "bit v n = bit w n" using n by (cases "n < 32") (auto simp: bit_simps)
qed

lemma mac_field_split:
  assumes "length x < 2 ^ 64" "length y < 2 ^ 64" and "mac_field x @ r = mac_field y @ s"
  shows "x = y \<and> r = s"
proof -
  have l: "length (bytes_string (be_bytes8 n)) = 8" for n by (simp add: bytes_string_def)
  from assms(3) have "bytes_string (be_bytes8 (of_nat (length x))) = bytes_string (be_bytes8 (of_nat (length y)))"
    and rest: "x @ r = y @ s"
    using append_eq_append_conv [of "bytes_string (be_bytes8 (of_nat (length x)))" "bytes_string (be_bytes8 (of_nat (length y)))"] l
    by (simp_all add: mac_field_def)
  then have "(of_nat (length x) :: 64 word) = of_nat (length y)" by (auto dest: bytes_string_inj be_bytes8_inj)
  then have "length x = length y"
    using assms(1,2) by (simp add: word_unat_eq_iff unat_of_nat)
  with rest show ?thesis by simp
qed

text \<open>
  C25: The framing of the authenticated fields is unambiguous. Two lists of fields that give the same
  message to the authentication code are the same list, so that no part of a request or response can be
  shifted between its identity, time, method, path and body, and no response passes for a request.
\<close>

theorem mac_message_injective:
  assumes "mac_message xs = mac_message ys" and "\<forall>x \<in> set xs \<union> set ys. length x < 2 ^ 64"
  shows "xs = ys"
  using assms
proof (induction xs arbitrary: ys)
  case Nil
  then show ?case by (cases ys) (auto simp: mac_message_def mac_field_def bytes_string_def be_bytes8_def be_bytes4_def)
next
  case (Cons x xs)
  show ?case
  proof (cases ys)
    case Nil
    with Cons.prems(1) show ?thesis by (simp add: mac_message_def mac_field_def bytes_string_def be_bytes8_def be_bytes4_def)
  next
    case (Cons y zs)
    with Cons.prems have "mac_field x @ mac_message xs = mac_field y @ mac_message zs" by (simp add: mac_message_def)
    with mac_field_split [OF _ _ this] Cons.prems(2) Cons have "x = y" "mac_message xs = mac_message zs" by auto
    with Cons.IH [of zs] Cons.prems(2) Cons show ?thesis by simp
  qed
qed

theorem mac_message_injective_witness:
  "mac_message [''request'', ''a'', ''bc''] \<noteq> mac_message [''request'', ''ab'', ''c'']"
  using mac_message_injective [of "[''request'', ''a'', ''bc'']" "[''request'', ''ab'', ''c'']"] by auto

section \<open>Round trips\<close>

lemma oneHeader_Set: "v \<noteq> [] \<Longrightarrow> oneHeader (header_Set h name v) name = Inr v"
proof -
  have "header_Values (header_Set h name v) name = [v]"
    by (induction h) (auto simp: header_Values_def header_Set_def)
  then show "v \<noteq> [] \<Longrightarrow> ?thesis" by (simp add: oneHeader_def)
qed

lemma oneHeader_Set_other: "name \<noteq> name' \<Longrightarrow> oneHeader (header_Set h name' v) name = oneHeader h name"
proof -
  assume "name \<noteq> name'"
  then have "header_Values (header_Set h name' v) name = header_Values h name"
    by (induction h) (auto simp: header_Values_def header_Set_def)
  then show ?thesis by (simp add: oneHeader_def)
qed

lemma encodeMAC_decodes: "RawURLDecode (encodeMAC m) = Some m"
  by (simp add: encodeMAC_def RawURLDecode_Encode)

lemma RawURLEncode_nonempty: "bs \<noteq> [] \<Longrightarrow> RawURLEncode bs \<noteq> []"
proof -
  have "xs \<noteq> [] \<Longrightarrow> b64_encode xs \<noteq> []" for xs by (cases xs rule: b64_encode.cases) simp_all
  then show "bs \<noteq> [] \<Longrightarrow> ?thesis" by (simp add: RawURLEncode_def)
qed

lemma decodeMACHeader_Set:
  "length m = 32 \<Longrightarrow> decodeMACHeader (header_Set h protocolHeaderAuth (encodeMAC m)) = Inr m"
proof -
  assume m: "length m = 32"
  then have "encodeMAC m \<noteq> []" using RawURLEncode_nonempty [of m] by (cases m) (simp_all add: encodeMAC_def)
  with m show ?thesis by (simp add: decodeMACHeader_def oneHeader_Set encodeMAC_decodes)
qed

lemma digest_length_mac: "digest H \<Longrightarrow> length (mac H key fs) = 32"
  by (simp add: mac_def hmac_def Let_def digest_def)

lemmas header_steps = oneHeader_Set oneHeader_Set_other

lemma decodeMACHeader_signed: "digest H \<Longrightarrow> decodeMACHeader (header_Set h protocolHeaderAuth (encodeMAC (mac H key fs))) = Inr (mac H key fs)"
  by (simp add: decodeMACHeader_Set digest_length_mac)

lemma authenticate_signed:
  assumes H: "digest H" and F: "tf_Parse F (tf_Format F t) = Some t" "tf_Format F t \<noteq> []"
    and random: "length bytes = 16" and signed: "SignRequest H F c (Inr bytes) t method requestPath body = Inr h"
    and key: "pa_key c = pa_key a" and fresh: "now - pa_maxSkew a \<le> t" "t \<le> now + pa_maxSkew a"
  shows "authenticate H F a now method requestPath h body = Inr (RawURLEncode bytes, t)"
proof -
  have id: "RawURLEncode bytes \<noteq> []" using RawURLEncode_nonempty [of bytes] random by (cases bytes) simp_all
  have mac: "requestMAC H c = requestMAC H a" by (simp add: fun_eq_iff requestMAC_def key)
  let ?h = "header_Set (header_Set (header_Set [] protocolHeaderVersion AgentAPIVersion) protocolHeaderID (RawURLEncode bytes))
    protocolHeaderTime (tf_Format F t)"
  let ?m = "requestMAC H a (RawURLEncode bytes) (tf_Format F t) method requestPath body"
  have h: "h = header_Set ?h protocolHeaderAuth (encodeMAC ?m)" using signed by (simp add: SignRequest_def Let_def mac)
  have "decodeMACHeader h = Inr ?m" by (simp add: h requestMAC_def decodeMACHeader_signed [OF H])
  moreover have "oneHeader h protocolHeaderVersion = Inr AgentAPIVersion" "oneHeader h protocolHeaderID = Inr (RawURLEncode bytes)"
    "oneHeader h protocolHeaderTime = Inr (tf_Format F t)"
    using id F(2) by (simp_all add: h header_steps AgentAPIVersion_def)
  ultimately show ?thesis using F(1) fresh random by (simp add: authenticate_def RawURLDecode_Encode)
qed

abbreviation pruned :: "ProtocolAuthenticator \<Rightarrow> time \<Rightarrow> (string \<times> time) list" where
  "pruned a now \<equiv> filter (\<lambda>(_, timestamp). \<not> timestamp < now - pa_maxSkew a) (pa_seen a)"

lemma VerifyRequest_signed:
  assumes "digest H" and "tf_Parse F (tf_Format F t) = Some t" "tf_Format F t \<noteq> []"
    and "length bytes = 16" and "SignRequest H F c (Inr bytes) t method requestPath body = Inr h"
    and "pa_key c = pa_key a" and "now - pa_maxSkew a \<le> t" "t \<le> now + pa_maxSkew a"
    and "RawURLEncode bytes \<notin> fst ` set (pa_seen a)" and "length (pa_seen a) < pa_maxReplay a"
  shows "VerifyRequest H F a now method requestPath h body =
    (Inr (RawURLEncode bytes), a\<lparr>pa_seen := (RawURLEncode bytes, t) # pruned a now\<rparr>)"
proof -
  have "RawURLEncode bytes \<notin> fst ` set (pruned a now)" using assms(9) by auto
  moreover have "\<not> pa_maxReplay a \<le> length (pruned a now)"
    using assms(10) length_filter_le [of "\<lambda>(_, timestamp). \<not> timestamp < now - pa_maxSkew a" "pa_seen a"] by linarith
  ultimately show ?thesis
    by (simp add: VerifyRequest_def authenticate_signed [OF assms(1-8)] consumeRequestID_def Let_def)
qed

text \<open>
  C26: A request signed with the shared key is accepted. Provided time stamps survive formatting, the 16 random
  bytes were not used within the window, the verifier's clock is within the allowed skew of the signer's and
  the replay window has room, the verifier accepts the signed headers for the same method, path and body, and
  returns the identity the signer drew.
\<close>

theorem SignRequest_VerifyRequest:
  assumes "digest H" and "tf_Parse F (tf_Format F t) = Some t" "tf_Format F t \<noteq> []"
    and "length bytes = 16" and "SignRequest H F c (Inr bytes) t method requestPath body = Inr h"
    and "pa_key c = pa_key a" and "now - pa_maxSkew a \<le> t" "t \<le> now + pa_maxSkew a"
    and "RawURLEncode bytes \<notin> fst ` set (pa_seen a)" and "length (pa_seen a) < pa_maxReplay a"
  shows "fst (VerifyRequest H F a now method requestPath h body) = Inr (RawURLEncode bytes)"
  using VerifyRequest_signed [OF assms] by simp

section \<open>Replay protection\<close>

lemma authenticate_Inr_iff:
  "authenticate H F a now method requestPath h body = Inr (identifier, issuedAt) \<longleftrightarrow>
     oneHeader h protocolHeaderVersion = Inr AgentAPIVersion \<and> oneHeader h protocolHeaderID = Inr identifier \<and>
     (\<exists>decoded. RawURLDecode identifier = Some decoded \<and> length decoded = 16) \<and>
     (\<exists>issuedAtText. oneHeader h protocolHeaderTime = Inr issuedAtText \<and> tf_Parse F issuedAtText = Some issuedAt \<and>
       decodeMACHeader h = Inr (requestMAC H a identifier issuedAtText method requestPath body)) \<and>
     now - pa_maxSkew a \<le> issuedAt \<and> issuedAt \<le> now + pa_maxSkew a"
  by (cases "oneHeader h protocolHeaderID"; cases "oneHeader h protocolHeaderTime")
    (auto simp: authenticate_def not_less split: option.splits)

lemma VerifyRequest_Inr_iff:
  "VerifyRequest H F a now method requestPath h body = (Inr identifier, a') \<longleftrightarrow>
     (\<exists>issuedAt. authenticate H F a now method requestPath h body = Inr (identifier, issuedAt) \<and>
       consumeRequestID a identifier issuedAt now = (None, a'))"
  by (auto simp: VerifyRequest_def split: sum.splits prod.splits option.splits)

lemma VerifyRequest_accepts:
  assumes "VerifyRequest H F a now method requestPath h body = (Inr identifier, a')"
  obtains issuedAtText issuedAt where "oneHeader h protocolHeaderID = Inr identifier" "oneHeader h protocolHeaderTime = Inr issuedAtText"
    "tf_Parse F issuedAtText = Some issuedAt" "decodeMACHeader h = Inr (requestMAC H a identifier issuedAtText method requestPath body)"
    "now - pa_maxSkew a \<le> issuedAt" "issuedAt \<le> now + pa_maxSkew a" "consumeRequestID a identifier issuedAt now = (None, a')"
  using assms unfolding VerifyRequest_Inr_iff authenticate_Inr_iff by blast

lemma VerifyRequest_rejects:
  assumes "VerifyRequest H F a now method requestPath h body = (Inl e, a')"
  shows "a' = a \<or> a' = a\<lparr>pa_seen := filter (\<lambda>(_, timestamp). \<not> timestamp < now - pa_maxSkew a) (pa_seen a)\<rparr>"
  using assms by (auto simp: VerifyRequest_def consumeRequestID_def Let_def split: sum.splits prod.splits option.splits if_splits)

text \<open>
  A run of one verifier: the requests it accepted, newest first, by their headers. The clock readings are those
  of the successive verifications.
\<close>

inductive verifier_run :: "(string \<Rightarrow> 8 word list) \<Rightarrow> time_format \<Rightarrow> 8 word list \<Rightarrow> ProtocolAuthenticator \<Rightarrow> time \<Rightarrow> header list \<Rightarrow> bool"
  for H F key where
  start: "NewProtocolAuthenticator key = Inr a \<Longrightarrow> verifier_run H F key a now []"
| accept: "verifier_run H F key a now accepted \<Longrightarrow> now \<le> now' \<Longrightarrow>
    VerifyRequest H F a now' method requestPath h body = (Inr identifier, a') \<Longrightarrow> verifier_run H F key a' now' (h # accepted)"
| reject: "verifier_run H F key a now accepted \<Longrightarrow> now \<le> now' \<Longrightarrow>
    VerifyRequest H F a now' method requestPath h body = (Inl e, a') \<Longrightarrow> verifier_run H F key a' now' accepted"

definition request_stamp :: "header \<Rightarrow> string result \<times> string result" where
  "request_stamp h = (oneHeader h protocolHeaderID, oneHeader h protocolHeaderTime)"

definition remembered :: "time_format \<Rightarrow> ProtocolAuthenticator \<Rightarrow> time \<Rightarrow> header \<Rightarrow> bool" where
  "remembered F a now h \<longleftrightarrow> (\<exists>identifier issuedAtText issuedAt. request_stamp h = (Inr identifier, Inr issuedAtText) \<and>
     tf_Parse F issuedAtText = Some issuedAt \<and> ((identifier, issuedAt) \<in> set (pa_seen a) \<or> issuedAt < now - pa_maxSkew a))"

definition verifier_inv :: "time_format \<Rightarrow> 8 word list \<Rightarrow> ProtocolAuthenticator \<Rightarrow> time \<Rightarrow> header list \<Rightarrow> bool" where
  "verifier_inv F key a now accepted \<longleftrightarrow> pa_key a = key \<and> pa_maxSkew a = ProtocolMaxClockSkew \<and> pa_maxReplay a = ProtocolMaxReplayIDs \<and>
     distinct (map fst (pa_seen a)) \<and> length (pa_seen a) \<le> ProtocolMaxReplayIDs \<and>
     list_all (remembered F a now) accepted \<and> distinct (map request_stamp accepted)"

lemma remembered_later:
  "remembered F a now h \<Longrightarrow> now \<le> now' \<Longrightarrow> remembered F (a\<lparr>pa_seen := pruned a now'\<rparr>) now' h"
  unfolding remembered_def by (auto; force)

lemma verifier_inv_pruned:
  assumes "verifier_inv F key a now accepted" and "now \<le> now'"
  shows "verifier_inv F key (a\<lparr>pa_seen := pruned a now'\<rparr>) now' accepted"
proof -
  define seen where "seen = pruned a now'"
  have "length seen \<le> length (pa_seen a)" by (simp add: seen_def)
  moreover have "distinct (map fst seen)"
    using assms(1) by (auto simp: verifier_inv_def distinct_map_filter seen_def)
  moreover have "list_all (remembered F (a\<lparr>pa_seen := seen\<rparr>) now') accepted"
    using assms(1) unfolding verifier_inv_def seen_def by (blast intro: list.pred_mono_strong remembered_later [OF _ assms(2)])
  ultimately have "verifier_inv F key (a\<lparr>pa_seen := seen\<rparr>) now' accepted" using assms(1) by (simp add: verifier_inv_def)
  then show ?thesis by (simp add: seen_def)
qed

lemma remembered_unseen:
  assumes "remembered F a now h" and "request_stamp h = (Inr identifier, Inr issuedAtText)" "tf_Parse F issuedAtText = Some issuedAt"
    and "now - pa_maxSkew a \<le> issuedAt"
  shows "identifier \<in> fst ` set (pa_seen a)"
  using assms by (force simp: remembered_def)

lemma verifier_inv_accept:
  assumes inv: "verifier_inv F key a now accepted" and le: "now \<le> now'"
    and ok: "VerifyRequest H F a now' method requestPath h body = (Inr identifier, a')"
  shows "verifier_inv F key a' now' (h # accepted)"
proof -
  let ?a = "a\<lparr>pa_seen := pruned a now'\<rparr>"
  obtain issuedAtText issuedAt where h: "request_stamp h = (Inr identifier, Inr issuedAtText)" "tf_Parse F issuedAtText = Some issuedAt"
    and fresh: "now' - pa_maxSkew a \<le> issuedAt" and seen: "consumeRequestID a identifier issuedAt now' = (None, a')"
    using ok by (elim VerifyRequest_accepts) (auto simp: request_stamp_def)
  from seen have new: "identifier \<notin> fst ` set (pa_seen ?a)" and room: "length (pa_seen ?a) < pa_maxReplay a"
    and a': "a' = ?a\<lparr>pa_seen := (identifier, issuedAt) # pa_seen ?a\<rparr>"
    by (auto simp: consumeRequestID_def Let_def split: if_splits)
  note inv' = verifier_inv_pruned [OF inv le]
  have unseen: "request_stamp h \<noteq> request_stamp g" if "g \<in> set accepted" for g
    using remembered_unseen [where a = ?a and now = now' and h = g, OF _ _ h(2)] inv' that h fresh new
    by (auto simp: verifier_inv_def list_all_iff)
  have "remembered F a' now' g" if "g \<in> set accepted" for g
  proof -
    from inv' that have "remembered F ?a now' g" unfolding verifier_inv_def list_all_iff by blast
    then show ?thesis unfolding a' remembered_def by auto
  qed
  moreover have "remembered F a' now' h" using h by (simp add: remembered_def a')
  ultimately show ?thesis using inv' new room unseen by (auto simp: verifier_inv_def a' list_all_iff image_iff)
qed

lemma verifier_run_inv: "verifier_run H F key a now accepted \<Longrightarrow> verifier_inv F key a now accepted"
proof (induction rule: verifier_run.induct)
  case (start a now)
  then show ?case by (auto simp: NewProtocolAuthenticator_def verifier_inv_def split: if_splits)
next
  case (accept a now accepted now' verb requestPath h body requestID a')
  then show ?case using verifier_inv_accept by blast
next
  case (reject a now accepted now' verb requestPath h body e a')
  have "verifier_inv F key a now' accepted"
    using reject.IH \<open>now \<le> now'\<close> by (force simp: verifier_inv_def list_all_iff remembered_def)
  then show ?case
    using VerifyRequest_rejects [OF reject.hyps(3)] verifier_inv_pruned [OF reject.IH \<open>now \<le> now'\<close>] by auto
qed

text \<open>
  C23: No request is accepted twice, and the memory this takes is bounded. Whatever requests reach a verifier
  made with \<open>NewProtocolAuthenticator\<close>, as long as the clock readings of successive verifications do not go
  back, no two accepted requests carry the same identity and time stamp, and the replay window never holds more
  than \<open>ProtocolMaxReplayIDs\<close> identities.
\<close>

theorem no_replay:
  assumes "verifier_run H F key a now accepted"
  shows "distinct (map request_stamp accepted) \<and> length (pa_seen a) \<le> ProtocolMaxReplayIDs"
  using verifier_run_inv [OF assms] by (simp add: verifier_inv_def)

lemma consumeRequestID_room:
  assumes "identifier \<notin> fst ` set (pruned a now)" "length (pa_seen a) < pa_maxReplay a"
  shows "fst (consumeRequestID a identifier issuedAt now) = None"
proof -
  have "length (pruned a now) < pa_maxReplay a"
    using assms(2) length_filter_le [of "\<lambda>(_, timestamp). \<not> timestamp < now - pa_maxSkew a" "pa_seen a"] by linarith
  with assms(1) show ?thesis by (simp add: consumeRequestID_def Let_def)
qed

text \<open>
  C27: The order of the clock readings matters. A verification reads the clock before it takes the lock of the
  replay window. When another accepted verification with a reading past the first request's window takes the
  lock in between and forgets the first request, a verification with an earlier reading accepts the very same
  request again. The same happens when the wall clock steps back.
\<close>

theorem replay_out_of_order:
  assumes first: "VerifyRequest H F a now1 method requestPath h body = (Inr identifier, a1)"
    and issued: "oneHeader h protocolHeaderTime = Inr issuedAtText" "tf_Parse F issuedAtText = Some issuedAt"
    and second: "VerifyRequest H F a1 now2 method2 requestPath2 h2 body2 = (Inr identifier2, a2)"
    and late: "issuedAt + pa_maxSkew a < now2" and other: "identifier2 \<noteq> identifier"
    and early: "issuedAt - pa_maxSkew a \<le> now3" "now3 \<le> issuedAt + pa_maxSkew a"
    and room: "length (pa_seen a2) < pa_maxReplay a2"
  shows "fst (VerifyRequest H F a2 now3 method requestPath h body) = Inr identifier"
proof -
  from first have seen1: "consumeRequestID a identifier issuedAt now1 = (None, a1)"
    and auth1: "authenticate H F a now1 method requestPath h body = Inr (identifier, issuedAt)"
    using issued by (auto simp: VerifyRequest_Inr_iff authenticate_Inr_iff)
  from second obtain issuedAt2 where seen2: "consumeRequestID a1 identifier2 issuedAt2 now2 = (None, a2)"
    by (elim VerifyRequest_accepts)
  from seen1 have a1: "a1 = a\<lparr>pa_seen := (identifier, issuedAt) # pruned a now1\<rparr>" and new: "identifier \<notin> fst ` set (pruned a now1)"
    by (auto simp: consumeRequestID_def Let_def split: if_splits)
  from seen2 have a2: "a2 = a1\<lparr>pa_seen := (identifier2, issuedAt2) # pruned a1 now2\<rparr>"
    by (auto simp: consumeRequestID_def Let_def split: if_splits)
  have "identifier \<notin> fst ` set (pa_seen a2)" using new late other by (auto simp: a2 a1 image_iff)
  then have "identifier \<notin> fst ` set (pruned a2 now3)" by auto
  from consumeRequestID_room [OF this room, of issuedAt] obtain a3 where "consumeRequestID a2 identifier issuedAt now3 = (None, a3)"
    by (cases "consumeRequestID a2 identifier issuedAt now3") auto
  moreover have "requestMAC H a2 = requestMAC H a" "pa_maxSkew a2 = pa_maxSkew a" by (simp_all add: fun_eq_iff requestMAC_def a2 a1)
  with auth1 early have "authenticate H F a2 now3 method requestPath h body = Inr (identifier, issuedAt)"
    by (simp add: authenticate_Inr_iff)
  ultimately show ?thesis by (simp add: VerifyRequest_def)
qed

section \<open>The handler authenticates what it dispatches and what it answers\<close>

lemma VerifyResponse_signed:
  assumes H: "digest H" and id: "requestID \<noteq> []" and key: "pa_key c = pa_key a"
    and kept: "\<forall>name \<in> {protocolHeaderVersion, protocolHeaderID, protocolHeaderAuth}. name \<notin> fst ` set h"
  shows "VerifyResponse H c requestID status (h @ SignResponse H a requestID status body) body = None"
proof -
  let ?s = "SignResponse H a requestID status body"
  have vals: "header_Values (h @ ?s) name = header_Values ?s name" if "name \<notin> fst ` set h" for name
    using that by (force simp: header_Values_def filter_empty_conv)
  have one: "oneHeader (h @ ?s) name = oneHeader ?s name" if "name \<notin> fst ` set h" for name
    using vals [OF that] by (simp add: oneHeader_def)
  have mac: "responseMAC H c = responseMAC H a" by (simp add: fun_eq_iff responseMAC_def key)
  have "decodeMACHeader (h @ ?s) = decodeMACHeader ?s" using one kept by (simp add: decodeMACHeader_def)
  also have "\<dots> = Inr (responseMAC H c requestID status body)"
    by (simp add: SignResponse_def mac) (simp add: responseMAC_def decodeMACHeader_signed [OF H])
  finally have "decodeMACHeader (h @ ?s) = Inr (responseMAC H c requestID status body)" .
  moreover have "oneHeader (h @ ?s) protocolHeaderVersion = Inr AgentAPIVersion" "oneHeader (h @ ?s) protocolHeaderID = Inr requestID"
    using one kept id by (simp_all add: SignResponse_def header_steps AgentAPIVersion_def)
  ultimately show ?thesis by (simp add: VerifyResponse_def)
qed

lemma response_steps_bounded:
  "length (ar_body w) \<le> ProtocolMaxMessage \<Longrightarrow> length (ar_body (foldl response_step w ops)) \<le> ProtocolMaxMessage"
proof (induction ops arbitrary: w)
  case (Cons op ops)
  have "length (ar_body (response_step w op)) \<le> ProtocolMaxMessage" using Cons.prems by (cases op) (auto simp: Let_def)
  then show ?case using Cons.IH by simp
qed simp

lemma signed_response_verifies:
  assumes "digest H" "requestID \<noteq> []" "pa_key c = pa_key a"
  shows "VerifyResponse H c requestID (hr_status (signed_response H a requestID answer ops))
      (hr_header (signed_response H a requestID answer ops)) (hr_body (signed_response H a requestID answer ops)) = None"
    and "length (hr_body (signed_response H a requestID answer ops)) \<le> ProtocolMaxMessage"
proof -
  have "length (ar_body (foldl response_step \<lparr>ar_status = 0, ar_body = [], ar_large = False\<rparr> ops)) \<le> ProtocolMaxMessage"
    by (rule response_steps_bounded) simp
  then show "length (hr_body (signed_response H a requestID answer ops)) \<le> ProtocolMaxMessage"
    by (auto simp: signed_response_def Let_def ProtocolMaxMessage_def)
  show "VerifyResponse H c requestID (hr_status (signed_response H a requestID answer ops))
      (hr_header (signed_response H a requestID answer ops)) (hr_body (signed_response H a requestID answer ops)) = None"
    unfolding signed_response_def Let_def by (auto intro!: VerifyResponse_signed [OF assms])
qed

text \<open>
  C24: The node agent's handler dispatches only what it has authenticated and authenticates every answer it
  dispatches. Either the verifier accepted exactly the request at hand, the wrapped handler ran once on it, and
  the response, whatever the wrapped handler wrote and however much, is bounded and passes verification by any
  holder of the key for that request's identity; or the wrapped handler did not run, nothing changed, and the
  answer is the fixed rejection, which says nothing about the reason beyond its status.
\<close>

theorem AuthenticatedAgentHandler_authenticates:
  assumes "digest H" and "AuthenticatedAgentHandler H F nxt a now method requestPath h read w = ((response, a'), w')"
  shows "(\<exists>body requestID. read = Inr body \<and> length body \<le> ProtocolMaxMessage \<and>
      VerifyRequest H F a now method requestPath h body = (Inr requestID, a') \<and> w' = snd (nxt method requestPath h body w) \<and>
      length (hr_body response) \<le> ProtocolMaxMessage \<and> (\<forall>c. pa_key c = pa_key a' \<longrightarrow>
        VerifyResponse H c requestID (hr_status response) (hr_header response) (hr_body response) = None))
    \<or> w' = w \<and> (response = http_Error ''local protocol request rejected'' 413 \<and> a' = a
        \<or> response = http_Error ''local protocol request rejected'' 401 \<and>
          (\<exists>body e. read = Inr body \<and> VerifyRequest H F a now method requestPath h body = (Inl e, a')))"
proof (cases read)
  case (Inr body)
  show ?thesis
  proof (cases "length body \<le> ProtocolMaxMessage")
    case True
    obtain r a1 where v: "VerifyRequest H F a now method requestPath h body = (r, a1)" by fastforce
    show ?thesis
    proof (cases r)
      case (Inr requestID)
      then have "requestID \<noteq> []" using v by (auto elim!: VerifyRequest_accepts simp: oneHeader_def split: list.splits if_splits)
      note signed = signed_response_verifies [OF assms(1) this]
      obtain answer ops w1 where "nxt method requestPath h body w = ((answer, ops), w1)" by (metis surj_pair)
      with assms(2) v Inr \<open>read = Inr body\<close> True have e: "response = signed_response H a1 requestID answer ops" "a' = a1" "w' = w1"
        and "snd (nxt method requestPath h body w) = w1" by (auto simp: AuthenticatedAgentHandler_def)
      with v Inr \<open>read = Inr body\<close> True signed show ?thesis by simp
    qed (use assms(2) v \<open>read = Inr body\<close> True in \<open>simp add: AuthenticatedAgentHandler_def\<close>)
  qed (use assms(2) Inr in \<open>simp add: AuthenticatedAgentHandler_def\<close>)
qed (use assms(2) in \<open>simp add: AuthenticatedAgentHandler_def\<close>)

section \<open>Witnesses\<close>

text \<open>A time format for whole seconds, a key, and signed requests of one client.\<close>

definition ex_times :: time_format where
  "ex_times = \<lparr>tf_Format = \<lambda>t. replicate (nat (t div Second)) CHR ''s'' @ ''Z'', tf_Parse = \<lambda>s. Some (int (length s - 1) * Second)\<rparr>"

definition ex_client :: ProtocolAuthenticator where
  "ex_client = \<lparr>pa_key = replicate 32 7, pa_maxSkew = ProtocolMaxClockSkew, pa_maxReplay = ProtocolMaxReplayIDs, pa_seen = []\<rparr>"

definition ex_request :: "8 word \<Rightarrow> time \<Rightarrow> header" where
  "ex_request b t = projr (SignRequest Sum256 ex_times ex_client (Inr (replicate 16 b)) t ''POST'' ''/v1/prepare'' ''{}'')"

lemma digest_Sum256: "digest Sum256"
  by unfold_locales (simp add: Sum256_def)

lemma ex_times_law: "tf_Parse ex_times (tf_Format ex_times (int n * Second)) = Some (int n * Second)" "tf_Format ex_times t \<noteq> []"
  by (simp_all add: ex_times_def Second_def)

lemma ex_request_signed: "SignRequest Sum256 ex_times ex_client (Inr (replicate 16 b)) t ''POST'' ''/v1/prepare'' ''{}'' = Inr (ex_request b t)"
  by (simp add: ex_request_def SignRequest_def Let_def)

lemma ex_client_new: "NewProtocolAuthenticator (replicate 32 7) = Inr ex_client"
  by (simp add: NewProtocolAuthenticator_def ProtocolKeySize_def ex_client_def)

theorem SignRequest_VerifyRequest_witness:
  "fst (VerifyRequest Sum256 ex_times ex_client (35 * Second) ''POST'' ''/v1/prepare'' (ex_request 1 (10 * Second)) ''{}'') = Inr (RawURLEncode (replicate 16 1))"
  by (rule SignRequest_VerifyRequest [OF digest_Sum256 ex_times_law(1) [of 10, simplified] ex_times_law(2) _ ex_request_signed])
    (simp_all add: ex_client_def ProtocolMaxClockSkew_def ProtocolMaxReplayIDs_def Second_def)

lemmas ex_accepted = VerifyRequest_signed [OF digest_Sum256 ex_times_law(1) ex_times_law(2) _ ex_request_signed]

lemma ex_first:
  "VerifyRequest Sum256 ex_times ex_client 0 ''POST'' ''/v1/prepare'' (ex_request 1 (int 0 * Second)) ''{}'' =
     (Inr (RawURLEncode (replicate 16 1)), ex_client\<lparr>pa_seen := [(RawURLEncode (replicate 16 1), 0)]\<rparr>)"
  by (subst ex_accepted) (simp_all add: ex_client_def ProtocolMaxClockSkew_def ProtocolMaxReplayIDs_def Second_def)

lemma ex_ids_differ: "RawURLEncode (replicate 16 1) \<noteq> RawURLEncode (replicate 16 2)"
proof
  assume "RawURLEncode (replicate 16 1) = RawURLEncode (replicate 16 2)"
  then have "RawURLDecode (RawURLEncode (replicate 16 1)) = RawURLDecode (RawURLEncode (replicate 16 2))" by simp
  then show False by (simp add: RawURLDecode_Encode)
qed

theorem no_replay_witness:
  "\<exists>a now. verifier_run Sum256 ex_times (replicate 32 7) a now [ex_request 1 0]
     \<and> length (pa_seen a) \<le> ProtocolMaxReplayIDs
     \<and> \<not> verifier_run Sum256 ex_times (replicate 32 7) a now [ex_request 1 0, ex_request 1 0]"
proof -
  have run: "verifier_run Sum256 ex_times (replicate 32 7) (ex_client\<lparr>pa_seen := [(RawURLEncode (replicate 16 1), 0)]\<rparr>) 0 [ex_request 1 0]"
    using verifier_run.accept [OF verifier_run.start [OF ex_client_new] order_refl ex_first] by simp
  with no_replay [OF run] no_replay [of Sum256 ex_times "replicate 32 7" _ _ "[ex_request 1 0, ex_request 1 0]"] show ?thesis by fastforce
qed

theorem replay_out_of_order_witness:
  "\<exists>a1 a2 r2. VerifyRequest Sum256 ex_times ex_client 0 ''POST'' ''/v1/prepare'' (ex_request 1 0) ''{}'' = (Inr (RawURLEncode (replicate 16 1)), a1)
     \<and> VerifyRequest Sum256 ex_times a1 (31 * Second) ''POST'' ''/v1/prepare'' (ex_request 2 (31 * Second)) ''{}'' = (Inr r2, a2)
     \<and> fst (VerifyRequest Sum256 ex_times a2 (30 * Second) ''POST'' ''/v1/prepare'' (ex_request 1 0) ''{}'') = Inr (RawURLEncode (replicate 16 1))"
proof -
  let ?a1 = "ex_client\<lparr>pa_seen := [(RawURLEncode (replicate 16 1), 0)]\<rparr>"
  let ?a2 = "ex_client\<lparr>pa_seen := [(RawURLEncode (replicate 16 2), 31 * Second)]\<rparr>"
  have first: "VerifyRequest Sum256 ex_times ex_client 0 ''POST'' ''/v1/prepare'' (ex_request 1 0) ''{}'' = (Inr (RawURLEncode (replicate 16 1)), ?a1)"
    using ex_first by simp
  have second: "VerifyRequest Sum256 ex_times ?a1 (31 * Second) ''POST'' ''/v1/prepare'' (ex_request 2 (31 * Second)) ''{}'' = (Inr (RawURLEncode (replicate 16 2)), ?a2)"
    using ex_ids_differ ex_accepted [where n = 31 and b = 2 and a = ?a1 and now = "31 * Second"]
    by (simp add: ex_client_def ProtocolMaxClockSkew_def ProtocolMaxReplayIDs_def Second_def)
  have time: "oneHeader (ex_request 1 0) protocolHeaderTime = Inr ''Z''"
    by (simp add: ex_request_def SignRequest_def Let_def header_steps ex_times_def)
  have "fst (VerifyRequest Sum256 ex_times ?a2 (30 * Second) ''POST'' ''/v1/prepare'' (ex_request 1 0) ''{}'') = Inr (RawURLEncode (replicate 16 1))"
    by (rule replay_out_of_order [where issuedAt = 0, OF first time _ second])
      (use ex_ids_differ in \<open>simp_all add: ex_times_def ex_client_def ProtocolMaxClockSkew_def ProtocolMaxReplayIDs_def Second_def\<close>)
  with first second show ?thesis by blast
qed

definition ex_handler :: "string \<Rightarrow> string \<Rightarrow> header \<Rightarrow> string \<Rightarrow> (nat, header \<times> response_op list) call" where
  "ex_handler method requestPath h body w = (([(''Content-Type'', ''application/json'')], [WriteHeader 409, Write ''{}'']), w + 1)"

lemma ex_handled:
  "\<exists>response. AuthenticatedAgentHandler Sum256 ex_times ex_handler ex_client 0 ''POST'' ''/v1/prepare'' (ex_request 1 0) (Inr ''{}'') 0 =
     ((response, ex_client\<lparr>pa_seen := [(RawURLEncode (replicate 16 1), 0)]\<rparr>), 1) \<and> hr_status response = 409"
  using ex_first by (simp add: AuthenticatedAgentHandler_def ex_handler_def ProtocolMaxMessage_def signed_response_def Let_def)

theorem AuthenticatedAgentHandler_authenticates_witness:
  "\<exists>response a' requestID. AuthenticatedAgentHandler Sum256 ex_times ex_handler ex_client 0 ''POST'' ''/v1/prepare'' (ex_request 1 0) (Inr ''{}'') 0 = ((response, a'), 1)
     \<and> hr_status response = 409 \<and> VerifyResponse Sum256 a' requestID 409 (hr_header response) (hr_body response) = None"
proof -
  from ex_handled obtain response a' where run: "AuthenticatedAgentHandler Sum256 ex_times ex_handler ex_client 0 ''POST'' ''/v1/prepare'' (ex_request 1 0) (Inr ''{}'') 0
    = ((response, a'), 1)" and status: "hr_status response = 409" by blast
  from AuthenticatedAgentHandler_authenticates [OF digest_Sum256 run] obtain requestID
    where "VerifyResponse Sum256 a' requestID (hr_status response) (hr_header response) (hr_body response) = None" by auto
  with run status show ?thesis by auto
qed

end
