(* ===== verification/Workload_Dataplane.thy ===== *)
theory Workload_Dataplane
  imports Go_Netip
begin

text \<open>
  \<open>src/internal/dataplane/dataplane.go\<close>: the configuration of one protected workload, its validation, and
  the agent that orders lockdown, configuration and verification over a backend. A backend that is not set is
  None, as is the cleanup of a backend that has none.
\<close>

section \<open>Configuration\<close>

definition ErrUnsupported :: go_error where "ErrUnsupported = Err ''waycloak data plane is unsupported on this platform''"

text \<open>The mode is a string in the source; one that is none of the three constants is \<open>TrafficOther\<close>.\<close>

datatype ClusterTrafficMode = TrafficPreserve | TrafficGateway | TrafficDeny | TrafficOther string

record ApplicationPortRedirect =
  apr_Identity :: string
  apr_TargetPort :: "16 word"
  apr_ApplicationPort :: "16 word"
  apr_Protocols :: "string list"

record Config =
  cfg_PodUID :: string
  cfg_AllocationGeneration :: int
  cfg_GatewayGeneration :: int
  cfg_Address :: prefix
  cfg_OverlayCIDR :: prefix
  cfg_GatewayAddress :: addr
  cfg_GatewayEndpoint :: addrport
  cfg_GatewayHealthPort :: "16 word"
  cfg_VNI :: "32 word"
  cfg_MTU :: int
  cfg_ClusterTrafficMode :: ClusterTrafficMode
  cfg_ClusterCIDRs :: "prefix list"
  cfg_UnderlayInterface :: string
  cfg_OverlayInterfaceName :: string
  cfg_ApplicationPortRedirects :: "ApplicationPortRedirect list"

text \<open>The inner loop over the protocols of a redirect; \<open>matches\<close> are the target and protocol pairs met so far.\<close>

fun validate_protocols :: "16 word \<Rightarrow> string list \<Rightarrow> (16 word \<times> string) list \<Rightarrow> (16 word \<times> string) list result" where
  "validate_protocols port [] matches = Inr matches"
| "validate_protocols port (protocol # protocols) matches =
     (if protocol \<noteq> ''TCP'' \<and> protocol \<noteq> ''UDP'' then Inl (Err ''application port redirect protocol is invalid'')
      else if (port, protocol) \<in> set matches then Inl (Err ''application port redirect target is duplicated'')
      else validate_protocols port protocols ((port, protocol) # matches))"

fun validate_redirects :: "ApplicationPortRedirect list \<Rightarrow> string list \<Rightarrow> (16 word \<times> string) list \<Rightarrow> go_error option" where
  "validate_redirects [] identities matches = None"
| "validate_redirects (redirect # redirects) identities matches =
     (if apr_Identity redirect = [] \<or> apr_TargetPort redirect = 0 \<or> apr_ApplicationPort redirect = 0 \<or>
         apr_TargetPort redirect = apr_ApplicationPort redirect \<or> apr_Protocols redirect = []
        then Some (Err ''application port redirect is invalid'')
      else if apr_Identity redirect \<in> set identities then Some (Err ''application port redirect identity is duplicated'')
      else case validate_protocols (apr_TargetPort redirect) (apr_Protocols redirect) matches of
        Inl e \<Rightarrow> Some e
      | Inr matches' \<Rightarrow> validate_redirects redirects (apr_Identity redirect # identities) matches')"

definition config_Validate :: "Config \<Rightarrow> go_error option" where
  "config_Validate c =
     (if cfg_PodUID c = [] then Some (Err ''pod UID is required'')
      else if \<not> pfx_IsValid (cfg_Address c) \<or> \<not> pfx_IsValid (cfg_OverlayCIDR c) \<or>
          pfx_Bits (cfg_Address c) \<noteq> pfx_Bits (cfg_OverlayCIDR c) \<or> \<not> pfx_Contains (cfg_OverlayCIDR c) (pfx_Addr (cfg_Address c))
        then Some (Err ''allocated address must belong to the overlay CIDR'')
      else if \<not> addr_IsValid (cfg_GatewayAddress c) \<or> \<not> pfx_Contains (cfg_OverlayCIDR c) (cfg_GatewayAddress c) \<or>
          cfg_GatewayAddress c = pfx_Addr (cfg_Address c)
        then Some (Err ''gateway address must be a different address in the overlay CIDR'')
      else if \<not> ap_IsValid (cfg_GatewayEndpoint c) \<or> ap_Port (cfg_GatewayEndpoint c) = 0
        then Some (Err ''gateway underlay endpoint is required'')
      else if cfg_GatewayHealthPort c = 0 then Some (Err ''observed gateway overlay health port is required'')
      else if cfg_VNI c = 0 \<or> 16777215 < cfg_VNI c then Some (Err ''VNI must be between 1 and 16777215'')
      else if cfg_MTU c < 576 then Some (Err ''MTU must be at least 576'')
      else if cfg_ClusterTrafficMode c \<notin> {TrafficPreserve, TrafficGateway, TrafficDeny} then Some (Err ''unknown cluster traffic mode'')
      else if \<not> list_all pfx_IsValid (cfg_ClusterCIDRs c) then Some (Err ''cluster CIDRs must be valid'')
      else validate_redirects (cfg_ApplicationPortRedirects c) [] [])"

section \<open>The data-plane agent\<close>

record 'w Backend =
  be_Preflight :: "('w, go_error option) call"
  be_InstallLockdown :: "string \<Rightarrow> ('w, go_error option) call"
  be_Configure :: "Config \<Rightarrow> ('w, go_error option) call"
  be_Verify :: "Config \<Rightarrow> ('w, go_error option) call"
  be_Repair :: "Config \<Rightarrow> ('w, go_error option) call"
  be_Cleanup :: "(string \<Rightarrow> Config option \<Rightarrow> ('w, go_error option) call) option"

definition agent_Prepare :: "'w Backend option \<Rightarrow> Config \<Rightarrow> ('w, go_error option) call" where
  "agent_Prepare backend cfg w = (case backend of
     None \<Rightarrow> (Some (Err ''data-plane backend is required''), w)
   | Some B \<Rightarrow>
       if cfg_PodUID cfg = [] then (Some (Err ''pod UID is required before lockdown''), w)
       else case be_InstallLockdown B (cfg_PodUID cfg) w of
         (Some e, w1) \<Rightarrow> (Some (Errorf ''install fail-closed policy'' [e]), w1)
       | (None, w1) \<Rightarrow> (case config_Validate cfg of
           Some e \<Rightarrow> (Some (Errorf ''validate protected-path configuration after lockdown'' [e]), w1)
         | None \<Rightarrow> (case be_Configure B cfg w1 of
             (Some e, w2) \<Rightarrow> (Some (Errorf ''configure protected path with lockdown retained'' [e]), w2)
           | (None, w2) \<Rightarrow> (None, w2))))"

definition agent_Verify :: "'w Backend option \<Rightarrow> Config \<Rightarrow> ('w, go_error option) call" where
  "agent_Verify backend cfg w = (case backend of
     None \<Rightarrow> (Some (Err ''data-plane backend is required''), w)
   | Some B \<Rightarrow>
       if cfg_PodUID cfg = [] then (Some (Err ''pod UID is required before startup verification''), w)
       else case be_InstallLockdown B (cfg_PodUID cfg) w of
         (Some e, w1) \<Rightarrow> (Some (Errorf ''install fail-closed policy before startup verification'' [e]), w1)
       | (None, w1) \<Rightarrow> (case config_Validate cfg of
           Some e \<Rightarrow> (Some (Errorf ''validate current protected-path configuration after lockdown'' [e]), w1)
         | None \<Rightarrow> (case be_Repair B cfg w1 of
             (Some e, w2) \<Rightarrow> (Some (Errorf ''reconcile and verify current protected path with lockdown retained'' [e]), w2)
           | (None, w2) \<Rightarrow> (None, w2))))"

definition agent_Repair :: "'w Backend option \<Rightarrow> Config \<Rightarrow> ('w, go_error option) call" where
  "agent_Repair backend cfg w = (case backend of
     None \<Rightarrow> (Some (Err ''data-plane backend is required''), w)
   | Some B \<Rightarrow> (case config_Validate cfg of Some e \<Rightarrow> (Some e, w) | None \<Rightarrow> be_Repair B cfg w))"

definition agent_Cleanup :: "'w Backend option \<Rightarrow> string \<Rightarrow> Config option \<Rightarrow> ('w, go_error option) call" where
  "agent_Cleanup backend podUID cfg w = (case backend of
     None \<Rightarrow> (Some (Err ''data-plane backend is required''), w)
   | Some B \<Rightarrow>
       if podUID = [] then (Some (Err ''pod UID is required for cleanup''), w)
       else case be_Cleanup B of None \<Rightarrow> (Some ErrUnsupported, w) | Some cleaner \<Rightarrow> cleaner podUID cfg w)"

section \<open>What validation accepts\<close>

definition redirect_targets :: "ApplicationPortRedirect \<Rightarrow> (16 word \<times> string) list" where
  "redirect_targets r = map (Pair (apr_TargetPort r)) (apr_Protocols r)"

definition redirect_ok :: "ApplicationPortRedirect \<Rightarrow> bool" where
  "redirect_ok r \<longleftrightarrow> apr_Identity r \<noteq> [] \<and> apr_TargetPort r \<noteq> 0 \<and> apr_ApplicationPort r \<noteq> 0 \<and>
     apr_TargetPort r \<noteq> apr_ApplicationPort r \<and> apr_Protocols r \<noteq> [] \<and> set (apr_Protocols r) \<subseteq> {''TCP'', ''UDP''}"

lemma validate_protocols_iff:
  "validate_protocols port ps matches = Inr ms \<longleftrightarrow>
     set ps \<subseteq> {''TCP'', ''UDP''} \<and> distinct ps \<and> set (map (Pair port) ps) \<inter> set matches = {} \<and> ms = rev (map (Pair port) ps) @ matches"
proof (induction ps arbitrary: matches)
  case (Cons p ps)
  show ?case
  proof (cases "(p = ''TCP'' \<or> p = ''UDP'') \<and> (port, p) \<notin> set matches")
    case True
    then show ?thesis by (auto simp: Cons.IH)
  qed auto
qed auto

lemma validate_redirects_iff:
  "validate_redirects rs identities matches = None \<longleftrightarrow>
     list_all redirect_ok rs \<and> distinct (map apr_Identity rs) \<and> set (map apr_Identity rs) \<inter> set identities = {} \<and>
     distinct (concat (map redirect_targets rs)) \<and> set (concat (map redirect_targets rs)) \<inter> set matches = {}"
proof (induction rs arbitrary: identities matches)
  case (Cons r rs)
  have inj: "distinct (map (Pair (apr_TargetPort r)) (apr_Protocols r)) \<longleftrightarrow> distinct (apr_Protocols r)"
    by (simp add: distinct_map inj_on_def)
  show ?case
  proof (cases "validate_protocols (apr_TargetPort r) (apr_Protocols r) matches")
    case (Inl e)
    then have no: "\<not> (set (apr_Protocols r) \<subseteq> {''TCP'', ''UDP''} \<and> distinct (apr_Protocols r) \<and>
        set (map (Pair (apr_TargetPort r)) (apr_Protocols r)) \<inter> set matches = {})"
      using validate_protocols_iff [of "apr_TargetPort r" "apr_Protocols r" matches "rev (map (Pair (apr_TargetPort r)) (apr_Protocols r)) @ matches"]
      by simp
    then have "\<not> (redirect_ok r \<and> distinct (redirect_targets r) \<and> set (redirect_targets r) \<inter> set matches = {})"
      using inj by (auto simp: redirect_ok_def redirect_targets_def)
    with Inl show ?thesis by auto
  next
    case (Inr ms)
    then have ms: "set (apr_Protocols r) \<subseteq> {''TCP'', ''UDP''}" "distinct (redirect_targets r)"
        "set (redirect_targets r) \<inter> set matches = {}" "ms = rev (redirect_targets r) @ matches"
      using validate_protocols_iff inj by (auto simp: redirect_targets_def)
    define T where "T = redirect_targets r"
    define U where "U = concat (map redirect_targets rs)"
    note IH = Cons.IH [of "apr_Identity r # identities" ms, folded U_def]
    have concat: "concat (map redirect_targets (r # rs)) = T @ U" by (simp add: T_def U_def)
    have "validate_redirects (r # rs) identities matches = None \<longleftrightarrow>
        redirect_ok r \<and> apr_Identity r \<notin> set identities \<and> validate_redirects rs (apr_Identity r # identities) ms = None"
      using Inr ms(1) by (simp add: redirect_ok_def)
    moreover have "set (map apr_Identity rs) \<inter> set (apr_Identity r # identities) = {} \<longleftrightarrow>
        apr_Identity r \<notin> set (map apr_Identity rs) \<and> set (map apr_Identity rs) \<inter> set identities = {}" by auto
    moreover have "set U \<inter> set ms = {} \<longleftrightarrow> set T \<inter> set U = {} \<and> set U \<inter> set matches = {}" using ms(4) by (auto simp: T_def)
    moreover have "distinct T" "set T \<inter> set matches = {}" using ms(2,3) by (simp_all add: T_def)
    ultimately show ?thesis unfolding IH concat by (simp add: Int_Un_distrib2 conj_ac del: set_map)
  qed
qed simp

definition config_wf :: "Config \<Rightarrow> bool" where
  "config_wf c \<longleftrightarrow> cfg_PodUID c \<noteq> []
     \<and> pfx_IsValid (cfg_Address c) \<and> pfx_IsValid (cfg_OverlayCIDR c) \<and> pfx_Bits (cfg_Address c) = pfx_Bits (cfg_OverlayCIDR c)
     \<and> pfx_Contains (cfg_OverlayCIDR c) (pfx_Addr (cfg_Address c))
     \<and> pfx_Contains (cfg_OverlayCIDR c) (cfg_GatewayAddress c) \<and> cfg_GatewayAddress c \<noteq> pfx_Addr (cfg_Address c)
     \<and> ap_IsValid (cfg_GatewayEndpoint c) \<and> ap_Port (cfg_GatewayEndpoint c) \<noteq> 0 \<and> cfg_GatewayHealthPort c \<noteq> 0
     \<and> 1 \<le> unat (cfg_VNI c) \<and> unat (cfg_VNI c) < 2 ^ 24 \<and> 576 \<le> cfg_MTU c
     \<and> cfg_ClusterTrafficMode c \<in> {TrafficPreserve, TrafficGateway, TrafficDeny} \<and> list_all pfx_IsValid (cfg_ClusterCIDRs c)
     \<and> list_all redirect_ok (cfg_ApplicationPortRedirects c) \<and> distinct (map apr_Identity (cfg_ApplicationPortRedirects c))
     \<and> distinct (concat (map redirect_targets (cfg_ApplicationPortRedirects c)))"

lemma vni_bounds: "\<not> (v = 0 \<or> 16777215 < v) \<longleftrightarrow> 1 \<le> unat v \<and> unat v < 2 ^ 24" for v :: "32 word"
  by (auto simp: word_less_nat_alt word_unat_eq_iff)

lemma contains_valid: "pfx_Contains p a \<Longrightarrow> addr_IsValid a"
  by (cases a) (auto simp: pfx_Contains_def split: addr.splits option.splits)

lemma config_Validate_None: "config_Validate c = None \<longleftrightarrow> config_wf c"
proof -
  have g: "\<not> (\<not> addr_IsValid (cfg_GatewayAddress c) \<or> \<not> pfx_Contains (cfg_OverlayCIDR c) (cfg_GatewayAddress c) \<or>
      cfg_GatewayAddress c = pfx_Addr (cfg_Address c)) \<longleftrightarrow>
    pfx_Contains (cfg_OverlayCIDR c) (cfg_GatewayAddress c) \<and> cfg_GatewayAddress c \<noteq> pfx_Addr (cfg_Address c)"
    using contains_valid by blast
  have r: "validate_redirects (cfg_ApplicationPortRedirects c) [] [] = None \<longleftrightarrow> list_all redirect_ok (cfg_ApplicationPortRedirects c) \<and>
      distinct (map apr_Identity (cfg_ApplicationPortRedirects c)) \<and> distinct (concat (map redirect_targets (cfg_ApplicationPortRedirects c)))"
    by (simp add: validate_redirects_iff)
  have step: "(if b then Some e else x) = None \<longleftrightarrow> \<not> b \<and> x = None" for b e and x :: "go_error option" by simp
  show ?thesis unfolding config_Validate_def config_wf_def step r vni_bounds g by (auto simp: not_less)
qed

text \<open>
  C20: Validation accepts exactly the well-formed configurations: the Pod has a UID; its address and the gateway's are
  different addresses of the overlay network; the endpoint and the health port are set; the network identifier fits 24
  bits and is not zero; the MTU is at least 576; the mode is known; the cluster prefixes are valid; and the redirects are
  well formed, have pairwise different identities, and no two of them claim the same port and protocol.
\<close>

theorem config_Validate_wf: "config_Validate c = None \<longleftrightarrow> config_wf c"
  by (rule config_Validate_None)

end
