(* ===== verification/Nftables.thy ===== *)
theory Nftables
  imports Waycloak_Prelude
begin

unbundle bit_operations_syntax

text \<open>
  The part of the nftables interface the data planes program: tables of base chains of rules, built as one batch
  and committed at once. The kernel's evaluation of a rule is the parameter of the locale \<open>nft_semantics\<close>, whose
  laws are the documented meaning of each expression; \<open>nft_run\<close> is an evaluator with that meaning.
\<close>

section \<open>Rules\<close>

type_synonym bytes = "8 word list"

datatype meta_key = MetaKeyOIFNAME | MetaKeyIIFNAME | MetaKeyNFPROTO | MetaKeyL4PROTO
datatype payload_base = PayloadBaseNetworkHeader | PayloadBaseTransportHeader
datatype verdict = VerdictAccept | VerdictDrop

datatype nft_expr =
    Meta meta_key nat
  | Cmp nat bytes
  | Payload nat payload_base nat nat
  | Bitwise nat nat bytes bytes
  | Immediate nat bytes
  | Verdict verdict
  | DestNAT nat nat nat

record nft_rule =
  rule_UserData :: string
  rule_Exprs :: "nft_expr list"

datatype chain_type = ChainTypeFilter | ChainTypeNAT
datatype chain_hook = ChainHookOutput | ChainHookPrerouting
datatype chain_priority = ChainPriorityRaw | ChainPriorityNATDest

record nft_chain =
  chain_Name :: string
  chain_Type :: chain_type
  chain_Hooknum :: chain_hook
  chain_Priority :: chain_priority
  chain_Policy :: "verdict option"
  chain_Rules :: "nft_rule list"

type_synonym nft_table = "nft_chain list"

datatype nft_op = DelTable string | AddTable string | AddChain string nft_chain | AddRule string string nft_rule

section \<open>Committing a batch\<close>

definition add_rule :: "string \<Rightarrow> nft_rule \<Rightarrow> nft_chain \<Rightarrow> nft_chain" where
  "add_rule chain r c = (if chain_Name c = chain then c\<lparr>chain_Rules := chain_Rules c @ [r]\<rparr> else c)"

fun commit_op :: "nft_op \<Rightarrow> (string \<rightharpoonup> nft_table) \<Rightarrow> (string \<rightharpoonup> nft_table)" where
  "commit_op (DelTable name) ts = ts(name := None)"
| "commit_op (AddTable name) ts = (case ts name of None \<Rightarrow> ts(name \<mapsto> []) | Some _ \<Rightarrow> ts)"
| "commit_op (AddChain name c) ts = (case ts name of None \<Rightarrow> ts | Some cs \<Rightarrow> ts(name \<mapsto> cs @ [c]))"
| "commit_op (AddRule name chain r) ts = (case ts name of None \<Rightarrow> ts | Some cs \<Rightarrow> ts(name \<mapsto> map (add_rule chain r) cs))"

definition commit :: "nft_op list \<Rightarrow> (string \<rightharpoonup> nft_table) \<Rightarrow> (string \<rightharpoonup> nft_table)" where
  "commit ops ts = fold commit_op ops ts"

fun op_table :: "nft_op \<Rightarrow> string" where
  "op_table (DelTable name) = name"
| "op_table (AddTable name) = name"
| "op_table (AddChain name c) = name"
| "op_table (AddRule name chain r) = name"

lemma commit_op_other: "op_table op \<noteq> name \<Longrightarrow> commit_op op ts name = ts name"
  by (cases op) (auto split: option.splits)

lemma commit_other: "\<forall>op \<in> set ops. op_table op \<noteq> name \<Longrightarrow> commit ops ts name = ts name"
  unfolding commit_def by (induction ops arbitrary: ts) (auto simp: commit_op_other)

lemma commit_append: "commit (xs @ ys) ts = commit ys (commit xs ts)"
  by (simp add: commit_def)

lemma commit_Cons: "commit (x # xs) ts = commit xs (commit_op x ts)"
  by (simp add: commit_def)

lemma commit_Nil [simp]: "commit [] ts = ts"
  by (simp add: commit_def)

text \<open>Rules added to the last chain of a table, as every builder does.\<close>

lemma commit_rules:
  "ts name = Some (cs @ [c]) \<Longrightarrow> chain_Name c = chain \<Longrightarrow> \<forall>d \<in> set cs. chain_Name d \<noteq> chain \<Longrightarrow>
     commit (map (AddRule name chain) rs) ts = ts(name \<mapsto> cs @ [c\<lparr>chain_Rules := chain_Rules c @ rs\<rparr>])"
proof (induction rs arbitrary: ts c)
  case (Cons r rs)
  let ?c = "c\<lparr>chain_Rules := chain_Rules c @ [r]\<rparr>"
  have same: "map (add_rule chain r) cs = cs" using Cons.prems(3) by (intro map_idI) (auto simp: add_rule_def)
  have step: "commit_op (AddRule name chain r) ts = ts(name \<mapsto> cs @ [?c])"
    using Cons.prems(1,2) same by (simp add: add_rule_def)
  have "commit (map (AddRule name chain) rs) (ts(name \<mapsto> cs @ [?c])) = ts(name \<mapsto> cs @ [c\<lparr>chain_Rules := chain_Rules c @ r # rs\<rparr>])"
    using Cons.IH [of "ts(name \<mapsto> cs @ [?c])" ?c] Cons.prems(2,3) by simp (simp add: fun_upd_def cong: if_cong)
  then show ?case by (simp only: list.map commit_Cons step)
qed (simp add: fun_upd_idem)

section \<open>Evaluation\<close>

record packet =
  pk_oifname :: string
  pk_iifname :: string
  pk_nfproto :: "8 word"
  pk_l4proto :: "8 word"
  pk_network :: bytes
  pk_transport :: bytes

definition name_bytes :: "string \<Rightarrow> bytes" where
  "name_bytes s = map of_char (take 16 s) @ replicate (16 - length s) 0"

fun meta_value :: "packet \<Rightarrow> meta_key \<Rightarrow> bytes" where
  "meta_value p MetaKeyOIFNAME = name_bytes (pk_oifname p)"
| "meta_value p MetaKeyIIFNAME = name_bytes (pk_iifname p)"
| "meta_value p MetaKeyNFPROTO = [pk_nfproto p]"
| "meta_value p MetaKeyL4PROTO = [pk_l4proto p]"

fun payload_header :: "packet \<Rightarrow> payload_base \<Rightarrow> bytes" where
  "payload_header p PayloadBaseNetworkHeader = pk_network p"
| "payload_header p PayloadBaseTransportHeader = pk_transport p"

definition apply_mask :: "bytes \<Rightarrow> bytes \<Rightarrow> bytes \<Rightarrow> bytes" where
  "apply_mask m x v = map2 (XOR) (map2 (AND) v m) x"

text \<open>\<open>eval p regs es\<close> is the verdict of a rule whose remaining expressions are \<open>es\<close>; None is no verdict.\<close>

locale nft_semantics =
  fixes eval :: "packet \<Rightarrow> (nat \<Rightarrow> bytes) \<Rightarrow> nft_expr list \<Rightarrow> verdict option"
  assumes eval_Nil: "eval p regs [] = None"
    and eval_Meta: "eval p regs (Meta k r # es) = eval p (regs(r := meta_value p k)) es"
    and eval_Cmp: "eval p regs (Cmp r d # es) = (if take (length d) (regs r) = d then eval p regs es else None)"
    and eval_Payload: "eval p regs (Payload r b off len # es) =
      (if off + len \<le> length (payload_header p b) then eval p (regs(r := take len (drop off (payload_header p b)))) es else None)"
    and eval_Bitwise: "eval p regs (Bitwise src dst m x # es) = eval p (regs(dst := apply_mask m x (regs src))) es"
    and eval_Immediate: "eval p regs (Immediate r d # es) = eval p (regs(r := d)) es"
    and eval_Verdict: "eval p regs (Verdict v # es) = Some v"

fun nft_run :: "packet \<Rightarrow> (nat \<Rightarrow> bytes) \<Rightarrow> nft_expr list \<Rightarrow> verdict option" where
  "nft_run p regs [] = None"
| "nft_run p regs (Meta k r # es) = nft_run p (regs(r := meta_value p k)) es"
| "nft_run p regs (Cmp r d # es) = (if take (length d) (regs r) = d then nft_run p regs es else None)"
| "nft_run p regs (Payload r b off len # es) =
     (if off + len \<le> length (payload_header p b) then nft_run p (regs(r := take len (drop off (payload_header p b)))) es else None)"
| "nft_run p regs (Bitwise src dst m x # es) = nft_run p (regs(dst := apply_mask m x (regs src))) es"
| "nft_run p regs (Immediate r d # es) = nft_run p (regs(r := d)) es"
| "nft_run p regs (Verdict v # es) = Some v"
| "nft_run p regs (DestNAT family a b # es) = None"

interpretation nft_ref: nft_semantics nft_run
  by unfold_locales simp_all

text \<open>The verdict of a chain: that of its first rule with one, else its policy.\<close>

fun rules_verdict :: "(packet \<Rightarrow> (nat \<Rightarrow> bytes) \<Rightarrow> nft_expr list \<Rightarrow> verdict option) \<Rightarrow> packet \<Rightarrow> verdict option \<Rightarrow> nft_rule list \<Rightarrow> verdict option" where
  "rules_verdict eval p policy [] = policy"
| "rules_verdict eval p policy (r # rs) = (case eval p (\<lambda>_. []) (rule_Exprs r) of
     Some v \<Rightarrow> Some v | None \<Rightarrow> rules_verdict eval p policy rs)"

definition chain_verdict :: "(packet \<Rightarrow> (nat \<Rightarrow> bytes) \<Rightarrow> nft_expr list \<Rightarrow> verdict option) \<Rightarrow> packet \<Rightarrow> nft_chain \<Rightarrow> verdict option" where
  "chain_verdict eval p c = rules_verdict eval p (chain_Policy c) (chain_Rules c)"

lemma rules_verdict_append:
  "rules_verdict eval p policy (xs @ ys) = rules_verdict eval p (rules_verdict eval p policy ys) xs"
  by (induction xs) (simp_all split: option.splits)

end
