(* ===== verification/Linux_Backend.thy ===== *)
theory Linux_Backend
  imports Workload_Dataplane Nftables Go_Sha256
begin

text \<open>
  \<open>src/internal/dataplane/backend_linux.go\<close>: the nftables policy of a protected workload and the netlink state
  around it. The kernel as seen inside one network namespace is the record \<open>linux\<close>. A \<open>net.IP\<close> is a byte list.
  Dialing and the wait for the connection are one call; diagnostics that only enrich an error text are left out.
\<close>

section \<open>Addresses as bytes\<close>

definition be_bytes16 :: "128 word \<Rightarrow> bytes" where
  "be_bytes16 w = map (\<lambda>i. ucast (drop_bit (8 * (15 - i)) w)) [0..<16]"

definition of_be_bytes :: "bytes \<Rightarrow> nat" where
  "of_be_bytes bs = foldl (\<lambda>n b. 256 * n + unat b) 0 bs"

fun AsSlice :: "addr \<Rightarrow> bytes" where
  "AsSlice AddrZero = []"
| "AsSlice (Addr4 w) = be_bytes4 w"
| "AsSlice (Addr6 w z) = be_bytes16 w"

definition AddrFromSlice :: "bytes \<Rightarrow> addr option" where
  "AddrFromSlice bs = (if length bs = 4 then Some (Addr4 (of_nat (of_be_bytes bs)))
     else if length bs = 16 then Some (Addr6 (of_nat (of_be_bytes bs)) []) else None)"

text \<open>\<open>net.CIDRMask\<close>: nil when the arguments do not fit.\<close>

definition CIDRMask :: "int \<Rightarrow> nat \<Rightarrow> bytes" where
  "CIDRMask ones bits = (if (bits = 32 \<or> bits = 128) \<and> 0 \<le> ones \<and> ones \<le> int bits
     then (if bits = 32 then be_bytes4 (mask4 (nat ones)) else be_bytes16 (mask6 (nat ones))) else [])"

section \<open>The kernel inside a namespace\<close>

record vxlan =
  vx_VxlanId :: int
  vx_VtepDevIndex :: int
  vx_SrcAddr :: bytes
  vx_Group :: bytes
  vx_Port :: int
  vx_Learning :: bool
  vx_NoAge :: bool

record link =
  lk_Name :: string
  lk_Index :: int
  lk_MTU :: int
  lk_Up :: bool
  lk_Vxlan :: "vxlan option"

record nl_route =
  nlr_LinkIndex :: int
  nlr_Gw :: bytes
  nlr_Src :: bytes
  nlr_Table :: int
  nlr_Protocol :: int

record nl_rule =
  nlu_Family :: nat
  nlu_Priority :: int
  nlu_Table :: int
  nlu_Protocol :: int
  nlu_Dst :: "(bytes \<times> bytes) option"
  nlu_IPProto :: nat
  nlu_Dport :: "(nat \<times> nat) option"

record chain_info =
  ci_Table :: string
  ci_Name :: string
  ci_Type :: chain_type
  ci_Policy :: "verdict option"

record 'w linux =
  nft_ListTables :: "('w, string list result) call"
  nft_ListTablesINet :: "('w, string list result) call"
  nft_ListChainsINet :: "('w, chain_info list result) call"
  nft_Flush :: "nft_op list \<Rightarrow> ('w, go_error option) call"
  nl_LinkList :: "('w, link list result) call"
  nl_LinkByName :: "string \<Rightarrow> ('w, link result) call"
  nl_LinkByIndex :: "int \<Rightarrow> ('w, link result) call"
  nl_LinkAdd :: "link \<Rightarrow> ('w, link result) call"
  nl_LinkDel :: "link \<Rightarrow> ('w, go_error option) call"
  nl_LinkSetUp :: "link \<Rightarrow> ('w, go_error option) call"
  nl_AddrList :: "link \<Rightarrow> nat \<Rightarrow> ('w, bytes list result) call"
  nl_AddrReplace :: "link \<Rightarrow> bytes \<times> bytes \<Rightarrow> ('w, go_error option) call"
  nl_RouteGet :: "bytes \<Rightarrow> ('w, nl_route list result) call"
  nl_RouteListTable :: "nat \<Rightarrow> int \<Rightarrow> ('w, nl_route list result) call"
  nl_RouteReplace :: "nl_route \<Rightarrow> ('w, go_error option) call"
  nl_RouteDel :: "nl_route \<Rightarrow> ('w, go_error option) call"
  nl_RuleList :: "nat \<Rightarrow> ('w, nl_rule list result) call"
  nl_RuleAdd :: "nl_rule \<Rightarrow> ('w, go_error option) call"
  nl_RuleDel :: "nl_rule \<Rightarrow> ('w, go_error option) call"
  lx_Dial :: "addrport \<Rightarrow> ('w, go_error option) call"
  lx_Send :: "string \<Rightarrow> ('w, go_error option) call"
  lx_ReadResponse :: "('w, int result) call"
  lx_CloseConn :: "'w \<Rightarrow> 'w"

definition ENOENT :: go_error where "ENOENT = Err ''no such file or directory''"
definition EEXIST :: go_error where "EEXIST = Err ''file exists''"
definition LinkNotFoundError :: go_error where "LinkNotFoundError = Err ''Link not found''"

abbreviation NFPROTO_IPV4 :: nat where "NFPROTO_IPV4 \<equiv> 2"
abbreviation NFPROTO_IPV6 :: nat where "NFPROTO_IPV6 \<equiv> 10"
abbreviation IPPROTO_TCP :: nat where "IPPROTO_TCP \<equiv> 6"
abbreviation IPPROTO_UDP :: nat where "IPPROTO_UDP \<equiv> 17"
abbreviation FAMILY_V4 :: nat where "FAMILY_V4 \<equiv> 2"
abbreviation FAMILY_V6 :: nat where "FAMILY_V6 \<equiv> 10"
abbreviation RT_TABLE_MAIN :: int where "RT_TABLE_MAIN \<equiv> 254"

definition outputChainName :: string where "outputChainName = ''output''"
definition waycloakRouteProtocol :: int where "waycloakRouteProtocol = 99"
definition waycloakRuleProtocol :: int where "waycloakRuleProtocol = 99"
definition protectedRouteTable :: int where "protectedRouteTable = 51820"
definition endpointRulePriority :: int where "endpointRulePriority = 11000"
definition dnsUDPRulePriority :: int where "dnsUDPRulePriority = 11050"
definition dnsTCPRulePriority :: int where "dnsTCPRulePriority = 11051"
definition clusterRulePriority :: int where "clusterRulePriority = 11100"
definition protectedRulePriority :: int where "protectedRulePriority = 12000"
definition gatewayDNSPort :: nat where "gatewayDNSPort = 1053"

section \<open>Names\<close>

definition overlayName :: "(string \<Rightarrow> 8 word list) \<Rightarrow> Config \<Rightarrow> string" where
  "overlayName H cfg = (if cfg_OverlayInterfaceName cfg \<noteq> [] then cfg_OverlayInterfaceName cfg
     else ''wc'' @ EncodeToString (take 6 (H (cfg_PodUID cfg))))"

definition policyTableName :: "(string \<Rightarrow> 8 word list) \<Rightarrow> string \<Rightarrow> string" where
  "policyTableName H podUID = ''waycloak_'' @ EncodeToString (take 8 (H podUID))"

definition interfaceName :: "string \<Rightarrow> bytes" where
  "interfaceName value = map of_char (take 16 value) @ replicate (16 - length value) 0"

definition familyFor :: "addr \<Rightarrow> nat" where
  "familyFor a = (if addr_Is6 a then FAMILY_V6 else FAMILY_V4)"

definition addrEqual :: "bytes \<Rightarrow> addr \<Rightarrow> bool" where
  "addrEqual value want = (case AddrFromSlice value of None \<Rightarrow> False | Some parsed \<Rightarrow> addr_Unmap parsed = addr_Unmap want)"

definition PutUint16 :: "16 word \<Rightarrow> bytes" where
  "PutUint16 p = [ucast (drop_bit 8 p), ucast p]"

section \<open>The policy\<close>

definition addInterfaceVerdict :: "string \<Rightarrow> string \<Rightarrow> string \<Rightarrow> verdict \<Rightarrow> string \<Rightarrow> nft_op" where
  "addInterfaceVerdict table chain name v marker = AddRule table chain \<lparr>rule_UserData = marker, rule_Exprs =
     [Meta MetaKeyOIFNAME 1, Cmp 1 (interfaceName name), Verdict v]\<rparr>"

definition addEndpointVerdict :: "string \<Rightarrow> string \<Rightarrow> string \<Rightarrow> addrport \<Rightarrow> string \<Rightarrow> nft_op" where
  "addEndpointVerdict table chain underlay endpoint marker = (
     let addr = addr_Unmap (ap_Addr endpoint);
         (offset, protocol) = (if addr_Is6 addr then (24, NFPROTO_IPV6) else (16, NFPROTO_IPV4)) in
     AddRule table chain \<lparr>rule_UserData = marker, rule_Exprs =
       [Meta MetaKeyOIFNAME 1, Cmp 1 (interfaceName underlay),
        Meta MetaKeyNFPROTO 1, Cmp 1 [of_nat protocol],
        Payload 1 PayloadBaseNetworkHeader offset (length (AsSlice addr)), Cmp 1 (AsSlice addr),
        Meta MetaKeyL4PROTO 1, Cmp 1 [of_nat IPPROTO_UDP],
        Payload 1 PayloadBaseTransportHeader 2 2, Cmp 1 (PutUint16 (ap_Port endpoint)),
        Verdict VerdictAccept]\<rparr>)"

definition addPrefixVerdict :: "string \<Rightarrow> string \<Rightarrow> prefix \<Rightarrow> verdict \<Rightarrow> string \<Rightarrow> nft_op" where
  "addPrefixVerdict table chain pfx v marker = (
     let pfx = pfx_Masked pfx; addr = addr_Unmap (pfx_Addr pfx);
         (offset, protocol, bits) = (if addr_Is6 addr then (24, NFPROTO_IPV6, 128) else (16, NFPROTO_IPV4, 32));
         cmask = CIDRMask (pfx_Bits pfx) bits in
     AddRule table chain \<lparr>rule_UserData = marker, rule_Exprs =
       [Meta MetaKeyNFPROTO 1, Cmp 1 [of_nat protocol],
        Payload 1 PayloadBaseNetworkHeader offset (length (AsSlice addr)),
        Bitwise 1 1 cmask (replicate (length cmask) 0), Cmp 1 (AsSlice addr),
        Verdict v]\<rparr>)"

definition addDNSRedirect :: "string \<Rightarrow> addr \<Rightarrow> string \<Rightarrow> nft_op list" where
  "addDNSRedirect table gateway marker = (
     let gateway = addr_Unmap gateway; family = (if addr_Is6 gateway then NFPROTO_IPV6 else NFPROTO_IPV4) in
     AddChain table \<lparr>chain_Name = ''dns-output'', chain_Type = ChainTypeNAT, chain_Hooknum = ChainHookOutput,
       chain_Priority = ChainPriorityNATDest, chain_Policy = None, chain_Rules = []\<rparr>
     # map (\<lambda>transport. AddRule table ''dns-output'' \<lparr>rule_UserData = marker, rule_Exprs =
         [Meta MetaKeyNFPROTO 1, Cmp 1 [of_nat family],
          Meta MetaKeyL4PROTO 1, Cmp 1 [of_nat transport],
          Payload 1 PayloadBaseTransportHeader 2 2, Cmp 1 (PutUint16 53),
          Immediate 1 (AsSlice gateway), Immediate 2 (PutUint16 (of_nat gatewayDNSPort)),
          DestNAT family 1 2]\<rparr>) [IPPROTO_UDP, IPPROTO_TCP])"

definition addApplicationPortRedirects :: "string \<Rightarrow> addr \<Rightarrow> ApplicationPortRedirect list \<Rightarrow> string \<Rightarrow> nft_op list" where
  "addApplicationPortRedirects table address redirects marker = (
     let address = addr_Unmap address;
         (family, offset) = (if addr_Is6 address then (NFPROTO_IPV6, 24) else (NFPROTO_IPV4, 16)) in
     AddChain table \<lparr>chain_Name = ''application-port-prerouting'', chain_Type = ChainTypeNAT, chain_Hooknum = ChainHookPrerouting,
       chain_Priority = ChainPriorityNATDest, chain_Policy = None, chain_Rules = []\<rparr>
     # concat (map (\<lambda>redirect. map (\<lambda>protocol.
         AddRule table ''application-port-prerouting'' \<lparr>rule_UserData = marker @ '':'' @ apr_Identity redirect, rule_Exprs =
           [Meta MetaKeyNFPROTO 1, Cmp 1 [of_nat family],
            Payload 1 PayloadBaseNetworkHeader offset (length (AsSlice address)), Cmp 1 (AsSlice address),
            Meta MetaKeyL4PROTO 1, Cmp 1 [of_nat (if protocol = ''UDP'' then IPPROTO_UDP else IPPROTO_TCP)],
            Payload 1 PayloadBaseTransportHeader 2 2, Cmp 1 (PutUint16 (apr_TargetPort redirect)),
            Immediate 1 (AsSlice address), Immediate 2 (PutUint16 (apr_ApplicationPort redirect)),
            DestNAT family 1 2]\<rparr>) (apr_Protocols redirect)) redirects))"

text \<open>The batch of \<open>replacePolicy\<close>, for the table names that exist.\<close>

definition policy_batch :: "(string \<Rightarrow> 8 word list) \<Rightarrow> string list \<Rightarrow> string \<Rightarrow> string \<Rightarrow> addrport \<Rightarrow> string \<Rightarrow> addr \<Rightarrow> addr \<Rightarrow>
    ClusterTrafficMode \<Rightarrow> prefix list \<Rightarrow> ApplicationPortRedirect list \<Rightarrow> nft_op list" where
  "policy_batch H existing podUID underlay endpoint overlay dnsGateway applicationAddress mode clusterCIDRs redirects = (
     let table = policyTableName H podUID; chain = outputChainName; marker = ''waycloak:'' @ podUID in
     map DelTable (filter (\<lambda>name. name = table) existing)
     @ [AddTable table, AddChain table \<lparr>chain_Name = chain, chain_Type = ChainTypeFilter, chain_Hooknum = ChainHookOutput,
          chain_Priority = ChainPriorityRaw, chain_Policy = Some VerdictDrop, chain_Rules = []\<rparr>]
     @ [addInterfaceVerdict table chain ''lo'' VerdictAccept marker]
     @ (if mode = TrafficDeny then map (\<lambda>pfx. addPrefixVerdict table chain pfx VerdictDrop marker) clusterCIDRs else [])
     @ (if overlay \<noteq> [] then [addInterfaceVerdict table chain overlay VerdictAccept marker] else [])
     @ (if underlay \<noteq> [] \<and> ap_IsValid endpoint then [addEndpointVerdict table chain underlay endpoint marker] else [])
     @ (if mode = TrafficPreserve then map (\<lambda>pfx. addPrefixVerdict table chain pfx VerdictAccept marker) clusterCIDRs else [])
     @ (if addr_IsValid dnsGateway then addDNSRedirect table dnsGateway marker else [])
     @ (if redirects \<noteq> [] then addApplicationPortRedirects table applicationAddress redirects marker else []))"

definition replacePolicy :: "(string \<Rightarrow> 8 word list) \<Rightarrow> 'w linux \<Rightarrow> string \<Rightarrow> string \<Rightarrow> addrport \<Rightarrow> string \<Rightarrow> addr \<Rightarrow> addr \<Rightarrow>
    ClusterTrafficMode \<Rightarrow> prefix list \<Rightarrow> ApplicationPortRedirect list \<Rightarrow> ('w, go_error option) call" where
  "replacePolicy H L podUID underlay endpoint overlay dnsGateway applicationAddress mode clusterCIDRs redirects w =
     (case nft_ListTablesINet L w of (Inl e, w1) \<Rightarrow> (Some e, w1)
      | (Inr existing, w1) \<Rightarrow> nft_Flush L (policy_batch H existing podUID underlay endpoint overlay dnsGateway applicationAddress mode clusterCIDRs redirects) w1)"

definition verifyPolicy :: "(string \<Rightarrow> 8 word list) \<Rightarrow> 'w linux \<Rightarrow> string \<Rightarrow> bool \<Rightarrow> ('w, go_error option) call" where
  "verifyPolicy H L podUID requireDNS w = (case nft_ListTablesINet L w of
     (Inl e, w1) \<Rightarrow> (Some (Errorf ''list nftables policy'' [e]), w1)
   | (Inr tables, w1) \<Rightarrow>
       let table = policyTableName H podUID in
       if table \<notin> set tables then (Some (Err ''owned nftables table is missing''), w1)
       else (case nft_ListChainsINet L w1 of
         (Inl e, w2) \<Rightarrow> (Some (Errorf ''list nftables chains'' [e]), w2)
       | (Inr listed, w2) \<Rightarrow>
           let filterReady = list_ex (\<lambda>c. ci_Table c = table \<and> ci_Name c = outputChainName \<and> ci_Policy c = Some VerdictDrop) listed;
               dnsReady = (\<not> requireDNS \<or> list_ex (\<lambda>c. ci_Table c = table \<and> ci_Name c = ''dns-output'' \<and> ci_Type c = ChainTypeNAT) listed) in
           if \<not> filterReady then (Some (Err ''owned nftables output-drop chain is missing''), w2)
           else if \<not> dnsReady then (Some (Err ''owned gateway DNS redirect chain is missing''), w2)
           else (None, w2)))"

section \<open>Routing and links\<close>

definition add_rule_ignoring_existing :: "'w linux \<Rightarrow> nl_rule \<Rightarrow> ('w, go_error option) call" where
  "add_rule_ignoring_existing L r w = (case nl_RuleAdd L r w of
     (None, w1) \<Rightarrow> (None, w1) | (Some e, w1) \<Rightarrow> if errors_Is e EEXIST then (None, w1) else (Some e, w1))"

definition addPolicyRule :: "'w linux \<Rightarrow> nat \<Rightarrow> int \<Rightarrow> int \<Rightarrow> prefix \<Rightarrow> ('w, go_error option) call" where
  "addPolicyRule L family priority table pfx = (let pfx = pfx_Masked pfx in
     add_rule_ignoring_existing L \<lparr>nlu_Family = family, nlu_Priority = priority, nlu_Table = table, nlu_Protocol = waycloakRuleProtocol,
       nlu_Dst = Some (AsSlice (pfx_Addr pfx), CIDRMask (pfx_Bits pfx) (addr_BitLen (pfx_Addr pfx))), nlu_IPProto = 0, nlu_Dport = None\<rparr>)"

definition addDNSPolicyRule :: "'w linux \<Rightarrow> nat \<Rightarrow> int \<Rightarrow> nat \<Rightarrow> ('w, go_error option) call" where
  "addDNSPolicyRule L family priority protocol = add_rule_ignoring_existing L \<lparr>nlu_Family = family, nlu_Priority = priority,
     nlu_Table = protectedRouteTable, nlu_Protocol = waycloakRuleProtocol, nlu_Dst = None, nlu_IPProto = protocol, nlu_Dport = Some (53, 53)\<rparr>"

text \<open>Calls in sequence until one returns an error.\<close>

fun until_error :: "('w, go_error option) call list \<Rightarrow> ('w, go_error option) call" where
  "until_error [] w = (None, w)"
| "until_error (c # cs) w = (case c w of (Some e, w1) \<Rightarrow> (Some e, w1) | (None, w1) \<Rightarrow> until_error cs w1)"

definition delete_rule :: "'w linux \<Rightarrow> nl_rule \<Rightarrow> ('w, go_error option) call" where
  "delete_rule L r w = (case nl_RuleDel L r w of
     (None, w1) \<Rightarrow> (None, w1) | (Some e, w1) \<Rightarrow> if errors_Is e ENOENT then (None, w1) else (Some e, w1))"

definition cluster_rules :: "'w linux \<Rightarrow> nat \<Rightarrow> bool \<Rightarrow> prefix list \<Rightarrow> ('w, go_error option) call list" where
  "cluster_rules L family is6 cidrs = (let same = filter (\<lambda>pfx. addr_Is6 (pfx_Addr pfx) = is6) cidrs in
     map (\<lambda>(i, pfx). addPolicyRule L family (clusterRulePriority + int i) RT_TABLE_MAIN pfx) (enumerate 0 same))"

definition reconcilePolicyRules :: "'w linux \<Rightarrow> Config \<Rightarrow> ('w, go_error option) call" where
  "reconcilePolicyRules L cfg w = (let family = familyFor (ap_Addr (cfg_GatewayEndpoint cfg)) in
     case nl_RuleList L family w of (Inl e, w1) \<Rightarrow> (Some e, w1)
     | (Inr rules, w1) \<Rightarrow>
         let endpoint = addr_Unmap (ap_Addr (cfg_GatewayEndpoint cfg)) in
         until_error (map (delete_rule L) (filter (\<lambda>r. nlu_Protocol r = waycloakRuleProtocol) rules)
           @ [addPolicyRule L family endpointRulePriority RT_TABLE_MAIN (PrefixFrom endpoint (int (addr_BitLen endpoint))),
              addDNSPolicyRule L family dnsUDPRulePriority IPPROTO_UDP, addDNSPolicyRule L family dnsTCPRulePriority IPPROTO_TCP]
           @ (if cfg_ClusterTrafficMode cfg = TrafficPreserve then cluster_rules L family (addr_Is6 endpoint) (cfg_ClusterCIDRs cfg) else [])
           @ [add_rule_ignoring_existing L \<lparr>nlu_Family = family, nlu_Priority = protectedRulePriority, nlu_Table = protectedRouteTable,
                nlu_Protocol = waycloakRuleProtocol, nlu_Dst = None, nlu_IPProto = 0, nlu_Dport = None\<rparr>]) w1)"

definition resolveUnderlay :: "'w linux \<Rightarrow> Config \<Rightarrow> ('w, (link \<times> nl_route) result) call" where
  "resolveUnderlay L cfg w = (case nl_RouteGet L (AsSlice (ap_Addr (cfg_GatewayEndpoint cfg))) w of
     (Inl e, w1) \<Rightarrow> (Inl (Errorf ''resolve gateway underlay route'' [e]), w1)
   | (Inr [], w1) \<Rightarrow> (Inl (Errorf ''resolve gateway underlay route'' []), w1)
   | (Inr (route # _), w1) \<Rightarrow>
       (case (if cfg_UnderlayInterface cfg \<noteq> [] then nl_LinkByName L (cfg_UnderlayInterface cfg) else nl_LinkByIndex L (nlr_LinkIndex route)) w1 of
          (Inl e, w2) \<Rightarrow> (Inl (Errorf ''resolve gateway underlay link'' [e]), w2)
        | (Inr link, w2) \<Rightarrow>
            if nlr_LinkIndex route \<noteq> lk_Index link then (Inl (Err ''configured underlay does not carry the gateway endpoint route''), w2)
            else (Inr (link, route), w2)))"

definition vxlanSource :: "'w linux \<Rightarrow> Config \<Rightarrow> link \<Rightarrow> nl_route \<Rightarrow> ('w, bytes result) call" where
  "vxlanSource L cfg underlay route w =
     (if nlr_Src route \<noteq> [] then (Inr (nlr_Src route), w)
      else case nl_AddrList L underlay (familyFor (ap_Addr (cfg_GatewayEndpoint cfg))) w of
        (Inl e, w1) \<Rightarrow> (Inl (Errorf ''discover underlay source address'' [e]), w1)
      | (Inr [], w1) \<Rightarrow> (Inl (Errorf ''discover underlay source address'' []), w1)
      | (Inr (a # _), w1) \<Rightarrow> (Inr a, w1))"

text \<open>\<open>net.IP.Equal\<close>: an IPv4 address equals its mapped form.\<close>

definition ip_Equal :: "bytes \<Rightarrow> bytes \<Rightarrow> bool" where
  "ip_Equal x y \<longleftrightarrow> x = y \<or> (length x = 4 \<and> y = replicate 10 0 @ [0xFF, 0xFF] @ x) \<or> (length y = 4 \<and> x = replicate 10 0 @ [0xFF, 0xFF] @ y)"

definition vxlanMatches :: "link \<Rightarrow> vxlan \<Rightarrow> Config \<Rightarrow> link \<Rightarrow> bytes \<Rightarrow> bool" where
  "vxlanMatches l v cfg underlay source \<longleftrightarrow> vx_VxlanId v = uint (cfg_VNI cfg) \<and> vx_Port v = uint (ap_Port (cfg_GatewayEndpoint cfg)) \<and>
     vx_VtepDevIndex v = lk_Index underlay \<and> lk_MTU l = cfg_MTU cfg \<and> addrEqual (vx_Group v) (ap_Addr (cfg_GatewayEndpoint cfg)) \<and>
     ip_Equal (vx_SrcAddr v) source"

definition createVXLAN :: "'w linux \<Rightarrow> Config \<Rightarrow> string \<Rightarrow> link \<Rightarrow> bytes \<Rightarrow> ('w, link result) call" where
  "createVXLAN L cfg name underlay source w = (case nl_LinkAdd L \<lparr>lk_Name = name, lk_Index = 0, lk_MTU = cfg_MTU cfg, lk_Up = False,
       lk_Vxlan = Some \<lparr>vx_VxlanId = uint (cfg_VNI cfg), vx_VtepDevIndex = lk_Index underlay, vx_SrcAddr = source,
         vx_Group = AsSlice (ap_Addr (cfg_GatewayEndpoint cfg)), vx_Port = uint (ap_Port (cfg_GatewayEndpoint cfg)),
         vx_Learning = False, vx_NoAge = True\<rparr>\<rparr> w of
     (Inl e, w1) \<Rightarrow> (Inl (Errorf ''create VXLAN overlay'' [e]), w1) | (Inr l, w1) \<Rightarrow> (Inr l, w1))"

definition ensureVXLAN :: "'w linux \<Rightarrow> Config \<Rightarrow> string \<Rightarrow> link \<Rightarrow> nl_route \<Rightarrow> ('w, link result) call" where
  "ensureVXLAN L cfg name underlay route w = (case vxlanSource L cfg underlay route w of
     (Inl e, w1) \<Rightarrow> (Inl e, w1)
   | (Inr source, w1) \<Rightarrow> (case nl_LinkByName L name w1 of
       (Inl _, w2) \<Rightarrow> createVXLAN L cfg name underlay source w2
     | (Inr existing, w2) \<Rightarrow> (case lk_Vxlan existing of
         None \<Rightarrow> (Inl (Err ''owned overlay link has conflicting attributes''), w2)
       | Some v \<Rightarrow>
           if vxlanMatches existing v cfg underlay source then (Inr existing, w2)
           else (case nl_LinkDel L existing w2 of
             (Some e, w3) \<Rightarrow> (Inl (Errorf ''replace stale owned overlay link'' [e]), w3)
           | (None, w3) \<Rightarrow> createVXLAN L cfg name underlay source w3))))"

definition ensureOverlayAddress :: "'w linux \<Rightarrow> link \<Rightarrow> prefix \<Rightarrow> ('w, go_error option) call" where
  "ensureOverlayAddress L l pfx w =
     (case nl_AddrReplace L l (AsSlice (pfx_Addr pfx), CIDRMask (pfx_Bits pfx) (addr_BitLen (pfx_Addr pfx))) w of
        (Some e, w1) \<Rightarrow> (Some (Errorf ''configure overlay address'' [e]), w1) | (None, w1) \<Rightarrow> (None, w1))"

section \<open>The backend\<close>

definition lx_Preflight :: "'w linux \<Rightarrow> ('w, go_error option) call" where
  "lx_Preflight L w = (case nft_ListTables L w of
     (Inl e, w1) \<Rightarrow> (Some (Errorf ''query nftables (NET_ADMIN and nf_tables are required)'' [e]), w1)
   | (Inr _, w1) \<Rightarrow> (case nl_LinkList L w1 of
       (Inl e, w2) \<Rightarrow> (Some (Errorf ''query netlink links'' [e]), w2) | (Inr _, w2) \<Rightarrow> (None, w2)))"

definition lx_InstallLockdown :: "(string \<Rightarrow> 8 word list) \<Rightarrow> 'w linux \<Rightarrow> string \<Rightarrow> ('w, go_error option) call" where
  "lx_InstallLockdown H L podUID w = (if podUID = [] then (Some (Err ''pod UID is required''), w)
     else replacePolicy H L podUID [] addrport_zero [] AddrZero AddrZero TrafficGateway [] [] w)"

definition activate :: "(string \<Rightarrow> 8 word list) \<Rightarrow> 'w linux \<Rightarrow> Config \<Rightarrow> link \<Rightarrow> link \<Rightarrow> ('w, go_error option) call" where
  "activate H L cfg underlay v w = (case ensureOverlayAddress L v (cfg_Address cfg) w of
     (Some e, w1) \<Rightarrow> (Some e, w1)
   | (None, w1) \<Rightarrow> (case nl_LinkSetUp L v w1 of
       (Some e, w2) \<Rightarrow> (Some (Errorf ''bring overlay link up'' [e]), w2)
     | (None, w2) \<Rightarrow> (case nl_RouteReplace L \<lparr>nlr_LinkIndex = lk_Index v, nlr_Gw = AsSlice (cfg_GatewayAddress cfg), nlr_Src = [],
           nlr_Table = protectedRouteTable, nlr_Protocol = waycloakRouteProtocol\<rparr> w2 of
         (Some e, w3) \<Rightarrow> (Some (Errorf ''install protected default route'' [e]), w3)
       | (None, w3) \<Rightarrow> (case replacePolicy H L (cfg_PodUID cfg) (lk_Name underlay) (cfg_GatewayEndpoint cfg) (overlayName H cfg)
             (cfg_GatewayAddress cfg) (pfx_Addr (cfg_Address cfg)) (cfg_ClusterTrafficMode cfg) (cfg_ClusterCIDRs cfg) (cfg_ApplicationPortRedirects cfg) w3 of
           (Some e, w4) \<Rightarrow> (Some (Errorf ''activate protected nftables policy'' [e]), w4)
         | (None, w4) \<Rightarrow> (None, w4)))))"

definition lx_Configure :: "(string \<Rightarrow> 8 word list) \<Rightarrow> 'w linux \<Rightarrow> Config \<Rightarrow> ('w, go_error option) call" where
  "lx_Configure H L cfg w = (case config_Validate cfg of Some e \<Rightarrow> (Some e, w)
   | None \<Rightarrow> (case reconcilePolicyRules L cfg w of
       (Some e, w1) \<Rightarrow> (Some (Errorf ''reconcile protected policy-routing rules'' [e]), w1)
     | (None, w1) \<Rightarrow> (case resolveUnderlay L cfg w1 of
         (Inl e, w2) \<Rightarrow> (Some e, w2)
       | (Inr (underlay, route), w2) \<Rightarrow> (case ensureVXLAN L cfg (overlayName H cfg) underlay route w2 of
           (Inl e, w3) \<Rightarrow> (Some e, w3)
         | (Inr v, w3) \<Rightarrow> activate H L cfg underlay v w3))))"

definition probeGatewayReadiness :: "'w linux \<Rightarrow> addrport \<Rightarrow> ('w, go_error option) call" where
  "probeGatewayReadiness L endpoint w = (case lx_Dial L endpoint w of
     (Some e, w1) \<Rightarrow> (Some (Errorf ''probe observed gateway readiness endpoint'' [e]), w1)
   | (None, w1) \<Rightarrow> (case lx_Send L (''GET /readyz HTTP/1.1'' @ [CHR 0x0D, CHR 0x0A] @ ''Host: '' @ ap_String endpoint
         @ [CHR 0x0D, CHR 0x0A] @ ''Connection: close'' @ [CHR 0x0D, CHR 0x0A, CHR 0x0D, CHR 0x0A]) w1 of
       (Some e, w2) \<Rightarrow> (Some (Errorf ''write gateway readiness probe'' [e]), lx_CloseConn L w2)
     | (None, w2) \<Rightarrow> (case lx_ReadResponse L w2 of
         (Inl e, w3) \<Rightarrow> (Some (Errorf ''read gateway readiness response'' [e]), lx_CloseConn L w3)
       | (Inr status, w3) \<Rightarrow>
           (if status \<noteq> 200 then Some (Err ''gateway readiness endpoint returned HTTP'') else None, lx_CloseConn L w3))))"

definition lx_Verify :: "(string \<Rightarrow> 8 word list) \<Rightarrow> 'w linux \<Rightarrow> Config \<Rightarrow> ('w, go_error option) call" where
  "lx_Verify H L cfg w = (case verifyPolicy H L (cfg_PodUID cfg) True w of
     (Some e, w1) \<Rightarrow> (Some e, w1)
   | (None, w1) \<Rightarrow> (case nl_LinkByName L (overlayName H cfg) w1 of
       (Inl e, w2) \<Rightarrow> (Some (Errorf ''find overlay link'' [e]), w2)
     | (Inr l, w2) \<Rightarrow>
         if (case lk_Vxlan l of None \<Rightarrow> True | Some v \<Rightarrow> vx_VxlanId v \<noteq> uint (cfg_VNI cfg))
           then (Some (Err ''overlay link does not have the allocated VNI''), w2)
         else if \<not> lk_Up l then (Some (Err ''overlay link is down''), w2)
         else (case nl_AddrList L l (familyFor (pfx_Addr (cfg_Address cfg))) w2 of
           (Inl e, w3) \<Rightarrow> (Some (Errorf ''list overlay addresses'' [e]), w3)
         | (Inr addrs, w3) \<Rightarrow>
             if \<not> list_ex (\<lambda>a. addrEqual a (pfx_Addr (cfg_Address cfg))) addrs then (Some (Err ''overlay address is not installed''), w3)
             else (case nl_RouteListTable L (familyFor (cfg_GatewayAddress cfg)) protectedRouteTable w3 of
               (Inl e, w4) \<Rightarrow> (Some (Errorf ''list default routes'' [e]), w4)
             | (Inr routes, w4) \<Rightarrow>
                 if \<not> list_ex (\<lambda>r. nlr_LinkIndex r = lk_Index l \<and> addrEqual (nlr_Gw r) (cfg_GatewayAddress cfg)) routes
                   then (Some (Err ''protected default route is not installed''), w4)
                 else (case probeGatewayReadiness L (AddrPort (cfg_GatewayAddress cfg) (cfg_GatewayHealthPort cfg)) w4 of
                   (Some e, w5) \<Rightarrow> (Some (Errorf ''overlay diagnostics'' [e]), w5) | (None, w5) \<Rightarrow> (None, w5))))))"

definition lx_Repair :: "(string \<Rightarrow> 8 word list) \<Rightarrow> 'w linux \<Rightarrow> Config \<Rightarrow> ('w, go_error option) call" where
  "lx_Repair H L cfg w = (case lx_Configure H L cfg w of (Some e, w1) \<Rightarrow> (Some e, w1) | (None, w1) \<Rightarrow> lx_Verify H L cfg w1)"

section \<open>Cleanup\<close>

fun delete_owned_rules :: "'w linux \<Rightarrow> nl_rule list \<Rightarrow> ('w, go_error option list) call" where
  "delete_owned_rules L [] w = ([], w)"
| "delete_owned_rules L (r # rs) w =
     (if nlu_Protocol r \<noteq> waycloakRuleProtocol then delete_owned_rules L rs w
      else case nl_RuleDel L r w of (e, w1) \<Rightarrow> (case delete_owned_rules L rs w1 of (errs, w2) \<Rightarrow>
        ((case e of None \<Rightarrow> None | Some x \<Rightarrow> if errors_Is x ENOENT then None else Some (Errorf ''remove owned policy rule'' [x])) # errs, w2)))"

fun delete_owned_routes :: "'w linux \<Rightarrow> nl_route list \<Rightarrow> ('w, go_error option list) call" where
  "delete_owned_routes L [] w = ([], w)"
| "delete_owned_routes L (r # rs) w =
     (if nlr_Protocol r \<noteq> waycloakRouteProtocol then delete_owned_routes L rs w
      else case nl_RouteDel L r w of (e, w1) \<Rightarrow> (case delete_owned_routes L rs w1 of (errs, w2) \<Rightarrow>
        ((case e of None \<Rightarrow> None | Some x \<Rightarrow> if errors_Is x ENOENT then None else Some (Errorf ''remove owned protected route'' [x])) # errs, w2)))"

definition cleanup_family :: "'w linux \<Rightarrow> nat \<Rightarrow> ('w, go_error option list) call" where
  "cleanup_family L family w = (case nl_RuleList L family w of
     (Inl e, w1) \<Rightarrow> ([Some (Errorf ''list owned policy rules'' [e])], w1)
   | (Inr rules, w1) \<Rightarrow> (case delete_owned_rules L rules w1 of (errs, w2) \<Rightarrow>
       (case nl_RouteListTable L family protectedRouteTable w2 of
          (Inl e, w3) \<Rightarrow> (errs @ [Some (Errorf ''list owned protected routes'' [e])], w3)
        | (Inr routes, w3) \<Rightarrow> (case delete_owned_routes L routes w3 of (errs', w4) \<Rightarrow> (errs @ errs', w4)))))"

definition zero_config :: Config where
  "zero_config = \<lparr>cfg_PodUID = [], cfg_AllocationGeneration = 0, cfg_GatewayGeneration = 0, cfg_Address = prefix_zero, cfg_OverlayCIDR = prefix_zero,
     cfg_GatewayAddress = AddrZero, cfg_GatewayEndpoint = addrport_zero, cfg_GatewayHealthPort = 0, cfg_VNI = 0, cfg_MTU = 0,
     cfg_ClusterTrafficMode = TrafficOther [], cfg_ClusterCIDRs = [], cfg_UnderlayInterface = [], cfg_OverlayInterfaceName = [],
     cfg_ApplicationPortRedirects = []\<rparr>"

definition cleanup_link :: "(string \<Rightarrow> 8 word list) \<Rightarrow> 'w linux \<Rightarrow> Config \<Rightarrow> ('w, go_error option) call" where
  "cleanup_link H L cfg w = (case nl_LinkByName L (overlayName H cfg) w of
     (Inl e, w1) \<Rightarrow> (if errors_Is e LinkNotFoundError then None else Some (Errorf ''find owned overlay link'' [e]), w1)
   | (Inr l, w1) \<Rightarrow> (case nl_LinkDel L l w1 of
       (None, w2) \<Rightarrow> (None, w2)
     | (Some e, w2) \<Rightarrow> (if errors_Is e ENOENT then None else Some (Errorf ''remove owned overlay link'' [e]), w2)))"

definition lx_Cleanup :: "(string \<Rightarrow> 8 word list) \<Rightarrow> 'w linux \<Rightarrow> string \<Rightarrow> Config option \<Rightarrow> ('w, go_error option) call" where
  "lx_Cleanup H L podUID cfg w = (if podUID = [] then (Some (Err ''pod UID is required''), w)
     else case lx_InstallLockdown H L podUID w of
       (Some e, w1) \<Rightarrow> (Some (Errorf ''retain namespace lockdown before cleanup'' [e]), w1)
     | (None, w1) \<Rightarrow> (case cleanup_family L FAMILY_V4 w1 of (errs4, w2) \<Rightarrow>
         (case cleanup_family L FAMILY_V6 w2 of (errs6, w3) \<Rightarrow>
           let overlayConfig = (case cfg of None \<Rightarrow> zero_config\<lparr>cfg_PodUID := podUID\<rparr> | Some c \<Rightarrow> c\<lparr>cfg_PodUID := podUID\<rparr>) in
           (case cleanup_link H L overlayConfig w3 of (e, w4) \<Rightarrow> (errors_Join (errs4 @ errs6 @ [e]), w4)))))"

definition linuxBackend :: "(string \<Rightarrow> 8 word list) \<Rightarrow> 'w linux \<Rightarrow> 'w Backend" where
  "linuxBackend H L = \<lparr>be_Preflight = lx_Preflight L, be_InstallLockdown = lx_InstallLockdown H L, be_Configure = lx_Configure H L,
     be_Verify = lx_Verify H L, be_Repair = lx_Repair H L, be_Cleanup = Some (lx_Cleanup H L)\<rparr>"

section \<open>What the policy decides\<close>

text \<open>The rules a builder adds to the output chain, without the batch around them.\<close>

fun op_rule :: "nft_op \<Rightarrow> nft_rule" where
  "op_rule (AddRule name chain r) = r"
| "op_rule _ = undefined"

definition output_chain :: "nft_rule list \<Rightarrow> nft_chain" where
  "output_chain rs = \<lparr>chain_Name = outputChainName, chain_Type = ChainTypeFilter, chain_Hooknum = ChainHookOutput,
     chain_Priority = ChainPriorityRaw, chain_Policy = Some VerdictDrop, chain_Rules = rs\<rparr>"

definition output_rules :: "string \<Rightarrow> string \<Rightarrow> addrport \<Rightarrow> string \<Rightarrow> ClusterTrafficMode \<Rightarrow> prefix list \<Rightarrow> nft_rule list" where
  "output_rules podUID underlay endpoint overlay mode cidrs = (let marker = ''waycloak:'' @ podUID in map op_rule (
     [addInterfaceVerdict [] [] ''lo'' VerdictAccept marker]
     @ (if mode = TrafficDeny then map (\<lambda>pfx. addPrefixVerdict [] [] pfx VerdictDrop marker) cidrs else [])
     @ (if overlay \<noteq> [] then [addInterfaceVerdict [] [] overlay VerdictAccept marker] else [])
     @ (if underlay \<noteq> [] \<and> ap_IsValid endpoint then [addEndpointVerdict [] [] underlay endpoint marker] else [])
     @ (if mode = TrafficPreserve then map (\<lambda>pfx. addPrefixVerdict [] [] pfx VerdictAccept marker) cidrs else [])))"

lemma builder_rule:
  "addInterfaceVerdict t c n v m = AddRule t c (op_rule (addInterfaceVerdict [] [] n v m))"
  "addPrefixVerdict t c p v m = AddRule t c (op_rule (addPrefixVerdict [] [] p v m))"
  "addEndpointVerdict t c u e m = AddRule t c (op_rule (addEndpointVerdict [] [] u e m))"
  by (simp_all add: addInterfaceVerdict_def addPrefixVerdict_def addEndpointVerdict_def Let_def)

lemma nat_chains_other:
  "op \<in> set (addDNSRedirect t g m) \<Longrightarrow> op_table op = t" "op \<in> set (addApplicationPortRedirects t a rs m) \<Longrightarrow> op_table op = t"
  by (auto simp: addDNSRedirect_def addApplicationPortRedirects_def Let_def)

lemma policy_batch_table: "op \<in> set (policy_batch H existing podUID underlay endpoint overlay gateway address mode cidrs redirects) \<Longrightarrow>
    op_table op = policyTableName H podUID"
  by (auto simp: policy_batch_def Let_def builder_rule(1,2,3) [of "policyTableName H podUID"] nat_chains_other split: if_splits)

text \<open>An operation that adds a chain of another name or a rule to one leaves the chain at the front alone.\<close>

fun op_spares :: "string \<Rightarrow> nft_op \<Rightarrow> bool" where
  "op_spares chain (AddChain t c) = True"
| "op_spares chain (AddRule t c r) = (c \<noteq> chain)"
| "op_spares chain _ = False"

lemma commit_spares:
  assumes "\<forall>op \<in> set ops. op_spares (chain_Name c) op" and "ts t = Some (c # cs)"
  shows "\<exists>es. commit ops ts t = Some (c # es)"
  using assms
proof (induction ops arbitrary: ts cs)
  case (Cons op ops)
  have "\<exists>es. commit_op op ts t = Some (c # es)"
    using Cons.prems by (cases op) (auto simp: add_rule_def split: option.splits)
  then obtain es where es: "commit_op op ts t = Some (c # es)" by blast
  show ?case using Cons.IH [where ts = "commit_op op ts" and cs = es] Cons.prems(1) es by (simp add: commit_Cons)
qed simp

definition nat_ops :: "string \<Rightarrow> addr \<Rightarrow> addr \<Rightarrow> ApplicationPortRedirect list \<Rightarrow> string \<Rightarrow> nft_op list" where
  "nat_ops t gateway address redirects m = (if addr_IsValid gateway then addDNSRedirect t gateway m else [])
     @ (if redirects \<noteq> [] then addApplicationPortRedirects t address redirects m else [])"

lemma nat_ops_spare: "op \<in> set (nat_ops t gateway address redirects m) \<Longrightarrow> op_spares outputChainName op"
  by (auto simp: nat_ops_def addDNSRedirect_def addApplicationPortRedirects_def Let_def outputChainName_def split: if_splits)

lemma policy_batch_eq:
  "policy_batch H existing podUID underlay endpoint overlay gateway address mode cidrs redirects = (let t = policyTableName H podUID in
     map DelTable (filter (\<lambda>name. name = t) existing) @ [AddTable t, AddChain t (output_chain [])]
     @ map (AddRule t outputChainName) (output_rules podUID underlay endpoint overlay mode cidrs)
     @ nat_ops t gateway address redirects (''waycloak:'' @ podUID))"
  unfolding policy_batch_def output_rules_def nat_ops_def output_chain_def Let_def
  by (simp add: comp_def builder_rule(1,2,3) [of "policyTableName H podUID"] del: append_Cons)

lemma commit_dels:
  assumes "ts t \<noteq> None \<Longrightarrow> t \<in> set existing"
  shows "commit (map DelTable (filter (\<lambda>name. name = t) existing)) ts = ts(t := None)"
proof (cases "t \<in> set existing")
  case True
  have "commit (map DelTable (filter (\<lambda>name. name = t) xs)) us = (if t \<in> set xs then us(t := None) else us)" for xs us
    by (induction xs arbitrary: us) (auto simp: commit_Cons)
  with True show ?thesis by simp
next
  case False
  then have "filter (\<lambda>name. name = t) existing = []" by (auto simp: filter_empty_conv)
  moreover have "ts t = None" using False assms by blast
  ultimately show ?thesis by (simp add: fun_upd_idem)
qed

text \<open>Committing the batch leaves, at the front of the Pod's table, the output chain with exactly the rules of the policy.\<close>

lemma policy_commit_eq:
  assumes "ts (policyTableName H podUID) = None \<or> policyTableName H podUID \<in> set existing"
  shows "commit (policy_batch H existing podUID underlay endpoint overlay gateway address mode cidrs redirects) ts
     = commit (nat_ops (policyTableName H podUID) gateway address redirects (''waycloak:'' @ podUID))
         (ts(policyTableName H podUID \<mapsto> [output_chain (output_rules podUID underlay endpoint overlay mode cidrs)]))"
proof -
  let ?t = "policyTableName H podUID"
  let ?c = "output_chain (output_rules podUID underlay endpoint overlay mode cidrs)"
  have dels: "commit (map DelTable (filter (\<lambda>name. name = ?t) existing)) ts = ts(?t := None)"
    by (rule commit_dels) (use assms in auto)
  have "commit [AddTable ?t, AddChain ?t (output_chain [])] (ts(?t := None)) = ts(?t \<mapsto> [output_chain []])"
    by (simp add: commit_Cons)
  moreover have "commit (map (AddRule ?t outputChainName) (output_rules podUID underlay endpoint overlay mode cidrs)) (ts(?t \<mapsto> [output_chain []]))
      = ts(?t \<mapsto> [?c])"
    using commit_rules [of "ts(?t \<mapsto> [output_chain []])" ?t "[]" "output_chain []" outputChainName] by (simp add: output_chain_def)
  ultimately show ?thesis unfolding policy_batch_eq Let_def commit_append dels by simp
qed

lemma policy_commit:
  assumes "ts (policyTableName H podUID) \<noteq> None \<Longrightarrow> policyTableName H podUID \<in> set existing"
  shows "\<exists>rest. commit (policy_batch H existing podUID underlay endpoint overlay gateway address mode cidrs redirects) ts (policyTableName H podUID)
     = Some (output_chain (output_rules podUID underlay endpoint overlay mode cidrs) # rest)"
proof -
  have "ts (policyTableName H podUID) = None \<or> policyTableName H podUID \<in> set existing" using assms by blast
  note eq = policy_commit_eq [where ts = ts, OF this]
  show ?thesis unfolding eq by (rule commit_spares [where cs = "[]"]) (auto simp: output_chain_def nat_ops_spare)
qed

text \<open>With a gateway for names, the table also has the chain that redirects DNS.\<close>

lemma commit_keeps_chain:
  assumes "\<forall>op \<in> set ops. op_spares outputChainName op" and "ts t = Some cs" and "\<exists>c \<in> set cs. chain_Name c = n \<and> chain_Type c = k"
  shows "\<exists>ds. commit ops ts t = Some ds \<and> (\<exists>c \<in> set ds. chain_Name c = n \<and> chain_Type c = k)"
  using assms
proof (induction ops arbitrary: ts cs)
  case (Cons op ops)
  have keep: "chain_Name (add_rule x r c) = chain_Name c" "chain_Type (add_rule x r c) = chain_Type c" for x r c by (simp_all add: add_rule_def)
  have "\<exists>ds. commit_op op ts t = Some ds \<and> (\<exists>c \<in> set ds. chain_Name c = n \<and> chain_Type c = k)"
    using Cons.prems by (cases op) (auto simp: keep split: option.splits)
  with Cons.IH Cons.prems(1) show ?case by (fastforce simp: commit_Cons)
qed simp

lemma policy_commit_dns:
  assumes "ts (policyTableName H podUID) \<noteq> None \<Longrightarrow> policyTableName H podUID \<in> set existing" and "addr_IsValid gateway"
  shows "\<exists>ds. commit (policy_batch H existing podUID underlay endpoint overlay gateway address mode cidrs redirects) ts (policyTableName H podUID)
     = Some ds \<and> (\<exists>c \<in> set ds. chain_Name c = ''dns-output'' \<and> chain_Type c = ChainTypeNAT)"
proof -
  let ?t = "policyTableName H podUID" and ?m = "''waycloak:'' @ podUID"
  obtain c ops where ops: "nat_ops ?t gateway address redirects ?m = AddChain ?t c # ops" and c: "chain_Name c = ''dns-output''" "chain_Type c = ChainTypeNAT"
    using assms(2) by (auto simp: nat_ops_def addDNSRedirect_def Let_def)
  have spare: "\<forall>op \<in> set ops. op_spares outputChainName op"
    using nat_ops_spare [of _ ?t gateway address redirects ?m] unfolding ops by auto
  have "ts ?t = None \<or> ?t \<in> set existing" using assms(1) by blast
  note eq = policy_commit_eq [where ts = ts, OF this]
  show ?thesis unfolding eq ops commit_Cons by (rule commit_keeps_chain [OF spare]) (auto simp: c)
qed

text \<open>A Pod's table is locked down when its output chain accepts loopback and nothing else is in it.\<close>

definition locked :: "(string \<Rightarrow> 8 word list) \<Rightarrow> string \<Rightarrow> (string \<rightharpoonup> nft_table) \<Rightarrow> bool" where
  "locked H podUID ts \<longleftrightarrow> (\<exists>marker. ts (policyTableName H podUID) =
     Some [output_chain [op_rule (addInterfaceVerdict [] [] ''lo'' VerdictAccept marker)]])"

lemma lockdown_commit:
  assumes "ts (policyTableName H podUID) \<noteq> None \<Longrightarrow> policyTableName H podUID \<in> set existing"
  shows "locked H podUID (commit (policy_batch H existing podUID [] addrport_zero [] AddrZero AddrZero TrafficGateway [] []) ts)"
proof -
  have "ts (policyTableName H podUID) = None \<or> policyTableName H podUID \<in> set existing" using assms by blast
  note eq = policy_commit_eq [where ts = ts, OF this]
  show ?thesis unfolding eq by (auto simp: locked_def nat_ops_def output_rules_def)
qed

lemma locked_other: "policyTableName H podUID \<noteq> t \<Longrightarrow> \<forall>op \<in> set ops. op_table op = t \<Longrightarrow> locked H podUID (commit ops ts) = locked H podUID ts"
  by (simp add: locked_def commit_other)

end
