(* ===== verification/Workload_Policy.thy ===== *)
theory Workload_Policy
  imports Linux_Backend
begin

unbundle bit_operations_syntax

text \<open>
  What the policy of a protected workload decides, packet by packet. The rule expressions compare bytes of headers;
  the reference \<open>permits\<close> speaks of destination addresses, prefixes and ports. The two agree on every packet, for any
  evaluator that satisfies \<open>nft_semantics\<close>.
\<close>

section \<open>Big-endian bytes\<close>

definition be_bytes :: "nat \<Rightarrow> 'a::len word \<Rightarrow> bytes" where
  "be_bytes n w = map (\<lambda>i. ucast (drop_bit (8 * (n - 1 - i)) w)) [0..<n]"

lemma be_bytes4_eq: "be_bytes4 w = be_bytes 4 w"
  by (simp add: be_bytes4_def be_bytes_def upt_rec)

lemma be_bytes16_eq: "be_bytes16 w = be_bytes 16 w"
  by (simp add: be_bytes16_def be_bytes_def)

lemma PutUint16_eq: "PutUint16 p = be_bytes 2 p"
  by (simp add: PutUint16_def be_bytes_def upt_rec)

lemmas bytes_eq = be_bytes4_eq be_bytes16_eq PutUint16_eq

lemma length_be_bytes [simp]: "length (be_bytes n w) = n"
  by (simp add: be_bytes_def)

lemma of_be_bytes_snoc: "of_be_bytes (bs @ [b]) = 256 * of_be_bytes bs + unat b"
  by (simp add: of_be_bytes_def)

lemma unat_byte: "unat (b :: 8 word) < 256"
  using unsigned_less [of b] by simp

lemma of_be_bytes_less: "of_be_bytes bs < 256 ^ length bs"
proof (induction bs rule: rev_induct)
  case (snoc b bs)
  then have "Suc (of_be_bytes bs) \<le> 256 ^ length bs" by simp
  then have "256 * Suc (of_be_bytes bs) \<le> 256 * 256 ^ length bs" by (rule mult_le_mono2)
  with unat_byte [of b] show ?case by (simp add: of_be_bytes_snoc)
qed (simp add: of_be_bytes_def)

lemma of_be_bytes_digit:
  "k < length bs \<Longrightarrow> of_be_bytes bs div 256 ^ k mod 256 = unat (bs ! (length bs - 1 - k))"
proof (induction bs arbitrary: k rule: rev_induct)
  case (snoc b bs)
  show ?case
  proof (cases k)
    case 0
    then show ?thesis using unat_byte [of b] by (simp add: of_be_bytes_snoc)
  next
    case (Suc j)
    have "(256 * of_be_bytes bs + unat b) div 256 ^ Suc j = of_be_bytes bs div 256 ^ j"
      using unat_byte [of b] by (simp add: div_mult2_eq)
    with snoc.IH [of j] snoc.prems Suc show ?thesis by (auto simp: of_be_bytes_snoc nth_append)
  qed
qed simp

lemma byte_of_nat:
  assumes "n < 2 ^ LENGTH('a)"
  shows "(ucast (drop_bit (8 * k) (of_nat n :: 'a::len word)) :: 8 word) = of_nat (n div 256 ^ k)"
proof -
  have "unat (drop_bit (8 * k) (of_nat n :: 'a word)) = n div 256 ^ k"
    using assms by (simp add: unat_drop_bit_div unat_of_nat power_mult take_bit_eq_mod)
  then show ?thesis by (metis of_nat_unat)
qed

lemma be_bytes_of_be_bytes:
  assumes "length bs = n" and "8 * n = LENGTH('a)"
  shows "be_bytes n (of_nat (of_be_bytes bs) :: 'a::len word) = bs"
proof (rule nth_equalityI)
  fix i assume "i < length (be_bytes n (of_nat (of_be_bytes bs) :: 'a word))"
  then have i: "i < n" by simp
  have "of_be_bytes bs < 2 ^ LENGTH('a)"
    using of_be_bytes_less [of bs] assms by (simp flip: assms(2) add: power_mult)
  note byte_of_nat [OF this, of "n - 1 - i"]
  moreover have "unat (of_nat (of_be_bytes bs div 256 ^ (n - 1 - i)) :: 8 word) = unat (bs ! i)"
    using of_be_bytes_digit [of "n - 1 - i" bs] i assms(1) by (simp add: unat_of_nat take_bit_eq_mod)
  ultimately show "be_bytes n (of_nat (of_be_bytes bs) :: 'a word) ! i = bs ! i"
    using i by (simp add: be_bytes_def word_unat_eq_iff)
qed (simp add: assms(1))

lemma be_bytes_inj:
  assumes "be_bytes n v = be_bytes n w" and "8 * n = LENGTH('a)"
  shows "v = (w :: 'a::len word)"
proof (rule bit_word_eqI)
  fix k assume k: "k < LENGTH('a)"
  let ?i = "n - 1 - k div 8"
  have i: "?i < n" and j: "n - 1 - ?i = k div 8" using k assms(2) by linarith+
  have "be_bytes n v ! ?i = be_bytes n w ! ?i" using assms(1) by simp
  then have "(ucast (drop_bit (8 * (k div 8)) v) :: 8 word) = ucast (drop_bit (8 * (k div 8)) w)"
    using i j by (simp add: be_bytes_def)
  then have "bit (ucast (drop_bit (8 * (k div 8)) v) :: 8 word) (k mod 8) = bit (ucast (drop_bit (8 * (k div 8)) w) :: 8 word) (k mod 8)"
    by simp
  then show "bit v k = bit w k" by (simp add: bit_simps)
qed

lemma be_bytes_eq_iff: "8 * n = LENGTH('a) \<Longrightarrow> be_bytes n v = be_bytes n w \<longleftrightarrow> v = (w :: 'a::len word)"
  using be_bytes_inj by blast

lemma be_bytes_and:
  "apply_mask (be_bytes n m) (replicate n 0) (be_bytes n w) = be_bytes n (w AND m :: 'a::len word)"
  by (rule nth_equalityI) (auto simp: apply_mask_def be_bytes_def intro!: bit_word_eqI simp: bit_simps)

section \<open>Names and destinations\<close>

text \<open>A name the kernel gives an interface: shorter than IFNAMSIZ, without a zero byte.\<close>

definition interface_name :: "string \<Rightarrow> bool" where
  "interface_name s \<longleftrightarrow> length s < 16 \<and> CHR 0x00 \<notin> set s"

lemma of_char_byte_inj: "(of_char c :: 8 word) = of_char d \<longleftrightarrow> c = d"
proof
  assume "(of_char c :: 8 word) = of_char d"
  then have "(of_nat (of_char c) :: 8 word) = of_nat (of_char d)" by (simp only: of_nat_of_char)
  then have "(of_char c :: nat) mod 256 = of_char d mod 256" by (simp add: word_unat_eq_iff unat_of_nat take_bit_eq_mod)
  then show "c = d" by simp
qed simp

lemma takeWhile_padded:
  "interface_name s \<Longrightarrow> takeWhile (\<lambda>b. b \<noteq> 0) (interfaceName s) = map of_char s"
proof -
  assume "interface_name s"
  moreover from this have "(of_char c :: 8 word) \<noteq> 0" if "c \<in> set s" for c
    using that of_char_byte_inj [of c "CHR 0x00"] by (auto simp: interface_name_def)
  ultimately show ?thesis by (subst interfaceName_def, subst takeWhile_append2) (auto simp: interface_name_def)
qed

lemma interfaceName_inj: "interface_name s \<Longrightarrow> interface_name t \<Longrightarrow> interfaceName s = interfaceName t \<longleftrightarrow> s = t"
  using takeWhile_padded of_char_byte_inj by (metis inj_map_eq_map injI)

lemma length_interfaceName [simp]: "length (interfaceName s) = 16"
  by (simp add: interfaceName_def)

lemma name_bytes_eq: "name_bytes s = interfaceName s"
  by (simp add: name_bytes_def interfaceName_def)

definition packet_dst :: "packet \<Rightarrow> addr option" where
  "packet_dst p = (if pk_nfproto p = 2 \<and> 20 \<le> length (pk_network p) then AddrFromSlice (take 4 (drop 16 (pk_network p)))
     else if pk_nfproto p = 10 \<and> 40 \<le> length (pk_network p) then AddrFromSlice (take 16 (drop 24 (pk_network p))) else None)"

definition packet_dport :: "packet \<Rightarrow> 16 word option" where
  "packet_dport p = (if 4 \<le> length (pk_transport p) then Some (of_nat (of_be_bytes (take 2 (drop 2 (pk_transport p))))) else None)"

definition goes_to :: "packet \<Rightarrow> prefix \<Rightarrow> bool" where
  "goes_to p pfx = (case packet_dst p of None \<Rightarrow> False | Some a \<Rightarrow> pfx_Contains pfx a)"

definition tunnels :: "string \<Rightarrow> addrport \<Rightarrow> packet \<Rightarrow> bool" where
  "tunnels underlay endpoint p \<longleftrightarrow> pk_oifname p = underlay \<and> packet_dst p = Some (addr_withoutZone (addr_Unmap (ap_Addr endpoint))) \<and>
     pk_l4proto p = 17 \<and> packet_dport p = Some (ap_Port endpoint)"

text \<open>The reference: loopback, then the overlay, the tunnel and preserved cluster prefixes, none of them into a denied prefix.\<close>

definition permits :: "string \<Rightarrow> addrport \<Rightarrow> string \<Rightarrow> ClusterTrafficMode \<Rightarrow> prefix list \<Rightarrow> packet \<Rightarrow> bool" where
  "permits underlay endpoint overlay mode cidrs p \<longleftrightarrow> pk_oifname p = ''lo'' \<or>
     \<not> (mode = TrafficDeny \<and> list_ex (goes_to p) cidrs) \<and>
     (overlay \<noteq> [] \<and> pk_oifname p = overlay \<or> underlay \<noteq> [] \<and> ap_IsValid endpoint \<and> tunnels underlay endpoint p \<or>
      mode = TrafficPreserve \<and> list_ex (goes_to p) cidrs)"

text \<open>A prefix whose network address is not an IPv4-mapped one.\<close>

fun plain_prefix :: "prefix \<Rightarrow> bool" where
  "plain_prefix (Prefix (Addr4 n) (Some b)) = (b \<le> 32)"
| "plain_prefix (Prefix (Addr6 n z) (Some b)) = (b \<le> 128 \<and> \<not> is_4in6 (n AND mask6 b))"
| "plain_prefix _ = False"

lemma of_be_bytes_iff:
  "length bs = n \<Longrightarrow> 8 * n = LENGTH('a) \<Longrightarrow> of_nat (of_be_bytes bs) = (w :: 'a::len word) \<longleftrightarrow> bs = be_bytes n w"
  by (metis be_bytes_of_be_bytes be_bytes_inj)

lemma length_slice: "n + k \<le> length xs \<Longrightarrow> length (take k (drop n xs)) = k"
  by simp

lemma slice4: "length bs = 4 \<Longrightarrow> AddrFromSlice bs = Some (Addr4 w) \<longleftrightarrow> bs = be_bytes 4 w"
  by (simp add: AddrFromSlice_def of_be_bytes_iff)

lemma slice16: "length bs = 16 \<Longrightarrow> AddrFromSlice bs = Some (Addr6 w []) \<longleftrightarrow> bs = be_bytes 16 w"
  by (simp add: AddrFromSlice_def of_be_bytes_iff)

lemma mask4_contains: "(w AND mask4 b) = (n AND mask4 b) \<longleftrightarrow> drop_bit (32 - b) (w XOR n) = 0"
proof
  assume h: "drop_bit (32 - b) (w XOR n) = 0"
  show "w AND mask4 b = n AND mask4 b"
  proof (rule bit_word_eqI)
    fix k assume "k < LENGTH(32)"
    have "\<not> bit (drop_bit (32 - b) (w XOR n)) (k - (32 - b))" by (simp only: h) simp
    then show "bit (w AND mask4 b) k = bit (n AND mask4 b) k" by (auto simp: bit_simps mask4_def)
  qed
next
  assume h: "w AND mask4 b = n AND mask4 b"
  show "drop_bit (32 - b) (w XOR n) = 0"
  proof (rule bit_word_eqI)
    fix k
    have "bit (w AND mask4 b) (k + (32 - b)) = bit (n AND mask4 b) (k + (32 - b))" by (simp add: h)
    then show "bit (drop_bit (32 - b) (w XOR n)) k = bit 0 k"
      by (auto simp: bit_simps mask4_def add.commute dest: bit_imp_le_length)
  qed
qed

lemma mask6_contains: "(w AND m) = (n AND m) \<longleftrightarrow> (w XOR n) AND m = (0 :: 128 word)"
  by (auto simp: bit_eq_iff bit_simps)

section \<open>What each rule decides\<close>

context nft_semantics
begin

lemmas eval_simps = eval_Nil eval_Meta eval_Cmp eval_Payload eval_Bitwise eval_Immediate eval_Verdict

lemma eval_interface:
  assumes "interface_name (pk_oifname p)" and "interface_name name"
  shows "eval p regs (rule_Exprs (op_rule (addInterfaceVerdict t c name v m))) = (if pk_oifname p = name then Some v else None)"
  using interfaceName_inj [OF assms] by (simp add: addInterfaceVerdict_def eval_simps name_bytes_eq)

lemma eval_prefix4:
  assumes "b \<le> 32"
  shows "eval p regs (rule_Exprs (op_rule (addPrefixVerdict t c (Prefix (Addr4 n) (Some b)) v m)))
    = (if goes_to p (Prefix (Addr4 n) (Some b)) then Some v else None)"
proof (cases "pk_nfproto p = 2 \<and> 20 \<le> length (pk_network p)")
  case True
  let ?bs = "take 4 (drop 16 (pk_network p))"
  have len: "length ?bs = 4" using True by (intro length_slice) simp
  obtain w where w: "AddrFromSlice ?bs = Some (Addr4 w)" using len by (simp add: AddrFromSlice_def)
  with len have bs: "?bs = be_bytes 4 w" by (simp add: slice4)
  have "goes_to p (Prefix (Addr4 n) (Some b)) \<longleftrightarrow> w AND mask4 b = n AND mask4 b"
    using True w by (simp add: goes_to_def packet_dst_def pfx_Contains_def mask4_contains)
  moreover have "apply_mask (be_bytes 4 (mask4 b)) (replicate 4 0) ?bs = be_bytes 4 (w AND mask4 b)"
    unfolding bs by (rule be_bytes_and)
  ultimately show ?thesis using True assms
    by (simp add: addPrefixVerdict_def eval_simps pfx_Masked_def CIDRMask_def pfx_Bits_def be_bytes4_eq be_bytes_eq_iff)
next
  case False
  then show ?thesis using assms
    by (auto simp: addPrefixVerdict_def eval_simps goes_to_def packet_dst_def pfx_Contains_def pfx_Masked_def CIDRMask_def pfx_Bits_def
      be_bytes4_eq AddrFromSlice_def)
qed

lemma eval_prefix6:
  assumes "b \<le> 128" and "\<not> is_4in6 (n AND mask6 b)"
  shows "eval p regs (rule_Exprs (op_rule (addPrefixVerdict t c (Prefix (Addr6 n z) (Some b)) v m)))
    = (if goes_to p (Prefix (Addr6 n z) (Some b)) then Some v else None)"
proof (cases "pk_nfproto p = 10 \<and> 40 \<le> length (pk_network p)")
  case True
  let ?bs = "take 16 (drop 24 (pk_network p))"
  have len: "length ?bs = 16" using True by (intro length_slice) simp
  obtain w where w: "AddrFromSlice ?bs = Some (Addr6 w [])" using len by (simp add: AddrFromSlice_def)
  with len have bs: "?bs = be_bytes 16 w" by (simp add: slice16)
  have "goes_to p (Prefix (Addr6 n z) (Some b)) \<longleftrightarrow> w AND mask6 b = n AND mask6 b"
    using True w by (simp add: goes_to_def packet_dst_def pfx_Contains_def mask6_contains)
  moreover have "apply_mask (be_bytes 16 (mask6 b)) (replicate 16 0) ?bs = be_bytes 16 (w AND mask6 b)"
    unfolding bs by (rule be_bytes_and)
  ultimately show ?thesis using True assms
    by (simp add: addPrefixVerdict_def eval_simps pfx_Masked_def CIDRMask_def pfx_Bits_def be_bytes16_eq be_bytes_eq_iff)
next
  case False
  then show ?thesis using assms
    by (auto simp: addPrefixVerdict_def eval_simps goes_to_def packet_dst_def pfx_Contains_def pfx_Masked_def CIDRMask_def pfx_Bits_def
      be_bytes16_eq AddrFromSlice_def)
qed

lemma eval_prefix:
  "plain_prefix pfx \<Longrightarrow> eval p regs (rule_Exprs (op_rule (addPrefixVerdict t c pfx v m))) = (if goes_to p pfx then Some v else None)"
  by (cases pfx rule: plain_prefix.cases) (simp_all add: eval_prefix4 eval_prefix6)

lemma dport_iff: "4 \<le> length (pk_transport p) \<Longrightarrow> packet_dport p = Some port \<longleftrightarrow> take 2 (drop 2 (pk_transport p)) = PutUint16 port"
  using of_be_bytes_iff [OF length_slice [of 2 2 "pk_transport p"], of port] by (simp add: packet_dport_def PutUint16_eq)

lemma dst4_iff: "packet_dst p = Some (Addr4 w) \<longleftrightarrow>
    pk_nfproto p = 2 \<and> 20 \<le> length (pk_network p) \<and> take 4 (drop 16 (pk_network p)) = be_bytes4 w"
  using slice4 [of "take 4 (drop 16 (pk_network p))" w]
  by (auto simp: packet_dst_def be_bytes4_eq min_def AddrFromSlice_def split: if_splits)

lemma dst6_iff: "packet_dst p = Some (Addr6 w []) \<longleftrightarrow>
    pk_nfproto p = 10 \<and> 40 \<le> length (pk_network p) \<and> take 16 (drop 24 (pk_network p)) = be_bytes16 w"
  using slice16 [of "take 16 (drop 24 (pk_network p))" w]
  by (auto simp: packet_dst_def be_bytes16_eq min_def AddrFromSlice_def split: if_splits)

lemma eval_endpoint:
  assumes "interface_name (pk_oifname p)" and "interface_name underlay" and "ap_IsValid endpoint"
  shows "eval p regs (rule_Exprs (op_rule (addEndpointVerdict t c underlay endpoint m)))
    = (if tunnels underlay endpoint p then Some VerdictAccept else None)"
proof -
  have name: "interfaceName (pk_oifname p) = interfaceName underlay \<longleftrightarrow> pk_oifname p = underlay"
    using interfaceName_inj [OF assms(1,2)] .
  have len: "length (be_bytes4 w) = 4" "length (be_bytes16 v) = 16" "length (PutUint16 q) = 2" for w v q
    by (simp_all add: bytes_eq)
  have port: "(4 \<le> length (pk_transport p) \<and> take 2 (drop 2 (pk_transport p)) = PutUint16 q) \<longleftrightarrow> packet_dport p = Some q" for q
    using dport_iff [of p q] by (auto simp: packet_dport_def)
  show ?thesis
  proof (cases "addr_Unmap (ap_Addr endpoint)")
    case AddrZero
    then show ?thesis using assms(3) by (cases "ap_Addr endpoint") (auto simp: ap_IsValid_def split: if_splits)
  next
    case (Addr4 w)
    then show ?thesis using name len port by (auto simp: addEndpointVerdict_def eval_simps tunnels_def name_bytes_eq dst4_iff)
  next
    case (Addr6 w z)
    then show ?thesis using name len port by (auto simp: addEndpointVerdict_def eval_simps tunnels_def name_bytes_eq dst6_iff)
  qed
qed

lemma rules_verdict_prefixes:
  "list_all plain_prefix cidrs \<Longrightarrow> rules_verdict eval p policy (map op_rule (map (\<lambda>pfx. addPrefixVerdict t c pfx v m) cidrs))
     = (if list_ex (goes_to p) cidrs then Some v else policy)"
  by (induction cidrs) (auto simp: eval_prefix)

lemma rules_verdict_overlay:
  "interface_name (pk_oifname p) \<Longrightarrow> (overlay \<noteq> [] \<Longrightarrow> interface_name overlay) \<Longrightarrow>
     rules_verdict eval p policy (map op_rule (if overlay \<noteq> [] then [addInterfaceVerdict t c overlay v m] else []))
     = (if overlay \<noteq> [] \<and> pk_oifname p = overlay then Some v else policy)"
  by (simp add: eval_interface)

lemma rules_verdict_endpoint:
  "interface_name (pk_oifname p) \<Longrightarrow> (underlay \<noteq> [] \<Longrightarrow> interface_name underlay) \<Longrightarrow>
     rules_verdict eval p policy (map op_rule (if underlay \<noteq> [] \<and> ap_IsValid endpoint then [addEndpointVerdict t c underlay endpoint m] else []))
     = (if underlay \<noteq> [] \<and> ap_IsValid endpoint \<and> tunnels underlay endpoint p then Some VerdictAccept else policy)"
  by (simp add: eval_endpoint)

lemma rules_verdict_cidrs:
  "list_all plain_prefix cidrs \<Longrightarrow>
     rules_verdict eval p policy (map op_rule (if mode = k then map (\<lambda>pfx. addPrefixVerdict t c pfx v m) cidrs else []))
     = (if mode = k \<and> list_ex (goes_to p) cidrs then Some v else policy)"
  using rules_verdict_prefixes by simp

lemma output_verdict:
  assumes "interface_name (pk_oifname p)" and "overlay \<noteq> [] \<Longrightarrow> interface_name overlay" and "underlay \<noteq> [] \<Longrightarrow> interface_name underlay"
    and "list_all plain_prefix cidrs"
  shows "chain_verdict eval p (output_chain (output_rules podUID underlay endpoint overlay mode cidrs))
    = Some (if permits underlay endpoint overlay mode cidrs p then VerdictAccept else VerdictDrop)"
proof -
  let ?over = "\<lambda>m. map op_rule (if overlay \<noteq> [] then [addInterfaceVerdict [] [] overlay VerdictAccept m] else [])"
  let ?tunnel = "\<lambda>m. map op_rule (if underlay \<noteq> [] \<and> ap_IsValid endpoint then [addEndpointVerdict [] [] underlay endpoint m] else [])"
  let ?cidrs = "\<lambda>k v m. map op_rule (if mode = k then map (\<lambda>pfx. addPrefixVerdict [] [] pfx v m) cidrs else [])"
  have over: "rules_verdict eval p policy (?over m) = (if overlay \<noteq> [] \<and> pk_oifname p = overlay then Some VerdictAccept else policy)" for policy m
    by (rule rules_verdict_overlay [OF assms(1)], erule assms(2))
  have tun: "rules_verdict eval p policy (?tunnel m)
      = (if underlay \<noteq> [] \<and> ap_IsValid endpoint \<and> tunnels underlay endpoint p then Some VerdictAccept else policy)" for policy m
    by (rule rules_verdict_endpoint [OF assms(1)], erule assms(3))
  have cidr: "rules_verdict eval p policy (?cidrs k v m) = (if mode = k \<and> list_ex (goes_to p) cidrs then Some v else policy)" for policy k v m
    by (rule rules_verdict_cidrs [OF assms(4)])
  have lo: "rules_verdict eval p policy (map op_rule [addInterfaceVerdict t c ''lo'' v m]) = (if pk_oifname p = ''lo'' then Some v else policy)"
    for policy t c v m
    using rules_verdict_overlay [OF assms(1), of "''lo''"] by (simp add: interface_name_def)
  show ?thesis
    unfolding chain_verdict_def output_chain_def output_rules_def Let_def nft_chain.simps map_append rules_verdict_append over tun cidr lo permits_def
    by simp
qed

end

end
