(* ===== verification/Node_Agent.thy ===== *)
theory Node_Agent
  imports Binding_Allocation Cni_Store Workload_Dataplane "HOL-Library.Product_Lexorder" "HOL-Library.AList"
begin

text \<open>
  \<open>src/internal/nodeagent/service.go\<close>: the privileged agent of one node. It resolves callers from Kubernetes
  state, programs and verifies their network namespaces, withdraws them and repairs drift. The agent's own
  mutable fields are the record \<open>agent_state\<close>, passed beside the world; \<open>world c\<close> is a call that leaves the
  process. Reader, Programmer and Store are taken to be set, as the command sets them. Contexts are not
  modelled. The order in which \<open>Observations\<close> lists its map is not specified by the source.
\<close>

section \<open>Types\<close>

definition routeLabel :: string where "routeLabel = ''networking.waycloak.io/egress-route''"
definition lockedDownReconcileDelay :: duration where "lockedDownReconcileDelay = 45 * Second"
definition ReportAPIVersion :: string where "ReportAPIVersion = ''node-observations.waycloak.io/v1''"

definition ErrPodIdentityInvalid :: go_error where "ErrPodIdentityInvalid = Err ''pod identity is invalid''"
definition ErrPodLookupFailed :: go_error where "ErrPodLookupFailed = Err ''kubernetes Pod observation failed''"
definition ErrPodUIDMismatch :: go_error where "ErrPodUIDMismatch = Err ''pod UID does not match API observation''"
definition ErrPodNodeMismatch :: go_error where "ErrPodNodeMismatch = Err ''pod node does not match local authority''"
definition ErrSandboxAmbiguous :: go_error where "ErrSandboxAmbiguous = Err ''multiple live sandboxes exist for one Pod UID''"

lemmas agent_error_defs = ErrPodIdentityInvalid_def ErrPodLookupFailed_def ErrPodUIDMismatch_def ErrPodNodeMismatch_def
  ErrSandboxAmbiguous_def ErrBindingNotReady_def ErrNotExist_def

record 'w Programmer =
  pg_Identity :: "string \<Rightarrow> ('w, string result) call"
  pg_InstallLockdown :: "string \<Rightarrow> string \<Rightarrow> ('w, go_error option) call"
  pg_Configure :: "string \<Rightarrow> Config \<Rightarrow> ('w, go_error option) call"
  pg_Verify :: "string \<Rightarrow> Config \<Rightarrow> ('w, go_error option) call"
  pg_Cleanup :: "string \<Rightarrow> string \<Rightarrow> ('w, go_error option) call"

record 'w AttachmentStore =
  as_ListAll :: "('w, Attachment list result) call"
  as_Save :: "Attachment \<Rightarrow> ('w, go_error option) call"
  as_Delete :: "cni_Key \<Rightarrow> ('w, go_error option) call"

record Observation =
  ob_BindingNamespace :: string
  ob_BindingName :: string
  ob_BindingUID :: string
  ob_Generation :: int
  ob_PodUID :: string
  ob_GatewayUID :: string
  ob_NodeName :: string
  ob_NodeBootID :: string
  ob_InstanceID :: string
  ob_ObservedAt :: time
  ob_Ready :: bool

record NodeReport =
  nr_NodeName :: string
  nr_NodeBootID :: string
  nr_InstanceID :: string
  nr_ObservedAt :: time
  nr_Ready :: bool
  nr_Capabilities :: "string list"
  nr_ReleaseIdentity :: ReleaseIdentity
  nr_ConformanceProfile :: string

record Report =
  rp_APIVersion :: string
  rp_Node :: NodeReport
  rp_Observations :: "Observation list"

record 'w Service =
  sv_Reader :: "'w cluster"
  sv_BindingReader :: "'w cluster option"
  sv_Programmer :: "'w Programmer"
  sv_Store :: "'w AttachmentStore"
  sv_NodeName :: string
  sv_NodeBootID :: string
  sv_InstanceID :: string
  sv_now :: "('w, time) call"
  sv_RequireRelay :: bool
  sv_CapabilityHeld :: bool
  sv_TransitionHeld :: bool
  sv_Capabilities :: "string list"
  sv_ReleaseIdentity :: ReleaseIdentity
  sv_ConformanceProfile :: string
  sv_OperationErrorHook :: "(string \<Rightarrow> go_error \<Rightarrow> 'w \<Rightarrow> 'w) option"
  sv_WithdrawalPublisher :: "(Report \<Rightarrow> ('w, go_error option) call) option"

record agent_state =
  ag_observations :: "(string \<times> Observation) list"
  ag_relayHealthy :: bool
  ag_backendHealthy :: bool

type_synonym 'w svc = "agent_state \<times> 'w"

definition world :: "('w, 'a) call \<Rightarrow> ('w svc, 'a) call" where
  "world c = (\<lambda>(s, w). case c w of (r, w') \<Rightarrow> (r, (s, w')))"

abbreviation install :: "'w Service \<Rightarrow> string \<Rightarrow> string \<Rightarrow> ('w svc, go_error option) call" where
  "install s ns uid \<equiv> world (pg_InstallLockdown (sv_Programmer s) ns uid)"

section \<open>Observations and health\<close>

definition SetRelayHealthy :: "bool \<Rightarrow> 'w svc \<Rightarrow> 'w svc" where
  "SetRelayHealthy healthy = (\<lambda>(s, w). (s\<lparr>ag_relayHealthy := healthy\<rparr>, w))"

definition SetBackendHealthy :: "bool \<Rightarrow> 'w svc \<Rightarrow> 'w svc" where
  "SetBackendHealthy healthy = (\<lambda>(s, w). (s\<lparr>ag_backendHealthy := healthy\<rparr>, w))"

definition service_Ready :: "'w Service \<Rightarrow> agent_state \<Rightarrow> bool" where
  "service_Ready s a \<longleftrightarrow> \<not> sv_TransitionHeld s \<and> ag_backendHealthy a \<and> (\<not> sv_RequireRelay s \<or> ag_relayHealthy a)"

definition Observations :: "agent_state \<Rightarrow> Observation list" where
  "Observations a = map snd (ag_observations a)"

definition service_Report :: "'w Service \<Rightarrow> ('w svc, Report) call" where
  "service_Report s w = (case world (sv_now s) w of (t, w1) \<Rightarrow>
     (\<lparr>rp_APIVersion = ReportAPIVersion,
       rp_Node = \<lparr>nr_NodeName = sv_NodeName s, nr_NodeBootID = sv_NodeBootID s, nr_InstanceID = sv_InstanceID s, nr_ObservedAt = t,
         nr_Ready = (service_Ready s (fst w1) \<and> \<not> sv_CapabilityHeld s), nr_Capabilities = sv_Capabilities s,
         nr_ReleaseIdentity = sv_ReleaseIdentity s, nr_ConformanceProfile = sv_ConformanceProfile s\<rparr>,
       rp_Observations = Observations (fst w1)\<rparr>, w1))"

definition observation :: "'w Service \<Rightarrow> VPNWorkloadBinding \<Rightarrow> time \<Rightarrow> bool \<Rightarrow> Observation" where
  "observation s b t ready = \<lparr>ob_BindingNamespace = meta_Namespace (bind_Meta b), ob_BindingName = meta_Name (bind_Meta b),
     ob_BindingUID = meta_UID (bind_Meta b), ob_Generation = meta_Generation (bind_Meta b),
     ob_PodUID = lref_UID (bind_PodRef (bind_Spec b)), ob_GatewayUID = nref_UID (bind_GatewayRef (bind_Spec b)),
     ob_NodeName = sv_NodeName s, ob_NodeBootID = sv_NodeBootID s, ob_InstanceID = sv_InstanceID s, ob_ObservedAt = t, ob_Ready = ready\<rparr>"

definition observe :: "'w Service \<Rightarrow> VPNWorkloadBinding \<Rightarrow> bool \<Rightarrow> ('w svc, Observation) call" where
  "observe s b ready w = (case world (sv_now s) w of (t, (a, w1)) \<Rightarrow>
     let ob = observation s b t ready in
     (ob, (a\<lparr>ag_observations := AList.update (ob_PodUID ob) ob (ag_observations a)\<rparr>, w1)))"

definition forgetObservation :: "string \<Rightarrow> 'w svc \<Rightarrow> 'w svc" where
  "forgetObservation podUID = (\<lambda>(a, w). (a\<lparr>ag_observations := AList.delete podUID (ag_observations a)\<rparr>, w))"

section \<open>Authority\<close>

definition service_pod :: "'w Service \<Rightarrow> PodIdentity \<Rightarrow> ('w svc, pod result) call" where
  "service_pod s identity w = (case pod_Validate identity of
     Some e \<Rightarrow> (Inl (Errorf ''pod identity'' [ErrPodIdentityInvalid]), w)
   | None \<Rightarrow>
       if sv_NodeName s = [] then (Inl (Errorf ''node agent dependencies are incomplete'' [ErrPodIdentityInvalid]), w)
       else (case world (k_get (cl_pods (sv_Reader s)) (pi_Namespace identity, pi_Name identity)) w of
         (Inl e, w1) \<Rightarrow> (Inl (Errorf ''pod lookup'' [ErrPodLookupFailed, e]), w1)
       | (Inr pod, w1) \<Rightarrow>
           if meta_UID (pod_Meta pod) \<noteq> pi_UID identity then (Inl ErrPodUIDMismatch, w1)
           else if pod_NodeName pod \<noteq> sv_NodeName s then (Inl ErrPodNodeMismatch, w1)
           else (Inr pod, w1)))"

definition rawBinding :: "(string \<Rightarrow> 8 word list) \<Rightarrow> 'w Service \<Rightarrow> string \<Rightarrow> string \<Rightarrow> ('w svc, VPNWorkloadBinding result) call" where
  "rawBinding H s namespace podUID w = (case world (k_get (cl_bindings (sv_Reader s)) (namespace, BindingName H podUID)) w of
     (Inl e, w1) \<Rightarrow> (Inl (if IsNotFound e then ErrBindingNotReady else e), w1)
   | (Inr binding, w1) \<Rightarrow>
       if lref_UID (bind_PodRef (bind_Spec binding)) \<noteq> podUID then (Inl ErrBindingNotReady, w1) else (Inr binding, w1))"

definition service_binding :: "(string \<Rightarrow> 8 word list) \<Rightarrow> 'w Service \<Rightarrow> pod \<Rightarrow> ('w svc, VPNWorkloadBinding result) call" where
  "service_binding H s pod w = (case rawBinding H s (meta_Namespace (pod_Meta pod)) (meta_UID (pod_Meta pod)) w of
     (Inl e, w1) \<Rightarrow> (Inl e, w1)
   | (Inr binding, w1) \<Rightarrow>
       if is_deleting (bind_Meta binding) \<or> lref_Name (bind_PodRef (bind_Spec binding)) \<noteq> meta_Name (pod_Meta pod) \<or>
           bind_NodeName (bind_Spec binding) \<noteq> sv_NodeName s \<or> meta_UID (bind_Meta binding) = []
         then (Inl ErrBindingNotReady, w1) else (Inr binding, w1))"

definition bindingReference :: "VPNWorkloadBinding \<Rightarrow> cni_Binding" where
  "bindingReference b = \<lparr>cb_UID = meta_UID (bind_Meta b), cb_Generation = meta_Generation (bind_Meta b),
     cb_PodUID = lref_UID (bind_PodRef (bind_Spec b)), cb_GatewayUID = nref_UID (bind_GatewayRef (bind_Spec b))\<rparr>"

fun parse_cidrs :: "string list \<Rightarrow> prefix list result" where
  "parse_cidrs [] = Inr []"
| "parse_cidrs (text # texts) = (case ParsePrefix text of
     None \<Rightarrow> Inl (Errorf ''parse projected bypass CIDR'' [])
   | Some cidr \<Rightarrow> (case parse_cidrs texts of Inl e \<Rightarrow> Inl e | Inr cidrs \<Rightarrow> Inr (cidr # cidrs)))"

definition ConfigFromBinding :: "VPNWorkloadBinding \<Rightarrow> Config result" where
  "ConfigFromBinding binding = (
     let spec = bind_Spec binding; network = bind_Network spec in
     if meta_Generation (bind_Meta binding) < 1 then Inl (Err ''current binding is required'')
     else case ParsePrefix (net_OverlayCIDR network) of
       None \<Rightarrow> Inl (Errorf ''parse projected overlay CIDR'' [])
     | Some overlay \<Rightarrow> (case ParsePrefix (alloc_Address (bind_Allocation spec)) of
         None \<Rightarrow> Inl (Errorf ''parse allocated address'' [])
       | Some allocated \<Rightarrow> (case ParseAddr (net_GatewayAddress network) of
           None \<Rightarrow> Inl (Errorf ''parse projected gateway address'' [])
         | Some gateway \<Rightarrow> (case ParseAddrPort (net_GatewayEndpoint network) of
             None \<Rightarrow> Inl (Errorf ''parse projected gateway endpoint'' [])
           | Some endpoint \<Rightarrow> (case parse_cidrs (ct_BypassCIDRs (net_ClusterTraffic network)) of
               Inl e \<Rightarrow> Inl e
             | Inr cidrs \<Rightarrow>
                 let config = \<lparr>cfg_PodUID = lref_UID (bind_PodRef spec), cfg_AllocationGeneration = meta_Generation (bind_Meta binding),
                   cfg_GatewayGeneration = net_GatewayGeneration network,
                   cfg_Address = PrefixFrom (pfx_Addr allocated) (pfx_Bits overlay), cfg_OverlayCIDR = overlay,
                   cfg_GatewayAddress = gateway, cfg_GatewayEndpoint = endpoint,
                   cfg_GatewayHealthPort = of_int (net_GatewayHealthPort network), cfg_VNI = of_int (net_VNI network),
                   cfg_MTU = net_MTU network,
                   cfg_ClusterTrafficMode = (if ct_Mode (net_ClusterTraffic network) = ClusterTrafficBypassCluster then TrafficPreserve else TrafficGateway),
                   cfg_ClusterCIDRs = cidrs, cfg_UnderlayInterface = [], cfg_OverlayInterfaceName = [], cfg_ApplicationPortRedirects = []\<rparr> in
                 (case config_Validate config of Some e \<Rightarrow> Inl e | None \<Rightarrow> Inr config))))))"

definition authority :: "(string \<Rightarrow> 8 word list) \<Rightarrow> 'w Service \<Rightarrow> PodIdentity \<Rightarrow> cni_Binding \<Rightarrow> ('w svc, (pod \<times> VPNWorkloadBinding \<times> Config) result) call" where
  "authority H s identity requested w = (case binding_Validate requested (pi_UID identity) of
     Some e \<Rightarrow> (Inl e, w)
   | None \<Rightarrow> (case service_pod s identity w of
       (Inl e, w1) \<Rightarrow> (Inl e, w1)
     | (Inr pod, w1) \<Rightarrow> (case service_binding H s pod w1 of
         (Inl e, w2) \<Rightarrow> (Inl e, w2)
       | (Inr binding, w2) \<Rightarrow>
           if bindingReference binding \<noteq> requested then (Inl (Err ''requested binding identity or generation is stale''), w2)
           else (case ConfigFromBinding binding of Inl e \<Rightarrow> (Inl e, w2) | Inr cfg \<Rightarrow> (Inr (pod, binding, cfg), w2)))))"

definition service_Resolve :: "'w Service \<Rightarrow> PodIdentity \<Rightarrow> ('w svc, cni_Resolution result) call" where
  "service_Resolve s identity w = (case service_pod s identity w of
     (Inl e, w1) \<Rightarrow> (Inl e, w1)
   | (Inr pod, w1) \<Rightarrow> (Inr \<lparr>cr_PodUID = meta_UID (pod_Meta pod), cr_Enrolled = (map_index (meta_Labels (pod_Meta pod)) routeLabel \<noteq> []),
       cr_Terminating = is_deleting (pod_Meta pod)\<rparr>, w1))"

definition service_Binding :: "(string \<Rightarrow> 8 word list) \<Rightarrow> 'w Service \<Rightarrow> PodIdentity \<Rightarrow> ('w svc, cni_Binding result) call" where
  "service_Binding H s identity w = (case service_pod s identity w of
     (Inl e, w1) \<Rightarrow> (Inl e, w1)
   | (Inr pod, w1) \<Rightarrow>
       if map_index (meta_Labels (pod_Meta pod)) routeLabel = [] then (Inl ErrBindingNotReady, w1)
       else (case service_binding H s pod w1 of (Inl e, w2) \<Rightarrow> (Inl e, w2) | (Inr binding, w2) \<Rightarrow> (Inr (bindingReference binding), w2)))"

section \<open>Programming and verification\<close>

definition service_prepare :: "(string \<Rightarrow> 8 word list) \<Rightarrow> 'w Service \<Rightarrow> PodIdentity \<Rightarrow> cni_Binding \<Rightarrow> ('w svc, go_error option) call" where
  "service_prepare H s identity requested w = (case authority H s identity requested w of
     (Inl e, w1) \<Rightarrow> (Some e, w1)
   | (Inr (pod, binding, cfg), w1) \<Rightarrow> (case install s (pi_NetNS identity) (pi_UID identity) w1 of
       (Some e, w2) \<Rightarrow> (Some (Errorf ''re-establish deny-first state'' [e]), w2)
     | (None, w2) \<Rightarrow> (case world (pg_Configure (sv_Programmer s) (pi_NetNS identity) cfg) w2 of
         (Some e, w3) \<Rightarrow> (case install s (pi_NetNS identity) (pi_UID identity) w3 of (_, w4) \<Rightarrow>
           (case observe s binding False w4 of (_, w5) \<Rightarrow>
             (Some (Errorf ''program protected path with deny retained'' [e]), w5)))
       | (None, w3) \<Rightarrow> (case world (pg_Verify (sv_Programmer s) (pi_NetNS identity) cfg) w3 of
           (Some e, w4) \<Rightarrow> (case install s (pi_NetNS identity) (pi_UID identity) w4 of (_, w5) \<Rightarrow>
             (case observe s binding False w5 of (_, w6) \<Rightarrow>
               (Some (Errorf ''verify protected path before startup'' [e]), w6)))
         | (None, w4) \<Rightarrow> (case observe s binding True w4 of (_, w5) \<Rightarrow> (None, w5))))))"

definition service_Prepare :: "(string \<Rightarrow> 8 word list) \<Rightarrow> 'w Service \<Rightarrow> PodIdentity \<Rightarrow> cni_Binding \<Rightarrow> ('w svc, go_error option) call" where
  "service_Prepare H s identity requested w =
     (if \<not> service_Ready s (fst w) then (Some (Err ''node backend or controller observation relay is unavailable''), w)
      else service_prepare H s identity requested w)"

text \<open>The repair of a path that did not verify.\<close>

definition check_repair :: "'w Service \<Rightarrow> PodIdentity \<Rightarrow> VPNWorkloadBinding \<Rightarrow> Config \<Rightarrow> ('w svc, go_error option) call" where
  "check_repair s identity binding cfg w = (case install s (pi_NetNS identity) (pi_UID identity) w of
     (Some e, w1) \<Rightarrow> (case observe s binding False w1 of (_, w2) \<Rightarrow> (Some (Errorf ''restore deny-first state after drift'' [e]), w2))
   | (None, w1) \<Rightarrow> (case world (pg_Configure (sv_Programmer s) (pi_NetNS identity) cfg) w1 of
       (Some e, w2) \<Rightarrow> (case observe s binding False w2 of (_, w3) \<Rightarrow> (Some (Errorf ''repair protected path'' [e]), w3))
     | (None, w2) \<Rightarrow> (case world (pg_Verify (sv_Programmer s) (pi_NetNS identity) cfg) w2 of
         (Some e, w3) \<Rightarrow> (case install s (pi_NetNS identity) (pi_UID identity) w3 of (_, w4) \<Rightarrow>
           (case observe s binding False w4 of (_, w5) \<Rightarrow> (Some (Errorf ''verify repaired protected path'' [e]), w5)))
       | (None, w3) \<Rightarrow> (case observe s binding True w3 of (_, w4) \<Rightarrow> (None, w4)))))"

definition service_check :: "(string \<Rightarrow> 8 word list) \<Rightarrow> 'w Service \<Rightarrow> PodIdentity \<Rightarrow> cni_Binding \<Rightarrow> ('w svc, go_error option) call" where
  "service_check H s identity requested w = (case authority H s identity requested w of
     (Inl e, w1) \<Rightarrow> (case install s (pi_NetNS identity) (pi_UID identity) w1 of (_, w2) \<Rightarrow> (Some e, w2))
   | (Inr (pod, binding, cfg), w1) \<Rightarrow> (case world (pg_Verify (sv_Programmer s) (pi_NetNS identity) cfg) w1 of
       (None, w2) \<Rightarrow> (case observe s binding True w2 of (_, w3) \<Rightarrow> (None, w3))
     | (Some e, w2) \<Rightarrow> check_repair s identity binding cfg w2))"

definition service_Check :: "(string \<Rightarrow> 8 word list) \<Rightarrow> 'w Service \<Rightarrow> PodIdentity \<Rightarrow> cni_Binding \<Rightarrow> ('w svc, go_error option) call" where
  "service_Check H s identity requested w =
     (if \<not> service_Ready s (fst w) then (case install s (pi_NetNS identity) (pi_UID identity) w of (_, w1) \<Rightarrow>
        (Some (Err ''node backend or controller observation relay is unavailable''), w1))
      else service_check H s identity requested w)"

section \<open>Lockdown\<close>

fun lockdown_loop :: "(string \<Rightarrow> 8 word list) \<Rightarrow> 'w Service \<Rightarrow> Attachment list \<Rightarrow> ('w svc, go_error option list) call" where
  "lockdown_loop H s [] w = ([], w)"
| "lockdown_loop H s (a # as) w = (case world (pg_Identity (sv_Programmer s) (pi_NetNS (at_Pod a))) w of
     (Inl e, w1) \<Rightarrow>
       if \<not> errors_Is e ErrNotExist then (case lockdown_loop H s as w1 of (errs, w2) \<Rightarrow>
         (Some (Errorf ''observe durable attachment namespace'' [e]) # errs, w2))
       else lockdown_loop H s as w1
   | (Inr namespaceIdentity, w1) \<Rightarrow>
       if namespaceIdentity \<noteq> at_NamespaceIdentity a then lockdown_loop H s as w1
       else (case install s (pi_NetNS (at_Pod a)) (pi_UID (at_Pod a)) w1 of
         (Some e, w2) \<Rightarrow> (case lockdown_loop H s as w2 of (errs, w3) \<Rightarrow> (Some e # errs, w3))
       | (None, w2) \<Rightarrow> (case rawBinding H s (pi_Namespace (at_Pod a)) (pi_UID (at_Pod a)) w2 of
           (Inl _, w3) \<Rightarrow> lockdown_loop H s as w3
         | (Inr binding, w3) \<Rightarrow> (case observe s binding False w3 of (_, w4) \<Rightarrow> lockdown_loop H s as w4))))"

fun observe_bindings :: "'w Service \<Rightarrow> VPNWorkloadBinding list \<Rightarrow> 'w svc \<Rightarrow> 'w svc" where
  "observe_bindings s [] w = w"
| "observe_bindings s (b # bs) w =
     (if bind_NodeName (bind_Spec b) \<noteq> sv_NodeName s \<or> meta_Generation (bind_Meta b) < 1 \<or> meta_UID (bind_Meta b) = [] \<or>
         lref_UID (bind_PodRef (bind_Spec b)) = [] \<or> nref_UID (bind_GatewayRef (bind_Spec b)) = []
        then observe_bindings s bs w
      else observe_bindings s bs (snd (observe s b False w)))"

definition LockdownAll :: "(string \<Rightarrow> 8 word list) \<Rightarrow> 'w Service \<Rightarrow> ('w svc, go_error option) call" where
  "LockdownAll H s w = (case world (as_ListAll (sv_Store s)) w of
     (Inl e, w1) \<Rightarrow> (Some e, w1)
   | (Inr attachments, w1) \<Rightarrow> (case lockdown_loop H s attachments w1 of (errs, w2) \<Rightarrow>
       let bindingReader = (case sv_BindingReader s of Some R \<Rightarrow> R | None \<Rightarrow> sv_Reader s) in
       (case world (k_list (cl_bindings bindingReader) (\<lambda>_. True)) w2 of
          (Inl e, w3) \<Rightarrow> (errors_Join (errs @ [Some (Errorf ''list node bindings for withdrawal'' [e])]), w3)
        | (Inr bindings, w3) \<Rightarrow> (errors_Join errs, observe_bindings s bindings w3))))"

section \<open>Withdrawal\<close>

definition exactPodAbsent :: "go_error \<Rightarrow> bool" where
  "exactPodAbsent e \<longleftrightarrow> IsNotFound e \<or> errors_Is e ErrPodUIDMismatch"

definition exactAttachment :: "'w Service \<Rightarrow> PodIdentity \<Rightarrow> ('w svc, Attachment result) call" where
  "exactAttachment s identity w = (case world (as_ListAll (sv_Store s)) w of
     (Inl e, w1) \<Rightarrow> (Inl (Errorf ''list durable attachments for withdrawal'' [e]), w1)
   | (Inr attachments, w1) \<Rightarrow> (case find (\<lambda>a. at_Pod a = identity) attachments of
       Some a \<Rightarrow> (Inr a, w1)
     | None \<Rightarrow> (Inl (Err ''exact durable attachment is unavailable''), w1)))"

definition withdrawalBinding :: "(string \<Rightarrow> 8 word list) \<Rightarrow> 'w Service \<Rightarrow> string \<Rightarrow> string \<Rightarrow> ('w svc, VPNWorkloadBinding option result) call" where
  "withdrawalBinding H s namespace podUID w = (case world (k_get (cl_bindings (sv_Reader s)) (namespace, BindingName H podUID)) w of
     (Inl e, w1) \<Rightarrow> if IsNotFound e then (Inr None, w1) else (Inl (Errorf ''resolve exact binding for withdrawal'' [e]), w1)
   | (Inr binding, w1) \<Rightarrow>
       if lref_UID (bind_PodRef (bind_Spec binding)) \<noteq> podUID
         then (Inl (Err ''withdrawal binding Pod UID does not match durable attachment''), w1)
       else (Inr (Some binding), w1))"

text \<open>Publication of the withdrawal of one binding, the same in both callers.\<close>

definition publishWithdrawal :: "'w Service \<Rightarrow> VPNWorkloadBinding \<Rightarrow> ('w svc, go_error option) call" where
  "publishWithdrawal s binding w = (case sv_WithdrawalPublisher s of
     None \<Rightarrow> (Some (Err ''synchronous withdrawal publisher is unavailable''), w)
   | Some publisher \<Rightarrow> (case observe s binding False w of (ob, w1) \<Rightarrow> (case service_Report s w1 of (report, w2) \<Rightarrow>
       (case world (publisher (report\<lparr>rp_Observations := [ob]\<rparr>)) w2 of
          (Some e, w3) \<Rightarrow> (Some (Errorf ''publish exact attachment withdrawal'' [e]), w3)
        | (None, w3) \<Rightarrow> (None, w3)))))"

definition withdraw_namespace :: "'w Service \<Rightarrow> PodIdentity \<Rightarrow> bool \<Rightarrow> ('w svc, go_error option) call" where
  "withdraw_namespace s identity live w =
     (if live then (case install s (pi_NetNS identity) (pi_UID identity) w of
        (Some e, w1) \<Rightarrow> (Some (Errorf ''withdraw allow path while retaining deny'' [e]), w1) | (None, w1) \<Rightarrow> (None, w1))
      else (case world (pg_Cleanup (sv_Programmer s) (pi_NetNS identity) (pi_UID identity)) w of
        (Some e, w1) \<Rightarrow> (Some (Errorf ''clean terminating exact attachment'' [e]), w1) | (None, w1) \<Rightarrow> (None, w1)))"

definition withdraw_binding :: "(string \<Rightarrow> 8 word list) \<Rightarrow> 'w Service \<Rightarrow> PodIdentity \<Rightarrow> ('w svc, go_error option) call" where
  "withdraw_binding H s identity w = (case withdrawalBinding H s (pi_Namespace identity) (pi_UID identity) w of
     (Inl e, w1) \<Rightarrow> (Some e, w1)
   | (Inr None, w1) \<Rightarrow> (None, forgetObservation (pi_UID identity) w1)
   | (Inr (Some binding), w1) \<Rightarrow> (case publishWithdrawal s binding w1 of
       (Some e, w2) \<Rightarrow> (Some e, w2)
     | (None, w2) \<Rightarrow> (None, forgetObservation (pi_UID identity) w2)))"

definition withdraw_rest :: "(string \<Rightarrow> 8 word list) \<Rightarrow> 'w Service \<Rightarrow> Attachment \<Rightarrow> bool \<Rightarrow> ('w svc, go_error option) call" where
  "withdraw_rest H s attachment live w = (let identity = at_Pod attachment in
     case world (pg_Identity (sv_Programmer s) (pi_NetNS identity)) w of
       (Inl e, w1) \<Rightarrow>
         if \<not> errors_Is e ErrNotExist then (Some (Errorf ''observe exact attachment namespace for withdrawal'' [e]), w1)
         else withdraw_binding H s identity w1
     | (Inr namespaceIdentity, w1) \<Rightarrow>
         if namespaceIdentity \<noteq> at_NamespaceIdentity attachment then withdraw_binding H s identity w1
         else (case withdraw_namespace s identity live w1 of
           (Some e, w2) \<Rightarrow> (Some e, w2) | (None, w2) \<Rightarrow> withdraw_binding H s identity w2))"

definition withdrawAttachment :: "(string \<Rightarrow> 8 word list) \<Rightarrow> 'w Service \<Rightarrow> Attachment \<Rightarrow> ('w svc, go_error option) call" where
  "withdrawAttachment H s attachment w = (let identity = at_Pod attachment in
     case service_pod s identity w of (podResult, w1) \<Rightarrow>
     (case podResult of
        Inl e \<Rightarrow> if \<not> exactPodAbsent e then (Some e, w1) else withdraw_rest H s attachment False w1
      | Inr pod \<Rightarrow> withdraw_rest H s attachment (\<not> is_deleting (pod_Meta pod)) w1))"

definition Withdraw :: "(string \<Rightarrow> 8 word list) \<Rightarrow> 'w Service \<Rightarrow> PodIdentity \<Rightarrow> ('w svc, go_error option) call" where
  "Withdraw H s identity w = (case pod_Validate identity of Some e \<Rightarrow> (Some e, w)
   | None \<Rightarrow> (case exactAttachment s identity w of
       (Inl e, w1) \<Rightarrow> (Some e, w1)
     | (Inr attachment, w1) \<Rightarrow> withdrawAttachment H s attachment w1))"

section \<open>Drift reconciliation\<close>

definition observeNotReady :: "(string \<Rightarrow> 8 word list) \<Rightarrow> 'w Service \<Rightarrow> string \<Rightarrow> string \<Rightarrow> 'w svc \<Rightarrow> 'w svc" where
  "observeNotReady H s namespace podUID w = (case rawBinding H s namespace podUID w of
     (Inl _, w1) \<Rightarrow> w1 | (Inr binding, w1) \<Rightarrow> snd (observe s binding False w1))"

definition attachmentIsYoung :: "Attachment \<Rightarrow> time \<Rightarrow> bool" where
  "attachmentIsYoung a now \<longleftrightarrow> \<not> time_IsZero (at_UpdatedAt a) \<and> time_Sub now (at_UpdatedAt a) < lockedDownReconcileDelay"

fun liveAttachments :: "'w Service \<Rightarrow> Attachment list \<Rightarrow> ('w svc, Attachment list \<times> go_error option list) call" where
  "liveAttachments s [] w = (([], []), w)"
| "liveAttachments s (a # as) w = (case world (pg_Identity (sv_Programmer s) (pi_NetNS (at_Pod a))) w of
     (Inl e, w1) \<Rightarrow> (case liveAttachments s as w1 of ((live, errs), w2) \<Rightarrow>
       ((live, if \<not> errors_Is e ErrNotExist then Some (Errorf ''observe durable attachment namespace'' [e]) # errs else errs), w2))
   | (Inr namespaceIdentity, w1) \<Rightarrow> (case liveAttachments s as w1 of ((live, errs), w2) \<Rightarrow>
       ((if namespaceIdentity = at_NamespaceIdentity a then a # live else live, errs), w2)))"

fun lockdownAttachments :: "'w Service \<Rightarrow> Attachment list \<Rightarrow> ('w svc, go_error option list) call" where
  "lockdownAttachments s [] w = ([], w)"
| "lockdownAttachments s (a # as) w = (case install s (pi_NetNS (at_Pod a)) (pi_UID (at_Pod a)) w of (e, w1) \<Rightarrow>
     (case lockdownAttachments s as w1 of (errs, w2) \<Rightarrow> (e # errs, w2)))"

fun observe_group :: "(string \<Rightarrow> 8 word list) \<Rightarrow> 'w Service \<Rightarrow> Attachment list \<Rightarrow> 'w svc \<Rightarrow> 'w svc" where
  "observe_group H s [] w = w"
| "observe_group H s (a # as) w = observe_group H s as (observeNotReady H s (pi_Namespace (at_Pod a)) (pi_UID (at_Pod a)) w)"

definition quarantineAttachmentGroup :: "(string \<Rightarrow> 8 word list) \<Rightarrow> 'w Service \<Rightarrow> Attachment list \<Rightarrow> go_error \<Rightarrow> ('w svc, go_error option) call" where
  "quarantineAttachmentGroup H s attachments cause w = (case liveAttachments s attachments w of ((live, errs), w1) \<Rightarrow>
     (case lockdownAttachments s live (observe_group H s attachments w1) of (lockErrs, w2) \<Rightarrow>
       (errors_Join [Some cause, errors_Join errs, errors_Join lockErrs], w2)))"

fun cleanup_loop :: "'w Service \<Rightarrow> Attachment list \<Rightarrow> ('w svc, go_error option list) call" where
  "cleanup_loop s [] w = ([], w)"
| "cleanup_loop s (a # as) w = (case world (pg_Cleanup (sv_Programmer s) (pi_NetNS (at_Pod a)) (pi_UID (at_Pod a))) w of (e, w1) \<Rightarrow>
     (case cleanup_loop s as w1 of (errs, w2) \<Rightarrow> (e # errs, w2)))"

fun delete_loop :: "'w Service \<Rightarrow> Attachment list \<Rightarrow> ('w svc, go_error option list) call" where
  "delete_loop s [] w = ([], w)"
| "delete_loop s (a # as) w = (case world (as_Delete (sv_Store s) (at_Key a)) w of (e, w1) \<Rightarrow>
     (case delete_loop s as w1 of (errs, w2) \<Rightarrow> (map_option (\<lambda>e. Errorf ''delete withdrawn Pod attachment'' [e]) e # errs, w2)))"

definition withdraw_records :: "'w Service \<Rightarrow> Attachment list \<Rightarrow> string \<Rightarrow> ('w svc, go_error option) call" where
  "withdraw_records s attachments podUID w = (case delete_loop s attachments w of (errs, w1) \<Rightarrow>
     (case errors_Join errs of Some e \<Rightarrow> (Some e, w1) | None \<Rightarrow> (None, forgetObservation podUID w1)))"

definition withdrawAttachmentGroup :: "(string \<Rightarrow> 8 word list) \<Rightarrow> 'w Service \<Rightarrow> Attachment list \<Rightarrow> ('w svc, go_error option) call" where
  "withdrawAttachmentGroup H s attachments w = (case liveAttachments s attachments w of ((live, errs), w1) \<Rightarrow>
     (case errors_Join errs of Some e \<Rightarrow> (Some e, w1)
      | None \<Rightarrow> (case cleanup_loop s live w1 of (cleanupErrs, w2) \<Rightarrow>
          (case errors_Join cleanupErrs of Some e \<Rightarrow> (Some e, w2)
           | None \<Rightarrow> let canonical = at_Pod (hd attachments) in
               (case withdrawalBinding H s (pi_Namespace canonical) (pi_UID canonical) w2 of
                  (Inl e, w3) \<Rightarrow> (Some e, w3)
                | (Inr None, w3) \<Rightarrow> withdraw_records s attachments (pi_UID canonical) w3
                | (Inr (Some binding), w3) \<Rightarrow> (case publishWithdrawal s binding w3 of
                    (Some e, w4) \<Rightarrow> (Some e, w4)
                  | (None, w4) \<Rightarrow> withdraw_records s attachments (pi_UID canonical) w4))))))"

text \<open>Removal of superseded records once the current sandbox has been verified.\<close>

fun supersede_loop :: "'w Service \<Rightarrow> cni_Key \<Rightarrow> Attachment list \<Rightarrow> ('w svc, go_error option list) call" where
  "supersede_loop s current [] w = ([], w)"
| "supersede_loop s current (a # as) w =
     (if at_Key a = current then supersede_loop s current as w
      else (case (if at_Phase a = PhaseLockedDown then (case world (sv_now s) w of (t, w1) \<Rightarrow> (attachmentIsYoung a t, w1)) else (False, w)) of
        (True, w1) \<Rightarrow> supersede_loop s current as w1
      | (False, w1) \<Rightarrow> (case world (as_Delete (sv_Store s) (at_Key a)) w1 of (e, w2) \<Rightarrow>
          (case supersede_loop s current as w2 of (errs, w3) \<Rightarrow>
            (map_option (\<lambda>e. Errorf ''delete quarantined Pod attachment'' [e]) e # errs, w3)))))"

definition supersede :: "'w Service \<Rightarrow> Attachment \<Rightarrow> Attachment list \<Rightarrow> ('w svc, go_error option) call" where
  "supersede s current attachments w = (case supersede_loop s (at_Key current) attachments w of (errs, w1) \<Rightarrow> (errors_Join errs, w1))"

definition adopt_generation :: "'w Service \<Rightarrow> VPNWorkloadBinding \<Rightarrow> Attachment \<Rightarrow> int \<Rightarrow> ('w svc, Attachment result) call" where
  "adopt_generation s binding current generation w =
     (if at_BindingGeneration current = generation then (Inr current, w)
      else (case world (sv_now s) w of (t, w1) \<Rightarrow>
        let adopted = current\<lparr>at_BindingGeneration := generation, at_UpdatedAt := t\<rparr> in
        (case world (as_Save (sv_Store s) adopted) w1 of
           (None, w2) \<Rightarrow> (Inr adopted, w2)
         | (Some e, w2) \<Rightarrow> (case install s (pi_NetNS (at_Pod current)) (pi_UID (at_Pod current)) w2 of (lockErr, w3) \<Rightarrow>
             (case observe s binding False w3 of (_, w4) \<Rightarrow>
               (Inl (the (errors_Join [Some (Errorf ''persist adopted binding generation'' [e]), lockErr])), w4))))))"

definition reconcile_ready :: "(string \<Rightarrow> 8 word list) \<Rightarrow> 'w Service \<Rightarrow> pod \<Rightarrow> Attachment \<Rightarrow> Attachment list \<Rightarrow> ('w svc, go_error option) call" where
  "reconcile_ready H s pod current attachments w = (case service_binding H s pod w of
     (Inl e, w1) \<Rightarrow> (case install s (pi_NetNS (at_Pod current)) (pi_UID (at_Pod current)) w1 of (lockErr, w2) \<Rightarrow>
       let canonical = at_Pod (hd attachments) in
       (errors_Join [Some (Err ''durable attachment binding was revoked or replaced''), Some e, lockErr],
        observeNotReady H s (pi_Namespace canonical) (pi_UID canonical) w2))
   | (Inr binding, w1) \<Rightarrow>
       if meta_UID (bind_Meta binding) \<noteq> at_BindingUID current \<or> nref_UID (bind_GatewayRef (bind_Spec binding)) \<noteq> at_GatewayUID current
         then (case install s (pi_NetNS (at_Pod current)) (pi_UID (at_Pod current)) w1 of (lockErr, w2) \<Rightarrow>
           (errors_Join [Some (Err ''durable attachment binding was revoked or replaced''), None, lockErr], snd (observe s binding False w2)))
       else let requested = bindingReference binding in
         (case (if at_BindingGeneration current \<noteq> cb_Generation requested then service_prepare H s (at_Pod current) requested w1
                else service_check H s (at_Pod current) requested w1) of
            (Some e, w2) \<Rightarrow> (case observe s binding False w2 of (_, w3) \<Rightarrow> (Some e, w3))
          | (None, w2) \<Rightarrow> (case adopt_generation s binding current (cb_Generation requested) w2 of
              (Inl e, w3) \<Rightarrow> (Some e, w3)
            | (Inr adopted, w3) \<Rightarrow> supersede s adopted attachments w3)))"

definition reconcile_live :: "(string \<Rightarrow> 8 word list) \<Rightarrow> 'w Service \<Rightarrow> pod \<Rightarrow> Attachment list \<Rightarrow> ('w svc, go_error option) call" where
  "reconcile_live H s pod attachments w = (
     let canonical = at_Pod (hd attachments);
         notReady = observeNotReady H s (pi_Namespace canonical) (pi_UID canonical) in
     case liveAttachments s attachments w of ((live, errs), w1) \<Rightarrow>
     (case errors_Join errs of
        Some e \<Rightarrow> (case lockdownAttachments s live (notReady w1) of (lockErrs, w2) \<Rightarrow> (errors_Join [Some e, errors_Join lockErrs], w2))
      | None \<Rightarrow> (case live of
          [] \<Rightarrow> (None, notReady w1)
        | current # rest \<Rightarrow>
            if rest \<noteq> [] then (case lockdownAttachments s live (notReady w1) of (lockErrs, w2) \<Rightarrow>
              (errors_Join [Some ErrSandboxAmbiguous, errors_Join lockErrs], w2))
            else if at_Phase current = PhaseLockedDown then (case world (sv_now s) (notReady w1) of (t, w2) \<Rightarrow>
              if attachmentIsYoung current t then (None, w2)
              else install s (pi_NetNS (at_Pod current)) (pi_UID (at_Pod current)) w2)
            else reconcile_ready H s pod current attachments w1)))"

definition attachment_order :: "Attachment \<Rightarrow> string \<times> string \<times> string" where
  "attachment_order a = (at_Network a, pi_ContainerID (at_Pod a), pi_IfName (at_Pod a))"

definition reconcileAttachmentGroup :: "(string \<Rightarrow> 8 word list) \<Rightarrow> 'w Service \<Rightarrow> Attachment list \<Rightarrow> ('w svc, go_error option) call" where
  "reconcileAttachmentGroup H s grouped w = (
     let attachments = sort_key attachment_order grouped; canonical = at_Pod (hd attachments) in
     if list_ex (\<lambda>a. pi_Namespace (at_Pod a) \<noteq> pi_Namespace canonical \<or> pi_Name (at_Pod a) \<noteq> pi_Name canonical) (tl attachments)
       then quarantineAttachmentGroup H s attachments (Err ''durable attachments disagree on Pod namespace or name'') w
     else case service_pod s canonical w of
       (Inl e, w1) \<Rightarrow>
         if exactPodAbsent e then withdrawAttachmentGroup H s attachments w1
         else (Some e, observeNotReady H s (pi_Namespace canonical) (pi_UID canonical) w1)
     | (Inr pod, w1) \<Rightarrow>
         if is_deleting (pod_Meta pod) then withdrawAttachmentGroup H s attachments w1
         else reconcile_live H s pod attachments w1)"

fun reconcile_groups :: "(string \<Rightarrow> 8 word list) \<Rightarrow> 'w Service \<Rightarrow> Attachment list \<Rightarrow> string list \<Rightarrow> ('w svc, go_error option list) call" where
  "reconcile_groups H s attachments [] w = ([], w)"
| "reconcile_groups H s attachments (podUID # podUIDs) w =
     (case reconcileAttachmentGroup H s (filter (\<lambda>a. pi_UID (at_Pod a) = podUID) attachments) w of (e, w1) \<Rightarrow>
       (case reconcile_groups H s attachments podUIDs w1 of (errs, w2) \<Rightarrow>
         (map_option (\<lambda>e. Errorf ''reconcile Pod UID'' [e]) e # errs, w2)))"

definition ReconcileAll :: "(string \<Rightarrow> 8 word list) \<Rightarrow> 'w Service \<Rightarrow> ('w svc, go_error option) call" where
  "ReconcileAll H s w =
     (if sv_TransitionHeld s then LockdownAll H s w
      else case world (as_ListAll (sv_Store s)) w of
        (Inl e, w1) \<Rightarrow> (Some (Errorf ''list durable CNI attachments'' [e]), w1)
      | (Inr listed, w1) \<Rightarrow>
          let attachments = filter (\<lambda>a. pi_UID (at_Pod a) \<noteq> [] \<and> pi_NetNS (at_Pod a) \<noteq> []) listed in
          (case reconcile_groups H s attachments (sort (remdups (map (pi_UID \<circ> at_Pod) attachments))) w1 of (errs, w2) \<Rightarrow>
            (errors_Join errs, w2)))"

end
