(* ===== verification/Call_Frames.thy ===== *)
theory Call_Frames
  imports Waycloak_Prelude
begin

text \<open>
  What a call does to the world, compositionally: \<open>moves R c\<close> says that every run of \<open>c\<close> relates the world
  before to the world after by \<open>R\<close>. For a preorder the rules follow the shape of the definitions: returning,
  sequencing, and case distinctions on booleans, options, results and pairs.
\<close>

named_theorems moves_intros \<open>rules that follow the shape of a call\<close>

definition moves :: "('w \<Rightarrow> 'w \<Rightarrow> bool) \<Rightarrow> ('w, 'a) call \<Rightarrow> bool" where
  "moves R c \<longleftrightarrow> (\<forall>w. R w (snd (c w)))"

lemma movesD: "moves R c \<Longrightarrow> c w = (r, w') \<Longrightarrow> R w w'"
  unfolding moves_def by (metis snd_conv)

lemma moves_snd: "moves R c \<Longrightarrow> R w (snd (c w))"
  by (simp add: moves_def)

lemma movesI: "(\<And>w r w'. c w = (r, w') \<Longrightarrow> R w w') \<Longrightarrow> moves R c"
  unfolding moves_def by (metis prod.collapse)

lemma moves_weaken: "moves R c \<Longrightarrow> (\<And>w w'. R w w' \<Longrightarrow> S w w') \<Longrightarrow> moves S c"
  unfolding moves_def by blast

text \<open>To unfold a recursion equation below a call.\<close>

lemma moves_ext: "(\<And>w. c w = d w) \<Longrightarrow> moves R d \<Longrightarrow> moves R c"
  by (simp add: moves_def)

lemma keeps_moves: "keeps f c \<longleftrightarrow> moves (\<lambda>w w'. f w' = f w) c"
  by (simp add: keeps_def moves_def)

text \<open>A preorder on worlds.\<close>

locale world_order =
  fixes R :: "'w \<Rightarrow> 'w \<Rightarrow> bool"
  assumes refl: "R w w" and trans: "R w1 w2 \<Longrightarrow> R w2 w3 \<Longrightarrow> R w1 w3"
begin

lemma moves_return: "moves R (\<lambda>w. (x, w))"
  by (simp add: moves_def refl)

lemma moves_update: "moves R c \<Longrightarrow> moves R (\<lambda>w. (g (fst (c w)), snd (c w)))"
  by (simp add: moves_def)

lemma moves_bind: "moves R c \<Longrightarrow> (\<And>r. moves R (f r)) \<Longrightarrow> moves R (\<lambda>w. case c w of (r, w1) \<Rightarrow> f r w1)"
  unfolding moves_def by (auto split: prod.splits) (metis snd_conv trans)

lemma moves_bind_post:
  "moves R c \<Longrightarrow> (\<And>w r w1. c w = (r, w1) \<Longrightarrow> Q r) \<Longrightarrow> (\<And>r. Q r \<Longrightarrow> moves R (f r)) \<Longrightarrow> moves R (\<lambda>w. case c w of (r, w1) \<Rightarrow> f r w1)"
  unfolding moves_def by (auto split: prod.splits) (metis snd_conv trans)

lemma moves_then: "R w (g w) \<Longrightarrow> moves R c \<Longrightarrow> R w (snd (c (g w)))"
  unfolding moves_def by (blast intro: trans)

end

lemma moves_if: "(b \<Longrightarrow> moves R c) \<Longrightarrow> (\<not> b \<Longrightarrow> moves R d) \<Longrightarrow> moves R (\<lambda>w. if b then c w else d w)"
  by (simp add: moves_def)

lemma moves_if_world: "(\<And>w. moves R c) \<Longrightarrow> moves R d \<Longrightarrow> moves R (\<lambda>w. if b w then c w else d w)"
  by (simp add: moves_def)

lemma moves_option: "(x = None \<Longrightarrow> moves R c) \<Longrightarrow> (\<And>y. x = Some y \<Longrightarrow> moves R (d y)) \<Longrightarrow> moves R (\<lambda>w. case x of None \<Rightarrow> c w | Some y \<Rightarrow> d y w)"
  by (cases x) simp_all

lemma moves_sum: "(\<And>e. x = Inl e \<Longrightarrow> moves R (c e)) \<Longrightarrow> (\<And>y. x = Inr y \<Longrightarrow> moves R (d y)) \<Longrightarrow> moves R (\<lambda>w. case x of Inl e \<Rightarrow> c e w | Inr y \<Rightarrow> d y w)"
  by (cases x) simp_all

lemma moves_pair: "(\<And>a b. x = (a, b) \<Longrightarrow> moves R (c a b)) \<Longrightarrow> moves R (\<lambda>w. case x of (a, b) \<Rightarrow> c a b w)"
  by (cases x) simp

lemma moves_list: "(x = [] \<Longrightarrow> moves R c) \<Longrightarrow> (\<And>y ys. x = y # ys \<Longrightarrow> moves R (d y ys)) \<Longrightarrow> moves R (\<lambda>w. case x of [] \<Rightarrow> c w | y # ys \<Rightarrow> d y ys w)"
  by (cases x) simp_all

lemma moves_let: "moves R (c x) \<Longrightarrow> moves R (\<lambda>w. let y = x in c y w)"
  by simp

lemmas moves_cases [moves_intros] = moves_if moves_option moves_sum moves_pair moves_list moves_let

end
