(* ===== verification/Node_Agent_Safety.thy ===== *)
theory Node_Agent_Safety
  imports Node_Agent Call_Frames
begin

text \<open>
  Safety of the node agent. \<open>sealed w ns uid\<close> says that in the network namespace at path \<open>ns\<close> the policy of Pod
  \<open>uid\<close> denies everything but loopback; \<open>ident w ns\<close> is the identity of that namespace; \<open>apart\<close> holds of two
  Pod UIDs whose policies are kept under different names.
\<close>

section \<open>What the agent relies on\<close>

locale path_programmer =
  fixes P :: "'w Programmer" and sealed :: "'w \<Rightarrow> string \<Rightarrow> string \<Rightarrow> bool"
    and ident :: "'w \<Rightarrow> string \<rightharpoonup> string" and apart :: "string \<Rightarrow> string \<Rightarrow> bool"
  assumes identity_keeps: "keeps sealed (pg_Identity P ns)" "keeps ident (pg_Identity P ns)"
    and identity_ok: "pg_Identity P ns w = (Inr i, w') \<Longrightarrow> ident w ns = Some i"
    and identity_missing: "pg_Identity P ns w = (Inl e, w') \<Longrightarrow> errors_Is e ErrNotExist \<Longrightarrow> ident w ns = None"
    and install_ok: "pg_InstallLockdown P ns uid w = (None, w') \<Longrightarrow> sealed w' ns uid"
    and install_mono: "pg_InstallLockdown P ns uid w = (r, w') \<Longrightarrow> sealed w ns' uid' \<Longrightarrow> sealed w' ns' uid'"
    and install_ident: "keeps ident (pg_InstallLockdown P ns uid)"
    and configure_mono: "pg_Configure P ns cfg w = (r, w') \<Longrightarrow> apart uid (cfg_PodUID cfg) \<Longrightarrow> sealed w ns' uid \<Longrightarrow> sealed w' ns' uid"
    and configure_ident: "keeps ident (pg_Configure P ns cfg)"
    and verify_keeps: "keeps sealed (pg_Verify P ns cfg)" "keeps ident (pg_Verify P ns cfg)"
    and cleanup_ok: "pg_Cleanup P ns uid w = (None, w') \<Longrightarrow> sealed w' ns uid"
    and cleanup_mono: "pg_Cleanup P ns uid w = (r, w') \<Longrightarrow> sealed w ns' uid' \<Longrightarrow> sealed w' ns' uid'"
    and cleanup_ident: "keeps ident (pg_Cleanup P ns uid)"

text \<open>The other collaborators leave the network namespaces alone.\<close>

locale agent_world = path_programmer "sv_Programmer s" sealed ident apart
  for s :: "'w Service" and sealed ident apart +
  assumes pods_keep: "keeps sealed (k_get (cl_pods (sv_Reader s)) k)" "keeps ident (k_get (cl_pods (sv_Reader s)) k)"
    and bindings_keep: "keeps sealed (k_get (cl_bindings (sv_Reader s)) k)" "keeps ident (k_get (cl_bindings (sv_Reader s)) k)"
    and bindings_list_keep: "R = sv_Reader s \<or> Some R = sv_BindingReader s \<Longrightarrow> keeps sealed (k_list (cl_bindings R) Q)"
      "R = sv_Reader s \<or> Some R = sv_BindingReader s \<Longrightarrow> keeps ident (k_list (cl_bindings R) Q)"
    and now_keeps: "keeps sealed (sv_now s)" "keeps ident (sv_now s)"
    and store_list_keeps: "keeps sealed (as_ListAll (sv_Store s))" "keeps ident (as_ListAll (sv_Store s))"
    and store_save_keeps: "keeps sealed (as_Save (sv_Store s) a)" "keeps ident (as_Save (sv_Store s) a)"
    and store_delete_keeps: "keeps sealed (as_Delete (sv_Store s) key)" "keeps ident (as_Delete (sv_Store s) key)"
    and publisher_keeps: "sv_WithdrawalPublisher s = Some publisher \<Longrightarrow> keeps sealed (publisher report)"
      "sv_WithdrawalPublisher s = Some publisher \<Longrightarrow> keeps ident (publisher report)"

section \<open>What an operation on one Pod may touch\<close>

text \<open>
  \<open>touches u\<close> relates worlds between which only the Pod \<open>u\<close> was acted on: namespaces keep their identities, the
  policies of other Pods stay sealed, and the observations of other Pods stay as they are. \<open>seals\<close> relates
  worlds between which nothing was opened at all.
\<close>

definition touches :: "('w \<Rightarrow> string \<Rightarrow> string \<Rightarrow> bool) \<Rightarrow> ('w \<Rightarrow> string \<rightharpoonup> string) \<Rightarrow> (string \<Rightarrow> string \<Rightarrow> bool) \<Rightarrow> string \<Rightarrow> 'w svc \<Rightarrow> 'w svc \<Rightarrow> bool" where
  "touches sealed ident apart u w w' \<longleftrightarrow> ident (snd w') = ident (snd w) \<and>
     (\<forall>ns v. apart v u \<longrightarrow> sealed (snd w) ns v \<longrightarrow> sealed (snd w') ns v) \<and>
     (\<forall>v. v \<noteq> u \<longrightarrow> map_of (ag_observations (fst w')) v = map_of (ag_observations (fst w)) v)"

definition seals :: "('w \<Rightarrow> string \<Rightarrow> string \<Rightarrow> bool) \<Rightarrow> ('w \<Rightarrow> string \<rightharpoonup> string) \<Rightarrow> 'w svc \<Rightarrow> 'w svc \<Rightarrow> bool" where
  "seals sealed ident w w' \<longleftrightarrow> ident (snd w') = ident (snd w) \<and> (\<forall>ns v. sealed (snd w) ns v \<longrightarrow> sealed (snd w') ns v)"

definition quiet :: "('w \<Rightarrow> string \<Rightarrow> string \<Rightarrow> bool) \<Rightarrow> ('w \<Rightarrow> string \<rightharpoonup> string) \<Rightarrow> 'w svc \<Rightarrow> 'w svc \<Rightarrow> bool" where
  "quiet sealed ident w w' \<longleftrightarrow> ident (snd w') = ident (snd w) \<and> sealed (snd w') = sealed (snd w) \<and> fst w' = fst w"

interpretation touching: world_order "touches sealed ident apart u" for sealed ident apart u
  by unfold_locales (auto simp: touches_def)

interpretation sealing: world_order "seals sealed ident" for sealed ident
  by unfold_locales (auto simp: seals_def)

interpretation resting: world_order "quiet sealed ident" for sealed ident
  by unfold_locales (auto simp: quiet_def)

lemma quiet_touches: "quiet sealed ident w w' \<Longrightarrow> touches sealed ident apart u w w'"
  by (auto simp: quiet_def touches_def)

lemma quiet_seals: "quiet sealed ident w w' \<Longrightarrow> seals sealed ident w w'"
  by (auto simp: quiet_def seals_def)

lemma quiet_world: "keeps sealed c \<Longrightarrow> keeps ident c \<Longrightarrow> moves (quiet sealed ident) (world c)"
  by (rule movesI) (auto simp: world_def quiet_def split: prod.splits dest: keepsD)

lemmas sealing_intros = sealing.moves_return sealing.moves_bind moves_cases
lemmas touching_intros = touching.moves_return touching.moves_bind moves_cases
lemmas resting_intros = resting.moves_return resting.moves_bind moves_cases

lemma observe_moves:
  assumes "keeps sealed (sv_now s)" "keeps ident (sv_now s)"
  shows "moves (seals sealed ident) (observe s b ready)"
    and "lref_UID (bind_PodRef (bind_Spec b)) = u \<Longrightarrow> moves (touches sealed ident apart u) (observe s b ready)"
proof -
  have "sealed w' = sealed w" "ident w' = ident w" if "sv_now s w = (t, w')" for t w w'
    using that assms by (simp_all add: keepsD [where c = "sv_now s"])
  then show "moves (seals sealed ident) (observe s b ready)"
    and "lref_UID (bind_PodRef (bind_Spec b)) = u \<Longrightarrow> moves (touches sealed ident apart u) (observe s b ready)"
    by (auto intro!: movesI simp: observe_def world_def seals_def touches_def observation_def Let_def update_conv' split: prod.splits)
qed

lemma forget_moves: "seals sealed ident w (forgetObservation u w)" "touches sealed ident apart u w (forgetObservation u w)"
  by (auto simp: forgetObservation_def seals_def touches_def AList.delete_conv' split: prod.splits)

text \<open>A recorded attachment whose namespace is still the one recorded, and one whose Pod is sealed there.\<close>

definition live_at :: "('w \<Rightarrow> string \<rightharpoonup> string) \<Rightarrow> 'w \<Rightarrow> Attachment \<Rightarrow> bool" where
  "live_at ident w a \<longleftrightarrow> ident w (pi_NetNS (at_Pod a)) = Some (at_NamespaceIdentity a)"

definition sealed_at :: "('w \<Rightarrow> string \<Rightarrow> string \<Rightarrow> bool) \<Rightarrow> 'w \<Rightarrow> Attachment \<Rightarrow> bool" where
  "sealed_at sealed w a \<longleftrightarrow> sealed w (pi_NetNS (at_Pod a)) (pi_UID (at_Pod a))"

section \<open>Runs of the agent\<close>

text \<open>What the local protocol and the reconcile loop ask of the agent, in any order.\<close>

datatype agent_op = DoResolve PodIdentity | DoBinding PodIdentity | DoPrepare PodIdentity cni_Binding | DoCheck PodIdentity cni_Binding
  | DoWithdraw PodIdentity | DoLockdownAll | DoReconcileAll | DoRelayHealthy bool | DoBackendHealthy bool

fun perform :: "(string \<Rightarrow> 8 word list) \<Rightarrow> 'w Service \<Rightarrow> agent_op \<Rightarrow> 'w svc \<Rightarrow> 'w svc" where
  "perform H s (DoResolve identity) w = snd (service_Resolve s identity w)"
| "perform H s (DoBinding identity) w = snd (service_Binding H s identity w)"
| "perform H s (DoPrepare identity requested) w = snd (service_Prepare H s identity requested w)"
| "perform H s (DoCheck identity requested) w = snd (service_Check H s identity requested w)"
| "perform H s (DoWithdraw identity) w = snd (Withdraw H s identity w)"
| "perform H s DoLockdownAll w = snd (LockdownAll H s w)"
| "perform H s DoReconcileAll w = snd (ReconcileAll H s w)"
| "perform H s (DoRelayHealthy healthy) w = SetRelayHealthy healthy w"
| "perform H s (DoBackendHealthy healthy) w = SetBackendHealthy healthy w"

inductive agent_run :: "(string \<Rightarrow> 8 word list) \<Rightarrow> 'w Service \<Rightarrow> 'w svc \<Rightarrow> agent_op list \<Rightarrow> 'w svc \<Rightarrow> bool" for H s w where
  start: "agent_run H s w [] w"
| step: "agent_run H s w ops w' \<Longrightarrow> agent_run H s w (ops @ [op]) (perform H s op w')"

section \<open>Calls that only look\<close>

context agent_world
begin

abbreviation rests :: "('w svc, 'a) call \<Rightarrow> bool" where "rests c \<equiv> moves (quiet sealed ident) c"
abbreviation seals_only :: "('w svc, 'a) call \<Rightarrow> bool" where "seals_only c \<equiv> moves (seals sealed ident) c"
abbreviation touches_only :: "string \<Rightarrow> ('w svc, 'a) call \<Rightarrow> bool" where "touches_only u c \<equiv> moves (touches sealed ident apart u) c"

lemma rests_seals: "rests c \<Longrightarrow> seals_only c"
  by (erule moves_weaken) (rule quiet_seals)

lemma rests_touches: "rests c \<Longrightarrow> touches_only u c"
  by (erule moves_weaken) (rule quiet_touches)

lemmas looks = quiet_world [OF pods_keep] quiet_world [OF bindings_keep] quiet_world [OF now_keeps]
  quiet_world [OF store_list_keeps] quiet_world [OF identity_keeps] quiet_world [OF verify_keeps]
  quiet_world [OF store_save_keeps] quiet_world [OF store_delete_keeps]

lemma pod_rests: "rests (service_pod s identity)"
  unfolding service_pod_def [abs_def] by (intro resting_intros looks)

lemma rawBinding_rests: "rests (rawBinding H s namespace uid)"
  unfolding rawBinding_def [abs_def] by (intro resting_intros looks)

lemma binding_rests: "rests (service_binding H s pod)"
  unfolding service_binding_def [abs_def] by (intro resting_intros rawBinding_rests)

lemma authority_rests: "rests (authority H s identity requested)"
  unfolding authority_def [abs_def] by (intro resting_intros pod_rests binding_rests)

lemma exactAttachment_rests: "rests (exactAttachment s identity)"
  unfolding exactAttachment_def [abs_def] by (intro resting_intros looks)

lemma withdrawalBinding_rests: "rests (withdrawalBinding H s namespace uid)"
  unfolding withdrawalBinding_def [abs_def] by (intro resting_intros looks)

lemma Resolve_rests: "rests (service_Resolve s identity)"
  unfolding service_Resolve_def [abs_def] by (intro resting_intros pod_rests)

lemma Binding_rests: "rests (service_Binding H s identity)"
  unfolding service_Binding_def [abs_def] by (intro resting_intros pod_rests binding_rests)

lemma liveAttachments_rests: "rests (liveAttachments s as)"
proof (induction as)
  case (Cons a as)
  show ?case by (rule moves_ext, rule liveAttachments.simps) (intro resting_intros looks Cons.IH)
qed (simp add: moves_def resting.refl)

lemma Report_rests: "rests (service_Report s)"
  by (rule movesI) (auto simp: service_Report_def split: prod.splits dest: movesD [OF looks(3)])

section \<open>Calls that seal\<close>

lemma install_seals: "seals_only (install s ns uid)" "touches_only u (install s ns uid)"
  using install_mono
  by (auto intro!: movesI simp: world_def seals_def touches_def split: prod.splits dest: keepsD [OF install_ident])

lemma cleanup_seals: "seals_only (world (pg_Cleanup (sv_Programmer s) ns uid))" "touches_only u (world (pg_Cleanup (sv_Programmer s) ns uid))"
  using cleanup_mono
  by (auto intro!: movesI simp: world_def seals_def touches_def split: prod.splits dest: keepsD [OF cleanup_ident])

lemma install_sealed: "install s ns uid w = (None, w') \<Longrightarrow> sealed (snd w') ns uid"
  by (auto simp: world_def split: prod.splits dest: install_ok)

lemma cleanup_sealed: "world (pg_Cleanup (sv_Programmer s) ns uid) w = (None, w') \<Longrightarrow> sealed (snd w') ns uid"
  by (auto simp: world_def split: prod.splits dest: cleanup_ok)

lemma configure_touches: "cfg_PodUID cfg = u \<Longrightarrow> touches_only u (world (pg_Configure (sv_Programmer s) ns cfg))"
  using configure_mono
  by (auto intro!: movesI simp: world_def touches_def split: prod.splits dest: keepsD [OF configure_ident])

lemmas observe_seals = observe_moves [OF now_keeps]

lemma publishWithdrawal_seals: "seals_only (publishWithdrawal s binding)"
  unfolding publishWithdrawal_def [abs_def]
  by (intro sealing_intros observe_seals rests_seals [OF Report_rests] rests_seals [OF quiet_world] publisher_keeps)

lemma publishWithdrawal_touches: "lref_UID (bind_PodRef (bind_Spec binding)) = u \<Longrightarrow> touches_only u (publishWithdrawal s binding)"
  unfolding publishWithdrawal_def [abs_def]
  by (intro touching_intros observe_seals rests_touches [OF Report_rests] rests_touches [OF quiet_world] publisher_keeps)

lemma lockdown_loop_seals: "seals_only (lockdown_loop H s as)"
proof (induction as)
  case (Cons a as)
  show ?case by (rule moves_ext, rule lockdown_loop.simps)
    (intro sealing_intros looks [THEN rests_seals] Cons.IH install_seals rawBinding_rests [THEN rests_seals] observe_seals)
qed (simp add: moves_def sealing.refl)

lemma observe_bindings_seals: "seals sealed ident w (observe_bindings s bs w)"
proof (induction bs arbitrary: w)
  case (Cons b bs)
  have "seals sealed ident w (snd (observe s b False w))" using moves_snd [OF observe_seals(1)] .
  with Cons.IH [of w] Cons.IH [of "snd (observe s b False w)"] show ?case by (auto intro: sealing.trans simp del: split_paired_All)
qed (simp add: sealing.refl)

lemma LockdownAll_seals: "seals_only (LockdownAll H s)"
proof -
  have R: "R = sv_Reader s \<or> Some R = sv_BindingReader s" if "R = (case sv_BindingReader s of Some R \<Rightarrow> R | None \<Rightarrow> sv_Reader s)" for R
    using that by (cases "sv_BindingReader s") auto
  have list: "seals_only (world (k_list (cl_bindings (case sv_BindingReader s of Some R \<Rightarrow> R | None \<Rightarrow> sv_Reader s)) Q))" for Q
    by (intro rests_seals quiet_world bindings_list_keep R refl)
  have obs: "seals_only (\<lambda>w. (r, observe_bindings s bs w))" for r bs by (simp add: moves_def observe_bindings_seals)
  show ?thesis unfolding LockdownAll_def [abs_def] Let_def
    by (intro sealing_intros looks [THEN rests_seals] lockdown_loop_seals list obs)
qed

lemma observeNotReady_seals: "seals sealed ident w (observeNotReady H s namespace uid w)"
proof -
  obtain r w1 where r: "rawBinding H s namespace uid w = (r, w1)" by (rule prod.exhaust)
  note movesD [OF rawBinding_rests [THEN rests_seals] r]
  then show ?thesis using r sealing.trans [OF _ moves_snd [OF observe_seals(1)]] by (cases r) (simp_all add: observeNotReady_def)
qed

lemma withdraw_binding_seals: "seals_only (withdraw_binding H s identity)"
proof -
  have forget: "seals_only (\<lambda>w. (r, forgetObservation u w))" for r u by (simp add: moves_def forget_moves)
  show ?thesis unfolding withdraw_binding_def [abs_def]
    by (intro sealing_intros withdrawalBinding_rests [THEN rests_seals] publishWithdrawal_seals forget)
qed

lemma withdraw_namespace_seals: "seals_only (withdraw_namespace s identity live)"
  unfolding withdraw_namespace_def [abs_def] by (intro sealing_intros install_seals cleanup_seals)

lemma Withdraw_seals: "seals_only (Withdraw H s identity)"
proof -
  have rest: "seals_only (withdraw_rest H s attachment live)" for attachment live
    unfolding withdraw_rest_def [abs_def] Let_def
    by (intro sealing_intros looks [THEN rests_seals] withdraw_binding_seals withdraw_namespace_seals)
  have "seals_only (withdrawAttachment H s attachment)" for attachment
    unfolding withdrawAttachment_def [abs_def] Let_def by (intro sealing_intros pod_rests [THEN rests_seals] rest)
  then show ?thesis
    unfolding Withdraw_def [abs_def] by (intro sealing_intros exactAttachment_rests [THEN rests_seals])
qed

lemma identity_cases:
  assumes "world (pg_Identity (sv_Programmer s) ns) w = (r, w1)"
  shows "r = Inr i \<Longrightarrow> ident (snd w) ns = Some i" and "r = Inl e \<Longrightarrow> errors_Is e ErrNotExist \<Longrightarrow> ident (snd w) ns = None"
    and "ident (snd w1) = ident (snd w)" "sealed (snd w1) = sealed (snd w)" "fst w1 = fst w"
  using assms identity_ok identity_missing movesD [OF looks(5) assms]
  by (auto simp: world_def quiet_def split: prod.splits)

abbreviation live_now :: "'w svc \<Rightarrow> Attachment \<Rightarrow> bool" where "live_now w a \<equiv> live_at ident (snd w) a"
abbreviation sealed_now :: "'w svc \<Rightarrow> Attachment \<Rightarrow> bool" where "sealed_now w a \<equiv> sealed_at sealed (snd w) a"

lemma live_at_moves: "seals sealed ident w w' \<Longrightarrow> live_now w' a = live_now w a" "touches sealed ident apart u w w' \<Longrightarrow> live_now w' a = live_now w a"
  by (simp_all add: live_at_def seals_def touches_def)

lemma sealed_at_moves: "seals sealed ident w w' \<Longrightarrow> sealed_now w a \<Longrightarrow> sealed_now w' a"
  by (simp add: seals_def sealed_at_def)

lemma lockdown_loop_closes:
  assumes "lockdown_loop H s as w = (errs, w')" and "\<forall>e \<in> set errs. e = None" and "a \<in> set as" and "live_now w a"
  shows "sealed_now w' a"
  using assms
proof (induction as arbitrary: w errs)
  case (Cons b bs)
  obtain r w1 where r: "world (pg_Identity (sv_Programmer s) (pi_NetNS (at_Pod b))) w = (r, w1)" by (rule prod.exhaust)
  note i = identity_cases [OF r]
  have live1: "live_now w1 x = live_now w x" for x using i(3) by (simp add: live_at_def)
  note rest = Cons.IH [OF _ _ _ live1 [THEN iffD2]]
  have mono: "seals sealed ident v v'" if "lockdown_loop H s bs v = (x, v')" for v x v' using movesD [OF lockdown_loop_seals that] .
  show ?case
  proof (cases r)
    case (Inl e)
    then obtain x where tail: "lockdown_loop H s bs w1 = (x, w')" and x: "set x \<subseteq> set errs"
      and n: "errors_Is e ErrNotExist"
      using Cons.prems(1,2) r by (auto split: if_splits prod.splits)
    from i(2) [OF Inl n] have "\<not> live_now w b" by (simp add: live_at_def)
    with Cons.prems(2-4) x have "a \<in> set bs" "\<forall>e \<in> set x. e = None" by auto
    with Cons.IH [OF tail] live1 Cons.prems(4) show ?thesis by simp
  next
    case (Inr nid)
    show ?thesis
    proof (cases "nid = at_NamespaceIdentity b")
      case False
      then have tail: "lockdown_loop H s bs w1 = (errs, w')" using Cons.prems(1) r Inr by simp
      from i(1) [OF Inr] False have "\<not> live_now w b" by (simp add: live_at_def)
      with Cons.prems(3,4) have "a \<in> set bs" by auto
      with Cons.IH [OF tail] live1 Cons.prems(2,4) show ?thesis by simp
    next
      case True
      obtain e2 w2 where l: "install s (pi_NetNS (at_Pod b)) (pi_UID (at_Pod b)) w1 = (e2, w2)" by (rule prod.exhaust)
      obtain rb w3 where rb: "rawBinding H s (pi_Namespace (at_Pod b)) (pi_UID (at_Pod b)) w2 = (rb, w3)" by (rule prod.exhaust)
      have ok: "e2 = None" using Cons.prems(1,2) r Inr True l by (cases e2) (auto split: prod.splits)
      obtain w4 where tail: "lockdown_loop H s bs w4 = (errs, w')" and w4: "seals sealed ident w2 w4"
      proof (cases rb)
        case (Inl e)
        then show thesis using that [of w3] Cons.prems(1) r Inr True l ok rb movesD [OF rawBinding_rests [THEN rests_seals] rb]
          by simp
      next
        case (Inr binding)
        have "seals sealed ident w2 (snd (observe s binding False w3))"
          using sealing.trans [OF movesD [OF rawBinding_rests [THEN rests_seals] rb] moves_snd [OF observe_seals(1)]] .
        then show thesis using that [of "snd (observe s binding False w3)"] Cons.prems(1) r \<open>r = Inr nid\<close> True l ok rb Inr
          by (simp split: prod.splits)
      qed
      have live4: "live_now w4 x = live_now w x" for x
        using live_at_moves(1) [OF w4] live_at_moves(1) [OF movesD [OF install_seals(1) l]] live1 by simp
      show ?thesis
      proof (cases "a \<in> set bs")
        case True
        with Cons.IH [OF tail] Cons.prems(2,4) live4 show ?thesis by simp
      next
        case False
        with Cons.prems(3) have "a = b" by simp
        with install_sealed l ok have "sealed_now w2 a" by (simp add: sealed_at_def)
        then show ?thesis using sealed_at_moves [OF w4] sealed_at_moves [OF mono [OF tail]] by blast
      qed
    qed
  qed
qed simp

lemma LockdownAll_closes:
  assumes "LockdownAll H s w = (None, w')"
  shows "\<exists>as w1. as_ListAll (sv_Store s) (snd w) = (Inr as, w1) \<and> (\<forall>a \<in> set as. live_now w a \<longrightarrow> sealed_now w' a)"
proof -
  obtain r w1 where r: "world (as_ListAll (sv_Store s)) w = (r, w1)" by (rule prod.exhaust)
  with assms obtain as where as: "r = Inr as" by (cases r) (auto simp: LockdownAll_def)
  obtain errs w2 where loop: "lockdown_loop H s as w1 = (errs, w2)" by (rule prod.exhaust)
  let ?R = "case sv_BindingReader s of Some R \<Rightarrow> R | None \<Rightarrow> sv_Reader s"
  obtain l w3 where l: "world (k_list (cl_bindings ?R) (\<lambda>_. True)) w2 = (l, w3)" by (rule prod.exhaust)
  from assms r as loop l obtain bs where bs: "l = Inr bs" and none: "\<forall>e \<in> set errs. e = None" and w': "w' = observe_bindings s bs w3"
    by (cases l) (auto simp: LockdownAll_def Let_def)
  have "seals sealed ident w2 w3"
    using movesD [OF rests_seals [OF quiet_world] l] bindings_list_keep by (cases "sv_BindingReader s") auto
  then have end_: "seals sealed ident w2 w'" using sealing.trans observe_bindings_seals w' by blast
  have live: "live_now w1 a = live_now w a" for a using live_at_moves(1) [OF rests_seals [OF looks(4), THEN movesD, OF r]] .
  have "sealed_now w' a" if "a \<in> set as" "live_now w a" for a
    using lockdown_loop_closes [OF loop none that(1)] that(2) live sealed_at_moves [OF end_] by simp
  moreover have "\<exists>v. as_ListAll (sv_Store s) (snd w) = (Inr as, v)" using r as by (auto simp: world_def split: prod.splits)
  ultimately show ?thesis by blast
qed

lemma health_seals: "seals sealed ident w (SetRelayHealthy healthy w)" "seals sealed ident w (SetBackendHealthy healthy w)"
  by (auto simp: SetRelayHealthy_def SetBackendHealthy_def seals_def split: prod.splits)

lemma held_perform_seals:
  assumes "sv_TransitionHeld s"
  shows "seals sealed ident w (perform H s op w)"
proof (cases op)
  case (DoPrepare identity requested)
  then show ?thesis using assms by (simp add: service_Prepare_def service_Ready_def sealing.refl)
next
  case (DoCheck identity requested)
  then show ?thesis using assms moves_snd [OF install_seals(1)]
    by (simp add: service_Check_def service_Ready_def split: prod.splits) (metis snd_conv)
next
  case DoReconcileAll
  then show ?thesis using assms moves_snd [OF LockdownAll_seals] by (simp add: ReconcileAll_def)
qed (simp_all add: moves_snd [OF Resolve_rests [THEN rests_seals]] moves_snd [OF Binding_rests [THEN rests_seals]] moves_snd [OF Withdraw_seals]
      moves_snd [OF LockdownAll_seals] health_seals)

lemma held_run_seals: "agent_run H s w ops w' \<Longrightarrow> sv_TransitionHeld s \<Longrightarrow> seals sealed ident w w'"
  by (induction rule: agent_run.induct) (blast intro: sealing.refl sealing.trans held_perform_seals)+

end

end
