(* ===== verification/Node_Agent_Drift.thy ===== *)
theory Node_Agent_Drift
  imports Node_Agent_Safety
begin

text \<open>
  Drift reconciliation of the node agent: what it may touch while it works on one Pod, and what a pass without
  an error has established of every attachment on record.
\<close>

section \<open>Authority is exact\<close>

lemma service_pod_Inr:
  "service_pod s identity w = (Inr pod, w1) \<Longrightarrow>
     pod_Validate identity = None \<and> meta_UID (pod_Meta pod) = pi_UID identity \<and> pod_NodeName pod = sv_NodeName s \<and>
     k_get (cl_pods (sv_Reader s)) (pi_Namespace identity, pi_Name identity) (snd w) = (Inr pod, snd w1) \<and> fst w1 = fst w"
  by (auto simp: service_pod_def world_def split: option.splits if_splits prod.splits sum.splits)

lemma rawBinding_Inr:
  "rawBinding H s namespace uid w = (Inr b, w1) \<Longrightarrow>
     lref_UID (bind_PodRef (bind_Spec b)) = uid \<and>
     k_get (cl_bindings (sv_Reader s)) (namespace, BindingName H uid) (snd w) = (Inr b, snd w1) \<and> fst w1 = fst w"
  by (auto simp: rawBinding_def world_def split: if_splits prod.splits sum.splits)

lemma service_binding_Inr:
  assumes "service_binding H s pod w = (Inr b, w1)"
  shows "rawBinding H s (meta_Namespace (pod_Meta pod)) (meta_UID (pod_Meta pod)) w = (Inr b, w1)"
    and "\<not> is_deleting (bind_Meta b)" "lref_Name (bind_PodRef (bind_Spec b)) = meta_Name (pod_Meta pod)"
    and "bind_NodeName (bind_Spec b) = sv_NodeName s" "meta_UID (bind_Meta b) \<noteq> []"
    and "lref_UID (bind_PodRef (bind_Spec b)) = meta_UID (pod_Meta pod)"
  using assms rawBinding_Inr [of H s "meta_Namespace (pod_Meta pod)" "meta_UID (pod_Meta pod)" w b w1]
  by (auto simp: service_binding_def split: if_splits prod.splits sum.splits)

lemma ConfigFromBinding_Inr:
  "ConfigFromBinding b = Inr cfg \<Longrightarrow> cfg_PodUID cfg = lref_UID (bind_PodRef (bind_Spec b)) \<and>
     cfg_AllocationGeneration cfg = meta_Generation (bind_Meta b) \<and> 1 \<le> meta_Generation (bind_Meta b) \<and> config_Validate cfg = None"
  by (auto simp: ConfigFromBinding_def Let_def split: if_splits option.splits sum.splits)

lemma authority_Inr:
  assumes "authority H s identity requested w = (Inr (pod, b, cfg), w2)"
  obtains w1 where "service_pod s identity w = (Inr pod, w1)" "service_binding H s pod w1 = (Inr b, w2)"
    "bindingReference b = requested" "ConfigFromBinding b = Inr cfg" "binding_Validate requested (pi_UID identity) = None"
    "lref_UID (bind_PodRef (bind_Spec b)) = pi_UID identity" "cfg_PodUID cfg = pi_UID identity"
proof -
  from assms obtain w1 where a: "service_pod s identity w = (Inr pod, w1)" "service_binding H s pod w1 = (Inr b, w2)"
    "bindingReference b = requested" "ConfigFromBinding b = Inr cfg" "binding_Validate requested (pi_UID identity) = None"
    by (auto simp: authority_def split: option.splits prod.splits sum.splits if_splits)
  with service_pod_Inr [OF a(1)] service_binding_Inr(6) [OF a(2)] ConfigFromBinding_Inr [OF a(4)]
  have "lref_UID (bind_PodRef (bind_Spec b)) = pi_UID identity" "cfg_PodUID cfg = pi_UID identity" by simp_all
  with a show thesis by (rule that)
qed

definition authority_of :: "string \<Rightarrow> (pod \<times> VPNWorkloadBinding \<times> Config) result \<Rightarrow> bool" where
  "authority_of u r \<longleftrightarrow> (\<forall>pod b cfg. r = Inr (pod, b, cfg) \<longrightarrow> lref_UID (bind_PodRef (bind_Spec b)) = u \<and> cfg_PodUID cfg = u)"

lemma authority_post: "authority H s identity requested w = (r, w1) \<Longrightarrow> authority_of (pi_UID identity) r"
  by (auto simp: authority_of_def elim: authority_Inr)

definition withdrawal_of :: "string \<Rightarrow> VPNWorkloadBinding option result \<Rightarrow> bool" where
  "withdrawal_of u r \<longleftrightarrow> (\<forall>b. r = Inr (Some b) \<longrightarrow> lref_UID (bind_PodRef (bind_Spec b)) = u)"

definition binding_of :: "string \<Rightarrow> VPNWorkloadBinding result \<Rightarrow> bool" where
  "binding_of u r \<longleftrightarrow> (\<forall>b. r = Inr b \<longrightarrow> lref_UID (bind_PodRef (bind_Spec b)) = u)"

definition live_of :: "Attachment list \<Rightarrow> Attachment list \<times> go_error option list \<Rightarrow> bool" where
  "live_of as r \<longleftrightarrow> set (fst r) \<subseteq> set as"

definition pod_of :: "string \<Rightarrow> pod result \<Rightarrow> bool" where
  "pod_of u r \<longleftrightarrow> (\<forall>pod. r = Inr pod \<longrightarrow> meta_UID (pod_Meta pod) = u)"

lemma withdrawal_post: "withdrawalBinding H s namespace u w = (r, w1) \<Longrightarrow> withdrawal_of u r"
  by (auto simp: withdrawal_of_def withdrawalBinding_def split: prod.splits sum.splits if_splits)

lemma binding_post: "service_binding H s pod w = (r, w1) \<Longrightarrow> binding_of (meta_UID (pod_Meta pod)) r"
  unfolding binding_of_def by (blast dest: service_binding_Inr(6))

lemma set_liveAttachments: "liveAttachments s as w = ((live, errs), w1) \<Longrightarrow> set live \<subseteq> set as"
  by (induction as arbitrary: w live errs) (fastforce split: prod.splits sum.splits if_splits)+

lemma live_post: "liveAttachments s as w = (r, w1) \<Longrightarrow> live_of as r"
  by (cases r) (simp add: live_of_def set_liveAttachments del: split_paired_All)

lemma pod_post: "service_pod s identity w = (r, w1) \<Longrightarrow> pod_of (pi_UID identity) r"
  unfolding pod_of_def by (blast dest: service_pod_Inr)

section \<open>Readiness is reported only after verification\<close>

text \<open>The agent's observations say that the attachment's Pod was verified for the binding on record.\<close>

definition verified_at :: "'w Service \<Rightarrow> agent_state \<Rightarrow> Attachment \<Rightarrow> bool" where
  "verified_at s st a \<longleftrightarrow> (\<exists>ob. map_of (ag_observations st) (pi_UID (at_Pod a)) = Some ob \<and> ob_Ready ob \<and>
     ob_BindingUID ob = at_BindingUID a \<and> ob_GatewayUID ob = at_GatewayUID a \<and> ob_NodeName ob = sv_NodeName s)"

lemma observe_recorded:
  "observe s b ready w = (ob, w') \<Longrightarrow> map_of (ag_observations (fst w')) (lref_UID (bind_PodRef (bind_Spec b))) = Some ob \<and>
     ob_Ready ob = ready \<and> ob_BindingUID ob = meta_UID (bind_Meta b) \<and> ob_GatewayUID ob = nref_UID (bind_GatewayRef (bind_Spec b)) \<and>
     ob_Generation ob = meta_Generation (bind_Meta b) \<and> ob_NodeName ob = sv_NodeName s"
  by (auto simp: observe_def world_def Let_def observation_def update_conv' split: prod.splits)

lemma prepare_run:
  assumes "service_prepare H s identity requested w = (None, w')"
  obtains pod b cfg w1 w2 w3 w4 ob where "authority H s identity requested w = (Inr (pod, b, cfg), w1)"
    "install s (pi_NetNS identity) (pi_UID identity) w1 = (None, w2)"
    "world (pg_Configure (sv_Programmer s) (pi_NetNS identity) cfg) w2 = (None, w3)"
    "world (pg_Verify (sv_Programmer s) (pi_NetNS identity) cfg) w3 = (None, w4)" "observe s b True w4 = (ob, w')"
proof -
  obtain r w1 where r: "authority H s identity requested w = (r, w1)" by (rule prod.exhaust)
  with assms obtain pod b cfg where x: "r = Inr (pod, b, cfg)" by (cases r) (auto simp: service_prepare_def)
  obtain e2 w2 where i: "install s (pi_NetNS identity) (pi_UID identity) w1 = (e2, w2)" by (rule prod.exhaust)
  obtain e3 w3 where c: "world (pg_Configure (sv_Programmer s) (pi_NetNS identity) cfg) w2 = (e3, w3)" by (rule prod.exhaust)
  obtain e4 w4 where v: "world (pg_Verify (sv_Programmer s) (pi_NetNS identity) cfg) w3 = (e4, w4)" by (rule prod.exhaust)
  obtain ob w5 where o: "observe s b True w4 = (ob, w5)" by (rule prod.exhaust)
  have e: "e2 = None" using assms r x i by (cases e2) (simp_all add: service_prepare_def)
  have f: "e3 = None" using assms r x i e c by (cases e3) (simp_all add: service_prepare_def split: prod.splits)
  have g: "e4 = None" using assms r x i e c f v by (cases e4) (simp_all add: service_prepare_def split: prod.splits)
  have "w' = w5" using assms r x i e c f v g o by (simp add: service_prepare_def)
  with r x i e c f v g o show thesis by (intro that) simp_all
qed

lemma check_run:
  assumes "service_check H s identity requested w = (None, w')"
  obtains pod b cfg w1 v v' ob where "authority H s identity requested w = (Inr (pod, b, cfg), w1)"
    "world (pg_Verify (sv_Programmer s) (pi_NetNS identity) cfg) v = (None, v')" "observe s b True v' = (ob, w')"
proof -
  obtain r w1 where r: "authority H s identity requested w = (r, w1)" by (rule prod.exhaust)
  with assms obtain pod b cfg where x: "r = Inr (pod, b, cfg)" by (cases r) (auto simp: service_check_def split: prod.splits)
  obtain e2 w2 where v: "world (pg_Verify (sv_Programmer s) (pi_NetNS identity) cfg) w1 = (e2, w2)" by (rule prod.exhaust)
  show thesis
  proof (cases e2)
    case None
    with assms r x v that [of pod b cfg w1 w1 w2] show thesis by (auto simp: service_check_def split: prod.splits)
  next
    case (Some e)
    with assms r x v have "check_repair s identity b cfg w2 = (None, w')" by (simp add: service_check_def)
    then obtain u u' ob where "world (pg_Verify (sv_Programmer s) (pi_NetNS identity) cfg) u = (None, u')" "observe s b True u' = (ob, w')"
      by (auto simp: check_repair_def split: prod.splits option.splits)
    with r x show thesis by (intro that) simp_all
  qed
qed

lemma program_verified:
  assumes "(if g then service_prepare H s (at_Pod a) (bindingReference b) w else service_check H s (at_Pod a) (bindingReference b) w) = (None, w')"
    and "meta_UID (bind_Meta b) = at_BindingUID a" "nref_UID (bind_GatewayRef (bind_Spec b)) = at_GatewayUID a"
  shows "verified_at s (fst w') a"
proof -
  obtain pod b' cfg w1 v v' ob where au: "authority H s (at_Pod a) (bindingReference b) w = (Inr (pod, b', cfg), w1)"
    and ob: "observe s b' True v' = (ob, w')"
    using assms(1) by (cases g) (auto elim: prepare_run check_run)
  from au have "bindingReference b' = bindingReference b" "lref_UID (bind_PodRef (bind_Spec b')) = pi_UID (at_Pod a)"
    by (auto elim: authority_Inr)
  with observe_recorded [OF ob] assms(2,3) show ?thesis by (auto simp: verified_at_def bindingReference_def)
qed

section \<open>What reconciling one Pod may touch\<close>

context agent_world
begin

lemmas touch_calls = looks [THEN rests_touches] install_seals(2) cleanup_seals(2) configure_touches observe_seals(2)
  rawBinding_rests [THEN rests_touches] pod_rests [THEN rests_touches] binding_rests [THEN rests_touches]
  liveAttachments_rests [THEN rests_touches] withdrawalBinding_rests [THEN rests_touches] publishWithdrawal_touches

lemma check_repair_touches:
  "lref_UID (bind_PodRef (bind_Spec b)) = u \<Longrightarrow> cfg_PodUID cfg = u \<Longrightarrow> touches_only u (check_repair s identity b cfg)"
  unfolding check_repair_def [abs_def] by (intro touching_intros touch_calls)

lemma prepare_touches: "touches_only (pi_UID identity) (service_prepare H s identity requested)"
  unfolding service_prepare_def [abs_def]
  by (rule touching.moves_bind_post [OF authority_rests [THEN rests_touches] authority_post], assumption)
    (intro touching_intros touch_calls; simp add: authority_of_def)

lemma check_touches: "touches_only (pi_UID identity) (service_check H s identity requested)"
  unfolding service_check_def [abs_def]
  by (rule touching.moves_bind_post [OF authority_rests [THEN rests_touches] authority_post], assumption)
    (intro touching_intros touch_calls check_repair_touches; simp add: authority_of_def)

lemma observeNotReady_touches: "touches sealed ident apart u w (observeNotReady H s namespace u w)"
proof -
  obtain r w1 where r: "rawBinding H s namespace u w = (r, w1)" by (rule prod.exhaust)
  note m = movesD [OF rawBinding_rests [THEN rests_touches] r, of u]
  show ?thesis
  proof (cases r)
    case (Inr b)
    with rawBinding_Inr r have "lref_UID (bind_PodRef (bind_Spec b)) = u" by blast
    with touching.trans [OF m moves_snd [OF observe_seals(2)]] r Inr show ?thesis by (simp add: observeNotReady_def)
  qed (use m r in \<open>simp add: observeNotReady_def\<close>)
qed

lemma then_touches: "touches_only u c \<Longrightarrow> touches_only u (\<lambda>w. c (observeNotReady H s namespace u w))"
  by (rule movesI) (metis movesD observeNotReady_touches touching.trans)

lemma lockdownAttachments_touches: "touches_only u (lockdownAttachments s as)"
proof (induction as)
  case (Cons a as)
  show ?case by (rule moves_ext, rule lockdownAttachments.simps) (intro touching_intros touch_calls Cons.IH)
qed (simp add: moves_def touching.refl)

lemma cleanup_loop_touches: "touches_only u (cleanup_loop s as)"
proof (induction as)
  case (Cons a as)
  show ?case by (rule moves_ext, rule cleanup_loop.simps) (intro touching_intros touch_calls Cons.IH)
qed (simp add: moves_def touching.refl)

lemma delete_loop_rests: "rests (delete_loop s as)"
proof (induction as)
  case (Cons a as)
  show ?case by (rule moves_ext, rule delete_loop.simps) (intro resting_intros looks Cons.IH)
qed (simp add: moves_def resting.refl)

lemma supersede_loop_rests: "rests (supersede_loop s k as)"
proof (induction as)
  case (Cons a as)
  have young: "rests (\<lambda>w. if at_Phase a = PhaseLockedDown then case world (sv_now s) w of (t, w1) \<Rightarrow> (attachmentIsYoung a t, w1) else (False, w))"
    by (intro resting_intros looks)
  have branch: "rests (\<lambda>w. case x of True \<Rightarrow> c w | False \<Rightarrow> d w)" if "rests c" "rests d" for x and c d :: "('w svc, go_error option list) call"
    using that by (cases x) simp_all
  show ?case by (rule moves_ext, rule supersede_loop.simps) (intro branch resting_intros looks Cons.IH young)
qed (simp add: moves_def resting.refl)

lemma supersede_rests: "rests (supersede s current as)"
  unfolding supersede_def [abs_def] by (intro resting_intros supersede_loop_rests)

lemma forget_touches: "touches_only u (\<lambda>w. (r, forgetObservation u w))"
  by (simp add: moves_def forget_moves)

lemma withdraw_records_touches: "touches_only u (withdraw_records s as u)"
  unfolding withdraw_records_def [abs_def] by (intro touching_intros delete_loop_rests [THEN rests_touches] forget_touches)

lemma withdrawAttachmentGroup_touches:
  assumes "pi_UID (at_Pod (hd as)) = u"
  shows "touches_only u (withdrawAttachmentGroup H s as)"
proof -
  have rest: "touches_only u (\<lambda>w. case withdrawalBinding H s (pi_Namespace (at_Pod (hd as))) u w of
      (Inl e, w3) \<Rightarrow> (Some e, w3)
    | (Inr None, w3) \<Rightarrow> withdraw_records s as u w3
    | (Inr (Some binding), w3) \<Rightarrow> (case publishWithdrawal s binding w3 of
        (Some e, w4) \<Rightarrow> (Some e, w4) | (None, w4) \<Rightarrow> withdraw_records s as u w4))"
    by (rule touching.moves_bind_post [OF withdrawalBinding_rests [THEN rests_touches] withdrawal_post], assumption)
      (intro touching_intros touch_calls withdraw_records_touches; simp add: withdrawal_of_def)
  show ?thesis unfolding withdrawAttachmentGroup_def [abs_def] Let_def assms
    by (intro rest touching_intros touch_calls cleanup_loop_touches)
qed

lemma observe_group_touches:
  "\<forall>a \<in> set as. pi_UID (at_Pod a) = u \<Longrightarrow> touches sealed ident apart u w (observe_group H s as w)"
proof (induction as arbitrary: w)
  case (Cons a as)
  let ?w = "observeNotReady H s (pi_Namespace (at_Pod a)) u w"
  have "touches sealed ident apart u w ?w" by (rule observeNotReady_touches)
  moreover have "touches sealed ident apart u ?w (observe_group H s as ?w)" using Cons by simp
  ultimately show ?case using Cons.prems touching.trans by simp
qed (simp add: touching.refl)

lemma quarantine_touches:
  assumes "\<forall>a \<in> set as. pi_UID (at_Pod a) = u"
  shows "touches_only u (quarantineAttachmentGroup H s as cause)"
proof -
  have lock: "touches_only u (\<lambda>w. lockdownAttachments s live (observe_group H s as w))" for live
    using lockdownAttachments_touches observe_group_touches [OF assms] by (intro movesI) (metis movesD touching.trans)
  show ?thesis unfolding quarantineAttachmentGroup_def [abs_def] by (intro touching_intros touch_calls lock)
qed

lemma adopt_touches: "lref_UID (bind_PodRef (bind_Spec b)) = u \<Longrightarrow> touches_only u (adopt_generation s b current generation)"
  unfolding adopt_generation_def [abs_def] Let_def by (intro touching_intros touch_calls)

lemma reconcile_ready_touches:
  assumes "meta_UID (pod_Meta pod) = u" "pi_UID (at_Pod current) = u" "pi_UID (at_Pod (hd as)) = u"
  shows "touches_only u (reconcile_ready H s pod current as)"
proof -
  have program: "touches_only u (\<lambda>w. if g then service_prepare H s (at_Pod current) r w else service_check H s (at_Pod current) r w)" for g r
    using prepare_touches [of "at_Pod current"] check_touches [of "at_Pod current"] assms(2) by (intro touching_intros) simp_all
  have obs: "touches_only u (\<lambda>w. (r, observeNotReady H s namespace u w))" for r namespace by (simp add: moves_def observeNotReady_touches)
  have obs': "touches_only u (\<lambda>w. (r, snd (observe s b False w)))" if "lref_UID (bind_PodRef (bind_Spec b)) = u" for r b
    using moves_snd [OF observe_seals(2) [OF that]] by (simp add: moves_def)
  show ?thesis unfolding reconcile_ready_def [abs_def] Let_def assms(2,3)
    by (rule touching.moves_bind_post [OF binding_rests [THEN rests_touches] binding_post], assumption)
      (intro touching_intros program touch_calls obs obs' adopt_touches supersede_rests [THEN rests_touches]; simp add: binding_of_def assms(1))
qed

lemma reconcile_live_touches:
  assumes "meta_UID (pod_Meta pod) = u" "\<forall>a \<in> set as. pi_UID (at_Pod a) = u" "as \<noteq> []"
  shows "touches_only u (reconcile_live H s pod as)"
proof -
  have hd: "pi_UID (at_Pod (hd as)) = u" using assms(2,3) by simp
  have obs: "touches_only u (\<lambda>w. (r, observeNotReady H s namespace u w))" for r namespace by (simp add: moves_def observeNotReady_touches)
  show ?thesis unfolding reconcile_live_def [abs_def] Let_def hd
    by (rule touching.moves_bind_post [OF liveAttachments_rests [THEN rests_touches] live_post], assumption)
      (intro touching_intros touching.moves_bind [OF then_touches] lockdownAttachments_touches touch_calls obs reconcile_ready_touches;
       use assms hd in \<open>auto simp: live_of_def\<close>)
qed

lemma group_touches:
  assumes "\<forall>a \<in> set as. pi_UID (at_Pod a) = u" "as \<noteq> []"
  shows "touches_only u (reconcileAttachmentGroup H s as)"
proof -
  define xs where "xs = sort_key attachment_order as"
  have eq: "set xs = set as" by (simp add: xs_def)
  with assms(2) have "xs \<noteq> []" by auto
  with eq assms(1) have xs: "\<forall>a \<in> set xs. pi_UID (at_Pod a) = u" "xs \<noteq> []" "pi_UID (at_Pod (hd xs)) = u" by auto
  have obs: "touches_only u (\<lambda>w. (r, observeNotReady H s namespace u w))" for r namespace by (simp add: moves_def observeNotReady_touches)
  have rest: "touches_only u (\<lambda>w. case service_pod s (at_Pod (hd xs)) w of
       (Inl e, w1) \<Rightarrow> if exactPodAbsent e then withdrawAttachmentGroup H s xs w1
         else (Some e, observeNotReady H s (pi_Namespace (at_Pod (hd xs))) u w1)
     | (Inr pod, w1) \<Rightarrow> if is_deleting (pod_Meta pod) then withdrawAttachmentGroup H s xs w1 else reconcile_live H s pod xs w1)"
    by (rule touching.moves_bind_post [OF pod_rests [THEN rests_touches] pod_post], assumption)
      (intro touching_intros obs withdrawAttachmentGroup_touches reconcile_live_touches; use xs in \<open>simp add: pod_of_def\<close>)
  show ?thesis unfolding reconcileAttachmentGroup_def [abs_def] Let_def xs_def [symmetric] xs(3)
    by (intro touching_intros quarantine_touches rest xs(1))
qed

section \<open>What a pass without an error has established\<close>

lemma live_exact:
  "liveAttachments s as w = ((live, errs), w1) \<Longrightarrow> \<forall>e \<in> set errs. e = None \<Longrightarrow> live = filter (live_now w) as"
proof (induction as arbitrary: w live errs w1)
  case (Cons a as)
  obtain r v where r: "world (pg_Identity (sv_Programmer s) (pi_NetNS (at_Pod a))) w = (r, v)" by (rule prod.exhaust)
  obtain live' errs' v' where tail: "liveAttachments s as v = ((live', errs'), v')" by (metis surj_pair)
  note i = identity_cases [OF r]
  have same: "live_now v x = live_now w x" for x using i(3) by (simp add: live_at_def)
  have errs': "\<forall>e \<in> set errs'. e = None" using Cons.prems r tail by (auto split: sum.splits if_splits)
  have tail_live: "live' = filter (live_now w) as" using Cons.IH [OF tail errs'] same by simp
  show ?case
  proof (cases r)
    case (Inl e)
    have "errors_Is e ErrNotExist" using Cons.prems r tail Inl by (auto split: if_splits)
    with i(2) [OF Inl] have "\<not> live_now w a" by (simp add: live_at_def)
    then show ?thesis using Cons.prems(1) r tail Inl tail_live by simp
  next
    case (Inr nid)
    with i(1) [OF Inr] have "live_now w a \<longleftrightarrow> nid = at_NamespaceIdentity a" by (auto simp: live_at_def)
    then show ?thesis using Cons.prems(1) r tail Inr tail_live by auto
  qed
qed simp

lemma cleanup_loop_seals: "seals_only (cleanup_loop s as)"
proof (induction as)
  case (Cons a as)
  show ?case by (rule moves_ext, rule cleanup_loop.simps) (intro sealing_intros cleanup_seals Cons.IH)
qed (simp add: moves_def sealing.refl)

lemma cleanup_loop_sealed:
  "cleanup_loop s as w = (errs, w') \<Longrightarrow> \<forall>e \<in> set errs. e = None \<Longrightarrow> a \<in> set as \<Longrightarrow> sealed_now w' a"
proof (induction as arbitrary: w errs)
  case (Cons b bs)
  obtain e v where c: "world (pg_Cleanup (sv_Programmer s) (pi_NetNS (at_Pod b)) (pi_UID (at_Pod b))) w = (e, v)" by (rule prod.exhaust)
  obtain errs' where tail: "cleanup_loop s bs v = (errs', w')" and errs: "errs = e # errs'" using Cons.prems(1) c by (auto split: prod.splits)
  show ?case
  proof (cases "a \<in> set bs")
    case False
    with Cons.prems c errs have "sealed_now v a" using cleanup_sealed by (auto simp: sealed_at_def)
    then show ?thesis using sealed_at_moves [OF movesD [OF cleanup_loop_seals tail]] by blast
  qed (use Cons.IH [OF tail] Cons.prems(2) errs in simp)
qed simp

lemma withdraw_tail_seals:
  "seals_only (withdraw_records s as u)"
  unfolding withdraw_records_def [abs_def]
  by (intro sealing_intros delete_loop_rests [THEN rests_seals]) (simp add: moves_def forget_moves)

lemma withdraw_group_sealed:
  assumes "withdrawAttachmentGroup H s as w = (None, w')" and "a \<in> set as" and "live_now w a"
  shows "sealed_now w' a"
proof -
  obtain live errs w1 where l: "liveAttachments s as w = ((live, errs), w1)" by (metis surj_pair)
  obtain cerrs w2 where c: "cleanup_loop s live w1 = (cerrs, w2)" by (rule prod.exhaust)
  let ?p = "at_Pod (hd as)"
  obtain b w3 where b: "withdrawalBinding H s (pi_Namespace ?p) (pi_UID ?p) w2 = (b, w3)" by (rule prod.exhaust)
  from assms(1) l c b have none: "\<forall>e \<in> set errs. e = None" "\<forall>e \<in> set cerrs. e = None"
    by (auto simp: withdrawAttachmentGroup_def split: option.splits)
  then have j: "errors_Join errs = None" "errors_Join cerrs = None" by simp_all
  note step = withdrawAttachmentGroup_def Let_def l c b j
  from live_exact [OF l none(1)] assms(2,3) have "a \<in> set live" by simp
  from cleanup_loop_sealed [OF c none(2) this] have "sealed_now w2 a" .
  moreover have "seals sealed ident w2 w3" using movesD [OF withdrawalBinding_rests [THEN rests_seals] b] .
  moreover obtain v where v: "seals sealed ident w3 v" "withdraw_records s as (pi_UID ?p) v = (None, w')"
  proof (cases b)
    case (Inr ob)
    show thesis
    proof (cases ob)
      case None
      with Inr assms(1) have "withdraw_records s as (pi_UID ?p) w3 = (None, w')"
        by (simp add: step del: errors_Join_None)
      then show thesis by (rule that [OF sealing.refl])
    next
      case (Some binding)
      obtain e v where p: "publishWithdrawal s binding w3 = (e, v)" by (rule prod.exhaust)
      with Inr Some assms(1) have "withdraw_records s as (pi_UID ?p) v = (None, w')"
        by (cases e) (simp_all add: step del: errors_Join_None)
      then show thesis by (rule that [OF movesD [OF publishWithdrawal_seals p]])
    qed
  qed (use assms(1) in \<open>simp add: step del: errors_Join_None\<close>)
  ultimately show ?thesis using sealed_at_moves movesD [OF withdraw_tail_seals v(2)] by blast
qed

lemma adopt_keeps_state:
  "adopt_generation s b current generation w = (Inr adopted, w') \<Longrightarrow> fst w' = fst w"
  by (auto simp: adopt_generation_def world_def Let_def split: if_splits prod.splits option.splits)

lemma reconcile_ready_verified:
  assumes "reconcile_ready H s pod current as w = (None, w')"
  shows "verified_at s (fst w') current"
proof -
  obtain r w1 where r: "service_binding H s pod w = (r, w1)" by (rule prod.exhaust)
  have none: "errors_Join (Some e # es) = None \<longleftrightarrow> False" for e es by simp
  obtain b where b: "r = Inr b" "meta_UID (bind_Meta b) = at_BindingUID current" "nref_UID (bind_GatewayRef (bind_Spec b)) = at_GatewayUID current"
    using assms r none by (cases r) (auto simp: reconcile_ready_def Let_def split: prod.splits if_splits)
  let ?g = "at_BindingGeneration current \<noteq> cb_Generation (bindingReference b)"
  obtain e w2 where p: "(if ?g then service_prepare H s (at_Pod current) (bindingReference b) w1
      else service_check H s (at_Pod current) (bindingReference b) w1) = (e, w2)" by (rule prod.exhaust)
  note body = assms [unfolded reconcile_ready_def Let_def r b(1) prod.case sum.case p]
  have e: "e = None" using body b(2,3) by (cases e) (auto split: prod.splits)
  obtain x w3 where ad: "adopt_generation s b current (cb_Generation (bindingReference b)) w2 = (x, w3)" by (rule prod.exhaust)
  obtain adopted where x: "x = Inr adopted" using body b(2,3) e ad by (cases x) auto
  have sup: "supersede s adopted as w3 = (None, w')" using body b(2,3) e ad x by simp
  have "verified_at s (fst w2) current" using program_verified [OF p [unfolded e]] b(2,3) by simp
  moreover have "fst w' = fst w3" using movesD [OF supersede_rests sup] by (simp add: quiet_def)
  ultimately show ?thesis using adopt_keeps_state [OF ad [unfolded x]] by simp
qed

abbreviation settled :: "'w svc \<Rightarrow> Attachment \<Rightarrow> bool" where
  "settled w a \<equiv> sealed_now w a \<or> at_Phase a = PhaseLockedDown \<or> verified_at s (fst w) a"

lemma reconcile_live_settled:
  assumes "reconcile_live H s pod as w = (None, w')" and "a \<in> set as" and "live_now w a"
  shows "settled w' a"
proof -
  obtain live errs w1 where l: "liveAttachments s as w = ((live, errs), w1)" by (metis surj_pair)
  have none: "errors_Join (Some e # es) = None \<longleftrightarrow> False" for e es by simp
  note body = assms(1) [unfolded reconcile_live_def Let_def l prod.case]
  have errs: "errors_Join errs = None"
    using body none by (cases "errors_Join errs") (auto split: prod.splits)
  then have "live = filter (live_now w) as" using live_exact [OF l] by simp
  with assms(2,3) have a: "a \<in> set live" by simp
  then obtain current rest where live: "live = current # rest" by (cases live) auto
  have "rest = []"
  proof (rule ccontr)
    assume "rest \<noteq> []"
    with body errs live show False by (auto simp: none split: prod.splits simp del: errors_Join_None)
  qed
  with a live have a: "a = current" by simp
  show ?thesis
  proof (cases "at_Phase current = PhaseLockedDown")
    case False
    with body errs live \<open>rest = []\<close> have "reconcile_ready H s pod current as w1 = (None, w')" by (simp del: errors_Join_None)
    from reconcile_ready_verified [OF this] a show ?thesis by simp
  qed (simp add: a)
qed

lemma group_settled:
  assumes "reconcileAttachmentGroup H s as w = (None, w')" and "a \<in> set as" and "live_now w a"
  shows "settled w' a"
proof -
  define xs where "xs = sort_key attachment_order as"
  have a: "a \<in> set xs" using assms(2) by (simp add: xs_def)
  note body = assms(1) [unfolded reconcileAttachmentGroup_def Let_def, folded xs_def]
  have "\<not> quarantineAttachmentGroup H s xs cause w = (None, w')" for cause
    by (auto simp: quarantineAttachmentGroup_def split: prod.splits)
  with body obtain r w1 where r: "service_pod s (at_Pod (hd xs)) w = (r, w1)"
    and rest: "(case r of Inl e \<Rightarrow> if exactPodAbsent e then withdrawAttachmentGroup H s xs w1
         else (Some e, observeNotReady H s (pi_Namespace (at_Pod (hd xs))) (pi_UID (at_Pod (hd xs))) w1)
     | Inr pod \<Rightarrow> if is_deleting (pod_Meta pod) then withdrawAttachmentGroup H s xs w1 else reconcile_live H s pod xs w1) = (None, w')"
    by (cases "service_pod s (at_Pod (hd xs)) w") (simp split: if_splits)
  have live: "live_now w1 a" using live_at_moves(1) [OF movesD [OF pod_rests [THEN rests_seals] r]] assms(3) by simp
  show ?thesis
    using rest withdraw_group_sealed [OF _ a live] reconcile_live_settled [OF _ a live] by (auto split: sum.splits if_splits)
qed

lemma settled_touches:
  assumes "touches sealed ident apart u w w'" and "apart (pi_UID (at_Pod a)) u" "pi_UID (at_Pod a) \<noteq> u" and "settled w a"
  shows "settled w' a"
  using assms by (auto simp: touches_def sealed_at_def verified_at_def)

lemma groups_keep_settled:
  assumes "reconcile_groups H s as us w = (errs, w')" and "settled w a"
    and "\<forall>u \<in> set us. (\<exists>a' \<in> set as. pi_UID (at_Pod a') = u) \<and> u \<noteq> pi_UID (at_Pod a) \<and> apart (pi_UID (at_Pod a)) u"
  shows "settled w' a"
  using assms
proof (induction us arbitrary: w errs)
  case (Cons u us)
  let ?G = "filter (\<lambda>a. pi_UID (at_Pod a) = u) as"
  obtain e w1 where g: "reconcileAttachmentGroup H s ?G w = (e, w1)" by (rule prod.exhaust)
  obtain errs' where t: "reconcile_groups H s as us w1 = (errs', w')" using Cons.prems(1) g by (auto split: prod.splits)
  have "?G \<noteq> []" using Cons.prems(3) by (auto simp: filter_empty_conv)
  from movesD [OF group_touches [OF _ this] g] have "touches sealed ident apart u w w1" by simp
  with settled_touches Cons.prems(2,3) have "settled w1 a" by (metis list.set_intros(1))
  with Cons.IH [OF t] Cons.prems(3) show ?case by simp
qed simp

lemma groups_settled:
  assumes "reconcile_groups H s as us w = (errs, w')" and "\<forall>e \<in> set errs. e = None" and "distinct us"
    and "\<forall>u \<in> set us. \<exists>a \<in> set as. pi_UID (at_Pod a) = u"
    and apart: "\<forall>u \<in> set us. \<forall>v \<in> set us. u \<noteq> v \<longrightarrow> apart u v"
    and "a \<in> set as" "pi_UID (at_Pod a) \<in> set us" "live_now w a"
  shows "settled w' a"
  using assms
proof (induction us arbitrary: w errs)
  case (Cons u us)
  let ?G = "filter (\<lambda>a. pi_UID (at_Pod a) = u) as"
  obtain e w1 where g: "reconcileAttachmentGroup H s ?G w = (e, w1)" by (rule prod.exhaust)
  obtain errs' w2 where t: "reconcile_groups H s as us w1 = (errs', w2)" by (rule prod.exhaust)
  from Cons.prems(1,2) g t have e: "e = None" "\<forall>e \<in> set errs'. e = None" and w2: "w2 = w'" by auto
  have nonempty: "?G \<noteq> []" using Cons.prems(4) by (auto simp: filter_empty_conv)
  have touch: "touches sealed ident apart u w w1" using movesD [OF group_touches [OF _ nonempty] g] by simp
  show ?case
  proof (cases "pi_UID (at_Pod a) = u")
    case True
    with Cons.prems(6,8) group_settled [OF g [unfolded e]] have "settled w1 a" by simp
    moreover have "\<forall>b \<in> set us. (\<exists>a' \<in> set as. pi_UID (at_Pod a') = b) \<and> b \<noteq> pi_UID (at_Pod a) \<and> apart (pi_UID (at_Pod a)) b"
      using Cons.prems(3-5) True by auto
    ultimately show ?thesis using groups_keep_settled [OF t] w2 by blast
  next
    case False
    have "live_now w1 a" using live_at_moves(2) [OF touch] Cons.prems(8) by simp
    then show ?thesis using Cons.IH [OF t [unfolded w2] e(2)] Cons.prems False by simp
  qed
qed simp

lemma ReconcileAll_settled:
  assumes "ReconcileAll H s w = (None, w')" and "\<not> sv_TransitionHeld s"
    and "as_ListAll (sv_Store s) (snd w) = (Inr listed, v)"
    and apart: "\<forall>a \<in> set listed. \<forall>b \<in> set listed. pi_UID (at_Pod a) \<noteq> pi_UID (at_Pod b) \<longrightarrow> apart (pi_UID (at_Pod a)) (pi_UID (at_Pod b))"
    and a: "a \<in> set listed" "pi_UID (at_Pod a) \<noteq> []" "pi_NetNS (at_Pod a) \<noteq> []" "live_now w a"
  shows "settled w' a"
proof -
  define as where "as = filter (\<lambda>a. pi_UID (at_Pod a) \<noteq> [] \<and> pi_NetNS (at_Pod a) \<noteq> []) listed"
  define us where "us = sort (remdups (map (pi_UID \<circ> at_Pod) as))"
  have l: "world (as_ListAll (sv_Store s)) w = (Inr listed, (fst w, v))" using assms(3) by (cases w) (simp add: world_def)
  obtain errs where g: "reconcile_groups H s as us (fst w, v) = (errs, w')" and none: "\<forall>e \<in> set errs. e = None"
    using assms(1,2) l by (auto simp: ReconcileAll_def Let_def as_def us_def split: prod.splits)
  have us: "set us = (pi_UID \<circ> at_Pod) ` set as" "distinct us" by (simp_all add: us_def)
  have "a \<in> set as" using a by (simp add: as_def)
  moreover have "live_now (fst w, v) a" using a(4) live_at_moves(1) [OF movesD [OF looks(4) [THEN rests_seals] l]] by simp
  ultimately show ?thesis
    using apart by (intro groups_settled [OF g none us(2)]) (auto simp: us(1) as_def)
qed

lemma groups_ident:
  assumes "reconcile_groups H s as us w = (errs, w')" and "\<forall>u \<in> set us. \<exists>a \<in> set as. pi_UID (at_Pod a) = u"
  shows "ident (snd w') = ident (snd w)"
  using assms
proof (induction us arbitrary: w errs)
  case (Cons u us)
  let ?G = "filter (\<lambda>a. pi_UID (at_Pod a) = u) as"
  obtain e w1 where g: "reconcileAttachmentGroup H s ?G w = (e, w1)" by (rule prod.exhaust)
  obtain errs' where t: "reconcile_groups H s as us w1 = (errs', w')" using Cons.prems(1) g by (auto split: prod.splits)
  have "?G \<noteq> []" using Cons.prems(2) by (auto simp: filter_empty_conv)
  from movesD [OF group_touches [OF _ this] g] have "touches sealed ident apart u w w1" by simp
  then have "ident (snd w1) = ident (snd w)" by (simp add: touches_def)
  with Cons.IH [OF t] Cons.prems(2) show ?case by simp
qed simp

lemma ReconcileAll_ident:
  assumes "ReconcileAll H s w = (r, w')"
  shows "ident (snd w') = ident (snd w)"
proof (cases "sv_TransitionHeld s")
  case True
  with assms have "LockdownAll H s w = (r, w')" by (simp add: ReconcileAll_def)
  from movesD [OF LockdownAll_seals this] show ?thesis by (simp add: seals_def)
next
  case False
  obtain l w1 where l: "world (as_ListAll (sv_Store s)) w = (l, w1)" by (rule prod.exhaust)
  have id: "ident (snd w1) = ident (snd w)" using movesD [OF looks(4) l] by (simp add: quiet_def)
  show ?thesis
  proof (cases l)
    case (Inl e)
    with assms False l id show ?thesis by (simp add: ReconcileAll_def)
  next
    case (Inr listed)
    define as where "as = filter (\<lambda>a. pi_UID (at_Pod a) \<noteq> [] \<and> pi_NetNS (at_Pod a) \<noteq> []) listed"
    obtain errs where "reconcile_groups H s as (sort (remdups (map (pi_UID \<circ> at_Pod) as))) w1 = (errs, w')"
      using assms False l Inr by (auto simp: ReconcileAll_def Let_def as_def split: prod.splits)
    from groups_ident [OF this] id show ?thesis by auto
  qed
qed

end

end
