(* ===== verification/Linux_Enforcer.thy ===== *)
theory Linux_Enforcer
  imports Workload_Policy Node_Agent_Drift
begin

text \<open>
  \<open>src/internal/cni/enforcer_linux.go\<close>: the enforcer that runs the Linux backend inside a network namespace. The
  host is a parameter: \<open>syscall.Stat\<close>, entering a namespace with \<open>ns.WithNetNSPath\<close>, and the kernel as it is
  seen inside. What the kernel is documented to do with nftables is the locale \<open>netns_host\<close>; under it the enforcer
  satisfies the contract the node agent relies on.
\<close>

section \<open>The enforcer\<close>

record 'w host =
  h_Stat :: "string \<Rightarrow> ('w, (nat \<times> nat) result) call"
  h_Enter :: "string \<Rightarrow> ('w, go_error option) call"
  h_Linux :: "string \<Rightarrow> 'w linux"

text \<open>The backend of an enforcer acts on the kernel of the namespace its thread is in.\<close>

record 'w LinuxEnforcer =
  le_Backend :: "('w linux \<Rightarrow> 'w Backend) option"

definition enforcer_Identity :: "'w host \<Rightarrow> string \<Rightarrow> ('w, string result) call" where
  "enforcer_Identity ho path w = (if path = [] then (Inl ErrNotExist, w)
     else case h_Stat ho path w of
       (Inl e, w1) \<Rightarrow> (Inl e, w1) | (Inr (dev, ino), w1) \<Rightarrow> (Inr (itoa dev @ '':'' @ itoa ino), w1))"

definition inNamespace :: "'w LinuxEnforcer \<Rightarrow> 'w host \<Rightarrow> string \<Rightarrow> ('w Backend \<Rightarrow> ('w, go_error option) call) \<Rightarrow> ('w, go_error option) call" where
  "inNamespace e ho path operation w = (case le_Backend e of
     None \<Rightarrow> (Some (Err ''data-plane backend is required''), w)
   | Some backend \<Rightarrow> (case h_Enter ho path w of
       (Some err, w1) \<Rightarrow> (Some err, w1) | (None, w1) \<Rightarrow> operation (backend (h_Linux ho path)) w1))"

definition enforcer_InstallLockdown :: "'w LinuxEnforcer \<Rightarrow> 'w host \<Rightarrow> string \<Rightarrow> string \<Rightarrow> ('w, go_error option) call" where
  "enforcer_InstallLockdown e ho path podUID = inNamespace e ho path (\<lambda>B. be_InstallLockdown B podUID)"

definition enforcer_Configure :: "'w LinuxEnforcer \<Rightarrow> 'w host \<Rightarrow> string \<Rightarrow> Config \<Rightarrow> ('w, go_error option) call" where
  "enforcer_Configure e ho path cfg = inNamespace e ho path (\<lambda>B. be_Configure B cfg)"

definition enforcer_Verify :: "'w LinuxEnforcer \<Rightarrow> 'w host \<Rightarrow> string \<Rightarrow> Config \<Rightarrow> ('w, go_error option) call" where
  "enforcer_Verify e ho path cfg = inNamespace e ho path (\<lambda>B. be_Verify B cfg)"

definition enforcer_Cleanup :: "'w LinuxEnforcer \<Rightarrow> 'w host \<Rightarrow> string \<Rightarrow> string \<Rightarrow> ('w, go_error option) call" where
  "enforcer_Cleanup e ho path podUID = inNamespace e ho path (\<lambda>B. agent_Cleanup (Some B) podUID None)"

definition NewLinuxEnforcer :: "(string \<Rightarrow> 8 word list) \<Rightarrow> 'w LinuxEnforcer" where
  "NewLinuxEnforcer H = \<lparr>le_Backend = Some (linuxBackend H)\<rparr>"

definition enforcer_programmer :: "'w LinuxEnforcer \<Rightarrow> 'w host \<Rightarrow> 'w Programmer" where
  "enforcer_programmer e ho = \<lparr>pg_Identity = enforcer_Identity ho, pg_InstallLockdown = enforcer_InstallLockdown e ho,
     pg_Configure = enforcer_Configure e ho, pg_Verify = enforcer_Verify e ho, pg_Cleanup = enforcer_Cleanup e ho\<rparr>"

lemma backend_sel:
  "be_InstallLockdown (linuxBackend H L) = lx_InstallLockdown H L" "be_Configure (linuxBackend H L) = lx_Configure H L"
  "be_Verify (linuxBackend H L) = lx_Verify H L" "be_Cleanup (linuxBackend H L) = Some (lx_Cleanup H L)"
  by (simp_all add: linuxBackend_def)

section \<open>Frames of the backend\<close>

text \<open>Every call on the kernel but the commit of a batch.\<close>

definition linux_moves :: "('w \<Rightarrow> 'w \<Rightarrow> bool) \<Rightarrow> 'w linux \<Rightarrow> bool" where
  "linux_moves R L \<longleftrightarrow> moves R (nft_ListTables L) \<and> moves R (nft_ListTablesINet L) \<and> moves R (nft_ListChainsINet L)
     \<and> moves R (nl_LinkList L) \<and> (\<forall>n. moves R (nl_LinkByName L n)) \<and> (\<forall>i. moves R (nl_LinkByIndex L i))
     \<and> (\<forall>l. moves R (nl_LinkAdd L l)) \<and> (\<forall>l. moves R (nl_LinkDel L l)) \<and> (\<forall>l. moves R (nl_LinkSetUp L l))
     \<and> (\<forall>l f. moves R (nl_AddrList L l f)) \<and> (\<forall>l a. moves R (nl_AddrReplace L l a)) \<and> (\<forall>a. moves R (nl_RouteGet L a))
     \<and> (\<forall>f t. moves R (nl_RouteListTable L f t)) \<and> (\<forall>r. moves R (nl_RouteReplace L r)) \<and> (\<forall>r. moves R (nl_RouteDel L r))
     \<and> (\<forall>f. moves R (nl_RuleList L f)) \<and> (\<forall>r. moves R (nl_RuleAdd L r)) \<and> (\<forall>r. moves R (nl_RuleDel L r))
     \<and> (\<forall>e. moves R (lx_Dial L e)) \<and> (\<forall>d. moves R (lx_Send L d)) \<and> moves R (lx_ReadResponse L) \<and> (\<forall>w. R w (lx_CloseConn L w))"

locale linux_frame = world_order R for R :: "'w \<Rightarrow> 'w \<Rightarrow> bool" +
  fixes L :: "'w linux"
  assumes calls: "linux_moves R L"
begin

lemma kernel_calls:
  "moves R (nft_ListTables L)" "moves R (nft_ListTablesINet L)" "moves R (nft_ListChainsINet L)"
  "moves R (nl_LinkByName L n)" "moves R (nl_LinkByIndex L i)" "moves R (nl_LinkAdd L l)" "moves R (nl_LinkDel L l)"
  "moves R (nl_LinkSetUp L l)" "moves R (nl_AddrList L l f)" "moves R (nl_AddrReplace L l a)" "moves R (nl_RouteGet L b)"
  "moves R (nl_RouteListTable L f t)" "moves R (nl_RouteReplace L r)" "moves R (nl_RouteDel L r)" "moves R (nl_RuleList L f)"
  "moves R (nl_RuleAdd L u)" "moves R (nl_RuleDel L u)" "moves R (lx_Dial L e)" "moves R (lx_Send L d)" "moves R (lx_ReadResponse L)"
  using calls by (simp_all add: linux_moves_def del: split_paired_All)

lemma moves_close: "moves R (\<lambda>w. (g, lx_CloseConn L w))"
  using calls by (simp add: linux_moves_def moves_def)

lemmas frame_intros = moves_return moves_bind moves_cases moves_close kernel_calls

lemma until_error_moves: "(\<And>c. c \<in> set cs \<Longrightarrow> moves R c) \<Longrightarrow> moves R (until_error cs)"
proof (induction cs)
  case Nil
  show ?case by (rule moves_ext, rule until_error.simps) (rule moves_return)
next
  case (Cons c cs)
  show ?case by (rule moves_ext, rule until_error.simps) (intro frame_intros Cons.IH Cons.prems; simp)
qed

lemma rule_calls: "moves R (add_rule_ignoring_existing L r)" "moves R (delete_rule L r)"
  unfolding add_rule_ignoring_existing_def [abs_def] delete_rule_def [abs_def] by (intro frame_intros)+

lemma reconcilePolicyRules_moves: "moves R (reconcilePolicyRules L cfg)"
  unfolding reconcilePolicyRules_def [abs_def] Let_def
  by (intro frame_intros until_error_moves) (auto simp: cluster_rules_def addPolicyRule_def addDNSPolicyRule_def Let_def rule_calls split: if_splits)

lemma resolveUnderlay_moves: "moves R (resolveUnderlay L cfg)"
  unfolding resolveUnderlay_def [abs_def] by (intro frame_intros) (simp add: kernel_calls split: if_splits)

lemma createVXLAN_moves: "moves R (createVXLAN L cfg name underlay source)"
  unfolding createVXLAN_def [abs_def] by (intro frame_intros)

lemma vxlanSource_moves: "moves R (vxlanSource L cfg underlay route)"
  unfolding vxlanSource_def [abs_def] by (intro frame_intros)

lemma ensureVXLAN_moves: "moves R (ensureVXLAN L cfg name underlay route)"
  unfolding ensureVXLAN_def [abs_def] by (intro frame_intros vxlanSource_moves createVXLAN_moves)

lemma activate_moves:
  assumes flush: "\<And>existing. moves R (nft_Flush L (policy_batch H existing (cfg_PodUID cfg) (lk_Name underlay) (cfg_GatewayEndpoint cfg) (overlayName H cfg)
      (cfg_GatewayAddress cfg) (pfx_Addr (cfg_Address cfg)) (cfg_ClusterTrafficMode cfg) (cfg_ClusterCIDRs cfg) (cfg_ApplicationPortRedirects cfg)))"
  shows "moves R (activate H L cfg underlay v)"
  unfolding activate_def [abs_def] ensureOverlayAddress_def [abs_def] replacePolicy_def [abs_def] by (intro frame_intros flush)

lemma Verify_moves: "moves R (lx_Verify H L cfg)"
proof -
  have "moves R (verifyPolicy H L podUID d)" for podUID d
    unfolding verifyPolicy_def [abs_def] Let_def by (intro frame_intros)
  moreover have "moves R (probeGatewayReadiness L endpoint)" for endpoint
    unfolding probeGatewayReadiness_def [abs_def] by (intro frame_intros)
  ultimately show ?thesis unfolding lx_Verify_def [abs_def] by (intro frame_intros)
qed

lemma delete_owned_moves: "moves R (delete_owned_rules L us)" "moves R (delete_owned_routes L rs)"
proof -
  show "moves R (delete_owned_rules L us)"
  proof (induction us)
    case (Cons u us)
    show ?case by (rule moves_ext, rule delete_owned_rules.simps) (intro frame_intros Cons.IH)
  qed (rule moves_ext, rule delete_owned_rules.simps, rule moves_return)
  show "moves R (delete_owned_routes L rs)"
  proof (induction rs)
    case (Cons r rs)
    show ?case by (rule moves_ext, rule delete_owned_routes.simps) (intro frame_intros Cons.IH)
  qed (rule moves_ext, rule delete_owned_routes.simps, rule moves_return)
qed

lemma cleanup_parts_moves: "moves R (cleanup_family L family)" "moves R (cleanup_link H L cfg)"
  unfolding cleanup_family_def [abs_def] cleanup_link_def [abs_def] by (intro frame_intros delete_owned_moves)+

end

section \<open>The kernel\<close>

text \<open>
  \<open>ident w p\<close> is the identity (device and inode) of the namespace at path \<open>p\<close>, and \<open>tables w i\<close> the inet tables of
  the namespace \<open>i\<close>. Listing the tables is complete, a batch is committed as a whole or not at all, netlink calls
  and connections leave the tables alone, and the names of links fit IFNAMSIZ.
\<close>

definition same_tables :: "('w \<Rightarrow> string \<rightharpoonup> string) \<Rightarrow> ('w \<Rightarrow> string \<Rightarrow> string \<rightharpoonup> nft_table) \<Rightarrow> 'w \<Rightarrow> 'w \<Rightarrow> bool" where
  "same_tables ident tables w w' \<longleftrightarrow> ident w' = ident w \<and> tables w' = tables w"

definition only_table :: "('w \<Rightarrow> string \<rightharpoonup> string) \<Rightarrow> ('w \<Rightarrow> string \<Rightarrow> string \<rightharpoonup> nft_table) \<Rightarrow> string \<Rightarrow> string \<Rightarrow> 'w \<Rightarrow> 'w \<Rightarrow> bool" where
  "only_table ident tables p t w w' \<longleftrightarrow> ident w' = ident w \<and>
     (\<forall>i. ident w p = Some i \<longrightarrow> (\<forall>j k. j \<noteq> i \<or> k \<noteq> t \<longrightarrow> tables w' j k = tables w j k))"

definition lockdown_at :: "(string \<Rightarrow> 8 word list) \<Rightarrow> ('w \<Rightarrow> string \<rightharpoonup> string) \<Rightarrow> ('w \<Rightarrow> string \<Rightarrow> string \<rightharpoonup> nft_table) \<Rightarrow> 'w \<Rightarrow> string \<Rightarrow> string \<Rightarrow> bool" where
  "lockdown_at H ident tables w p podUID \<longleftrightarrow> (\<forall>i. ident w p = Some i \<longrightarrow> locked H podUID (tables w i))"

definition policies_apart :: "(string \<Rightarrow> 8 word list) \<Rightarrow> string \<Rightarrow> string \<Rightarrow> bool" where
  "policies_apart H u v \<longleftrightarrow> policyTableName H u \<noteq> policyTableName H v"

locale netns_host =
  fixes ho :: "'w host" and ident :: "'w \<Rightarrow> string \<rightharpoonup> string" and tables :: "'w \<Rightarrow> string \<Rightarrow> string \<rightharpoonup> nft_table"
  assumes stat_keeps: "moves (same_tables ident tables) (h_Stat ho p)"
    and stat_ok: "h_Stat ho p w = (Inr (dev, ino), w') \<Longrightarrow> ident w p = Some (itoa dev @ '':'' @ itoa ino)"
    and stat_missing: "h_Stat ho p w = (Inl e, w') \<Longrightarrow> errors_Is e ErrNotExist \<Longrightarrow> ident w p = None"
    and no_path: "ident w [] = None"
    and enter_keeps: "moves (same_tables ident tables) (h_Enter ho p)"
    and enter_ok: "h_Enter ho p w = (None, w') \<Longrightarrow> ident w p \<noteq> None"
    and calls_keep: "linux_moves (same_tables ident tables) (h_Linux ho p)"
    and flush_ident: "keeps ident (nft_Flush (h_Linux ho p) ops)"
    and flush_ok: "nft_Flush (h_Linux ho p) ops w = (None, w') \<Longrightarrow> ident w p = Some i \<Longrightarrow> tables w' = (tables w)(i := commit ops (tables w i))"
    and flush_failed: "nft_Flush (h_Linux ho p) ops w = (Some e, w') \<Longrightarrow> tables w' = tables w"
    and link_names: "nl_LinkByName (h_Linux ho p) name w = (Inr l, w') \<Longrightarrow> interface_name (lk_Name l)"
      "nl_LinkByIndex (h_Linux ho p) n w = (Inr l, w') \<Longrightarrow> interface_name (lk_Name l)"
    and list_complete: "nft_ListTablesINet (h_Linux ho p) w = (Inr names, w') \<Longrightarrow> ident w p = Some i \<Longrightarrow> dom (tables w i) \<subseteq> set names"

interpretation same_table_order: world_order "same_tables ident tables" for ident tables
  by unfold_locales (auto simp: same_tables_def)

interpretation only_table_order: world_order "only_table ident tables p t" for ident tables p t
  by unfold_locales (auto simp: only_table_def)

lemma same_only: "same_tables ident tables w w' \<Longrightarrow> only_table ident tables p t w w'"
  by (simp add: same_tables_def only_table_def)

lemma linux_moves_weaken: "linux_moves R L \<Longrightarrow> (\<And>w w'. R w w' \<Longrightarrow> S w w') \<Longrightarrow> linux_moves S L"
  by (simp add: linux_moves_def moves_def del: split_paired_All)

sublocale netns_host \<subseteq> still: linux_frame "same_tables ident tables" "h_Linux ho p" for p
  by unfold_locales (rule calls_keep)

sublocale netns_host \<subseteq> within: linux_frame "only_table ident tables p t" "h_Linux ho p" for p t
  by unfold_locales (rule linux_moves_weaken [OF calls_keep same_only])

section \<open>What the enforcer does to the tables\<close>

context netns_host
begin

lemma policy_flush_moves:
  "moves (only_table ident tables p (policyTableName H u))
     (nft_Flush (h_Linux ho p) (policy_batch H existing u underlay endpoint overlay gateway address mode cidrs redirects))"
proof (rule movesI)
  fix w r w'
  let ?ops = "policy_batch H existing u underlay endpoint overlay gateway address mode cidrs redirects"
  assume f: "nft_Flush (h_Linux ho p) ?ops w = (r, w')"
  have "tables w' j k = tables w j k" if "ident w p = Some i" "j \<noteq> i \<or> k \<noteq> policyTableName H u" for i j k
  proof (cases r)
    case None
    with f that(1) have "tables w' = (tables w)(i := commit ?ops (tables w i))" by (simp add: flush_ok)
    moreover have "commit ?ops (tables w i) k = tables w i k" if "k \<noteq> policyTableName H u"
      by (rule commit_other) (use that policy_batch_table in fastforce)
    ultimately show ?thesis using that(2) by auto
  qed (use f flush_failed in auto)
  moreover have "ident w' = ident w" using keepsD [OF flush_ident f] .
  ultimately show "only_table ident tables p (policyTableName H u) w w'" by (simp add: only_table_def)
qed

lemma Configure_moves: "moves (only_table ident tables p (policyTableName H (cfg_PodUID cfg))) (lx_Configure H (h_Linux ho p) cfg)"
  unfolding lx_Configure_def [abs_def]
  by (intro within.frame_intros within.reconcilePolicyRules_moves within.resolveUnderlay_moves within.ensureVXLAN_moves within.activate_moves policy_flush_moves)

lemma replacePolicy_cases:
  assumes "replacePolicy H (h_Linux ho p) u underlay endpoint overlay gateway address mode cidrs redirects w = (r, w')" and i: "ident w p = Some i"
  shows "ident w' = ident w"
    and "r = None \<Longrightarrow> \<exists>existing. dom (tables w i) \<subseteq> set existing \<and>
      tables w' = (tables w)(i := commit (policy_batch H existing u underlay endpoint overlay gateway address mode cidrs redirects) (tables w i))"
    and "r = Some e \<Longrightarrow> tables w' = tables w"
proof -
  obtain l w1 where l: "nft_ListTablesINet (h_Linux ho p) w = (l, w1)" by (rule prod.exhaust)
  have same: "same_tables ident tables w w1" using movesD [OF still.kernel_calls(2) l] .
  have "ident w' = ident w \<and> (r = None \<longrightarrow> (\<exists>existing. dom (tables w i) \<subseteq> set existing \<and>
      tables w' = (tables w)(i := commit (policy_batch H existing u underlay endpoint overlay gateway address mode cidrs redirects) (tables w i))))
    \<and> (r \<noteq> None \<longrightarrow> tables w' = tables w)"
  proof (cases l)
    case (Inl err)
    with assms(1) l same show ?thesis by (auto simp: replacePolicy_def same_tables_def)
  next
    case (Inr names)
    let ?ops = "policy_batch H names u underlay endpoint overlay gateway address mode cidrs redirects"
    from assms(1) l Inr have f: "nft_Flush (h_Linux ho p) ?ops w1 = (r, w')" by (simp add: replacePolicy_def)
    have "ident w' = ident w" using keepsD [OF flush_ident f] same by (simp add: same_tables_def)
    moreover have "dom (tables w i) \<subseteq> set names" using list_complete l Inr i by blast
    moreover have "r = None \<Longrightarrow> tables w' = (tables w)(i := commit ?ops (tables w i))"
      using flush_ok [of p ?ops w1 w' i] f same i by (simp add: same_tables_def)
    moreover have "r \<noteq> None \<Longrightarrow> tables w' = tables w"
      using flush_failed [of p ?ops w1 _ w'] f same by (auto simp: same_tables_def)
    ultimately show ?thesis by blast
  qed
  then show "ident w' = ident w"
    and "r = None \<Longrightarrow> \<exists>existing. dom (tables w i) \<subseteq> set existing \<and>
      tables w' = (tables w)(i := commit (policy_batch H existing u underlay endpoint overlay gateway address mode cidrs redirects) (tables w i))"
    and "r = Some e \<Longrightarrow> tables w' = tables w"
    by auto
qed

lemma inNamespace_cases:
  assumes "inNamespace (NewLinuxEnforcer H) ho p operation w = (r, w')"
  obtains (failed) e where "r = Some e" "same_tables ident tables w w'"
  | (entered) w1 i where "same_tables ident tables w w1" "ident w1 p = Some i" "operation (linuxBackend H (h_Linux ho p)) w1 = (r, w')"
proof -
  obtain e w1 where e: "h_Enter ho p w = (e, w1)" by (rule prod.exhaust)
  have s: "same_tables ident tables w w1" using movesD [OF enter_keeps e] .
  show thesis
  proof (cases e)
    case None
    with e enter_ok s have "ident w1 p \<noteq> None" by (metis same_tables_def)
    with assms e None s entered show ?thesis by (auto simp: inNamespace_def NewLinuxEnforcer_def)
  next
    case (Some err)
    with assms e s failed show ?thesis by (auto simp: inNamespace_def NewLinuxEnforcer_def)
  qed
qed

lemma lockdown_same: "same_tables ident tables w w' \<Longrightarrow> lockdown_at H ident tables w' p u = lockdown_at H ident tables w p u"
  by (simp add: same_tables_def lockdown_at_def)

text \<open>A lockdown seals its Pod, and unseals none, also none whose table has the same name.\<close>

lemma lx_InstallLockdown_seals:
  assumes "lx_InstallLockdown H (h_Linux ho p) u w = (r, w')" and i: "ident w p = Some i"
  shows "ident w' = ident w" and "r = None \<Longrightarrow> lockdown_at H ident tables w' p u"
    and "lockdown_at H ident tables w q v \<Longrightarrow> lockdown_at H ident tables w' q v"
proof -
  let ?ops = "\<lambda>existing. policy_batch H existing u [] addrport_zero [] AddrZero AddrZero TrafficGateway [] []"
  have id: "ident w' = ident w \<and> (tables w' = tables w \<and> r \<noteq> None \<or>
      (\<exists>existing. dom (tables w i) \<subseteq> set existing \<and> tables w' = (tables w)(i := commit (?ops existing) (tables w i))))"
  proof (cases "u = []")
    case True
    with assms(1) show ?thesis by (auto simp: lx_InstallLockdown_def)
  next
    case False
    with assms(1) have "replacePolicy H (h_Linux ho p) u [] addrport_zero [] AddrZero AddrZero TrafficGateway [] [] w = (r, w')"
      by (simp add: lx_InstallLockdown_def)
    note c = replacePolicy_cases [OF this i]
    show ?thesis using c by (cases r) auto
  qed
  have seal: "locked H u (commit (?ops existing) (tables w i))" if "dom (tables w i) \<subseteq> set existing" for existing
    by (rule lockdown_commit) (use that in auto)
  show "ident w' = ident w" using id by blast
  show "r = None \<Longrightarrow> lockdown_at H ident tables w' p u" using id seal i by (auto simp: lockdown_at_def)
  show "lockdown_at H ident tables w' q v" if q: "lockdown_at H ident tables w q v"
  proof -
    have "locked H v (commit (?ops existing) (tables w i))" if "dom (tables w i) \<subseteq> set existing" "locked H v (tables w i)" for existing
    proof (cases "policyTableName H v = policyTableName H u")
      case True
      with seal [OF that(1)] show ?thesis by (simp add: locked_def)
    next
      case False
      with locked_other [of H v "policyTableName H u" "?ops existing"] that(2) policy_batch_table show ?thesis by blast
    qed
    then show ?thesis using q id by (auto simp: lockdown_at_def)
  qed
qed

lemma lx_Cleanup_seals:
  assumes "lx_Cleanup H (h_Linux ho p) u cfg w = (r, w')" and i: "ident w p = Some i"
  shows "ident w' = ident w" and "r = None \<Longrightarrow> lockdown_at H ident tables w' p u"
    and "lockdown_at H ident tables w q v \<Longrightarrow> lockdown_at H ident tables w' q v"
proof -
  obtain e w1 where e: "lx_InstallLockdown H (h_Linux ho p) u w = (e, w1)" by (rule prod.exhaust)
  note s = lx_InstallLockdown_seals [OF e i]
  have rest: "same_tables ident tables w1 w'" if "e = None" "u \<noteq> []"
  proof -
    let ?rest = "\<lambda>w1. (case cleanup_family (h_Linux ho p) FAMILY_V4 w1 of (errs4, w2) \<Rightarrow>
        (case cleanup_family (h_Linux ho p) FAMILY_V6 w2 of (errs6, w3) \<Rightarrow>
          let overlayConfig = (case cfg of None \<Rightarrow> zero_config\<lparr>cfg_PodUID := u\<rparr> | Some c \<Rightarrow> c\<lparr>cfg_PodUID := u\<rparr>) in
          (case cleanup_link H (h_Linux ho p) overlayConfig w3 of (e, w4) \<Rightarrow> (errors_Join (errs4 @ errs6 @ [e]), w4))))"
    have "moves (same_tables ident tables) ?rest"
      by (intro still.frame_intros still.cleanup_parts_moves)
    moreover have "?rest w1 = (r, w')" using assms(1) e that by (simp add: lx_Cleanup_def)
    ultimately show ?thesis by (rule movesD)
  qed
  consider (empty) "u = []" "w' = w" "r \<noteq> None" | (open_) "e \<noteq> None" "w' = w1" "r \<noteq> None" | (removed) "e = None" "same_tables ident tables w1 w'"
  proof (cases "u = []")
    case True
    with assms(1) that(1) show ?thesis by (auto simp: lx_Cleanup_def)
  next
    case False
    note u = this
    show ?thesis
    proof (cases e)
      case None
      with u rest that(3) show ?thesis by blast
    next
      case (Some a)
      with assms(1) e u that(2) show ?thesis by (auto simp: lx_Cleanup_def)
    qed
  qed
  then have "ident w' = ident w \<and> (r = None \<longrightarrow> lockdown_at H ident tables w' p u) \<and>
      (lockdown_at H ident tables w q v \<longrightarrow> lockdown_at H ident tables w' q v)"
  proof cases
    case removed
    then show ?thesis using s lockdown_same [OF removed(2)] by (simp add: same_tables_def)
  qed (use s in auto)
  then show "ident w' = ident w" and "r = None \<Longrightarrow> lockdown_at H ident tables w' p u"
    and "lockdown_at H ident tables w q v \<Longrightarrow> lockdown_at H ident tables w' q v"
    by blast+
qed

lemma enforcer_Install:
  assumes "enforcer_InstallLockdown (NewLinuxEnforcer H) ho p u w = (r, w')"
  shows "ident w' = ident w" and "r = None \<Longrightarrow> lockdown_at H ident tables w' p u"
    and "lockdown_at H ident tables w q v \<Longrightarrow> lockdown_at H ident tables w' q v"
proof -
  have "ident w' = ident w \<and> (r = None \<longrightarrow> lockdown_at H ident tables w' p u) \<and>
      (lockdown_at H ident tables w q v \<longrightarrow> lockdown_at H ident tables w' q v)"
    using assms unfolding enforcer_InstallLockdown_def
  proof (cases rule: inNamespace_cases)
    case (failed e)
    then show ?thesis using lockdown_same [OF failed(2)] by (simp add: same_tables_def)
  next
    case (entered w1 i)
    then have "lx_InstallLockdown H (h_Linux ho p) u w1 = (r, w')" by (simp add: backend_sel)
    note s = lx_InstallLockdown_seals [OF this entered(2)]
    then show ?thesis using lockdown_same [OF entered(1)] entered(1) by (simp add: same_tables_def)
  qed
  then show "ident w' = ident w" and "r = None \<Longrightarrow> lockdown_at H ident tables w' p u"
    and "lockdown_at H ident tables w q v \<Longrightarrow> lockdown_at H ident tables w' q v"
    by blast+
qed

lemma enforcer_Clean:
  assumes "enforcer_Cleanup (NewLinuxEnforcer H) ho p u w = (r, w')"
  shows "ident w' = ident w" and "r = None \<Longrightarrow> lockdown_at H ident tables w' p u"
    and "lockdown_at H ident tables w q v \<Longrightarrow> lockdown_at H ident tables w' q v"
proof -
  have "ident w' = ident w \<and> (r = None \<longrightarrow> lockdown_at H ident tables w' p u) \<and>
      (lockdown_at H ident tables w q v \<longrightarrow> lockdown_at H ident tables w' q v)"
    using assms unfolding enforcer_Cleanup_def
  proof (cases rule: inNamespace_cases)
    case (failed e)
    then show ?thesis using lockdown_same [OF failed(2)] by (simp add: same_tables_def)
  next
    case (entered w1 i)
    show ?thesis
    proof (cases "u = []")
      case True
      with entered show ?thesis using lockdown_same [OF entered(1)] by (auto simp: agent_Cleanup_def same_tables_def)
    next
      case False
      with entered have "lx_Cleanup H (h_Linux ho p) u None w1 = (r, w')" by (simp add: agent_Cleanup_def backend_sel)
      note s = lx_Cleanup_seals [OF this entered(2)]
      then show ?thesis using lockdown_same [OF entered(1)] entered(1) by (simp add: same_tables_def)
    qed
  qed
  then show "ident w' = ident w" and "r = None \<Longrightarrow> lockdown_at H ident tables w' p u"
    and "lockdown_at H ident tables w q v \<Longrightarrow> lockdown_at H ident tables w' q v"
    by blast+
qed

lemma enforcer_Conf:
  assumes "enforcer_Configure (NewLinuxEnforcer H) ho p cfg w = (r, w')"
  shows "ident w' = ident w"
    and "policies_apart H v (cfg_PodUID cfg) \<Longrightarrow> lockdown_at H ident tables w q v \<Longrightarrow> lockdown_at H ident tables w' q v"
proof -
  have "ident w' = ident w \<and> (policies_apart H v (cfg_PodUID cfg) \<longrightarrow> lockdown_at H ident tables w q v \<longrightarrow> lockdown_at H ident tables w' q v)"
    using assms unfolding enforcer_Configure_def
  proof (cases rule: inNamespace_cases)
    case (failed e)
    then show ?thesis using lockdown_same [OF failed(2)] by (simp add: same_tables_def)
  next
    case (entered w1 i)
    then have "lx_Configure H (h_Linux ho p) cfg w1 = (r, w')" by (simp add: backend_sel)
    from movesD [OF Configure_moves this] entered(1,2) show ?thesis
      by (auto simp: only_table_def same_tables_def lockdown_at_def locked_def policies_apart_def)
  qed
  then show "ident w' = ident w"
    and "policies_apart H v (cfg_PodUID cfg) \<Longrightarrow> lockdown_at H ident tables w q v \<Longrightarrow> lockdown_at H ident tables w' q v"
    by blast+
qed

lemma enforcer_looks:
  "moves (same_tables ident tables) (enforcer_Verify (NewLinuxEnforcer H) ho p cfg)"
  "moves (same_tables ident tables) (enforcer_Identity ho p)"
proof -
  show "moves (same_tables ident tables) (enforcer_Verify (NewLinuxEnforcer H) ho p cfg)"
    unfolding enforcer_Verify_def inNamespace_def [abs_def] backend_sel by (intro still.frame_intros enter_keeps)
      (auto simp: NewLinuxEnforcer_def backend_sel still.Verify_moves)
  show "moves (same_tables ident tables) (enforcer_Identity ho p)"
    unfolding enforcer_Identity_def [abs_def] by (intro still.frame_intros stat_keeps)
qed

end

lemma same_tables_keeps:
  assumes "moves (same_tables ident tables) c"
  shows "keeps ident c" and "keeps (lockdown_at H ident tables) c"
proof -
  show "keeps ident c" using assms by (simp add: keeps_moves moves_def same_tables_def)
  have "lockdown_at H ident tables (snd (c w)) = lockdown_at H ident tables w" for w
    using moves_snd [OF assms, of w] by (intro ext) (simp add: same_tables_def lockdown_at_def)
  then show "keeps (lockdown_at H ident tables) c" by (simp add: keeps_moves moves_def)
qed

sublocale netns_host \<subseteq> enforcer: path_programmer "enforcer_programmer (NewLinuxEnforcer H) ho" "lockdown_at H ident tables" ident "policies_apart H" for H
proof (unfold_locales, unfold enforcer_programmer_def Programmer.simps)
  show "keeps (lockdown_at H ident tables) (enforcer_Identity ho ns)" "keeps ident (enforcer_Identity ho ns)" for ns
    using same_tables_keeps [OF enforcer_looks(2)] by auto
  show "ident w ns = Some i" if "enforcer_Identity ho ns w = (Inr i, w')" for ns w i w'
    using that stat_ok by (auto simp: enforcer_Identity_def split: if_splits prod.splits sum.splits)
  show "ident w ns = None" if "enforcer_Identity ho ns w = (Inl e, w')" "errors_Is e ErrNotExist" for ns w e w'
    using that stat_missing no_path by (auto simp: enforcer_Identity_def split: if_splits prod.splits sum.splits)
  show "keeps (lockdown_at H ident tables) (enforcer_Verify (NewLinuxEnforcer H) ho ns cfg)" "keeps ident (enforcer_Verify (NewLinuxEnforcer H) ho ns cfg)" for ns cfg
    using same_tables_keeps [OF enforcer_looks(1)] by auto
  show "keeps ident (enforcer_InstallLockdown (NewLinuxEnforcer H) ho ns uid)" "keeps ident (enforcer_Cleanup (NewLinuxEnforcer H) ho ns uid)" for ns uid
    unfolding keeps_moves by (rule movesI, erule enforcer_Install(1), rule movesI, erule enforcer_Clean(1))
  show "keeps ident (enforcer_Configure (NewLinuxEnforcer H) ho ns cfg)" for ns cfg
    unfolding keeps_moves by (rule movesI, erule enforcer_Conf(1))
  show "lockdown_at H ident tables w' ns uid" if "enforcer_InstallLockdown (NewLinuxEnforcer H) ho ns uid w = (None, w')" for ns uid w w'
    using enforcer_Install(2) [OF that] by simp
  show "lockdown_at H ident tables w' ns' uid'"
    if "enforcer_InstallLockdown (NewLinuxEnforcer H) ho ns uid w = (r, w')" "lockdown_at H ident tables w ns' uid'" for ns uid w r w' ns' uid'
    using enforcer_Install(3) [OF that] .
  show "lockdown_at H ident tables w' ns uid" if "enforcer_Cleanup (NewLinuxEnforcer H) ho ns uid w = (None, w')" for ns uid w w'
    using enforcer_Clean(2) [OF that] by simp
  show "lockdown_at H ident tables w' ns' uid'"
    if "enforcer_Cleanup (NewLinuxEnforcer H) ho ns uid w = (r, w')" "lockdown_at H ident tables w ns' uid'" for ns uid w r w' ns' uid'
    using enforcer_Clean(3) [OF that] .
  show "lockdown_at H ident tables w' ns' uid"
    if "enforcer_Configure (NewLinuxEnforcer H) ho ns cfg w = (r, w')" "policies_apart H uid (cfg_PodUID cfg)" "lockdown_at H ident tables w ns' uid"
    for ns cfg w r w' uid ns'
    using enforcer_Conf(2) [OF that] .
qed

section \<open>What the tables decide\<close>

text \<open>The Pod's only output chain accepts loopback and drops every other packet.\<close>

definition denies_egress :: "(packet \<Rightarrow> (nat \<Rightarrow> bytes) \<Rightarrow> nft_expr list \<Rightarrow> verdict option) \<Rightarrow> (string \<Rightarrow> 8 word list) \<Rightarrow> string \<Rightarrow> (string \<rightharpoonup> nft_table) \<Rightarrow> bool" where
  "denies_egress eval H podUID ts \<longleftrightarrow> (\<exists>c. ts (policyTableName H podUID) = Some [c] \<and> chain_Hooknum c = ChainHookOutput \<and>
     (\<forall>p. interface_name (pk_oifname p) \<longrightarrow> chain_verdict eval p c = Some (if pk_oifname p = ''lo'' then VerdictAccept else VerdictDrop)))"

text \<open>The Pod's output chain decides every packet as the reference policy of its configuration does.\<close>

definition enforces :: "(packet \<Rightarrow> (nat \<Rightarrow> bytes) \<Rightarrow> nft_expr list \<Rightarrow> verdict option) \<Rightarrow> (string \<Rightarrow> 8 word list) \<Rightarrow> Config \<Rightarrow> string \<Rightarrow> (string \<rightharpoonup> nft_table) \<Rightarrow> bool" where
  "enforces eval H cfg underlay ts \<longleftrightarrow> (\<exists>c rest. ts (policyTableName H (cfg_PodUID cfg)) = Some (c # rest) \<and> chain_Hooknum c = ChainHookOutput \<and>
     (\<forall>p. interface_name (pk_oifname p) \<longrightarrow> chain_verdict eval p c = Some
       (if permits underlay (cfg_GatewayEndpoint cfg) (overlayName H cfg) (cfg_ClusterTrafficMode cfg) (cfg_ClusterCIDRs cfg) p
        then VerdictAccept else VerdictDrop)))"

lemma locked_denies:
  assumes "nft_semantics eval" and "locked H u ts"
  shows "denies_egress eval H u ts"
proof -
  obtain m where t: "ts (policyTableName H u) = Some [output_chain [op_rule (addInterfaceVerdict [] [] ''lo'' VerdictAccept m)]]"
    using assms(2) by (auto simp: locked_def)
  have "chain_verdict eval p (output_chain [op_rule (addInterfaceVerdict [] [] ''lo'' VerdictAccept m)])
      = Some (if pk_oifname p = ''lo'' then VerdictAccept else VerdictDrop)" if "interface_name (pk_oifname p)" for p
    using nft_semantics.eval_interface [OF assms(1) that, of "''lo''"] by (simp add: chain_verdict_def output_chain_def interface_name_def)
  with t show ?thesis by (auto simp: denies_egress_def output_chain_def)
qed

lemma hex_digit_nonzero: "unat d < 16 \<Longrightarrow> hex_digit d \<noteq> CHR 0x00"
  by (auto simp: hex_digit_def Let_def char_of_eq_iff take_bit_eq_mod)

lemma hex_interface: "CHR 0x00 \<notin> set (EncodeToString bs)"
proof -
  have "unat (drop_bit 4 b) < 16" "unat (b AND 15) < 16" for b :: "8 word"
    using unsigned_less [of b, where 'a = nat] word_and_le1 [of b 15] by (simp_all add: unat_drop_bit_div word_le_nat_alt)
  then show ?thesis using hex_digit_nonzero by (auto simp: EncodeToString_def) (metis)+
qed

lemma overlayName_interface: "interface_name (cfg_OverlayInterfaceName cfg) \<Longrightarrow> interface_name (overlayName H cfg)"
  using hex_interface by (auto simp: overlayName_def interface_name_def)

context netns_host
begin

lemma Configure_run:
  assumes "lx_Configure H (h_Linux ho p) cfg w = (None, w')" and i: "ident w p = Some i"
  obtains underlay route v v' existing ts where "resolveUnderlay (h_Linux ho p) cfg v = (Inr (underlay, route), v')"
    "dom ts \<subseteq> set existing" "ident w' p = Some i"
    "tables w' i = commit (policy_batch H existing (cfg_PodUID cfg) (lk_Name underlay) (cfg_GatewayEndpoint cfg) (overlayName H cfg)
      (cfg_GatewayAddress cfg) (pfx_Addr (cfg_Address cfg)) (cfg_ClusterTrafficMode cfg) (cfg_ClusterCIDRs cfg) (cfg_ApplicationPortRedirects cfg)) ts"
proof -
  let ?L = "h_Linux ho p"
  obtain r1 w1 where 1: "reconcilePolicyRules ?L cfg w = (r1, w1)" by (rule prod.exhaust)
  obtain r2 w2 where 2: "resolveUnderlay ?L cfg w1 = (r2, w2)" by (rule prod.exhaust)
  have r1: "r1 = None" "config_Validate cfg = None" using assms(1) 1 by (auto simp: lx_Configure_def split: option.splits)
  with assms(1) 1 2 obtain underlay route where r2: "r2 = Inr (underlay, route)" by (cases r2) (auto simp: lx_Configure_def)
  obtain r3 w3 where 3: "ensureVXLAN ?L cfg (overlayName H cfg) underlay route w2 = (r3, w3)" by (rule prod.exhaust)
  with assms(1) 1 2 r1 r2 obtain v where r3: "r3 = Inr v" by (cases r3) (auto simp: lx_Configure_def)
  with assms(1) 1 2 3 r1 r2 have a: "activate H ?L cfg underlay v w3 = (None, w')" by (simp add: lx_Configure_def)
  obtain r4 w4 where 4: "ensureOverlayAddress ?L v (cfg_Address cfg) w3 = (r4, w4)" by (rule prod.exhaust)
  obtain r5 w5 where 5: "nl_LinkSetUp ?L v w4 = (r5, w5)" by (rule prod.exhaust)
  obtain r6 w6 where 6: "nl_RouteReplace ?L \<lparr>nlr_LinkIndex = lk_Index v, nlr_Gw = AsSlice (cfg_GatewayAddress cfg), nlr_Src = [],
           nlr_Table = protectedRouteTable, nlr_Protocol = waycloakRouteProtocol\<rparr> w5 = (r6, w6)" by (rule prod.exhaust)
  have r4: "r4 = None" using a 4 by (cases r4) (auto simp: activate_def)
  have r5: "r5 = None" using a 4 5 r4 by (cases r5) (auto simp: activate_def)
  have r6: "r6 = None" using a 4 5 6 r4 r5 by (cases r6) (auto simp: activate_def)
  have pol: "replacePolicy H ?L (cfg_PodUID cfg) (lk_Name underlay) (cfg_GatewayEndpoint cfg) (overlayName H cfg)
      (cfg_GatewayAddress cfg) (pfx_Addr (cfg_Address cfg)) (cfg_ClusterTrafficMode cfg) (cfg_ClusterCIDRs cfg) (cfg_ApplicationPortRedirects cfg) w6
      = (None, w')"
    using a 4 5 6 r4 r5 r6 by (auto simp: activate_def split: prod.splits option.splits)
  have addr: "moves (same_tables ident tables) (ensureOverlayAddress ?L v (cfg_Address cfg))"
    unfolding ensureOverlayAddress_def [abs_def] by (intro still.frame_intros)
  have "ident w6 = ident w"
    using movesD [OF still.reconcilePolicyRules_moves 1] movesD [OF still.resolveUnderlay_moves 2] movesD [OF still.ensureVXLAN_moves 3]
      movesD [OF addr 4] movesD [OF still.kernel_calls(8) 5] movesD [OF still.kernel_calls(13) 6]
    by (simp add: same_tables_def)
  then have i6: "ident w6 p = Some i" using i by simp
  note c = replacePolicy_cases [OF pol i6]
  obtain existing where "dom (tables w6 i) \<subseteq> set existing" "tables w' = (tables w6)(i := commit (policy_batch H existing (cfg_PodUID cfg)
      (lk_Name underlay) (cfg_GatewayEndpoint cfg) (overlayName H cfg) (cfg_GatewayAddress cfg) (pfx_Addr (cfg_Address cfg))
      (cfg_ClusterTrafficMode cfg) (cfg_ClusterCIDRs cfg) (cfg_ApplicationPortRedirects cfg)) (tables w6 i))"
    using c(2) by blast
  with 2 r2 c(1) i6 show thesis by (intro that [of w1 underlay route w2]) auto
qed

lemma Configure_enforces:
  assumes "lx_Configure H (h_Linux ho p) cfg w = (None, w')" and i: "ident w p = Some i" and "nft_semantics eval"
    and "list_all plain_prefix (cfg_ClusterCIDRs cfg)" and "interface_name (cfg_OverlayInterfaceName cfg)"
  obtains underlay route v v' where "resolveUnderlay (h_Linux ho p) cfg v = (Inr (underlay, route), v')" "ident w' p = Some i"
    "enforces eval H cfg (lk_Name underlay) (tables w' i)"
proof -
  obtain underlay route v v' existing ts where r: "resolveUnderlay (h_Linux ho p) cfg v = (Inr (underlay, route), v')"
    and d: "dom ts \<subseteq> set existing" and i': "ident w' p = Some i"
    and t: "tables w' i = commit (policy_batch H existing (cfg_PodUID cfg) (lk_Name underlay) (cfg_GatewayEndpoint cfg) (overlayName H cfg)
      (cfg_GatewayAddress cfg) (pfx_Addr (cfg_Address cfg)) (cfg_ClusterTrafficMode cfg) (cfg_ClusterCIDRs cfg) (cfg_ApplicationPortRedirects cfg)) ts"
    by (rule Configure_run [OF assms(1) i])
  have u: "interface_name (lk_Name underlay)"
    using r by (auto simp: resolveUnderlay_def split: prod.splits sum.splits list.splits if_splits dest: link_names)
  have "\<exists>rest. tables w' i (policyTableName H (cfg_PodUID cfg)) = Some (output_chain (output_rules (cfg_PodUID cfg) (lk_Name underlay)
      (cfg_GatewayEndpoint cfg) (overlayName H cfg) (cfg_ClusterTrafficMode cfg) (cfg_ClusterCIDRs cfg)) # rest)"
    unfolding t by (rule policy_commit) (use d in auto)
  moreover have "chain_verdict eval q (output_chain (output_rules (cfg_PodUID cfg) (lk_Name underlay) (cfg_GatewayEndpoint cfg) (overlayName H cfg)
      (cfg_ClusterTrafficMode cfg) (cfg_ClusterCIDRs cfg))) = Some (if permits (lk_Name underlay) (cfg_GatewayEndpoint cfg) (overlayName H cfg)
        (cfg_ClusterTrafficMode cfg) (cfg_ClusterCIDRs cfg) q then VerdictAccept else VerdictDrop)" if "interface_name (pk_oifname q)" for q
    by (rule nft_semantics.output_verdict [OF assms(3) that overlayName_interface [OF assms(5)] u assms(4)])
  moreover have "chain_Hooknum (output_chain rs) = ChainHookOutput" for rs by (simp add: output_chain_def)
  ultimately have "enforces eval H cfg (lk_Name underlay) (tables w' i)"
    unfolding enforces_def by blast
  with r i' show thesis by (rule that)
qed

lemma enforcer_Install_denies:
  assumes "enforcer_InstallLockdown (NewLinuxEnforcer H) ho p u w = (None, w')" and "nft_semantics eval"
  shows "\<exists>i. ident w' p = Some i \<and> denies_egress eval H u (tables w' i)"
proof -
  have "ident w' p \<noteq> None"
    using assms(1) unfolding enforcer_InstallLockdown_def
    by (cases rule: inNamespace_cases) (auto simp: backend_sel dest: lx_InstallLockdown_seals(1))
  moreover have "lockdown_at H ident tables w' p u" using enforcer_Install(2) [OF assms(1)] by simp
  ultimately show ?thesis using locked_denies [OF assms(2)] by (auto simp: lockdown_at_def)
qed

lemma enforcer_Configure_ident:
  assumes "enforcer_Configure (NewLinuxEnforcer H) ho p cfg w = (None, w')"
  shows "ident w' p \<noteq> None"
  using assms unfolding enforcer_Configure_def
proof (cases rule: inNamespace_cases)
  case (entered w1 i)
  then have "lx_Configure H (h_Linux ho p) cfg w1 = (None, w')" by (simp add: backend_sel)
  from movesD [OF Configure_moves this] entered(2) show ?thesis by (simp add: only_table_def)
qed simp

lemma enforcer_Configure_enforces:
  assumes "enforcer_Configure (NewLinuxEnforcer H) ho p cfg w = (None, w')" and "nft_semantics eval"
    and "list_all plain_prefix (cfg_ClusterCIDRs cfg)" and "interface_name (cfg_OverlayInterfaceName cfg)"
  shows "\<exists>i underlay route v v'. ident w' p = Some i \<and> resolveUnderlay (h_Linux ho p) cfg v = (Inr (underlay, route), v')
     \<and> enforces eval H cfg (lk_Name underlay) (tables w' i)"
  using assms(1) unfolding enforcer_Configure_def
proof (cases rule: inNamespace_cases)
  case (entered w1 i)
  then have "lx_Configure H (h_Linux ho p) cfg w1 = (None, w')" by (simp add: backend_sel)
  from Configure_enforces [OF this entered(2) assms(2-4)] show ?thesis by metis
qed simp

end

end
