(* ===== verification/Node_Host.thy ===== *)
theory Node_Host
  imports Linux_Enforcer Cni_Lifecycle
begin

text \<open>
  The node agent as its command wires it (\<open>src/cmd/waycloak-node-agent/main_linux.go\<close>, lines 120 to 126): the Linux
  enforcer as the programmer and the file store of attachments. The locale \<open>node_agent\<close> collects what it relies
  on; an in-memory node satisfies it and runs the witnesses.
\<close>

section \<open>The wiring\<close>

definition file_attachments :: "(string \<Rightarrow> 8 word list) \<Rightarrow> codec \<Rightarrow> 'w os \<Rightarrow> string \<Rightarrow> 'w AttachmentStore" where
  "file_attachments H J OS directory = \<lparr>as_ListAll = ListAll J OS directory, as_Save = Save H J OS directory,
     as_Delete = store_Delete H OS directory\<rparr>"

definition os_moves :: "('w \<Rightarrow> 'w \<Rightarrow> bool) \<Rightarrow> 'w os \<Rightarrow> bool" where
  "os_moves R OS \<longleftrightarrow> (\<forall>p. moves R (os_ReadFile OS p)) \<and> (\<forall>p. moves R (os_ReadDir OS p)) \<and> (\<forall>p. moves R (os_MkdirAll OS p))
     \<and> (\<forall>p q. moves R (os_CreateTemp OS p q)) \<and> (\<forall>p. moves R (os_Chmod OS p)) \<and> (\<forall>p d. moves R (os_Write OS p d))
     \<and> (\<forall>p. moves R (os_Sync OS p)) \<and> (\<forall>p. moves R (os_Close OS p)) \<and> (\<forall>p q. moves R (os_Rename OS p q)) \<and> (\<forall>p. moves R (os_Remove OS p))"

locale os_frame = world_order R for R :: "'w \<Rightarrow> 'w \<Rightarrow> bool" +
  fixes OS :: "'w os"
  assumes os_calls: "os_moves R OS"
begin

lemma file_calls:
  "moves R (os_ReadFile OS p)" "moves R (os_ReadDir OS p)" "moves R (os_MkdirAll OS p)" "moves R (os_CreateTemp OS p q)"
  "moves R (os_Chmod OS p)" "moves R (os_Write OS p d)" "moves R (os_Sync OS p)" "moves R (os_Close OS p)" "moves R (os_Rename OS p q)"
  "moves R (os_Remove OS p)"
  using os_calls by (simp_all add: os_moves_def)

lemmas os_intros = moves_return moves_bind moves_cases file_calls

lemma list_loop_moves: "moves R (list_loop J OS directory wanted es as)"
proof (induction es arbitrary: as)
  case Nil
  show ?case by (rule moves_ext, rule list_loop.simps) (rule moves_return)
next
  case (Cons e es)
  show ?case by (cases e, simp only:, rule moves_ext, rule list_loop.simps) (intro os_intros Cons.IH)
qed

lemma file_store_moves: "moves R (ListAll J OS directory)" "moves R (Save H J OS directory a)" "moves R (store_Delete H OS directory key)"
proof -
  show "moves R (ListAll J OS directory)"
    unfolding ListAll_def list_directory_def [abs_def] by (intro os_intros list_loop_moves)
  have c: "moves R (close_with OS t e)" for t e unfolding close_with_def [abs_def] by (intro os_intros)
  have "moves R (publish OS t d target)" for t d target unfolding publish_def [abs_def] by (intro os_intros c)
  then show "moves R (Save H J OS directory a)" unfolding Save_def [abs_def] by (intro os_intros)
  show "moves R (store_Delete H OS directory key)" unfolding store_Delete_def [abs_def] by (intro os_intros)
qed

end

section \<open>What the agent relies on\<close>

locale node_agent = netns_host ho ident tables
  for ho :: "'w host" and ident :: "'w \<Rightarrow> string \<rightharpoonup> string" and tables :: "'w \<Rightarrow> string \<Rightarrow> string \<rightharpoonup> nft_table" +
  fixes H :: "string \<Rightarrow> 8 word list" and s :: "'w Service" and J :: codec and OS :: "'w os" and stateDir :: string
  assumes programmer: "sv_Programmer s = enforcer_programmer (NewLinuxEnforcer H) ho"
    and store: "sv_Store s = file_attachments H J OS stateDir"
    and os_keeps: "os_moves (same_tables ident tables) OS"
    and get_keeps: "moves (same_tables ident tables) (k_get (cl_pods (sv_Reader s)) k)"
      "moves (same_tables ident tables) (k_get (cl_bindings (sv_Reader s)) k)"
    and list_keeps: "R = sv_Reader s \<or> Some R = sv_BindingReader s \<Longrightarrow> moves (same_tables ident tables) (k_list (cl_bindings R) Q)"
    and clock_keeps: "moves (same_tables ident tables) (sv_now s)"
    and report_keeps: "sv_WithdrawalPublisher s = Some publisher \<Longrightarrow> moves (same_tables ident tables) (publisher report)"

sublocale node_agent \<subseteq> files: os_frame "same_tables ident tables" OS
  by unfold_locales (rule os_keeps)

sublocale node_agent \<subseteq> agent: agent_world s "lockdown_at H ident tables" ident "policies_apart H"
proof -
  note K = same_tables_keeps
  have "path_programmer (sv_Programmer s) (lockdown_at H ident tables) ident (policies_apart H)"
    unfolding programmer by (rule enforcer.path_programmer_axioms)
  moreover have "agent_world_axioms s (lockdown_at H ident tables) ident"
    by (intro agent_world_axioms.intro; (unfold store file_attachments_def AttachmentStore.simps)?)
      (blast intro: K get_keeps list_keeps clock_keeps report_keeps files.file_store_moves)+
  ultimately show "agent_world s (lockdown_at H ident tables) ident (policies_apart H)"
    by (rule agent_world.intro)
qed

section \<open>What the agent guarantees\<close>

context node_agent
begin

lemma lockdown_denies: "nft_semantics eval \<Longrightarrow> lockdown_at H ident tables w p u \<Longrightarrow> ident w p = Some i \<Longrightarrow> denies_egress eval H u (tables w i)"
  by (rule locked_denies) (simp_all add: lockdown_at_def)

lemma LockdownAll_denied:
  assumes "LockdownAll H s w = (None, w')" and "nft_semantics eval"
  shows "\<exists>as v. ListAll J OS stateDir (snd w) = (Inr as, v) \<and> (\<forall>a \<in> set as. live_at ident (snd w) a \<longrightarrow>
     denies_egress eval H (pi_UID (at_Pod a)) (tables (snd w') (at_NamespaceIdentity a)))"
proof -
  obtain as v where as: "as_ListAll (sv_Store s) (snd w) = (Inr as, v)"
    and closed: "\<forall>a \<in> set as. live_at ident (snd w) a \<longrightarrow> sealed_at (lockdown_at H ident tables) (snd w') a"
    using agent.LockdownAll_closes [OF assms(1)] by blast
  have id: "ident (snd w') = ident (snd w)" using movesD [OF agent.LockdownAll_seals assms(1)] by (simp add: seals_def)
  have "denies_egress eval H (pi_UID (at_Pod a)) (tables (snd w') (at_NamespaceIdentity a))" if "a \<in> set as" "live_at ident (snd w) a" for a
    using closed that id lockdown_denies [OF assms(2)] by (auto simp: sealed_at_def live_at_def)
  with as show ?thesis by (auto simp: store file_attachments_def)
qed

lemma held_run_denies:
  assumes "agent_run H s w ops w'" and "sv_TransitionHeld s" and "nft_semantics eval"
    and "ident (snd w) p = Some i" and "locked H u (tables (snd w) i)"
  shows "ident (snd w') p = Some i \<and> denies_egress eval H u (tables (snd w') i)"
proof -
  have "seals (lockdown_at H ident tables) ident w w'" using agent.held_run_seals [OF assms(1,2)] .
  moreover have "lockdown_at H ident tables (snd w) p u" using assms(4,5) by (simp add: lockdown_at_def)
  ultimately have "lockdown_at H ident tables (snd w') p u" "ident (snd w') p = Some i" using assms(4) by (simp_all add: seals_def)
  with lockdown_denies [OF assms(3)] show ?thesis by blast
qed

lemma ReconcileAll_denies:
  assumes "ReconcileAll H s w = (None, w')" and "\<not> sv_TransitionHeld s" and "nft_semantics eval"
    and "ListAll J OS stateDir (snd w) = (Inr listed, v)"
    and apart: "\<forall>a \<in> set listed. \<forall>b \<in> set listed. pi_UID (at_Pod a) \<noteq> pi_UID (at_Pod b) \<longrightarrow>
      policyTableName H (pi_UID (at_Pod a)) \<noteq> policyTableName H (pi_UID (at_Pod b))"
    and a: "a \<in> set listed" "pi_UID (at_Pod a) \<noteq> []" "pi_NetNS (at_Pod a) \<noteq> []" "live_at ident (snd w) a"
  shows "denies_egress eval H (pi_UID (at_Pod a)) (tables (snd w') (at_NamespaceIdentity a)) \<or> at_Phase a = PhaseLockedDown \<or> verified_at s (fst w') a"
proof -
  have l: "as_ListAll (sv_Store s) (snd w) = (Inr listed, v)" using assms(4) by (simp add: store file_attachments_def)
  have "sealed_at (lockdown_at H ident tables) (snd w') a \<or> at_Phase a = PhaseLockedDown \<or> verified_at s (fst w') a"
    using apart by (intro agent.ReconcileAll_settled [OF assms(1,2) l _ a]) (simp add: policies_apart_def)
  moreover have "ident (snd w') = ident (snd w)" by (rule agent.ReconcileAll_ident [OF assms(1)])
  ultimately show ?thesis using a(4) lockdown_denies [OF assms(3)] by (auto simp: sealed_at_def live_at_def)
qed

lemma Prepare_run_enforces:
  assumes "service_Prepare H s identity requested w = (None, w')" and "nft_semantics eval"
  shows "\<exists>pod w0 b v cfg i underlay ob. service_pod s identity w = (Inr pod, w0)
     \<and> k_get (cl_bindings (sv_Reader s)) (meta_Namespace (pod_Meta pod), BindingName H (pi_UID identity)) (snd w0) = (Inr b, v)
     \<and> bindingReference b = requested \<and> ConfigFromBinding b = Inr cfg \<and> cfg_PodUID cfg = pi_UID identity
     \<and> ident (snd w') (pi_NetNS identity) = Some i
     \<and> (list_all plain_prefix (cfg_ClusterCIDRs cfg) \<longrightarrow> enforces eval H cfg underlay (tables (snd w') i))
     \<and> map_of (ag_observations (fst w')) (pi_UID identity) = Some ob \<and> ob_Ready ob \<and> ob_Generation ob = cb_Generation requested"
proof -
  have r: "service_prepare H s identity requested w = (None, w')" using assms(1) by (simp add: service_Prepare_def split: if_splits)
  obtain pod b cfg w1 w2 w3 w4 ob where au: "authority H s identity requested w = (Inr (pod, b, cfg), w1)"
    and c: "world (pg_Configure (sv_Programmer s) (pi_NetNS identity) cfg) w2 = (None, w3)"
    and vf: "world (pg_Verify (sv_Programmer s) (pi_NetNS identity) cfg) w3 = (None, w4)" and ob: "observe s b True w4 = (ob, w')"
    by (rule prepare_run [OF r])
  obtain w0 where p: "service_pod s identity w = (Inr pod, w0)" and sb: "service_binding H s pod w0 = (Inr b, w1)"
    and ref: "bindingReference b = requested" and cfg: "ConfigFromBinding b = Inr cfg" and uid: "lref_UID (bind_PodRef (bind_Spec b)) = pi_UID identity"
    "cfg_PodUID cfg = pi_UID identity"
    by (rule authority_Inr [OF au])
  have got: "k_get (cl_bindings (sv_Reader s)) (meta_Namespace (pod_Meta pod), BindingName H (pi_UID identity)) (snd w0) = (Inr b, snd w1)"
    using rawBinding_Inr [OF service_binding_Inr(1) [OF sb]] service_pod_Inr [OF p] by simp
  have plainname: "interface_name (cfg_OverlayInterfaceName cfg)"
    using cfg by (auto simp: ConfigFromBinding_def Let_def interface_name_def split: if_splits option.splits sum.splits)
  have "enforcer_Configure (NewLinuxEnforcer H) ho (pi_NetNS identity) cfg (snd w2) = (None, snd w3)"
    using c by (auto simp: world_def programmer enforcer_programmer_def split: prod.splits)
  note enf = enforcer_Configure_enforces [OF this assms(2) _ plainname] and enter = enforcer_Configure_ident [OF this]
  have "same_tables ident tables (snd w3) (snd w4)"
    using vf movesD [OF enforcer_looks(1)] by (auto simp: world_def programmer enforcer_programmer_def split: prod.splits)
  moreover have "same_tables ident tables (snd w4) (snd w')"
    using ob movesD [OF clock_keeps] by (auto simp: observe_def world_def Let_def split: prod.splits)
  ultimately have same: "ident (snd w') = ident (snd w3)" "tables (snd w') = tables (snd w3)" by (simp_all add: same_tables_def)
  obtain i where i: "ident (snd w') (pi_NetNS identity) = Some i" using enter same by auto
  have "\<exists>underlay. list_all plain_prefix (cfg_ClusterCIDRs cfg) \<longrightarrow> enforces eval H cfg underlay (tables (snd w') i)"
  proof (cases "list_all plain_prefix (cfg_ClusterCIDRs cfg)")
    case True
    from enf [OF this] i same show ?thesis by auto
  qed blast
  moreover have "map_of (ag_observations (fst w')) (pi_UID identity) = Some ob \<and> ob_Ready ob \<and> ob_Generation ob = cb_Generation requested"
    using observe_recorded [OF ob] uid ref by (auto simp: bindingReference_def)
  ultimately show ?thesis using p got ref cfg uid i by blast
qed

end

section \<open>An in-memory kernel\<close>

record mem_ns =
  ns_tables :: "(string \<times> nft_table) list"
  ns_links :: "link list"
  ns_addrs :: "(string \<times> bytes) list"
  ns_routes :: "nl_route list"
  ns_rules :: "nl_rule list"
  ns_ready :: int

record node_world = mem_fs +
  nw_cluster :: mem_world
  nw_paths :: "(string \<times> nat \<times> nat) list"
  nw_ns :: "string \<Rightarrow> mem_ns"

definition nw_ident :: "node_world \<Rightarrow> string \<rightharpoonup> string" where
  "nw_ident w p = (if p = [] then None else case map_of (nw_paths w) p of None \<Rightarrow> None | Some (dev, ino) \<Rightarrow> Some (itoa dev @ '':'' @ itoa ino))"

definition nw_tables :: "node_world \<Rightarrow> string \<Rightarrow> string \<rightharpoonup> nft_table" where
  "nw_tables w i = map_of (ns_tables (nw_ns w i))"

definition mem_commit :: "nft_op list \<Rightarrow> (string \<times> nft_table) list \<Rightarrow> (string \<times> nft_table) list" where
  "mem_commit ops ts = concat (map (\<lambda>n. case commit ops (map_of ts) n of None \<Rightarrow> [] | Some t \<Rightarrow> [(n, t)]) (remdups (map op_table ops @ map fst ts)))"

lemma map_of_mem_commit: "map_of (mem_commit ops ts) = commit ops (map_of ts)"
proof
  fix k
  have gather: "map_of (concat (map (\<lambda>n. case f n of None \<Rightarrow> [] | Some t \<Rightarrow> [(n, t)]) ns)) k = (if k \<in> set ns then f k else None)"
    for f :: "string \<rightharpoonup> nft_table" and ns
    by (induction ns) (auto simp: map_add_def split: option.splits)
  have "commit ops (map_of ts) k = None" if "k \<notin> set (map op_table ops @ map fst ts)"
  proof -
    from that have "commit ops (map_of ts) k = map_of ts k" by (intro commit_other) auto
    also have "\<dots> = None" using that by (simp add: map_of_eq_None_iff)
    finally show ?thesis .
  qed
  then show "map_of (mem_commit ops ts) k = commit ops (map_of ts) k"
    unfolding mem_commit_def gather set_remdups by (cases "k \<in> set (map op_table ops @ map fst ts)") simp_all
qed

text \<open>A call on the namespace at a path.\<close>

definition in_ns :: "string \<Rightarrow> 'a \<Rightarrow> (mem_ns \<Rightarrow> 'a \<times> mem_ns) \<Rightarrow> (node_world, 'a) call" where
  "in_ns p missing f w = (case nw_ident w p of None \<Rightarrow> (missing, w)
     | Some i \<Rightarrow> (case f (nw_ns w i) of (r, n) \<Rightarrow> (r, w\<lparr>nw_ns := (nw_ns w)(i := n)\<rparr>)))"

definition ns_find :: "(link \<Rightarrow> bool) \<Rightarrow> mem_ns \<Rightarrow> link result \<times> mem_ns" where
  "ns_find P n = (case find (\<lambda>l. interface_name (lk_Name l) \<and> P l) (ns_links n) of None \<Rightarrow> Inl LinkNotFoundError | Some l \<Rightarrow> Inr l, n)"

definition ns_add :: "link \<Rightarrow> mem_ns \<Rightarrow> link result \<times> mem_ns" where
  "ns_add l n = (let l' = l\<lparr>lk_Index := int (length (ns_links n)) + 1\<rparr> in
     if list_ex (\<lambda>k. lk_Name k = lk_Name l) (ns_links n) then (Inl EEXIST, n) else (Inr l', n\<lparr>ns_links := ns_links n @ [l']\<rparr>))"

definition mem_linux :: "string \<Rightarrow> node_world linux" where
  "mem_linux p = (let act = (\<lambda>f. in_ns p (Some ErrNotExist) (\<lambda>n. (None, f n))) in \<lparr>
     nft_ListTables = in_ns p (Inl ErrNotExist) (\<lambda>n. (Inr (map fst (ns_tables n)), n)),
     nft_ListTablesINet = in_ns p (Inl ErrNotExist) (\<lambda>n. (Inr (map fst (ns_tables n)), n)),
     nft_ListChainsINet = in_ns p (Inl ErrNotExist) (\<lambda>n. (Inr (concat (map (\<lambda>(t, cs). map (\<lambda>c. \<lparr>ci_Table = t, ci_Name = chain_Name c,
       ci_Type = chain_Type c, ci_Policy = chain_Policy c\<rparr>) cs) (ns_tables n))), n)),
     nft_Flush = (\<lambda>ops. act (\<lambda>n. n\<lparr>ns_tables := mem_commit ops (ns_tables n)\<rparr>)),
     nl_LinkList = in_ns p (Inl ErrNotExist) (\<lambda>n. (Inr (ns_links n), n)),
     nl_LinkByName = (\<lambda>name. in_ns p (Inl ErrNotExist) (ns_find (\<lambda>l. lk_Name l = name))),
     nl_LinkByIndex = (\<lambda>i. in_ns p (Inl ErrNotExist) (ns_find (\<lambda>l. lk_Index l = i))),
     nl_LinkAdd = (\<lambda>l. in_ns p (Inl ErrNotExist) (ns_add l)),
     nl_LinkDel = (\<lambda>l. act (\<lambda>n. n\<lparr>ns_links := filter (\<lambda>k. lk_Index k \<noteq> lk_Index l) (ns_links n)\<rparr>)),
     nl_LinkSetUp = (\<lambda>l. act (\<lambda>n. n\<lparr>ns_links := map (\<lambda>k. if lk_Index k = lk_Index l then k\<lparr>lk_Up := True\<rparr> else k) (ns_links n)\<rparr>)),
     nl_AddrList = (\<lambda>l family. in_ns p (Inl ErrNotExist) (\<lambda>n. (Inr (map snd (filter (\<lambda>(k, _). k = lk_Name l) (ns_addrs n))), n))),
     nl_AddrReplace = (\<lambda>l a. act (\<lambda>n. n\<lparr>ns_addrs := (lk_Name l, fst a) # ns_addrs n\<rparr>)),
     nl_RouteGet = (\<lambda>a. in_ns p (Inl ErrNotExist) (\<lambda>n. (Inr (filter (\<lambda>r. nlr_Table r = RT_TABLE_MAIN) (ns_routes n)), n))),
     nl_RouteListTable = (\<lambda>family t. in_ns p (Inl ErrNotExist) (\<lambda>n. (Inr (filter (\<lambda>r. nlr_Table r = t) (ns_routes n)), n))),
     nl_RouteReplace = (\<lambda>r. act (\<lambda>n. n\<lparr>ns_routes := r # filter (\<lambda>k. nlr_Table k \<noteq> nlr_Table r) (ns_routes n)\<rparr>)),
     nl_RouteDel = (\<lambda>r. act (\<lambda>n. n\<lparr>ns_routes := filter (\<lambda>k. k \<noteq> r) (ns_routes n)\<rparr>)),
     nl_RuleList = (\<lambda>family. in_ns p (Inl ErrNotExist) (\<lambda>n. (Inr (filter (\<lambda>r. nlu_Family r = family) (ns_rules n)), n))),
     nl_RuleAdd = (\<lambda>r. act (\<lambda>n. n\<lparr>ns_rules := ns_rules n @ [r]\<rparr>)),
     nl_RuleDel = (\<lambda>r. act (\<lambda>n. n\<lparr>ns_rules := filter (\<lambda>k. k \<noteq> r) (ns_rules n)\<rparr>)),
     lx_Dial = (\<lambda>e w. (None, w)), lx_Send = (\<lambda>d w. (None, w)),
     lx_ReadResponse = in_ns p (Inl ErrNotExist) (\<lambda>n. (Inr (ns_ready n), n)), lx_CloseConn = (\<lambda>w. w)\<rparr>)"

lemma mem_linux_sel:
  "nft_ListTablesINet (mem_linux p) = in_ns p (Inl ErrNotExist) (\<lambda>n. (Inr (map fst (ns_tables n)), n))"
  "nft_Flush (mem_linux p) ops = in_ns p (Some ErrNotExist) (\<lambda>n. (None, n\<lparr>ns_tables := mem_commit ops (ns_tables n)\<rparr>))"
  "nl_LinkByName (mem_linux p) name = in_ns p (Inl ErrNotExist) (ns_find (\<lambda>l. lk_Name l = name))"
  "nl_LinkByIndex (mem_linux p) i = in_ns p (Inl ErrNotExist) (ns_find (\<lambda>l. lk_Index l = i))"
  "nl_LinkAdd (mem_linux p) l = in_ns p (Inl ErrNotExist) (ns_add l)"
  "nl_LinkSetUp (mem_linux p) l = in_ns p (Some ErrNotExist) (\<lambda>n. (None, n\<lparr>ns_links := map (\<lambda>k. if lk_Index k = lk_Index l then k\<lparr>lk_Up := True\<rparr> else k) (ns_links n)\<rparr>))"
  "nl_AddrReplace (mem_linux p) l a = in_ns p (Some ErrNotExist) (\<lambda>n. (None, n\<lparr>ns_addrs := (lk_Name l, fst a) # ns_addrs n\<rparr>))"
  "nl_RouteGet (mem_linux p) b = in_ns p (Inl ErrNotExist) (\<lambda>n. (Inr (filter (\<lambda>r. nlr_Table r = RT_TABLE_MAIN) (ns_routes n)), n))"
  "nl_RouteListTable (mem_linux p) family t = in_ns p (Inl ErrNotExist) (\<lambda>n. (Inr (filter (\<lambda>r. nlr_Table r = t) (ns_routes n)), n))"
  "nl_RouteReplace (mem_linux p) r = in_ns p (Some ErrNotExist) (\<lambda>n. (None, n\<lparr>ns_routes := r # filter (\<lambda>k. nlr_Table k \<noteq> nlr_Table r) (ns_routes n)\<rparr>))"
  "nl_RuleList (mem_linux p) family = in_ns p (Inl ErrNotExist) (\<lambda>n. (Inr (filter (\<lambda>u. nlu_Family u = family) (ns_rules n)), n))"
  "nl_RuleAdd (mem_linux p) u = in_ns p (Some ErrNotExist) (\<lambda>n. (None, n\<lparr>ns_rules := ns_rules n @ [u]\<rparr>))"
  "nft_ListChainsINet (mem_linux p) = in_ns p (Inl ErrNotExist) (\<lambda>n. (Inr (concat (map (\<lambda>(t, cs). map (\<lambda>c. \<lparr>ci_Table = t, ci_Name = chain_Name c,
       ci_Type = chain_Type c, ci_Policy = chain_Policy c\<rparr>) cs) (ns_tables n))), n))"
  "nl_AddrList (mem_linux p) l family = in_ns p (Inl ErrNotExist) (\<lambda>n. (Inr (map snd (filter (\<lambda>(k, _). k = lk_Name l) (ns_addrs n))), n))"
  "lx_Dial (mem_linux p) e w = (None, w)" "lx_Send (mem_linux p) d w = (None, w)"
  "lx_ReadResponse (mem_linux p) = in_ns p (Inl ErrNotExist) (\<lambda>n. (Inr (ns_ready n), n))" "lx_CloseConn (mem_linux p) w = w"
  by (simp_all add: mem_linux_def)

definition mem_host :: "node_world host" where
  "mem_host = \<lparr>h_Stat = (\<lambda>p w. (if p = [] then Inl ErrNotExist else case map_of (nw_paths w) p of None \<Rightarrow> Inl ErrNotExist | Some i \<Rightarrow> Inr i, w)),
     h_Enter = (\<lambda>p w. (if nw_ident w p = None then Some ErrNotExist else None, w)), h_Linux = mem_linux\<rparr>"

lemma nw_update [simp]: "nw_ident (w\<lparr>nw_ns := f\<rparr>) = nw_ident w" "nw_ident (w\<lparr>nw_cluster := c\<rparr>) = nw_ident w"
  "nw_tables (w\<lparr>nw_ns := f\<rparr>) = (\<lambda>i. map_of (ns_tables (f i)))"
  by (auto simp: nw_ident_def nw_tables_def fun_eq_iff)

lemma in_ns_moves:
  assumes "\<And>n. ns_tables (snd (f n)) = ns_tables n"
  shows "moves (same_tables nw_ident nw_tables) (in_ns p missing f)"
proof (rule movesI)
  fix w r w'
  assume "in_ns p missing f w = (r, w')"
  then show "same_tables nw_ident nw_tables w w'"
    using assms by (auto simp: in_ns_def same_tables_def nw_tables_def fun_eq_iff split: option.splits prod.splits) (metis snd_conv)
qed

lemma mem_linux_moves: "linux_moves (same_tables nw_ident nw_tables) (mem_linux p)"
  unfolding linux_moves_def mem_linux_def Let_def linux.simps
  by (intro conjI allI in_ns_moves same_table_order.moves_return same_table_order.refl) (simp_all add: ns_find_def ns_add_def Let_def)

interpretation mem_node: netns_host mem_host nw_ident nw_tables
proof
  fix p w w' dev ino e ops i names
  have host: "h_Linux mem_host = mem_linux" by (simp add: mem_host_def)
  show "moves (same_tables nw_ident nw_tables) (h_Stat mem_host p)" "moves (same_tables nw_ident nw_tables) (h_Enter mem_host p)"
    by (simp_all add: mem_host_def moves_def same_tables_def)
  show "h_Stat mem_host p w = (Inr (dev, ino), w') \<Longrightarrow> nw_ident w p = Some (itoa dev @ '':'' @ itoa ino)"
    "h_Stat mem_host p w = (Inl e, w') \<Longrightarrow> errors_Is e ErrNotExist \<Longrightarrow> nw_ident w p = None"
    "nw_ident w [] = None" "h_Enter mem_host p w = (None, w') \<Longrightarrow> nw_ident w p \<noteq> None"
    by (auto simp: mem_host_def nw_ident_def split: if_splits option.splits)
  show "linux_moves (same_tables nw_ident nw_tables) (h_Linux mem_host p)" unfolding host by (rule mem_linux_moves)
  have find: "interface_name (lk_Name l)" if "ns_find P n = (Inr l, n')" for P n l n'
    using that by (auto simp: ns_find_def find_Some_iff split: option.splits)
  show "nl_LinkByName (h_Linux mem_host p) name w = (Inr l, w') \<Longrightarrow> interface_name (lk_Name l)"
    "nl_LinkByIndex (h_Linux mem_host p) i' w = (Inr l, w') \<Longrightarrow> interface_name (lk_Name l)" for name i' l
    by (auto simp: host mem_linux_sel in_ns_def split: option.splits prod.splits dest: find)
  show "keeps nw_ident (nft_Flush (h_Linux mem_host p) ops)"
    by (auto simp: keeps_def host mem_linux_sel(2) in_ns_def split: option.splits)
  show "nft_Flush (h_Linux mem_host p) ops w = (None, w') \<Longrightarrow> nw_ident w p = Some i \<Longrightarrow>
      nw_tables w' = (nw_tables w)(i := commit ops (nw_tables w i))"
    by (auto simp: host mem_linux_sel(2) in_ns_def fun_eq_iff map_of_mem_commit nw_tables_def)
  show "nft_Flush (h_Linux mem_host p) ops w = (Some e, w') \<Longrightarrow> nw_tables w' = nw_tables w"
    by (auto simp: host mem_linux_sel(2) in_ns_def split: option.splits)
  show "nft_ListTablesINet (h_Linux mem_host p) w = (Inr names, w') \<Longrightarrow> nw_ident w p = Some i \<Longrightarrow> dom (nw_tables w i) \<subseteq> set names"
    by (auto simp: host mem_linux_sel in_ns_def nw_tables_def dom_map_of_conv_image_fst) (metis fst_conv image_eqI)
qed

section \<open>An in-memory node\<close>

definition lift_cluster :: "('w \<Rightarrow> 's) \<Rightarrow> ('s \<Rightarrow> 'w \<Rightarrow> 'w) \<Rightarrow> 's cluster \<Rightarrow> 'w cluster" where
  "lift_cluster get put C = \<lparr>cl_pods = lift_client get put (cl_pods C), cl_namespaces = lift_client get put (cl_namespaces C),
     cl_classes = lift_client get put (cl_classes C), cl_gateways = lift_client get put (cl_gateways C),
     cl_routes = lift_client get put (cl_routes C), cl_bindings = lift_client get put (cl_bindings C),
     cl_leases = lift_client get put (cl_leases C), cl_configmaps = lift_client get put (cl_configmaps C),
     cl_secrets = lift_client get put (cl_secrets C)\<rparr>"

definition mem_reader :: "node_world cluster" where
  "mem_reader = lift_cluster nw_cluster (\<lambda>c. nw_cluster_update (\<lambda>_. c)) mem_cluster"

definition mem_service :: "(string \<Rightarrow> 8 word list) \<Rightarrow> bool \<Rightarrow> node_world Service" where
  "mem_service H held = \<lparr>sv_Reader = mem_reader, sv_BindingReader = Some mem_reader,
     sv_Programmer = enforcer_programmer (NewLinuxEnforcer H) mem_host, sv_Store = file_attachments H ex_codec mem_os ex_store_dir,
     sv_NodeName = ''node'', sv_NodeBootID = ''boot'', sv_InstanceID = ''agent'',
     sv_now = on_part nw_cluster (\<lambda>c. nw_cluster_update (\<lambda>_. c)) mem_now, sv_RequireRelay = False, sv_CapabilityHeld = False,
     sv_TransitionHeld = held, sv_Capabilities = [], sv_ReleaseIdentity = \<lparr>rel_Version = [], rel_ManifestDigest = []\<rparr>, sv_ConformanceProfile = [],
     sv_OperationErrorHook = None, sv_WithdrawalPublisher = None\<rparr>"

lemma same_tables_cluster: "moves (same_tables nw_ident nw_tables) (on_part nw_cluster (\<lambda>c. nw_cluster_update (\<lambda>_. c)) f)"
  by (rule movesI) (auto simp: on_part_def same_tables_def nw_ident_def nw_tables_def fun_eq_iff split: prod.splits)

lemma same_tables_files: "same_tables nw_ident nw_tables w (w\<lparr>mf_files := fs\<rparr>)"
  by (simp add: same_tables_def nw_ident_def nw_tables_def fun_eq_iff)

lemma mem_os_same: "os_moves (same_tables nw_ident nw_tables) mem_os"
  unfolding os_moves_def moves_def
  by (simp add: mem_os_sel same_tables_files same_table_order.refl split: option.splits)

interpretation mem_agent: node_agent mem_host nw_ident nw_tables H "mem_service H held" ex_codec mem_os ex_store_dir for H held
  by unfold_locales
    (auto simp: mem_service_def mem_reader_def lift_cluster_def mem_os_same same_tables_cluster)

end
