(* ===== verification/Spec2Isabelle.thy ===== *)
theory Spec2Isabelle
  imports Enrollment Reference Binding_Lifecycle Cni_Lifecycle Cni_Auth Node_Host
begin

text \<open>
  Waycloak routes the traffic of enrolled Kubernetes Pods through a VPN gateway, and blocks it when the protected path
  is not there. This is the root of a verification library for it: it imports every other theory, holds the properties
  that span components, and describes the whole here. Paths are relative to the repository.

  \<^bold>\<open>The program.\<close> Four kinds of process share one API server. The controllers
  (\<open>src/internal/controller\<close>) accept gateway classes, gateways and routes, resolve references with the consent of the
  target (\<open>src/internal/reference\<close>), reserve an overlay address per enrolled Pod (\<open>src/internal/binding\<close>) and publish
  a binding object that carries the network intent. On a node, the container runtime calls the CNI plugin
  (\<open>src/internal/cni\<close>), which denies a Pod's traffic before anything else, records the attachment in a file and asks the
  node agent to open the path. The node agent (\<open>src/internal/nodeagent\<close>) checks the request against the binding, programs
  the Pod's network namespace through the enforcer (\<open>src/internal/cni/enforcer_linux.go\<close>) and the Linux backend
  (\<open>src/internal/dataplane\<close>), and reports what it observes; a binding is Ready only on a fresh report.

  \<^bold>\<open>Conventions\<close> (\<open>Waycloak_Prelude\<close>, \<open>Call_Frames\<close>). A Go error is a \<open>go_error\<close>, a result that may
  fail is \<open>go_error + 'a\<close>, a nil pointer is None. Code that leaves the process is a call: a function from a world to a
  result and a world. Interfaces are records of calls. Machine integers are words where they can wrap. Error texts keep
  the constant part of the message; logging, telemetry, contexts and cancellation are left out. \<open>moves R c\<close> says what a
  call may do to the world and is proved along the shape of the definitions.

  \<^bold>\<open>Standard library\<close> (\<open>Go_Netip\<close>, \<open>Go_Sha256\<close>, \<open>Go_Base64\<close>). What the sources use of \<open>net/netip\<close>,
  \<open>crypto/sha256\<close> and \<open>encoding/base64\<close>, with the round trips of printing and parsing. Definitions take the digest as
  the parameter \<open>H\<close>; \<open>Sum256\<close> is SHA-256, and no theorem assumes that it has no collisions unless it says so.

  \<^bold>\<open>Kubernetes\<close> (\<open>Kube_Api\<close>, \<open>V1beta1\<close>). The client is third-party code: a record of calls with the documented
  behaviour of an object store as the locale \<open>object_store\<close>, and \<open>quiet_store\<close> where nobody else writes. An in-memory
  API server satisfies both and runs the witnesses. \<open>V1beta1\<close> has one record per struct of \<open>src/api/v1beta1\<close>.

  \<^bold>\<open>Controllers.\<close> \<open>Conditions\<close>, \<open>Enrollment\<close> and \<open>Reference\<close> are the packages of those names: a status
  message never depends on an object the asker may not see, and a reference resolves only with consent.
  \<open>Binding_Allocation\<close> is the address allocator; its probe loop retries a lease that vanished between two calls, so it is
  a partial function, proved to return when nobody interferes. It never gives out an address another Pod holds, and
  \<open>Reservation_Lifecycle\<close> shows that it refines an abstract state machine of owners in which quarantine is final.
  \<open>Gateway_Controllers\<close>, \<open>Route_Controller\<close> and \<open>Binding_Controllers\<close> are the reconcilers; \<open>Binding_Lifecycle\<close> shows
  when a binding is Ready, that it stops being Ready when reports stop, and that cleanup never frees an address that
  could still be in use.

  \<^bold>\<open>CNI plugin\<close> (\<open>Cni_Plugin\<close>, \<open>Cni_Store\<close>, \<open>Cni_Lifecycle\<close>, \<open>Cni_Auth\<close>). The plugin's commands over
  interfaces for agent, enforcer and store; the file store over an operating system (locale \<open>file_system\<close>) with atomic
  replacement; what the plugin guarantees on top of the store's contract; and the authentication of the local protocol,
  with its replay window. The bounded waits are partial functions, proved to return when the clock advances.

  \<^bold>\<open>Workload data plane\<close> (\<open>Workload_Dataplane\<close>, \<open>Nftables\<close>, \<open>Linux_Backend\<close>, \<open>Workload_Policy\<close>). The
  configuration and its validation; rules as the expression lists the code builds, with the kernel's evaluator as the
  parameter of \<open>nft_semantics\<close>; the Linux backend over the kernel inside one namespace; and the theorem that the rules
  decide every packet as the reference policy \<open>permits\<close> does, for every evaluator with the documented meaning.

  \<^bold>\<open>Node agent\<close> (\<open>Node_Agent\<close>, \<open>Node_Agent_Safety\<close>, \<open>Node_Agent_Drift\<close>). The service over interfaces for
  programmer, store and reader. What it relies on is the locale \<open>agent_world\<close>, over \<open>path_programmer\<close>; under it a held agent
  never opens a sealed namespace, and drift reconciliation settles every attachment on record.

  \<^bold>\<open>The node\<close> (\<open>Linux_Enforcer\<close>, \<open>Node_Host\<close>, this theory). The enforcer over a host whose kernel satisfies
  \<open>netns_host\<close> (an atomic commit replaces the tables it names, in the namespace entered and no other). The enforcer is
  proved to satisfy \<open>path_programmer\<close>, and the file store and enforcer together to satisfy \<open>agent_world\<close>, as the command
  wires them (locale \<open>node_agent\<close>). The properties below are about this whole: from a request, or a binding the
  controller wrote, down to the verdict on a packet. An in-memory node satisfies the locale and runs the witnesses.

  \<^bold>\<open>Not modelled.\<close> Manager registration, HTTP and TLS transport, the JSON codec, CNI environment parsing and
  command main loops: third-party or pure input and output around the operations that are modelled. The socket connect
  loop of the readiness probe is one call, and diagnostics that only enrich an error text are left out. Contexts are not
  modelled: a cancelled call is a call that fails. Concurrency is modelled at the level of calls: an operation that the
  code runs under one lock is one step. The gateway runtime, port forwarding, the observation relay, the application adapter and the
  installer are separate processes and are not part of this library; nor are telemetry, the command line tool and the
  build tools of the repository.
\<close>

section \<open>A node\<close>

definition ex_ready :: Attachment where
  "ex_ready = ex_attachment\<lparr>at_Phase := PhaseReady, at_BindingUID := ''b'', at_BindingGeneration := 1, at_GatewayUID := ''g''\<rparr>"

definition ex_ns :: mem_ns where
  "ex_ns = \<lparr>ns_tables = [], ns_links = [\<lparr>lk_Name = ''eth0'', lk_Index = 1, lk_MTU = 1500, lk_Up = True, lk_Vxlan = None\<rparr>],
     ns_addrs = [(''eth0'', [10, 1, 0, 5])], ns_routes = [\<lparr>nlr_LinkIndex = 1, nlr_Gw = [], nlr_Src = [10, 1, 0, 5], nlr_Table = 254, nlr_Protocol = 2\<rparr>],
     ns_rules = [], ns_ready = 200\<rparr>"

definition ex_node :: node_world where
  "ex_node = \<lparr>mf_files = [(''/state/x.json'', projr (json_Marshal ex_codec ex_ready))], nw_cluster = mem_world_empty,
     nw_paths = [(''/ns'', 4, 1)], nw_ns = (\<lambda>_. ex_ns)\<rparr>"

lemma ex_ready_decodes: "json_Unmarshal ex_codec (projr (json_Marshal ex_codec ex_ready)) = Inr ex_ready"
  by (rule mem_store.codec) (simp add: ex_codec_def)

lemma ex_node_ident: "nw_ident (w\<lparr>nw_paths := [(''/ns'', 4, 1)]\<rparr>) ''/ns'' = Some ''4:1''" "nw_ident ex_node ''/ns'' = Some ''4:1''"
proof -
  have "itoa 4 = ''4''" "itoa 1 = ''1''" by code_simp+
  then show "nw_ident (w\<lparr>nw_paths := [(''/ns'', 4, 1)]\<rparr>) ''/ns'' = Some ''4:1''" "nw_ident ex_node ''/ns'' = Some ''4:1''"
    by (simp_all add: nw_ident_def ex_node_def)
qed

section \<open>The policy in the kernel\<close>

text \<open>
  C6: When the enforcer reports that it installed a lockdown in the network namespace at a path, then in that
  namespace the Pod's table holds one chain, on the output hook, that accepts packets leaving through loopback and
  drops every other packet, for every evaluator with the documented meaning of the rule expressions.
\<close>

theorem InstallLockdown_denies:
  assumes "netns_host ho ident tables" and "nft_semantics eval"
    and "enforcer_InstallLockdown (NewLinuxEnforcer H) ho path podUID w = (None, w')"
  shows "\<exists>i. ident w' path = Some i \<and> denies_egress eval H podUID (tables w' i)"
  by (rule netns_host.enforcer_Install_denies [OF assms(1,3,2)])

theorem InstallLockdown_denies_witness:
  "\<exists>w'. enforcer_InstallLockdown (NewLinuxEnforcer Sum256) mem_host ''/ns'' ''p'' ex_node = (None, w')
     \<and> (\<exists>i. nw_ident w' ''/ns'' = Some i \<and> denies_egress nft_run Sum256 ''p'' (nw_tables w' i))"
proof -
  have "fst (enforcer_InstallLockdown (NewLinuxEnforcer Sum256) mem_host ''/ns'' ''p'' ex_node) = None"
    by (simp add: enforcer_InstallLockdown_def inNamespace_def NewLinuxEnforcer_def linuxBackend_def lx_InstallLockdown_def replacePolicy_def
        mem_host_def mem_linux_sel in_ns_def ex_node_ident)
  then obtain w' where w': "enforcer_InstallLockdown (NewLinuxEnforcer Sum256) mem_host ''/ns'' ''p'' ex_node = (None, w')"
    by (metis prod.collapse)
  with InstallLockdown_denies [OF mem_node.netns_host_axioms nft_ref.nft_semantics_axioms w'] show ?thesis by blast
qed

text \<open>
  C5: When the enforcer reports that it configured a Pod, then the chain on the output hook of that namespace decides
  every packet exactly as the reference policy does, for the interface that carries the route to the gateway: loopback
  and the overlay interface are accepted, UDP to the gateway endpoint on the underlay is accepted, preserved cluster
  prefixes are accepted, denied cluster prefixes are dropped before any of those but loopback, and everything else is
  dropped. The comparison of masked header bytes is thereby equivalent to containment of the destination in a prefix.
\<close>

theorem Configure_exact:
  assumes "netns_host ho ident tables" and "nft_semantics eval"
    and "enforcer_Configure (NewLinuxEnforcer H) ho path cfg w = (None, w')"
    and "list_all plain_prefix (cfg_ClusterCIDRs cfg)" and "interface_name (cfg_OverlayInterfaceName cfg)"
  shows "\<exists>i underlay route v v'. ident w' path = Some i \<and> resolveUnderlay (h_Linux ho path) cfg v = (Inr (underlay, route), v')
     \<and> enforces eval H cfg (lk_Name underlay) (tables w' i)"
  by (rule netns_host.enforcer_Configure_enforces [OF assms(1,3,2,4,5)])

definition ex_config :: Config where
  "ex_config = \<lparr>cfg_PodUID = ''p'', cfg_AllocationGeneration = 1, cfg_GatewayGeneration = 1,
     cfg_Address = Prefix (Addr4 0x0A090004) (Some 24), cfg_OverlayCIDR = Prefix (Addr4 0x0A090000) (Some 24),
     cfg_GatewayAddress = Addr4 0x0A090001, cfg_GatewayEndpoint = AddrPort (Addr4 0x0A010009) 4789, cfg_GatewayHealthPort = 9080,
     cfg_VNI = 100, cfg_MTU = 1400, cfg_ClusterTrafficMode = TrafficPreserve, cfg_ClusterCIDRs = [Prefix (Addr4 0x0A600000) (Some 12)],
     cfg_UnderlayInterface = [], cfg_OverlayInterfaceName = [], cfg_ApplicationPortRedirects = []\<rparr>"

lemma ex_config_valid: "config_Validate ex_config = None"
  by code_simp

definition node_at :: "mem_world \<Rightarrow> mem_ns \<Rightarrow> node_world" where
  "node_at c n = ex_node\<lparr>nw_cluster := c, nw_ns := (nw_ns ex_node)(''4:1'' := n)\<rparr>"

lemma ex_node_at: "ex_node = node_at mem_world_empty ex_ns"
  by (simp add: node_at_def ex_node_def fun_upd_idem)

lemma in_ns_node [simp]: "in_ns ''/ns'' missing f (node_at c n) = (case f n of (r, n') \<Rightarrow> (r, node_at c n'))"
  by (simp add: in_ns_def node_at_def ex_node_ident split: prod.splits)

lemma ex_reconciled:
  "\<exists>rs. reconcilePolicyRules (mem_linux ''/ns'') ex_config (node_at c (ex_ns\<lparr>ns_tables := t\<rparr>)) = (None, node_at c (ex_ns\<lparr>ns_tables := t, ns_rules := rs\<rparr>))"
proof -
  have "ns_rules ex_ns = []" by (simp add: ex_ns_def)
  then show ?thesis
    by (simp add: reconcilePolicyRules_def mem_linux_sel Let_def addPolicyRule_def addDNSPolicyRule_def add_rule_ignoring_existing_def
        cluster_rules_def ex_config_def enumerate_eq_zip) (rule exI, rule refl)
qed

definition ex_link :: "link" where
  "ex_link = \<lparr>lk_Name = overlayName Sum256 ex_config, lk_Index = 2, lk_MTU = 1400, lk_Up = False,
     lk_Vxlan = Some \<lparr>vx_VxlanId = 100, vx_VtepDevIndex = 1, vx_SrcAddr = [10, 1, 0, 5], vx_Group = AsSlice (Addr4 0x0A010009), vx_Port = 4789,
       vx_Learning = False, vx_NoAge = True\<rparr>\<rparr>"

definition ex_batch :: "string list \<Rightarrow> nft_op list" where
  "ex_batch existing = policy_batch Sum256 existing ''p'' ''eth0'' (AddrPort (Addr4 0x0A010009) 4789) (overlayName Sum256 ex_config) (Addr4 0x0A090001)
     (Addr4 0x0A090004) TrafficPreserve [Prefix (Addr4 0x0A600000) (Some 12)] []"

text \<open>The namespace once it is configured.\<close>

definition ex_done :: "(string \<times> nft_table) list \<Rightarrow> nl_rule list \<Rightarrow> mem_ns" where
  "ex_done t rs = ex_ns\<lparr>ns_rules := rs, ns_addrs := (lk_Name ex_link, AsSlice (Addr4 0x0A090004)) # ns_addrs ex_ns,
     ns_links := ns_links ex_ns @ [ex_link\<lparr>lk_Up := True\<rparr>],
     ns_routes := \<lparr>nlr_LinkIndex = 2, nlr_Gw = AsSlice (Addr4 0x0A090001), nlr_Src = [], nlr_Table = protectedRouteTable, nlr_Protocol = waycloakRouteProtocol\<rparr>
       # ns_routes ex_ns, ns_tables := mem_commit (ex_batch (map fst t)) t\<rparr>"

lemma ex_overlay: "overlayName Sum256 ex_config \<noteq> ''eth0''" "interface_name (overlayName Sum256 ex_config)"
  using overlayName_interface [of ex_config Sum256] by (simp_all add: overlayName_def ex_config_def interface_name_def)

lemma ex_resolved:
  "resolveUnderlay (mem_linux ''/ns'') ex_config (node_at c (ex_ns\<lparr>ns_tables := t, ns_rules := rs\<rparr>))
     = (Inr (hd (ns_links ex_ns), hd (ns_routes ex_ns)), node_at c (ex_ns\<lparr>ns_tables := t, ns_rules := rs\<rparr>))"
  "ensureVXLAN (mem_linux ''/ns'') ex_config (overlayName Sum256 ex_config) (hd (ns_links ex_ns)) (hd (ns_routes ex_ns)) (node_at c (ex_ns\<lparr>ns_tables := t, ns_rules := rs\<rparr>))
     = (Inr ex_link, node_at c (ex_ns\<lparr>ns_tables := t, ns_rules := rs, ns_links := ns_links ex_ns @ [ex_link]\<rparr>))"
  using ex_overlay ex_overlay(1) [symmetric]
  by (simp_all add: resolveUnderlay_def ensureVXLAN_def vxlanSource_def createVXLAN_def mem_linux_sel ex_ns_def ex_config_def ns_find_def ns_add_def
      ex_link_def Let_def interface_name_def)

lemma ex_activated:
  "activate Sum256 (mem_linux ''/ns'') ex_config (hd (ns_links ex_ns)) ex_link (node_at c (ex_ns\<lparr>ns_tables := t, ns_rules := rs, ns_links := ns_links ex_ns @ [ex_link]\<rparr>))
     = (None, node_at c (ex_done t rs))"
proof -
  have cfg: "cfg_Address ex_config = Prefix (Addr4 0x0A090004) (Some 24)" "cfg_GatewayAddress ex_config = Addr4 0x0A090001" "cfg_PodUID ex_config = ''p''"
    "cfg_GatewayEndpoint ex_config = AddrPort (Addr4 0x0A010009) 4789" "cfg_ClusterTrafficMode ex_config = TrafficPreserve"
    "cfg_ClusterCIDRs ex_config = [Prefix (Addr4 0x0A600000) (Some 12)]" "cfg_ApplicationPortRedirects ex_config = []"
    by (simp_all add: ex_config_def)
  have ns: "ns_links ex_ns = [\<lparr>lk_Name = ''eth0'', lk_Index = 1, lk_MTU = 1500, lk_Up = True, lk_Vxlan = None\<rparr>]"
    "filter (\<lambda>k. nlr_Table k \<noteq> protectedRouteTable) (ns_routes ex_ns) = ns_routes ex_ns" "ns_ready ex_ns = 200"
    by (simp_all add: ex_ns_def protectedRouteTable_def)
  have idx: "lk_Index ex_link = 2" by (simp add: ex_link_def)
  show ?thesis
    by (simp add: activate_def ensureOverlayAddress_def replacePolicy_def mem_linux_sel cfg ex_done_def ex_batch_def ns idx)
qed

lemma ex_configured: "\<exists>rs. lx_Configure Sum256 (mem_linux ''/ns'') ex_config (node_at c (ex_ns\<lparr>ns_tables := t\<rparr>)) = (None, node_at c (ex_done t rs))"
proof -
  obtain rs where "reconcilePolicyRules (mem_linux ''/ns'') ex_config (node_at c (ex_ns\<lparr>ns_tables := t\<rparr>)) = (None, node_at c (ex_ns\<lparr>ns_tables := t, ns_rules := rs\<rparr>))"
    using ex_reconciled by blast
  then show ?thesis using ex_activated [where c = c and t = t and rs = rs] by (auto simp: lx_Configure_def ex_config_valid ex_resolved)
qed

theorem Configure_exact_witness:
  "\<exists>w'. enforcer_Configure (NewLinuxEnforcer Sum256) mem_host ''/ns'' ex_config ex_node = (None, w')
     \<and> (\<exists>i underlay. nw_ident w' ''/ns'' = Some i \<and> enforces nft_run Sum256 ex_config underlay (nw_tables w' i))"
proof -
  have "ex_ns\<lparr>ns_tables := []\<rparr> = ex_ns" by (simp add: ex_ns_def)
  then obtain n where n: "lx_Configure Sum256 (mem_linux ''/ns'') ex_config ex_node = (None, node_at mem_world_empty n)"
    using ex_configured [of mem_world_empty "[]"] unfolding ex_node_at by auto
  have c: "enforcer_Configure (NewLinuxEnforcer Sum256) mem_host ''/ns'' ex_config ex_node = (None, node_at mem_world_empty n)"
    by (simp add: enforcer_Configure_def inNamespace_def NewLinuxEnforcer_def backend_sel mem_host_def ex_node_ident n)
  have "list_all plain_prefix (cfg_ClusterCIDRs ex_config)" "interface_name (cfg_OverlayInterfaceName ex_config)"
    by (simp_all add: ex_config_def interface_name_def)
  from Configure_exact [OF mem_node.netns_host_axioms nft_ref.nft_semantics_axioms c this] c show ?thesis by blast
qed

section \<open>The node agent on its host\<close>

text \<open>
  C2: When a lockdown of the whole node returns without an error, the file store listed the attachments on record, and
  for each of them whose namespace still is the one recorded, the Pod's table in that namespace now has one chain, on
  the output hook, that drops every packet but those to loopback.
\<close>

theorem LockdownAll_denies:
  assumes "node_agent ho ident tables H s J OS stateDir" and "nft_semantics eval" and "LockdownAll H s w = (None, w')"
  shows "\<exists>as v. ListAll J OS stateDir (snd w) = (Inr as, v) \<and> (\<forall>a \<in> set as. live_at ident (snd w) a \<longrightarrow>
     denies_egress eval H (pi_UID (at_Pod a)) (tables (snd w') (at_NamespaceIdentity a)))"
  by (rule node_agent.LockdownAll_denied [OF assms(1,3,2)])

definition ex_agent_state :: agent_state where
  "ex_agent_state = \<lparr>ag_observations = [], ag_relayHealthy = True, ag_backendHealthy = True\<rparr>"

lemma ex_listed: "mf_files w = mf_files ex_node \<Longrightarrow> ListAll ex_codec mem_os ex_store_dir w = (Inr [ex_ready], w)"
proof -
  assume "mf_files w = mf_files ex_node"
  then have f: "mf_files w = [(''/state/x.json'', projr (json_Marshal ex_codec ex_ready))]" by (simp add: ex_node_def)
  have v: "attachment_Validate ex_ready = None" by (simp add: ex_ready_def ex_attachment_def attachment_Validate_def pod_Validate_def)
  have "suffix ''.json'' ''x.json''" by code_simp
  then show ?thesis
    by (simp add: ListAll_def list_directory_def mem_os_sel f ex_ready_decodes v path_Join_def)
qed

lemma node_at_files [simp]: "mf_files (node_at c n) = mf_files ex_node" "nw_cluster (node_at c n) = c"
  by (simp_all add: node_at_def ex_node_def)

lemma node_at_ident: "nw_ident (node_at c n) ''/ns'' = Some ''4:1''"
  by (simp add: node_at_def ex_node_ident)

lemma ex_itoa: "itoa 4 = ''4''" "itoa (Suc 0) = ''1''"
  by code_simp+

lemma ex_identity: "pg_Identity (sv_Programmer (mem_service H held)) ''/ns'' (node_at c n) = (Inr ''4:1'', node_at c n)"
  by (simp add: mem_service_def enforcer_programmer_def enforcer_Identity_def mem_host_def node_at_def ex_node_def ex_itoa)

lemma ex_install: "\<exists>n'. pg_InstallLockdown (sv_Programmer (mem_service H held)) ''/ns'' ''p'' (node_at c n) = (None, node_at c n')"
  by (simp add: mem_service_def enforcer_programmer_def enforcer_InstallLockdown_def inNamespace_def NewLinuxEnforcer_def backend_sel
      lx_InstallLockdown_def replacePolicy_def mem_host_def mem_linux_sel node_at_ident) (rule exI, rule refl)

lemma ex_reads:
  "k_get (cl_bindings mem_reader) k (node_at c n) = (case map_of (mw_bindings c) k of None \<Rightarrow> Inl (ApiStatus StatusReasonNotFound) | Some b \<Rightarrow> Inr b, node_at c n)"
  "k_get (cl_pods mem_reader) k (node_at c n) = (case map_of (mw_pods c) k of None \<Rightarrow> Inl (ApiStatus StatusReasonNotFound) | Some p \<Rightarrow> Inr p, node_at c n)"
  "k_list (cl_bindings mem_reader) P (node_at c n) = (Inr (filter P (map snd (AList.clearjunk (mw_bindings c)))), node_at c n)"
  by (simp_all add: mem_reader_def lift_cluster_def on_part_def mem_client_def mem_get_def mem_list_def node_at_def split: option.splits)

lemma mem_service_sel:
  "sv_Reader (mem_service H held) = mem_reader" "sv_BindingReader (mem_service H held) = Some mem_reader"
  "sv_Store (mem_service H held) = file_attachments H ex_codec mem_os ex_store_dir" "sv_TransitionHeld (mem_service H held) = held"
  "sv_NodeName (mem_service H held) = ''node''"
  by (simp_all add: mem_service_def)

lemma ex_ready_sel: "pi_NetNS (at_Pod ex_ready) = ''/ns''" "pi_UID (at_Pod ex_ready) = ''p''" "at_NamespaceIdentity ex_ready = ''4:1''"
  "at_Phase ex_ready = PhaseReady" "pi_Namespace (at_Pod ex_ready) = ''a''" "pi_Name (at_Pod ex_ready) = ''pod''"
  "pod_Validate (at_Pod ex_ready) = None"
  by (simp_all add: ex_ready_def ex_attachment_def pod_Validate_def)

lemma ex_lockdown: "\<exists>n. LockdownAll H (mem_service H held) (st, node_at mem_world_empty ex_ns) = (None, (st, node_at mem_world_empty n))"
proof -
  let ?w = "node_at mem_world_empty"
  obtain n where n: "pg_InstallLockdown (sv_Programmer (mem_service H held)) ''/ns'' ''p'' (?w ex_ns) = (None, ?w n)" using ex_install by blast
  have e: "mw_bindings mem_world_empty = []" by (simp add: mem_world_empty_def)
  have "LockdownAll H (mem_service H held) (st, ?w ex_ns) = (None, (st, ?w n))"
    by (simp add: LockdownAll_def mem_service_sel file_attachments_def world_def ex_listed ex_ready_sel ex_identity n rawBinding_def ex_reads e
        AList.clearjunk.simps)
  then show ?thesis by blast
qed

theorem LockdownAll_denies_witness:
  "\<exists>w'. LockdownAll Sum256 (mem_service Sum256 True) (ex_agent_state, ex_node) = (None, w')
     \<and> denies_egress nft_run Sum256 ''p'' (nw_tables (snd w') ''4:1'')"
proof -
  obtain n where n: "LockdownAll Sum256 (mem_service Sum256 True) (ex_agent_state, ex_node) = (None, (ex_agent_state, node_at mem_world_empty n))"
    using ex_lockdown unfolding ex_node_at by blast
  have "live_at nw_ident ex_node ex_ready" by (simp add: live_at_def ex_ready_sel ex_node_ident)
  with LockdownAll_denies [OF mem_agent.node_agent_axioms nft_ref.nft_semantics_axioms n] n ex_listed [of ex_node]
  show ?thesis by (auto simp: ex_ready_sel)
qed

text \<open>
  C3: An agent that is held for a transition never opens a namespace. Whatever the local protocol and the reconcile
  loop ask of it, in any order and any number of times, and whatever of it fails, a namespace in which a Pod's table is
  the lockdown table keeps its identity and still denies that Pod every packet but those to loopback.
\<close>

theorem held_agent_never_opens:
  assumes "node_agent ho ident tables H s J OS stateDir" and "nft_semantics eval" and "sv_TransitionHeld s"
    and "agent_run H s w ops w'" and "ident (snd w) p = Some i" and "locked H u (tables (snd w) i)"
  shows "ident (snd w') p = Some i \<and> denies_egress eval H u (tables (snd w') i)"
  by (rule node_agent.held_run_denies [OF assms(1,4,3,2,5,6)])

definition ex_requested :: cni_Binding where
  "ex_requested = \<lparr>cb_UID = ''b'', cb_Generation = 1, cb_PodUID = ''p'', cb_GatewayUID = ''g''\<rparr>"

theorem held_agent_never_opens_witness:
  "\<exists>w w'. agent_run Sum256 (mem_service Sum256 True) w [DoReconcileAll, DoPrepare (at_Pod ex_ready) ex_requested, DoWithdraw (at_Pod ex_ready)] w'
     \<and> denies_egress nft_run Sum256 ''p'' (nw_tables (snd w') ''4:1'')"
proof -
  let ?s = "mem_service Sum256 True" and ?ops = "[DoReconcileAll, DoPrepare (at_Pod ex_ready) ex_requested, DoWithdraw (at_Pod ex_ready)]"
  let ?t = "ex_node\<lparr>nw_ns := (\<lambda>_. ex_ns\<lparr>ns_tables := [(policyTableName Sum256 ''p'', [output_chain [op_rule (addInterfaceVerdict [] [] ''lo'' VerdictAccept [])]])]\<rparr>)\<rparr>"
  have "agent_run Sum256 ?s (ex_agent_state, ?t) ([] @ [DoReconcileAll]) (perform Sum256 ?s DoReconcileAll (ex_agent_state, ?t))"
    by (intro agent_run.intros)
  then have "\<exists>w'. agent_run Sum256 ?s (ex_agent_state, ?t) ([] @ [DoReconcileAll] @ [DoPrepare (at_Pod ex_ready) ex_requested] @ [DoWithdraw (at_Pod ex_ready)]) w'"
    using agent_run.step by (metis append_assoc append_Nil)
  then obtain w' where r: "agent_run Sum256 ?s (ex_agent_state, ?t) ?ops w'" by auto
  have l: "locked Sum256 ''p'' (nw_tables (snd (ex_agent_state, ?t)) ''4:1'')" by (auto simp: locked_def)
  have i: "nw_ident (snd (ex_agent_state, ?t)) ''/ns'' = Some ''4:1''" by (simp add: ex_node_ident)
  have h: "sv_TransitionHeld ?s" by (simp add: mem_service_sel)
  from held_agent_never_opens [OF mem_agent.node_agent_axioms nft_ref.nft_semantics_axioms h r i l] r show ?thesis by blast
qed





section \<open>From the controller to the agent\<close>

lemma ParsePrefix_bits: "ParsePrefix t = Some (Prefix (Addr4 n) (Some k)) \<Longrightarrow> k \<le> 32"
proof -
  assume "ParsePrefix t = Some (Prefix (Addr4 n) (Some k))"
  then have "\<exists>a m. PrefixFrom a m = Prefix (Addr4 n) (Some k)"
    by (auto simp: ParsePrefix_def split: option.splits if_splits) blast+
  then obtain a m where "PrefixFrom a m = Prefix (Addr4 n) (Some k)" by blast
  then show ?thesis by (cases a) (auto simp: PrefixFrom_def split: if_splits)
qed

lemma contains4_mask: "pfx_Contains (Prefix (Addr4 n) (Some k)) (Addr4 w) \<longleftrightarrow> w AND mask4 k = n AND mask4 k"
  by (simp add: pfx_Contains_def mask4_contains)

lemma contains_masked: "pfx_Contains (Prefix (Addr4 (n AND mask4 k)) (Some k)) (Addr4 w) = pfx_Contains (Prefix (Addr4 n) (Some k)) (Addr4 w)"
  by (simp add: contains4_mask and.assoc)

lemma parse_cidrs_String4:
  "\<forall>p \<in> set ps. \<exists>n m. p = Prefix (Addr4 n) (Some m) \<and> m \<le> 32 \<Longrightarrow> parse_cidrs (map pfx_String ps) = Inr ps"
  by (induction ps) (auto simp: ParsePrefix_String4)

text \<open>
  C7: The agent understands what the controller writes. For an IPv4 gateway whose status the controller turned into a
  network intent, a binding whose specification is the one the controller creates for a Pod and a reservation gives the
  agent a configuration, provided that the reserved address lies in the overlay network and is not the gateway's own.
  The configuration has exactly the Pod's UID, the reserved address with the length of the overlay network, the masked
  overlay network, the gateway's address and endpoint, the observed port, network identifier and MTU, and the bypass
  prefixes; no value is lost or wraps around on its way through the object.
\<close>

theorem controller_binding_configures:
  assumes "workloadNetworkIntent g = Inr network"
    and "ParsePrefix (map_index (address_values (gwst_Addresses (gw_Status g))) GatewayAddressTypeOverlayCIDR) = Some (Prefix (Addr4 net) (Some k))"
    and "ParseAddrPort (map_index (address_values (gwst_Addresses (gw_Status g))) GatewayAddressTypeUnderlayEndpoint) = Some (AddrPort (Addr4 e) port)"
    and "bind_Spec b = bind_Spec (new_binding name pod route g rv network)" and "resv_Address rv = Prefix (Addr4 a) (Some 32)"
    and "pfx_Contains (Prefix (Addr4 net) (Some k)) (Addr4 a)" and "net_GatewayAddress network \<noteq> string4 a"
    and "meta_UID (pod_Meta pod) \<noteq> []" and "1 \<le> meta_Generation (bind_Meta b)"
    and "ct_BypassCIDRs (gw_ClusterTraffic (gw_Spec g)) = map pfx_String cidrs" and "\<forall>p \<in> set cidrs. \<exists>n m. p = Prefix (Addr4 n) (Some m) \<and> m \<le> 32"
  shows "\<exists>cfg. ConfigFromBinding b = Inr cfg \<and> cfg_PodUID cfg = meta_UID (pod_Meta pod) \<and> cfg_AllocationGeneration cfg = meta_Generation (bind_Meta b)
     \<and> cfg_Address cfg = Prefix (Addr4 a) (Some k) \<and> cfg_OverlayCIDR cfg = Prefix (Addr4 (net AND mask4 k)) (Some k)
     \<and> ParseAddr (map_index (address_values (gwst_Addresses (gw_Status g))) GatewayAddressTypeOverlayAddress) = Some (cfg_GatewayAddress cfg)
     \<and> cfg_GatewayEndpoint cfg = AddrPort (Addr4 e) port \<and> uint (cfg_GatewayHealthPort cfg) = net_GatewayHealthPort network
     \<and> uint (cfg_VNI cfg) = net_VNI network \<and> cfg_MTU cfg = net_MTU network \<and> cfg_ClusterCIDRs cfg = cidrs"
proof -
  have k: "k \<le> 32" using ParsePrefix_bits assms(2) by blast
  obtain gw where bounds: "1 \<le> net_GatewayHealthPort network" "net_GatewayHealthPort network \<le> 65535" "1 \<le> net_VNI network" "net_VNI network < 2 ^ 24"
      "576 \<le> net_MTU network" and gw: "ParseAddr (map_index (address_values (gwst_Addresses (gw_Status g))) GatewayAddressTypeOverlayAddress) = Some gw"
      "pfx_Contains (Prefix (Addr4 net) (Some k)) gw" and port: "port \<noteq> 0"
      and strings: "net_OverlayCIDR network = pfx_String (pfx_Masked (Prefix (Addr4 net) (Some k)))" "net_GatewayAddress network = addr_String gw"
        "net_GatewayEndpoint network = ap_String (AddrPort (Addr4 e) port)"
    using network_intent_bounds [OF assms(1)] assms(2,3) by auto
  obtain v where v: "gw = Addr4 v" using gw(2) by (cases gw) (auto simp: pfx_Contains_def)
  have traffic: "net_ClusterTraffic network = gw_ClusterTraffic (gw_Spec g)"
    using assms(1) by (auto simp: workloadNetworkIntent_def Let_def split: if_splits option.splits)
  define cfg where "cfg = \<lparr>cfg_PodUID = meta_UID (pod_Meta pod), cfg_AllocationGeneration = meta_Generation (bind_Meta b),
     cfg_GatewayGeneration = net_GatewayGeneration network, cfg_Address = Prefix (Addr4 a) (Some k),
     cfg_OverlayCIDR = Prefix (Addr4 (net AND mask4 k)) (Some k), cfg_GatewayAddress = Addr4 v, cfg_GatewayEndpoint = AddrPort (Addr4 e) port,
     cfg_GatewayHealthPort = of_int (net_GatewayHealthPort network), cfg_VNI = of_int (net_VNI network), cfg_MTU = net_MTU network,
     cfg_ClusterTrafficMode = (if ct_Mode (net_ClusterTraffic network) = ClusterTrafficBypassCluster then TrafficPreserve else TrafficGateway),
     cfg_ClusterCIDRs = cidrs, cfg_UnderlayInterface = [], cfg_OverlayInterfaceName = [], cfg_ApplicationPortRedirects = []\<rparr>"
  have words: "uint (of_int (net_GatewayHealthPort network) :: 16 word) = net_GatewayHealthPort network" "uint (of_int (net_VNI network) :: 32 word) = net_VNI network"
    using bounds by (simp_all add: unsigned_of_int take_bit_eq_mod)
  have health: "(of_int (net_GatewayHealthPort network) :: 16 word) \<noteq> 0" using words(1) bounds(1) by auto
  have "unat (of_int (net_VNI network) :: 32 word) = nat (net_VNI network)" using words(2) by (metis nat_uint_eq)
  then have vni: "1 \<le> unat (of_int (net_VNI network) :: 32 word)" "unat (of_int (net_VNI network) :: 32 word) < 2 ^ 24" using bounds(3,4) by auto
  have "v \<noteq> a" using assms(7) strings(2) v by auto
  moreover have "list_all pfx_IsValid cidrs" using assms(11) by (auto simp: list_all_iff pfx_IsValid_def)
  ultimately have "config_wf cfg"
    using assms(6,8) gw(2) v k port bounds(5) health vni
    by (simp add: config_wf_def cfg_def contains_masked pfx_IsValid_def pfx_Bits_def ap_IsValid_def)
  then have "config_Validate cfg = None" by (simp add: config_Validate_None)
  note valid = this [unfolded cfg_def traffic]
  have "PrefixFrom (Addr4 a) (int k) = Prefix (Addr4 a) (Some k)" using k by (simp add: PrefixFrom_def)
  then have "ConfigFromBinding b = Inr cfg"
    using assms(4,5,9,10) k parse_cidrs_String4 [OF assms(11)] valid
    by (simp add: ConfigFromBinding_def Let_def new_binding_def strings v traffic pfx_Masked4 ParsePrefix_String4 ParseAddrPort_String4 pfx_Bits_def
        cfg_def)
  then show ?thesis using words gw(1) v by (auto simp: cfg_def)
qed

theorem controller_binding_configures_witness:
  "\<exists>network b cfg. workloadNetworkIntent ex_network_gateway = Inr network \<and> ConfigFromBinding b = Inr cfg
     \<and> cfg_Address cfg = Prefix (Addr4 167772164) (Some 29) \<and> uint (cfg_VNI cfg) = net_VNI network \<and> net_VNI network = 42"
proof -
  obtain network where n: "workloadNetworkIntent ex_network_gateway = Inr network" "net_VNI network = 42" using ex_network_intent by blast
  define rv where "rv = \<lparr>resv_Lease = undefined, resv_Identity = ''i'', resv_Address = Prefix (Addr4 167772164) (Some 32), resv_Recovered = False\<rparr>"
  define b where "b = (new_binding ''b'' ex_pod (ex_route ''a'') ex_network_gateway rv network)\<lparr>bind_Meta := object_meta_zero\<lparr>meta_Generation := 1\<rparr>\<rparr>"
  have gw: "net_GatewayAddress network = string4 167772161"
    using network_intent_bounds [OF n(1)] by (auto simp: ex_network_values)
  have "string4 167772161 \<noteq> string4 167772164"
  proof
    assume "string4 167772161 = string4 167772164"
    then have "ParseAddr (string4 167772161) = ParseAddr (string4 167772164)" by (rule arg_cong)
    then show False by simp
  qed
  with gw have g: "net_GatewayAddress network \<noteq> string4 167772164" by simp
  have o: "ParsePrefix (map_index (address_values (gwst_Addresses (gw_Status ex_network_gateway))) GatewayAddressTypeOverlayCIDR) = Some (Prefix (Addr4 167772161) (Some 29))"
    by (simp add: ex_network_values ParsePrefix_String4)
  have e: "ParseAddrPort (map_index (address_values (gwst_Addresses (gw_Status ex_network_gateway))) GatewayAddressTypeUnderlayEndpoint) = Some (AddrPort (Addr4 3232235778) 4789)"
    by (simp add: ex_network_values ParseAddrPort_String4)
  have i: "pfx_Contains (Prefix (Addr4 167772161) (Some 29)) (Addr4 167772164)" by code_simp
  have spec: "bind_Spec b = bind_Spec (new_binding ''b'' ex_pod (ex_route ''a'') ex_network_gateway rv network)" by (simp add: b_def)
  have a: "resv_Address rv = Prefix (Addr4 167772164) (Some 32)" by (simp add: rv_def)
  have u: "meta_UID (pod_Meta ex_pod) \<noteq> []" "1 \<le> meta_Generation (bind_Meta b)" by (simp_all add: ex_pod_def b_def)
  have c: "ct_BypassCIDRs (gw_ClusterTraffic (gw_Spec ex_network_gateway)) = map pfx_String []"
    by (simp add: ex_network_gateway_def ex_live_gateway_def ex_gateway_def)
  from controller_binding_configures [OF n(1) o e spec a i g u c] n show ?thesis by auto
qed

section \<open>Preparing a Pod\<close>

text \<open>
  C1: When the agent answers a request to prepare a Pod with success, then the API server returned a Pod with the
  identity of the request and, under that Pod's namespace and UID, a binding object that is exactly the one the request
  named and that gave a valid configuration for this Pod. The namespace of the request exists, and the chain on its output hook decides every packet exactly as the
  reference policy of that configuration does (for cluster prefixes that are not IPv4-mapped). The agent has recorded
  the Pod as ready for the generation requested.
\<close>

theorem Prepare_enforces:
  assumes "node_agent ho ident tables H s J OS stateDir" and "nft_semantics eval" and "service_Prepare H s identity requested w = (None, w')"
  shows "\<exists>pod w0 b v cfg i underlay ob. service_pod s identity w = (Inr pod, w0)
     \<and> k_get (cl_bindings (sv_Reader s)) (meta_Namespace (pod_Meta pod), BindingName H (pi_UID identity)) (snd w0) = (Inr b, v)
     \<and> bindingReference b = requested \<and> ConfigFromBinding b = Inr cfg \<and> cfg_PodUID cfg = pi_UID identity
     \<and> ident (snd w') (pi_NetNS identity) = Some i
     \<and> (list_all plain_prefix (cfg_ClusterCIDRs cfg) \<longrightarrow> enforces eval H cfg underlay (tables (snd w') i))
     \<and> map_of (ag_observations (fst w')) (pi_UID identity) = Some ob \<and> ob_Ready ob \<and> ob_Generation ob = cb_Generation requested"
  by (rule node_agent.Prepare_run_enforces [OF assms(1,3,2)])

lemma AddrFromSlice_AsSlice4: "AddrFromSlice (AsSlice (Addr4 w)) = Some (Addr4 w)"
  by (simp add: slice4 be_bytes4_eq)

lemma ex_table:
  "\<exists>ds. (policyTableName Sum256 ''p'', ds) \<in> set (ns_tables (ex_done t rs)) \<and> (\<exists>c \<in> set ds. chain_Name c = outputChainName \<and> chain_Policy c = Some VerdictDrop)
     \<and> (\<exists>c \<in> set ds. chain_Name c = ''dns-output'' \<and> chain_Type c = ChainTypeNAT)"
proof -
  let ?n = "policyTableName Sum256 ''p''" and ?ops = "ex_batch (map fst t)"
  have in_list: "map_of t ?n \<noteq> None \<Longrightarrow> ?n \<in> set (map fst t)" by (metis map_of_eq_None_iff set_map)
  obtain rest where r: "commit ?ops (map_of t) ?n = Some (output_chain (output_rules ''p'' ''eth0'' (AddrPort (Addr4 0x0A010009) 4789)
      (overlayName Sum256 ex_config) TrafficPreserve [Prefix (Addr4 0x0A600000) (Some 12)]) # rest)"
    using policy_commit [of "map_of t" Sum256 "''p''", OF in_list] unfolding ex_batch_def by blast
  obtain ds where d: "commit ?ops (map_of t) ?n = Some ds" "\<exists>c \<in> set ds. chain_Name c = ''dns-output'' \<and> chain_Type c = ChainTypeNAT"
    using policy_commit_dns [of "map_of t" Sum256 "''p''" "map fst t" "Addr4 0x0A090001", OF in_list] unfolding ex_batch_def by fastforce
  have "(?n, ds) \<in> set (mem_commit ?ops t)" using d(1) map_of_mem_commit by (metis map_of_SomeD)
  moreover have "\<exists>c \<in> set ds. chain_Name c = outputChainName \<and> chain_Policy c = Some VerdictDrop"
    using r d(1) by (auto simp: output_chain_def)
  ultimately show ?thesis using d(2) by (auto simp: ex_done_def)
qed

lemma ex_policy_verified: "verifyPolicy Sum256 (mem_linux ''/ns'') ''p'' True (node_at c (ex_done t rs)) = (None, node_at c (ex_done t rs))"
proof -
  let ?n = "policyTableName Sum256 ''p''" and ?T = "ns_tables (ex_done t rs)"
  obtain ds where ds: "(?n, ds) \<in> set ?T" "\<exists>c \<in> set ds. chain_Name c = outputChainName \<and> chain_Policy c = Some VerdictDrop"
    "\<exists>c \<in> set ds. chain_Name c = ''dns-output'' \<and> chain_Type c = ChainTypeNAT"
    using ex_table by blast
  let ?C = "concat (map (\<lambda>(t, cs). map (\<lambda>c. \<lparr>ci_Table = t, ci_Name = chain_Name c, ci_Type = chain_Type c, ci_Policy = chain_Policy c\<rparr>) cs) ?T)"
  have "?n \<in> set (map fst ?T)" using ds(1) by force
  moreover have "list_ex (\<lambda>c. ci_Table c = ?n \<and> ci_Name c = outputChainName \<and> ci_Policy c = Some VerdictDrop) ?C"
    using ds(1,2) by (fastforce simp: list_ex_iff)
  moreover have "list_ex (\<lambda>c. ci_Table c = ?n \<and> ci_Name c = ''dns-output'' \<and> ci_Type c = ChainTypeNAT) ?C"
    using ds(1,3) by (fastforce simp: list_ex_iff)
  ultimately show ?thesis by (simp add: verifyPolicy_def mem_linux_sel Let_def)
qed

lemma ex_verified: "lx_Verify Sum256 (mem_linux ''/ns'') ex_config (node_at c (ex_done t rs)) = (None, node_at c (ex_done t rs))"
proof -
  have cfg: "cfg_Address ex_config = Prefix (Addr4 0x0A090004) (Some 24)" "cfg_GatewayAddress ex_config = Addr4 0x0A090001" "cfg_PodUID ex_config = ''p''"
    "cfg_VNI ex_config = 100"
    by (simp_all add: ex_config_def)
  have l: "ns_find (\<lambda>l. lk_Name l = overlayName Sum256 ex_config) (ex_done t rs) = (Inr (ex_link\<lparr>lk_Up := True\<rparr>), ex_done t rs)"
    using ex_overlay ex_overlay(1) [symmetric] by (simp add: ns_find_def ex_done_def ex_ns_def ex_link_def interface_name_def)
  have a: "filter (\<lambda>(k, _). k = lk_Name ex_link) (ns_addrs (ex_done t rs)) = [(lk_Name ex_link, AsSlice (Addr4 0x0A090004))]"
    using ex_overlay(1) [symmetric] by (simp add: ex_done_def ex_ns_def ex_link_def)
  have r: "filter (\<lambda>r. nlr_Table r = protectedRouteTable) (ns_routes (ex_done t rs)) = [hd (ns_routes (ex_done t rs))]"
    by (simp add: ex_done_def ex_ns_def protectedRouteTable_def)
  have h: "nlr_LinkIndex (hd (ns_routes (ex_done t rs))) = 2" "nlr_Gw (hd (ns_routes (ex_done t rs))) = AsSlice (Addr4 0x0A090001)"
    by (simp_all add: ex_done_def)
  have x: "lk_Vxlan ex_link \<noteq> None" "vx_VxlanId (the (lk_Vxlan ex_link)) = 100" "lk_Index ex_link = 2" by (simp_all add: ex_link_def)
  have eq: "addrEqual (AsSlice (Addr4 w)) (Addr4 w)" for w by (simp add: addrEqual_def AddrFromSlice_AsSlice4 del: AsSlice.simps)
  have ready: "ns_ready (ex_done t rs) = 200" by (simp add: ex_done_def ex_ns_def)
  have "probeGatewayReadiness (mem_linux ''/ns'') e (node_at c (ex_done t rs)) = (None, node_at c (ex_done t rs))" for e
    by (simp add: probeGatewayReadiness_def mem_linux_sel ready)
  then show ?thesis using x
    by (auto simp: lx_Verify_def cfg ex_policy_verified mem_linux_sel l a r h eq simp del: AsSlice.simps)
qed

definition ex_agent_pod :: pod where
  "ex_agent_pod = ex_pod\<lparr>pod_NodeName := ''node''\<rparr>"

definition ex_agent_binding :: VPNWorkloadBinding where
  "ex_agent_binding = \<lparr>bind_Meta = object_meta_zero\<lparr>meta_Name := BindingName Sum256 ''p'', meta_Namespace := ''a'', meta_UID := ''b'', meta_Generation := 1\<rparr>,
     bind_Spec = \<lparr>bind_PodRef = \<lparr>lref_Name = ''pod'', lref_UID = ''p''\<rparr>, bind_RouteRef = \<lparr>lref_Name = ''r'', lref_UID = ''ru''\<rparr>,
       bind_GatewayRef = \<lparr>nref_Namespace = ''vpn'', nref_Name = ''g'', nref_UID = ''g''\<rparr>, bind_NodeName = ''node'',
       bind_Allocation = \<lparr>alloc_Identity = ''i'', alloc_Address = pfx_String (Prefix (Addr4 0x0A090004) (Some 32))\<rparr>,
       bind_Network = \<lparr>net_GatewayGeneration = 1, net_OverlayCIDR = pfx_String (Prefix (Addr4 0x0A090000) (Some 24)), net_GatewayAddress = string4 0x0A090001,
         net_GatewayEndpoint = ap_String (AddrPort (Addr4 0x0A010009) 4789), net_GatewayHealthPort = 9080, net_VNI = 100, net_MTU = 1400,
         net_ClusterTraffic = \<lparr>ct_Mode = ClusterTrafficBypassCluster, ct_BypassCIDRs = [pfx_String (Prefix (Addr4 0x0A600000) (Some 12))]\<rparr>\<rparr>\<rparr>,
     bind_Status = \<lparr>bindst_ObservedGeneration = 0, bindst_AppliedGeneration = 0, bindst_ObservedPodUID = [], bindst_ObservedGatewayUID = [],
       bindst_Agent = None, bindst_Conditions = []\<rparr>\<rparr>"

definition ex_cluster :: mem_world where
  "ex_cluster = mem_world_empty\<lparr>mw_pods := [((''a'', ''pod''), ex_agent_pod)], mw_bindings := [((''a'', BindingName Sum256 ''p''), ex_agent_binding)]\<rparr>"

lemma ex_agent_config: "ConfigFromBinding ex_agent_binding = Inr ex_config"
  using ex_config_valid
  by (simp add: ConfigFromBinding_def ex_agent_binding_def ex_config_def Let_def ParsePrefix_String4 ParseAddrPort_String4 PrefixFrom_def pfx_Bits_def)

lemma ex_pod_found: "service_pod (mem_service Sum256 held) (at_Pod ex_ready) (st, node_at ex_cluster n) = (Inr ex_agent_pod, (st, node_at ex_cluster n))"
  by (simp add: service_pod_def ex_ready_sel mem_service_sel world_def ex_reads ex_cluster_def ex_agent_pod_def ex_pod_def)

lemma ex_authority:
  "authority Sum256 (mem_service Sum256 held) (at_Pod ex_ready) ex_requested (st, node_at ex_cluster n)
     = (Inr (ex_agent_pod, ex_agent_binding, ex_config), (st, node_at ex_cluster n))"
proof -
  have ref: "bindingReference ex_agent_binding = ex_requested"
    by (simp add: bindingReference_def ex_agent_binding_def ex_requested_def)
  have binding: "service_binding Sum256 (mem_service Sum256 held) ex_agent_pod (st, node_at ex_cluster n) = (Inr ex_agent_binding, (st, node_at ex_cluster n))"
    by (simp add: service_binding_def rawBinding_def mem_service_sel world_def ex_reads ex_cluster_def ex_agent_pod_def ex_pod_def)
      (simp add: ex_agent_binding_def object_meta_zero_def)
  have "binding_Validate ex_requested (pi_UID (at_Pod ex_ready)) = None" by (simp add: binding_Validate_def ex_requested_def ex_ready_sel)
  then show ?thesis by (simp add: authority_def ex_pod_found binding ref ex_agent_config)
qed

lemma ex_prepared: "\<exists>w'. service_Prepare Sum256 (mem_service Sum256 False) (at_Pod ex_ready) ex_requested (ex_agent_state, node_at ex_cluster ex_ns) = (None, w')"
proof -
  let ?s = "mem_service Sum256 False" and ?w = "\<lambda>n. (ex_agent_state, node_at ex_cluster n)"
  have ready: "service_Ready ?s ex_agent_state" by (simp add: service_Ready_def mem_service_def ex_agent_state_def)
  obtain t where t: "install ?s ''/ns'' ''p'' (?w ex_ns) = (None, ?w (ex_ns\<lparr>ns_tables := t\<rparr>))"
    by (simp add: world_def mem_service_def enforcer_programmer_def enforcer_InstallLockdown_def inNamespace_def NewLinuxEnforcer_def backend_sel
        lx_InstallLockdown_def replacePolicy_def mem_host_def mem_linux_sel node_at_ident)
  obtain rs where "lx_Configure Sum256 (mem_linux ''/ns'') ex_config (node_at ex_cluster (ex_ns\<lparr>ns_tables := t\<rparr>)) = (None, node_at ex_cluster (ex_done t rs))"
    using ex_configured by blast
  then have c: "world (pg_Configure (sv_Programmer ?s) ''/ns'' ex_config) (?w (ex_ns\<lparr>ns_tables := t\<rparr>)) = (None, ?w (ex_done t rs))"
    by (simp add: world_def mem_service_def enforcer_programmer_def enforcer_Configure_def inNamespace_def NewLinuxEnforcer_def backend_sel
        mem_host_def node_at_ident)
  have v: "world (pg_Verify (sv_Programmer ?s) ''/ns'' ex_config) (?w (ex_done t rs)) = (None, ?w (ex_done t rs))"
    by (simp add: world_def mem_service_def enforcer_programmer_def enforcer_Verify_def inNamespace_def NewLinuxEnforcer_def backend_sel
        mem_host_def node_at_ident ex_verified)
  show ?thesis
    by (simp add: service_Prepare_def ready service_prepare_def ex_authority ex_ready_sel t c v split: prod.splits)
qed

theorem Prepare_enforces_witness:
  "\<exists>w' i underlay. service_Prepare Sum256 (mem_service Sum256 False) (at_Pod ex_ready) ex_requested (ex_agent_state, node_at ex_cluster ex_ns) = (None, w')
     \<and> nw_ident (snd w') ''/ns'' = Some i \<and> enforces nft_run Sum256 ex_config underlay (nw_tables (snd w') i)"
proof -
  obtain w' where w': "service_Prepare Sum256 (mem_service Sum256 False) (at_Pod ex_ready) ex_requested (ex_agent_state, node_at ex_cluster ex_ns) = (None, w')"
    using ex_prepared by blast
  from Prepare_enforces [OF mem_agent.node_agent_axioms nft_ref.nft_semantics_axioms w']
  obtain b v cfg i underlay where "k_get (cl_bindings mem_reader) (''a'', BindingName Sum256 ''p'') (node_at ex_cluster ex_ns) = (Inr b, v)"
      "ConfigFromBinding b = Inr cfg" and i: "nw_ident (snd w') ''/ns'' = Some i"
      and e: "list_all plain_prefix (cfg_ClusterCIDRs cfg) \<longrightarrow> enforces nft_run Sum256 cfg underlay (nw_tables (snd w') i)"
    unfolding ex_pod_found by (clarsimp simp: ex_ready_sel mem_service_sel ex_agent_pod_def ex_pod_def) blast
  then have "cfg = ex_config" using ex_agent_config by (simp add: ex_reads ex_cluster_def)
  with e have "enforces nft_run Sum256 ex_config underlay (nw_tables (snd w') i)" by (simp add: ex_config_def)
  with w' i show ?thesis by blast
qed

end
